(* ===== verification/Dtn_Prelude.thy ===== *)
theory Dtn_Prelude
  imports Main "HOL-Library.Word" "HOL-Library.Sublist"
begin

text \<open>
  The vocabulary every component of the development shares: the machine integers and the
  floating point values of the Rust source, its \<open>Result\<close> type with the combinators the code
  uses on it, and general facts about lists, sums and finite enumerations. The collections
  declared here gather the definitions and rewrite rules that carry the component proofs.
\<close>

named_theorems rust_text \<open>rewrite rules for the string operations of the standard library\<close>
named_theorems act_simps \<open>rewrite rules for sequenced actions on the operating system\<close>
named_theorems model_defs \<open>the definitions of one component, unfolded together\<close>

section \<open>Machine integers\<close>

text \<open>
  \<open>u16\<close>, \<open>u32\<close>, \<open>u64\<close> and \<open>i64\<close> keep their width. An \<open>i64\<close> is the same 64 bits read by
  \<open>sint\<close>; the code only compares and prints such values.
\<close>

type_synonym u16 = "16 word"
type_synonym u32 = "32 word"
type_synonym u64 = "64 word"
type_synonym i64 = "64 word"

definition i64_max :: int where
  "i64_max = 2 ^ 63 - 1"

definition i64_min :: int where
  "i64_min = - (2 ^ 63)"

section \<open>Floating point values\<close>

text \<open>
  An \<open>f64\<close> is a NaN, one of the two infinities, or a finite value \<open>m * 2 ^ e\<close>. The two signed
  zeros are both \<open>F64_finite 0 e\<close>: nothing in the source distinguishes them.
\<close>

datatype f64 = F64_nan | F64_inf bool | F64_finite int int

fun f64_pos :: "f64 \<Rightarrow> bool" where
  "f64_pos F64_nan = False"
| "f64_pos (F64_inf negative) = (\<not> negative)"
| "f64_pos (F64_finite m e) = (0 < m)"

text \<open>The least integer not below \<open>m * 2 ^ e\<close>: \<open>f64::ceil\<close> on a finite value.\<close>

definition dyadic_ceil :: "int \<Rightarrow> int \<Rightarrow> int" where
  "dyadic_ceil m e = (if 0 \<le> e then m * 2 ^ nat e else - ((- m) div 2 ^ nat (- e)))"

text \<open>\<open>v.ceil() as i64\<close>: the cast saturates, and maps NaN to 0.\<close>

fun f64_ceil_as_i64 :: "f64 \<Rightarrow> int" where
  "f64_ceil_as_i64 F64_nan = 0"
| "f64_ceil_as_i64 (F64_inf negative) = (if negative then i64_min else i64_max)"
| "f64_ceil_as_i64 (F64_finite m e) = max i64_min (min i64_max (dyadic_ceil m e))"

lemma dyadic_ceil_pos: "0 < m \<Longrightarrow> 0 < dyadic_ceil m e"
proof (cases "0 \<le> e")
  case True
  assume "0 < m"
  with True show ?thesis by (simp add: dyadic_ceil_def)
next
  case False
  assume "0 < m"
  moreover have "0 < (2::int) ^ nat (- e)" by simp
  ultimately have "(- m) div 2 ^ nat (- e) < 0"
    by (simp add: div_neg_pos_less0)
  with False show ?thesis by (simp add: dyadic_ceil_def)
qed

text \<open>The defining bounds of the ceiling of a fraction \<open>m / 2 ^ k\<close>.\<close>

lemma dyadic_ceil_frac:
  assumes "e < 0"
  shows "m \<le> dyadic_ceil m e * 2 ^ nat (- e)" and "(dyadic_ceil m e - 1) * 2 ^ nat (- e) < m"
proof -
  let ?d = "(2::int) ^ nat (- e)"
  have d: "0 < ?d" by simp
  have eq: "((- m) div ?d) * ?d + (- m) mod ?d = - m" by (rule div_mult_mod_eq)
  have r: "0 \<le> (- m) mod ?d" "(- m) mod ?d < ?d" using d by simp_all
  have c: "dyadic_ceil m e = - ((- m) div ?d)" using assms by (simp add: dyadic_ceil_def)
  show "m \<le> dyadic_ceil m e * ?d" unfolding c using eq r(1) by linarith
  show "(dyadic_ceil m e - 1) * ?d < m" unfolding c using eq r(2) by (simp only: left_diff_distrib)
qed

section \<open>Results\<close>

text \<open>A Rust \<open>Result<T, E>\<close> is a sum: \<open>Inl\<close> for \<open>Err\<close>, \<open>Inr\<close> for \<open>Ok\<close>.\<close>

definition is_ok :: "'e + 'a \<Rightarrow> bool" where
  "is_ok r = (case r of Inl _ \<Rightarrow> False | Inr _ \<Rightarrow> True)"

definition res_bind :: "'e + 'a \<Rightarrow> ('a \<Rightarrow> 'e + 'b) \<Rightarrow> 'e + 'b" where
  "res_bind r f = (case r of Inl e \<Rightarrow> Inl e | Inr a \<Rightarrow> f a)"

definition map_err :: "('e \<Rightarrow> 'f) \<Rightarrow> 'e + 'a \<Rightarrow> 'f + 'a" where
  "map_err f r = (case r of Inl e \<Rightarrow> Inl (f e) | Inr a \<Rightarrow> Inr a)"

definition ok_or :: "'e \<Rightarrow> 'a option \<Rightarrow> 'e + 'a" where
  "ok_or e x = (case x of None \<Rightarrow> Inl e | Some a \<Rightarrow> Inr a)"

definition unwrap_or :: "'a \<Rightarrow> 'a option \<Rightarrow> 'a" where
  "unwrap_or d x = (case x of None \<Rightarrow> d | Some a \<Rightarrow> a)"

text \<open>\<open>a.or_else(|| b)\<close> on options.\<close>

definition or_else :: "'a option \<Rightarrow> 'a option \<Rightarrow> 'a option" where
  "or_else a b = (case a of None \<Rightarrow> b | Some x \<Rightarrow> Some x)"

lemma is_ok_simps [simp]: "is_ok (Inl e) = False" "is_ok (Inr a) = True"
  by (simp_all add: is_ok_def)

lemma res_bind_simps [simp]: "res_bind (Inl e) f = Inl e" "res_bind (Inr a) f = f a"
  by (simp_all add: res_bind_def)

lemma res_bind_Inr_iff: "res_bind r f = Inr b \<longleftrightarrow> (\<exists>a. r = Inr a \<and> f a = Inr b)"
  by (cases r) auto

lemma map_err_simps [simp]: "map_err f (Inl e) = Inl (f e)" "map_err f (Inr a) = Inr a"
  by (simp_all add: map_err_def)

lemma map_err_Inr_iff [simp]: "map_err f r = Inr a \<longleftrightarrow> r = Inr a"
  by (cases r) auto

lemma map_err_Inl_iff: "map_err f r = Inl e \<longleftrightarrow> (\<exists>x. r = Inl x \<and> e = f x)"
  by (cases r) auto

lemma ok_or_simps [simp]: "ok_or e None = Inl e" "ok_or e (Some a) = Inr a"
  by (simp_all add: ok_or_def)

lemma unwrap_or_simps [simp]: "unwrap_or d None = d" "unwrap_or d (Some a) = a"
  by (simp_all add: unwrap_or_def)

lemma or_else_simps [simp]: "or_else None b = b" "or_else (Some x) b = Some x"
  by (simp_all add: or_else_def)

lemma or_else_Some_iff: "or_else a b = Some x \<longleftrightarrow> a = Some x \<or> (a = None \<and> b = Some x)"
  by (cases a) auto

text \<open>\<open>iter().find_map(f)\<close>.\<close>

fun find_map :: "('a \<Rightarrow> 'b option) \<Rightarrow> 'a list \<Rightarrow> 'b option" where
  "find_map f [] = None"
| "find_map f (x # xs) = (case f x of Some y \<Rightarrow> Some y | None \<Rightarrow> find_map f xs)"

section \<open>Lists with positions\<close>

text \<open>\<open>iter().enumerate()\<close>: every element with its index.\<close>

fun enumerate_from :: "nat \<Rightarrow> 'a list \<Rightarrow> (nat \<times> 'a) list" where
  "enumerate_from n [] = []"
| "enumerate_from n (x # xs) = (n, x) # enumerate_from (Suc n) xs"

lemma length_enumerate_from [simp]: "length (enumerate_from n xs) = length xs"
  by (induction xs arbitrary: n) auto

lemma set_enumerate_from:
  "(i, x) \<in> set (enumerate_from n xs) \<longleftrightarrow> n \<le> i \<and> i < n + length xs \<and> xs ! (i - n) = x"
proof (induction xs arbitrary: n)
  case Nil
  then show ?case by simp
next
  case (Cons y ys)
  show ?case
  proof (cases "i = n")
    case True
    then show ?thesis using Cons.IH [of "Suc n"] by auto
  next
    case False
    then show ?thesis using Cons.IH [of "Suc n"]
      by (cases "n < i") (auto simp: Suc_diff_Suc nth_Cons')
  qed
qed

lemma set_enumerate_0: "(i, x) \<in> set (enumerate_from 0 xs) \<longleftrightarrow> i < length xs \<and> xs ! i = x"
  by (simp add: set_enumerate_from)

lemma in_map_filter: "y \<in> set (List.map_filter f xs) \<longleftrightarrow> (\<exists>x \<in> set xs. f x = Some y)"
  by (induction xs) (auto simp: List.map_filter_simps split: option.split)

lemma concat_map_Nil_iff: "concat (map f xs) = [] \<longleftrightarrow> (\<forall>x \<in> set xs. f x = [])"
  by (simp add: concat_eq_Nil_conv)

lemma concat_map_if_Nil:
  "concat (map (\<lambda>x. if P x then [g x] else []) xs) = map g (filter P xs)"
  by (induction xs) auto

text \<open>A list without repetition and with fewer elements than an interval misses one of them.\<close>

lemma fresh_nat_exists:
  fixes S :: "'a set" and f :: "nat \<Rightarrow> 'a"
  assumes "finite S" and inj: "inj_on f {a ..< b}" and "card S < b - a"
  shows "\<exists>k. a \<le> k \<and> k < b \<and> f k \<notin> S"
proof (rule ccontr)
  assume "\<not> ?thesis"
  then have "f ` {a ..< b} \<subseteq> S" by auto
  then have "card (f ` {a ..< b}) \<le> card S" using assms(1) by (simp add: card_mono)
  moreover have "card (f ` {a ..< b}) = b - a" using inj by (simp add: card_image)
  ultimately show False using assms(3) by simp
qed

end
