(* ===== verification/Rust_Text.thy ===== *)
theory Rust_Text
  imports Dtn_Prelude
begin

text \<open>
  The text operations of the Rust standard library that the source uses. A Rust \<open>String\<close> is its
  sequence of UTF-8 bytes, so a text is an Isabelle \<open>string\<close> whose characters are bytes and whose
  length is \<open>str::len\<close>. Case conversion and white space are those of the ASCII range, on
  which they agree with the library; bytes above 127 are left alone.
\<close>

section \<open>Characters\<close>

abbreviation LF :: char where "LF \<equiv> CHR 0x0A"
abbreviation CR :: char where "CR \<equiv> CHR 0x0D"

definition code_of :: "char \<Rightarrow> nat" where
  "code_of c = of_char c"

definition is_ascii_digit :: "char \<Rightarrow> bool" where
  "is_ascii_digit c \<longleftrightarrow> 48 \<le> code_of c \<and> code_of c \<le> 57"

definition is_ascii_upper :: "char \<Rightarrow> bool" where
  "is_ascii_upper c \<longleftrightarrow> 65 \<le> code_of c \<and> code_of c \<le> 90"

definition is_ascii_lower :: "char \<Rightarrow> bool" where
  "is_ascii_lower c \<longleftrightarrow> 97 \<le> code_of c \<and> code_of c \<le> 122"

definition is_ascii_alphabetic :: "char \<Rightarrow> bool" where
  "is_ascii_alphabetic c \<longleftrightarrow> is_ascii_upper c \<or> is_ascii_lower c"

definition is_ascii_alphanumeric :: "char \<Rightarrow> bool" where
  "is_ascii_alphanumeric c \<longleftrightarrow> is_ascii_alphabetic c \<or> is_ascii_digit c"

definition is_white :: "char \<Rightarrow> bool" where
  "is_white c \<longleftrightarrow> (9 \<le> code_of c \<and> code_of c \<le> 13) \<or> code_of c = 32"

definition is_ascii :: "char \<Rightarrow> bool" where
  "is_ascii c \<longleftrightarrow> code_of c < 128"

definition lower_char :: "char \<Rightarrow> char" where
  "lower_char c = (if is_ascii_upper c then char_of (code_of c + 32) else c)"

definition upper_char :: "char \<Rightarrow> char" where
  "upper_char c = (if is_ascii_lower c then char_of (code_of c - 32) else c)"

definition to_lowercase :: "string \<Rightarrow> string" where
  "to_lowercase s = map lower_char s"

definition to_uppercase :: "string \<Rightarrow> string" where
  "to_uppercase s = map upper_char s"

lemma digit_not_white: "is_ascii_digit c \<Longrightarrow> \<not> is_white c"
  by (auto simp: is_ascii_digit_def is_white_def)

lemma digit_is_ascii: "is_ascii_digit c \<Longrightarrow> is_ascii c"
  by (simp add: is_ascii_digit_def is_ascii_def)

lemma code_of_char_of: "n < 256 \<Longrightarrow> code_of (char_of n) = n"
  by (simp add: code_of_def)

lemma lower_char_idem [simp]: "lower_char (lower_char c) = lower_char c"
  by (auto simp: lower_char_def is_ascii_upper_def code_of_char_of)

lemma lower_digit [simp]: "is_ascii_digit c \<Longrightarrow> lower_char c = c"
  by (simp add: lower_char_def is_ascii_upper_def is_ascii_digit_def)

lemma length_to_lowercase [simp]: "length (to_lowercase s) = length s"
  by (simp add: to_lowercase_def)

section \<open>Decimal numbers\<close>

definition digit_char :: "nat \<Rightarrow> char" where
  "digit_char d = ''0123456789'' ! d"

definition digit_val :: "char \<Rightarrow> nat" where
  "digit_val c = code_of c - 48"

text \<open>\<open>{}\<close> on an unsigned integer.\<close>

fun show_nat :: "nat \<Rightarrow> string" where
  "show_nat n = (if n < 10 then [digit_char n] else show_nat (n div 10) @ [digit_char (n mod 10)])"

declare show_nat.simps [simp del]

definition show_word :: "'a::len word \<Rightarrow> string" where
  "show_word w = show_nat (unat w)"

definition show_int :: "int \<Rightarrow> string" where
  "show_int i = (if i < 0 then ''-'' @ show_nat (nat (- i)) else show_nat (nat i))"

definition show_i64 :: "i64 \<Rightarrow> string" where
  "show_i64 w = show_int (sint w)"

text \<open>The value of a digit string, and \<open>str::parse\<close> for an unsigned type.\<close>

definition read_dec :: "string \<Rightarrow> nat" where
  "read_dec s = foldl (\<lambda>a c. 10 * a + digit_val c) 0 s"

definition parse_word :: "string \<Rightarrow> 'a::len word option" where
  "parse_word s =
     (let ds = (case s of [] \<Rightarrow> [] | c # cs \<Rightarrow> if c = CHR ''+'' then cs else s)
      in if ds = [] \<or> \<not> list_all is_ascii_digit ds then None
         else if read_dec ds < 2 ^ LENGTH('a) then Some (word_of_nat (read_dec ds)) else None)"

lemma less_10_cases:
  "d < (10::nat) \<Longrightarrow> d = 0 \<or> d = 1 \<or> d = 2 \<or> d = 3 \<or> d = 4 \<or> d = 5 \<or> d = 6 \<or> d = 7 \<or> d = 8 \<or> d = 9"
  by arith

lemma code_of_digit_char: "d < 10 \<Longrightarrow> code_of (digit_char d) = 48 + d"
  by (drule less_10_cases) (elim disjE; simp add: digit_char_def code_of_def)

lemma digit_char_is_digit [simp]: "d < 10 \<Longrightarrow> is_ascii_digit (digit_char d)"
  by (simp add: code_of_digit_char is_ascii_digit_def)

lemma digit_val_char [simp]: "d < 10 \<Longrightarrow> digit_val (digit_char d) = d"
  by (simp add: code_of_digit_char digit_val_def)

lemma digit_char_nonzero_head: "show_nat n \<noteq> []"
  by (subst show_nat.simps) simp

lemmas show_nat_nonempty [simp] = digit_char_nonzero_head

lemma show_nat_digits: "list_all is_ascii_digit (show_nat n)"
proof (induction n rule: show_nat.induct)
  case (1 n)
  then show ?case by (subst show_nat.simps) auto
qed

lemma read_dec_snoc: "read_dec (s @ [c]) = 10 * read_dec s + digit_val c"
  by (simp add: read_dec_def)

lemma read_dec_show_nat [simp]: "read_dec (show_nat n) = n"
proof (induction n rule: show_nat.induct)
  case (1 n)
  show ?case
  proof (cases "n < 10")
    case True
    then show ?thesis by (subst show_nat.simps) (simp add: read_dec_def)
  next
    case False
    with 1 have "read_dec (show_nat (n div 10)) = n div 10" by simp
    with False show ?thesis by (subst show_nat.simps) (simp add: read_dec_snoc)
  qed
qed

lemma show_nat_inj [simp]: "show_nat m = show_nat n \<longleftrightarrow> m = n"
  by (metis read_dec_show_nat)

lemma show_word_inj [simp]: "show_word v = show_word w \<longleftrightarrow> v = w"
  by (auto simp: show_word_def intro: word_unat_eq_iff [THEN iffD2])

lemma show_word_nonempty [simp]: "show_word w \<noteq> []"
  by (simp add: show_word_def)

lemma show_word_digits: "list_all is_ascii_digit (show_word w)"
  by (simp add: show_word_def show_nat_digits)

lemma in_show_word_digit: "c \<in> set (show_word w) \<Longrightarrow> is_ascii_digit c"
  using show_word_digits [of w] by (simp add: list_all_iff)

text \<open>Printing an integer and parsing it back is the identity, at every width.\<close>

lemma parse_word_show [simp]: "parse_word (show_word w) = Some w"
proof -
  have hd: "show_word w = c # cs \<Longrightarrow> c \<noteq> CHR ''+''" for c cs
    using show_word_digits [of w] by (auto simp: is_ascii_digit_def code_of_def)
  then have "(case show_word w of [] \<Rightarrow> [] | c # cs \<Rightarrow> if c = CHR ''+'' then cs else show_word w)
      = show_word w"
    by (cases "show_word w") auto
  moreover have "read_dec (show_word w) = unat w" by (simp add: show_word_def)
  ultimately show ?thesis
    by (simp add: parse_word_def show_word_digits unsigned_less)
qed

lemma parse_word_bound: "parse_word s = Some (w :: 'a::len word) \<Longrightarrow> unat w < 2 ^ LENGTH('a)"
  by (rule unsigned_less)

section \<open>Searching, trimming and splitting\<close>

definition starts_with :: "string \<Rightarrow> string \<Rightarrow> bool" where
  "starts_with pat s = prefix pat s"

definition strip_prefix :: "string \<Rightarrow> string \<Rightarrow> string option" where
  "strip_prefix pat s = (if prefix pat s then Some (drop (length pat) s) else None)"

text \<open>\<open>str::find\<close>: the byte offset of the first occurrence.\<close>

fun find_sub :: "string \<Rightarrow> string \<Rightarrow> nat option" where
  "find_sub pat [] = (if pat = [] then Some 0 else None)"
| "find_sub pat (c # cs) =
     (if prefix pat (c # cs) then Some 0 else map_option Suc (find_sub pat cs))"

definition contains_str :: "string \<Rightarrow> string \<Rightarrow> bool" where
  "contains_str s pat = (find_sub pat s \<noteq> None)"

definition trim_start :: "string \<Rightarrow> string" where
  "trim_start s = dropWhile is_white s"

definition trim_end_by :: "(char \<Rightarrow> bool) \<Rightarrow> string \<Rightarrow> string" where
  "trim_end_by p s = rev (dropWhile p (rev s))"

definition trim :: "string \<Rightarrow> string" where
  "trim s = trim_end_by is_white (trim_start s)"

text \<open>\<open>splitn(2, c)\<close>: the part before the first separator and, if there is one, the rest.\<close>

fun split2 :: "char \<Rightarrow> string \<Rightarrow> string \<times> string option" where
  "split2 c [] = ([], None)"
| "split2 c (x # xs) =
     (if x = c then ([], Some xs) else (case split2 c xs of (a, b) \<Rightarrow> (x # a, b)))"

definition strip_cr :: "string \<Rightarrow> string" where
  "strip_cr s = (if s \<noteq> [] \<and> last s = CR then butlast s else s)"

text \<open>
  \<open>str::lines\<close>: a line ends at a line feed, whose preceding carriage return is dropped; there
  is no empty last line after a final line feed, and an unterminated last line keeps its
  carriage return.
\<close>

fun lines_acc :: "string \<Rightarrow> string \<Rightarrow> string list" where
  "lines_acc acc [] = (if acc = [] then [] else [rev acc])"
| "lines_acc acc (c # cs) =
     (if c = LF then strip_cr (rev acc) # lines_acc [] cs else lines_acc (c # acc) cs)"

definition str_lines :: "string \<Rightarrow> string list" where
  "str_lines s = lines_acc [] s"

text \<open>\<open>str::split_whitespace\<close>: the maximal runs without white space.\<close>

fun words_acc :: "string \<Rightarrow> string \<Rightarrow> string list" where
  "words_acc acc [] = (if acc = [] then [] else [rev acc])"
| "words_acc acc (c # cs) =
     (if is_white c then (if acc = [] then words_acc [] cs else rev acc # words_acc [] cs)
      else words_acc (c # acc) cs)"

definition split_whitespace :: "string \<Rightarrow> string list" where
  "split_whitespace s = words_acc [] s"

text \<open>\<open>str::replace\<close> of a class of characters by one character.\<close>

definition replace_chars :: "char list \<Rightarrow> char \<Rightarrow> string \<Rightarrow> string" where
  "replace_chars from to s = map (\<lambda>c. if c \<in> set from then to else c) s"

fun join :: "string \<Rightarrow> string list \<Rightarrow> string" where
  "join sep [] = []"
| "join sep [x] = x"
| "join sep (x # y # ys) = x @ sep @ join sep (y # ys)"

text \<open>
  \<open>&s[..n]\<close> panics (the value \<open>None\<close>) unless \<open>n\<close> is a character boundary: the start, the end,
  or a byte that does not continue a UTF-8 sequence.
\<close>

definition is_char_boundary :: "string \<Rightarrow> nat \<Rightarrow> bool" where
  "is_char_boundary s n \<longleftrightarrow>
     n = 0 \<or> n = length s \<or> (n < length s \<and> \<not> (128 \<le> code_of (s ! n) \<and> code_of (s ! n) < 192))"

definition slice_to :: "string \<Rightarrow> nat \<Rightarrow> string option" where
  "slice_to s n = (if is_char_boundary s n then Some (take n s) else None)"

lemma slice_to_ascii:
  assumes "list_all is_ascii s"
  shows "slice_to s (min n (length s)) = Some (take n s)"
proof -
  have "code_of (s ! n) < 128" if "n < length s"
    using assms that by (simp add: list_all_length is_ascii_def)
  then have "is_char_boundary s (min n (length s))"
    by (cases "n < length s") (auto simp: is_char_boundary_def min_def)
  then show ?thesis by (simp add: slice_to_def min_def)
qed

lemma strip_prefix_append [rust_text]: "strip_prefix pat (pat @ s) = Some s"
  by (simp add: strip_prefix_def)

lemma strip_prefix_Some: "strip_prefix pat s = Some t \<longleftrightarrow> s = pat @ t"
  by (auto simp: strip_prefix_def prefix_def)

lemma find_sub_Some:
  "find_sub pat s = Some n \<Longrightarrow> n + length pat \<le> length s \<and> take (length pat) (drop n s) = pat"
proof (induction pat s arbitrary: n rule: find_sub.induct)
  case (1 pat)
  then show ?case by (auto split: if_splits)
next
  case (2 pat c cs)
  then show ?case
    using prefix_length_le [of pat "c # cs"] by (auto simp: prefix_def take_append split: if_splits)
qed

lemma contains_iff_sublist: "contains_str s pat \<longleftrightarrow> sublist pat s"
proof (induction s)
  case Nil
  then show ?case by (auto simp: contains_str_def)
next
  case (Cons c cs)
  then show ?case by (auto simp: contains_str_def sublist_Cons_right)
qed

section \<open>Line-structured output\<close>

text \<open>
  \<open>writeln!(out, ...)\<close> appends its text and a line feed. A writer is modelled by the list of
  lines it appends, and the finished text by their rendering.
\<close>

definition render :: "string list \<Rightarrow> string" where
  "render ls = concat (map (\<lambda>l. l @ [LF]) ls)"

lemma render_simps [simp]:
  "render [] = []" "render (l # ls) = l @ LF # render ls" "render (ks @ ls) = render ks @ render ls"
  by (simp_all add: render_def)

definition clean_line :: "string \<Rightarrow> bool" where
  "clean_line l \<longleftrightarrow> LF \<notin> set l \<and> (l = [] \<or> last l \<noteq> CR)"

lemma lines_acc_until_LF:
  "LF \<notin> set l \<Longrightarrow> lines_acc acc (l @ LF # s) = strip_cr (rev acc @ l) # lines_acc [] s"
  by (induction l arbitrary: acc) auto

lemma str_lines_Cons:
  "clean_line l \<Longrightarrow> str_lines (l @ LF # s) = l # str_lines s"
  by (auto simp: str_lines_def lines_acc_until_LF strip_cr_def clean_line_def)

text \<open>Reading rendered lines back gives the lines, when none holds a line terminator.\<close>

lemma str_lines_render: "list_all clean_line ls \<Longrightarrow> str_lines (render ls) = ls"
proof (induction ls)
  case Nil
  then show ?case by (simp add: str_lines_def)
next
  case (Cons l ls)
  then show ?case by (simp add: str_lines_Cons)
qed

text \<open>Texts without any line terminator, the usual reason for a line to be clean.\<close>

definition no_eol :: "string \<Rightarrow> bool" where
  "no_eol s \<longleftrightarrow> LF \<notin> set s \<and> CR \<notin> set s"

lemma no_eol_simps [simp]:
  "no_eol []" "no_eol (c # s) \<longleftrightarrow> c \<noteq> LF \<and> c \<noteq> CR \<and> no_eol s" "no_eol (s @ t) \<longleftrightarrow> no_eol s \<and> no_eol t"
  by (auto simp: no_eol_def)

lemma no_eol_clean: "no_eol l \<Longrightarrow> clean_line l"
  unfolding no_eol_def clean_line_def by (metis last_in_set)

text \<open>A line feed inside a rendered line makes a line of its own.\<close>

lemma lines_acc_split: "\<exists>ls. lines_acc acc (x @ LF # y) = ls @ lines_acc [] y"
proof (induction x arbitrary: acc)
  case Nil
  then show ?case by (intro exI [of _ "[strip_cr (rev acc)]"]) simp
next
  case (Cons c x)
  show ?case
  proof (cases "c = LF")
    case True
    from Cons.IH [of "[]"] obtain ls where "lines_acc [] (x @ LF # y) = ls @ lines_acc [] y" by blast
    with True show ?thesis by (intro exI [of _ "strip_cr (rev acc) # ls"]) simp
  next
    case False
    with Cons.IH [of "c # acc"] show ?thesis by simp
  qed
qed

lemma embedded_line:
  assumes "pre @ LF # cmd @ LF # post \<in> set ls" and "clean_line cmd"
  shows "cmd \<in> set (str_lines (render ls))"
proof -
  obtain us vs where "ls = us @ (pre @ LF # cmd @ LF # post) # vs" using split_list [OF assms(1)] by blast
  then have "render ls = (render us @ pre) @ LF # (cmd @ LF # (post @ LF # render vs))" by simp
  moreover obtain ks where "lines_acc [] ((render us @ pre) @ LF # (cmd @ LF # (post @ LF # render vs)))
      = ks @ lines_acc [] (cmd @ LF # (post @ LF # render vs))" using lines_acc_split by blast
  moreover have "lines_acc [] (cmd @ LF # (post @ LF # render vs)) = cmd # lines_acc [] (post @ LF # render vs)"
    using str_lines_Cons [OF assms(2)] by (simp add: str_lines_def)
  ultimately show ?thesis by (simp add: str_lines_def)
qed

lemma digits_no_eol: "list_all is_ascii_digit s \<Longrightarrow> no_eol s"
  by (auto simp: no_eol_def list_all_iff is_ascii_digit_def code_of_def)

lemma no_eol_show [simp]:
  "no_eol (show_nat n)" "no_eol (show_word w)" "no_eol (show_int i)" "no_eol (show_i64 v)"
  by (simp_all add: digits_no_eol show_nat_digits show_word_digits show_int_def show_i64_def)

text \<open>Splitting a text of non-empty words, separated by one blank, gives the words.\<close>

definition is_token :: "string \<Rightarrow> bool" where
  "is_token w \<longleftrightarrow> w \<noteq> [] \<and> list_all (\<lambda>c. \<not> is_white c) w"

lemma words_acc_token:
  "list_all (\<lambda>c. \<not> is_white c) w \<Longrightarrow> rev acc @ w \<noteq> [] \<Longrightarrow>
   words_acc acc (w @ CHR '' '' # s) = (rev acc @ w) # words_acc [] s"
proof (induction w arbitrary: acc)
  case Nil
  then show ?case by (simp add: is_white_def code_of_def)
next
  case (Cons c w)
  then show ?case by simp
qed

lemma words_acc_last:
  "list_all (\<lambda>c. \<not> is_white c) w \<Longrightarrow> words_acc acc w = (if rev acc @ w = [] then [] else [rev acc @ w])"
  by (induction w arbitrary: acc) auto

lemma split_whitespace_join: "list_all is_token ws \<Longrightarrow> split_whitespace (join '' '' ws) = ws"
proof (induction ws)
  case Nil
  then show ?case by (simp add: split_whitespace_def)
next
  case (Cons w ws)
  then show ?case
    by (cases ws) (simp_all add: split_whitespace_def words_acc_token words_acc_last is_token_def)
qed

lemma digits_token: "s \<noteq> [] \<Longrightarrow> list_all is_ascii_digit s \<Longrightarrow> is_token s"
  by (auto simp: is_token_def list_all_iff digit_not_white)

lemma token_show [simp]:
  "is_token (show_word w)" "is_token (show_i64 v)" "is_token (CHR ''+'' # show_i64 v)"
  using digits_token [OF _ show_nat_digits] digits_token [OF _ show_word_digits, of w]
  by (auto simp: is_token_def show_i64_def show_int_def is_white_def code_of_def)

lemma show_int_inj [simp]: "show_int i = show_int j \<longleftrightarrow> i = j"
proof -
  have "hd (show_nat n) \<noteq> CHR ''-''" for n
    using show_nat_digits [of n] by (cases "show_nat n") (auto simp: is_ascii_digit_def code_of_def)
  then have "show_nat n \<noteq> CHR ''-'' # s" for n s by (metis list.sel(1))
  then show ?thesis by (auto simp: show_int_def nat_eq_iff dest: not_sym)
qed

lemma show_i64_inj [simp]: "show_i64 v = show_i64 w \<longleftrightarrow> v = w"
  by (auto simp: show_i64_def intro: signed_word_eqI)

lemma str_lines_single: "l \<noteq> [] \<Longrightarrow> LF \<notin> set l \<Longrightarrow> str_lines l = [l]"
proof -
  have "LF \<notin> set l \<Longrightarrow> lines_acc acc l = (if acc = [] \<and> l = [] then [] else [rev acc @ l])" for acc
    by (induction l arbitrary: acc) auto
  then show "l \<noteq> [] \<Longrightarrow> LF \<notin> set l \<Longrightarrow> str_lines l = [l]" by (simp add: str_lines_def)
qed

section \<open>Paths\<close>

text \<open>\<open>Path::join\<close>: an absolute second part replaces the first.\<close>

definition path_join :: "string \<Rightarrow> string \<Rightarrow> string" where
  "path_join d n =
     (if n \<noteq> [] \<and> hd n = CHR ''/'' then n
      else if d = [] then n
      else if last d = CHR ''/'' then d @ n
      else d @ ''/'' @ n)"

text \<open>\<open>Path::parent\<close> of a path that ends in a file name.\<close>

definition path_parent :: "string \<Rightarrow> string option" where
  "path_parent p =
     (let d = rev (dropWhile (\<lambda>c. c \<noteq> CHR ''/'') (rev p)); t = trim_end_by (\<lambda>c. c = CHR ''/'') d
      in if p = [] then None else if d = [] then Some [] else if t = [] then Some ''/'' else Some t)"

text \<open>
  \<open>Path::extension\<close> of a directory entry: what follows the last dot of its name, unless the
  name has no dot or its only dot comes first.
\<close>

fun rsplit_dot :: "string \<Rightarrow> (string \<times> string) option" where
  "rsplit_dot [] = None"
| "rsplit_dot (c # cs) =
     (case rsplit_dot cs of
        Some (a, b) \<Rightarrow> Some (c # a, b)
      | None \<Rightarrow> if c = CHR ''.'' then Some ([], cs) else None)"

definition extension :: "string \<Rightarrow> string option" where
  "extension name =
     (if name = ''..'' then None
      else case rsplit_dot name of
             None \<Rightarrow> None
           | Some (stem, ext) \<Rightarrow> if stem = [] then None else Some ext)"

lemma rsplit_dot_append:
  "CHR ''.'' \<notin> set ext \<Longrightarrow> rsplit_dot (stem @ ''.'' @ ext) = Some (stem, ext)"
proof -
  assume a: "CHR ''.'' \<notin> set ext"
  then have "rsplit_dot ext = None" by (induction ext) auto
  then show ?thesis by (induction stem) auto
qed

lemma extension_append [rust_text]:
  "stem \<noteq> [] \<Longrightarrow> ext \<noteq> [] \<Longrightarrow> CHR ''.'' \<notin> set ext \<Longrightarrow> extension (stem @ ''.'' @ ext) = Some ext"
  using rsplit_dot_append [of ext stem] by (cases stem) (auto simp: extension_def append_eq_Cons_conv)

section \<open>Searching across printed numbers\<close>

text \<open>The character tests on a literal, by its bits; they leave other characters alone.\<close>

lemma char_tests:
  "is_ascii_digit (Char b0 b1 b2 b3 b4 b5 b6 b7) \<longleftrightarrow>
     \<not> b7 \<and> \<not> b6 \<and> b5 \<and> b4 \<and> (b3 \<longrightarrow> \<not> b2 \<and> \<not> b1)"
  "is_white (Char b0 b1 b2 b3 b4 b5 b6 b7) \<longleftrightarrow>
     \<not> b7 \<and> \<not> b6 \<and> \<not> b4 \<and>
     (if b5 then \<not> b3 \<and> \<not> b2 \<and> \<not> b1 \<and> \<not> b0
      else b3 \<and> (b2 \<longrightarrow> \<not> b1) \<and> (b0 \<or> b1 \<or> b2))"
  "is_ascii_upper (Char b0 b1 b2 b3 b4 b5 b6 b7) \<longleftrightarrow>
     \<not> b7 \<and> b6 \<and> \<not> b5 \<and> (b0 \<or> b1 \<or> b2 \<or> b3 \<or> b4)
     \<and> (b4 \<and> b3 \<longrightarrow> \<not> b2 \<and> (b1 \<longrightarrow> \<not> b0))"
  by (cases b0; cases b1; cases b2; cases b3; cases b4; cases b5; cases b6; cases b7;
      simp add: is_ascii_digit_def is_white_def is_ascii_upper_def code_of_def)+

lemma lower_char_literal:
  "lower_char (Char b0 b1 b2 b3 b4 b5 b6 b7) =
     (if is_ascii_upper (Char b0 b1 b2 b3 b4 b5 b6 b7) then Char b0 b1 b2 b3 b4 True b6 b7
      else Char b0 b1 b2 b3 b4 b5 b6 b7)"
proof (cases "is_ascii_upper (Char b0 b1 b2 b3 b4 b5 b6 b7)")
  case False
  then show ?thesis by (simp add: lower_char_def)
next
  case True
  then have "\<not> b5" "b6" "\<not> b7" by (simp_all add: char_tests)
  then have "code_of (Char b0 b1 b2 b3 b4 True b6 b7) = code_of (Char b0 b1 b2 b3 b4 b5 b6 b7) + 32"
    by (simp add: code_of_def)
  then have "char_of (code_of (Char b0 b1 b2 b3 b4 b5 b6 b7) + 32) = Char b0 b1 b2 b3 b4 True b6 b7"
    by (metis char_of_char code_of_def)
  with True show ?thesis by (simp add: lower_char_def)
qed

text \<open>
  A search for a text that does not start with a digit steps over a printed number; these rules
  evaluate the parsers on lines whose numbers are variables.
\<close>

lemma to_lowercase_append: "to_lowercase (s @ t) = to_lowercase s @ to_lowercase t"
  by (simp add: to_lowercase_def)

lemma to_lowercase_digits: "list_all is_ascii_digit d \<Longrightarrow> to_lowercase d = d"
  by (induction d) (simp_all add: to_lowercase_def)

lemma prefix_digits:
  "list_all is_ascii_digit d \<Longrightarrow> d \<noteq> [] \<Longrightarrow> \<not> is_ascii_digit x \<Longrightarrow> \<not> prefix (x # xs) (d @ r)"
  by (cases d) auto

lemma find_sub_digits:
  "list_all is_ascii_digit d \<Longrightarrow> \<not> is_ascii_digit x \<Longrightarrow>
   find_sub (x # xs) (d @ r) = map_option (\<lambda>n. length d + n) (find_sub (x # xs) r)"
  by (induction d) (cases "find_sub (x # xs) r"; auto)+

text \<open>What follows the first occurrence of a label.\<close>

definition after_sub :: "string \<Rightarrow> string \<Rightarrow> string option" where
  "after_sub pat s = map_option (\<lambda>pos. drop (pos + length pat) s) (find_sub pat s)"

lemma after_sub_simps:
  "after_sub pat [] = (if pat = [] then Some [] else None)"
  "after_sub pat (c # cs) = (if prefix pat (c # cs) then Some (drop (length pat) (c # cs)) else after_sub pat cs)"
  by (simp_all add: after_sub_def option.map_comp comp_def)

lemma after_sub_digits:
  "list_all is_ascii_digit d \<Longrightarrow> \<not> is_ascii_digit x \<Longrightarrow> after_sub (x # xs) (d @ r) = after_sub (x # xs) r"
  by (simp add: after_sub_def find_sub_digits option.map_comp comp_def)

lemma contains_str_simps:
  "contains_str [] pat \<longleftrightarrow> pat = []"
  "contains_str (c # cs) pat \<longleftrightarrow> prefix pat (c # cs) \<or> contains_str cs pat"
  by (simp_all add: contains_str_def)

lemma contains_str_digits:
  "list_all is_ascii_digit d \<Longrightarrow> \<not> is_ascii_digit x \<Longrightarrow> contains_str (d @ r) (x # xs) = contains_str r (x # xs)"
  by (simp add: contains_str_def find_sub_digits)

lemma takeWhile_digits:
  "list_all is_ascii_digit d \<Longrightarrow>
   takeWhile is_ascii_digit (d @ c # r) = (if is_ascii_digit c then d @ takeWhile is_ascii_digit (c # r) else d)"
  "list_all is_ascii_digit d \<Longrightarrow> takeWhile is_ascii_digit d = d"
  by (induction d) auto

lemma dropWhile_digits:
  "list_all is_ascii_digit d \<Longrightarrow> d \<noteq> [] \<Longrightarrow> (\<And>c. is_ascii_digit c \<Longrightarrow> \<not> p c) \<Longrightarrow> dropWhile p (d @ r) = d @ r"
  by (cases d) auto

lemma trim_tight:
  assumes "s \<noteq> []" and "\<not> is_white (hd s)" and "\<not> is_white (last s)"
  shows "trim s = s"
proof -
  have "dropWhile is_white s = s" using assms by (cases s) auto
  moreover have "dropWhile is_white (rev s) = rev s"
    using assms by (cases "rev s") (auto simp: rev_eq_Cons_iff)
  ultimately show ?thesis by (simp add: trim_def trim_start_def trim_end_by_def)
qed

lemma last_digits: "list_all is_ascii_digit d \<Longrightarrow> d \<noteq> [] \<Longrightarrow> is_ascii_digit (last d)"
  by (simp add: list_all_iff)

lemma hd_digits: "list_all is_ascii_digit d \<Longrightarrow> d \<noteq> [] \<Longrightarrow> is_ascii_digit (hd d)"
  by (simp add: list_all_iff)

lemma trim_show_word [simp]: "trim (show_word w) = show_word w"
  using hd_digits last_digits show_word_digits [of w]
  by (intro trim_tight) (auto simp: digit_not_white)

lemma number_last [simp]: "is_ascii_digit (last (show_word w))" "is_ascii_digit (hd (show_word w))"
  by (simp_all add: last_digits hd_digits show_word_digits)

lemma to_lowercase_literal: "to_lowercase [] = []" "to_lowercase (c # cs) = lower_char c # to_lowercase cs"
  by (simp_all add: to_lowercase_def)

lemmas across_numbers =
  char_tests lower_char_literal to_lowercase_literal
  to_lowercase_append to_lowercase_digits [OF show_word_digits]
  prefix_digits [OF show_word_digits show_word_nonempty]
  prefix_digits [OF show_word_digits show_word_nonempty, where r = "[]", simplified]
  after_sub_simps after_sub_digits [OF show_word_digits]
  after_sub_digits [OF show_word_digits, where r = "[]", simplified]
  contains_str_simps contains_str_digits [OF show_word_digits]
  contains_str_digits [OF show_word_digits, where r = "[]", simplified]
  takeWhile_digits [OF show_word_digits]
  dropWhile_digits [OF show_word_digits show_word_nonempty]

section \<open>Evaluation\<close>

text \<open>What the simplifier needs to run the operations above on literal texts.\<close>

lemmas text_eval =
  code_of_def is_ascii_def is_white_def is_ascii_digit_def is_ascii_upper_def is_ascii_lower_def
  is_ascii_alphabetic_def is_ascii_alphanumeric_def lower_char_def upper_char_def
  to_lowercase_def to_uppercase_def char_of_def bit_Suc_0_iff
  digit_char_def digit_val_def show_nat.simps show_word_def show_int_def show_i64_def
  read_dec_def parse_word_def starts_with_def strip_prefix_def contains_str_def
  trim_start_def trim_end_by_def trim_def strip_cr_def str_lines_def split_whitespace_def
  replace_chars_def is_char_boundary_def slice_to_def path_join_def extension_def

end
