(* ===== verification/Dtn_Error.thy ===== *)
theory Dtn_Error
  imports Rust_Text
begin

text \<open>
  The error type of \<open>src/radiant-dtn-abstraction/src/error.rs\<close>, its builder methods and its
  display, and the error mappers of \<open>error_mapping.rs\<close>. The contract every mapper of a backend
  fulfils (context and raw error kept) is the locale \<open>error_mapper\<close>.
\<close>

section \<open>Errors and their context\<close>

datatype error_category =
    ValidationError | ConfigurationError | LifecycleError
  | RuntimeError | UnsupportedOperation | CommunicationError

record error_context =
  ec_operation :: string
  ec_resource :: "string option"
  ec_backend :: "string option"

record abstraction_error =
  ae_category :: error_category
  ae_message :: string
  ae_backend_code :: "string option"
  ae_context :: error_context

record validation_detail =
  vd_path :: string
  vd_rule :: string
  vd_message :: string

fun category_name :: "error_category \<Rightarrow> string" where
  "category_name ValidationError = ''ValidationError''"
| "category_name ConfigurationError = ''ConfigurationError''"
| "category_name LifecycleError = ''LifecycleError''"
| "category_name RuntimeError = ''RuntimeError''"
| "category_name UnsupportedOperation = ''UnsupportedOperation''"
| "category_name CommunicationError = ''CommunicationError''"

definition new_error :: "error_category \<Rightarrow> string \<Rightarrow> string \<Rightarrow> abstraction_error" where
  "new_error cat msg op =
     \<lparr>ae_category = cat, ae_message = msg, ae_backend_code = None,
      ae_context = \<lparr>ec_operation = op, ec_resource = None, ec_backend = None\<rparr>\<rparr>"

definition with_resource :: "string \<Rightarrow> abstraction_error \<Rightarrow> abstraction_error" where
  "with_resource r e = e\<lparr>ae_context := (ae_context e)\<lparr>ec_resource := Some r\<rparr>\<rparr>"

definition with_backend :: "string \<Rightarrow> abstraction_error \<Rightarrow> abstraction_error" where
  "with_backend b e = e\<lparr>ae_context := (ae_context e)\<lparr>ec_backend := Some b\<rparr>\<rparr>"

definition with_backend_code :: "string \<Rightarrow> abstraction_error \<Rightarrow> abstraction_error" where
  "with_backend_code c e = e\<lparr>ae_backend_code := Some c\<rparr>"

text \<open>The \<open>Display\<close> implementation.\<close>

definition display_error :: "abstraction_error \<Rightarrow> string" where
  "display_error e =
     ''['' @ category_name (ae_category e) @ ''] '' @ ae_message e
     @ '' (operation: '' @ ec_operation (ae_context e)
     @ (case ec_resource (ae_context e) of None \<Rightarrow> [] | Some r \<Rightarrow> '', resource: '' @ r)
     @ (case ec_backend (ae_context e) of None \<Rightarrow> [] | Some b \<Rightarrow> '', backend: '' @ b)
     @ '')''
     @ (case ae_backend_code e of None \<Rightarrow> [] | Some c \<Rightarrow> '' [backend_code: '' @ c @ '']'')"

lemma new_error_sel [simp]:
  "ae_category (new_error c m op) = c"
  "ae_message (new_error c m op) = m"
  "ae_backend_code (new_error c m op) = None"
  "ec_operation (ae_context (new_error c m op)) = op"
  "ec_resource (ae_context (new_error c m op)) = None"
  "ec_backend (ae_context (new_error c m op)) = None"
  by (simp_all add: new_error_def)

lemma with_resource_sel [simp]:
  "ae_category (with_resource r e) = ae_category e"
  "ae_message (with_resource r e) = ae_message e"
  "ae_backend_code (with_resource r e) = ae_backend_code e"
  "ec_operation (ae_context (with_resource r e)) = ec_operation (ae_context e)"
  "ec_resource (ae_context (with_resource r e)) = Some r"
  "ec_backend (ae_context (with_resource r e)) = ec_backend (ae_context e)"
  by (simp_all add: with_resource_def)

lemma with_backend_sel [simp]:
  "ae_category (with_backend b e) = ae_category e"
  "ae_message (with_backend b e) = ae_message e"
  "ae_backend_code (with_backend b e) = ae_backend_code e"
  "ec_operation (ae_context (with_backend b e)) = ec_operation (ae_context e)"
  "ec_resource (ae_context (with_backend b e)) = ec_resource (ae_context e)"
  "ec_backend (ae_context (with_backend b e)) = Some b"
  by (simp_all add: with_backend_def)

lemma with_backend_code_sel [simp]:
  "ae_category (with_backend_code c e) = ae_category e"
  "ae_message (with_backend_code c e) = ae_message e"
  "ae_backend_code (with_backend_code c e) = Some c"
  "ae_context (with_backend_code c e) = ae_context e"
  by (simp_all add: with_backend_code_def)

text \<open>Distinct categories print differently, and a category name holds no bracket.\<close>

lemma category_name_inj [simp]: "category_name a = category_name b \<longleftrightarrow> a = b"
  by (cases a; cases b) simp_all

lemma category_name_bracket: "CHR '']'' \<notin> set (category_name a)"
  by (cases a) simp_all

section \<open>Mapping backend errors\<close>

definition map_lifecycle_error :: "string \<Rightarrow> string \<Rightarrow> string \<Rightarrow> abstraction_error" where
  "map_lifecycle_error backend_name raw op =
     with_backend_code raw (with_backend backend_name
       (new_error LifecycleError (backend_name @ '' lifecycle error: '' @ raw) op))"

definition map_runtime_error :: "string \<Rightarrow> string \<Rightarrow> string \<Rightarrow> abstraction_error" where
  "map_runtime_error backend_name raw op =
     with_backend_code raw (with_backend backend_name
       (new_error RuntimeError (backend_name @ '' runtime error: '' @ raw) op))"

definition map_communication_error :: "string \<Rightarrow> string \<Rightarrow> string \<Rightarrow> abstraction_error" where
  "map_communication_error backend_name raw op =
     with_backend_code raw (with_backend backend_name
       (new_error CommunicationError (backend_name @ '' communication error: '' @ raw) op))"

definition ion_backend_name :: string where
  "ion_backend_name = ''ion-dtn''"

definition hardy_backend_name :: string where
  "hardy_backend_name = ''hardy''"

definition enrich_error :: "abstraction_error \<Rightarrow> string \<Rightarrow> abstraction_error" where
  "enrich_error e resource = with_resource resource e"

text \<open>
  What a caller relies on: whatever the kind of failure, the mapped error keeps the raw text as
  its code, names the operation and the backend, and has the category of its mapper.
\<close>

locale error_mapper =
  fixes backend :: string
    and lifecycle :: "string \<Rightarrow> string \<Rightarrow> abstraction_error"
    and runtime :: "string \<Rightarrow> string \<Rightarrow> abstraction_error"
    and communication :: "string \<Rightarrow> string \<Rightarrow> abstraction_error"
  assumes code_kept: "f \<in> {lifecycle, runtime, communication} \<Longrightarrow> ae_backend_code (f raw op) = Some raw"
    and operation_kept: "f \<in> {lifecycle, runtime, communication} \<Longrightarrow> ec_operation (ae_context (f raw op)) = op"
    and backend_set: "f \<in> {lifecycle, runtime, communication} \<Longrightarrow> ec_backend (ae_context (f raw op)) = Some backend"
    and lifecycle_category: "ae_category (lifecycle raw op) = LifecycleError"
    and runtime_category: "ae_category (runtime raw op) = RuntimeError"
    and communication_category: "ae_category (communication raw op) = CommunicationError"
begin

lemma enriched_keeps_context:
  assumes "f \<in> {lifecycle, runtime, communication}"
  shows "ae_backend_code (enrich_error (f raw op) r) = Some raw"
    and "ec_operation (ae_context (enrich_error (f raw op) r)) = op"
    and "ec_backend (ae_context (enrich_error (f raw op) r)) = Some backend"
    and "ec_resource (ae_context (enrich_error (f raw op) r)) = Some r"
  using assms by (simp_all add: enrich_error_def code_kept operation_kept backend_set)

lemma raw_determined:
  assumes "f \<in> {lifecycle, runtime, communication}" and "g \<in> {lifecycle, runtime, communication}"
    and "f raw op = g raw' op'"
  shows "raw = raw' \<and> op = op' \<and> ae_category (f raw op) = ae_category (g raw' op')"
  using assms code_kept operation_kept by (metis option.inject)

end

interpretation ion_errors: error_mapper ion_backend_name
  "map_lifecycle_error ion_backend_name" "map_runtime_error ion_backend_name"
  "map_communication_error ion_backend_name"
  by unfold_locales
    (auto simp: map_lifecycle_error_def map_runtime_error_def map_communication_error_def)

interpretation hardy_errors: error_mapper hardy_backend_name
  "map_lifecycle_error hardy_backend_name" "map_runtime_error hardy_backend_name"
  "map_communication_error hardy_backend_name"
  by unfold_locales
    (auto simp: map_lifecycle_error_def map_runtime_error_def map_communication_error_def)

end
