(* ===== verification/Os_Effects.thy ===== *)
theory Os_Effects
  imports Dtn_Error
begin

text \<open>
  How the adapters act on the operating system. Every call that leaves the program (running a
  process, writing its input, waiting for it, reading a directory, writing a file, sleeping) is
  an \<open>effect\<close>; the state of an action is the list of effects so far, and the environment \<open>os\<close>
  answers each call as it likes, depending on everything that happened before. Actions
  are sequenced as the source sequences them: the first error ends the operation.
\<close>

section \<open>Effects and the environment\<close>

datatype stdin_source = Stdin_default | Stdin_null | Stdin_piped

record command =
  cmd_program :: string
  cmd_args :: "string list"
  cmd_stdin :: stdin_source
  cmd_dir :: "string option"

record process_output =
  po_code :: "int option"
  po_stdout :: string
  po_stderr :: string

definition po_success :: "process_output \<Rightarrow> bool" where
  "po_success p \<longleftrightarrow> po_code p = Some 0"

datatype effect =
    Output command
  | Spawn command
  | Write_stdin string
  | Wait
  | Wait_timeout nat
  | Read_dir string
  | Create_dir_all string
  | Write_file string string
  | Path_exists string
  | Sleep_millis nat

text \<open>
  The answers: an I/O error is the text it displays as; captured output is the text that the
  lossy UTF-8 decoding of the bytes gives; a directory listing has an error for each entry
  that could not be read; waiting with a time limit gives \<open>None\<close> when the limit passes first.
\<close>

record os =
  os_output :: "effect list \<Rightarrow> command \<Rightarrow> string + process_output"
  os_spawn :: "effect list \<Rightarrow> command \<Rightarrow> string + unit"
  os_write_stdin :: "effect list \<Rightarrow> string \<Rightarrow> string + unit"
  os_wait :: "effect list \<Rightarrow> string + process_output"
  os_wait_timeout :: "effect list \<Rightarrow> nat \<Rightarrow> (string + process_output) option"
  os_read_dir :: "effect list \<Rightarrow> string \<Rightarrow> string + (string + string) list"
  os_create_dir_all :: "effect list \<Rightarrow> string \<Rightarrow> string + unit"
  os_write_file :: "effect list \<Rightarrow> string \<Rightarrow> string \<Rightarrow> string + unit"
  os_exists :: "effect list \<Rightarrow> string \<Rightarrow> bool"

text \<open>An environment in which every call succeeds, every directory is empty and no path exists.\<close>

definition quiet_output :: process_output where
  "quiet_output = \<lparr>po_code = Some 0, po_stdout = [], po_stderr = []\<rparr>"

definition quiet_os :: os where
  "quiet_os = \<lparr>os_output = (\<lambda>_ _. Inr quiet_output), os_spawn = (\<lambda>_ _. Inr ()),
     os_write_stdin = (\<lambda>_ _. Inr ()), os_wait = (\<lambda>_. Inr quiet_output),
     os_wait_timeout = (\<lambda>_ _. Some (Inr quiet_output)), os_read_dir = (\<lambda>_ _. Inr []),
     os_create_dir_all = (\<lambda>_ _. Inr ()), os_write_file = (\<lambda>_ _ _. Inr ()),
     os_exists = (\<lambda>_ _. False)\<rparr>"

section \<open>Actions\<close>

type_synonym ('e, 'w, 'a) action = "'w \<Rightarrow> ('e + 'a) \<times> 'w"

definition act_return :: "'a \<Rightarrow> ('e, 'w, 'a) action" where
  "act_return a w = (Inr a, w)"

definition act_fail :: "'e \<Rightarrow> ('e, 'w, 'a) action" where
  "act_fail e w = (Inl e, w)"

text \<open>The \<open>?\<close> operator: go on with the value, or end with the error.\<close>

definition act_bind :: "('e, 'w, 'a) action \<Rightarrow> ('a \<Rightarrow> ('e, 'w, 'b) action) \<Rightarrow> ('e, 'w, 'b) action" where
  "act_bind m f w = (case m w of (Inl e, w') \<Rightarrow> (Inl e, w') | (Inr a, w') \<Rightarrow> f a w')"

definition act_then :: "('e, 'w, unit) action \<Rightarrow> ('e, 'w, 'b) action \<Rightarrow> ('e, 'w, 'b) action" where
  "act_then m k = act_bind m (\<lambda>_. k)"

text \<open>\<open>let _ = m\<close> or \<open>match m\<close>: the result, error or not, as a value.\<close>

definition act_result :: "('e, 'w, 'a) action \<Rightarrow> ('f, 'w, 'e + 'a) action" where
  "act_result m w = (case m w of (r, w') \<Rightarrow> (Inr r, w'))"

text \<open>\<open>.map_err(f)?\<close> on the answer of a call.\<close>

definition act_lift :: "('f \<Rightarrow> 'e) \<Rightarrow> 'f + 'a \<Rightarrow> ('e, 'w, 'a) action" where
  "act_lift f r w = (map_err f r, w)"

definition act_map_err :: "('f \<Rightarrow> 'e) \<Rightarrow> ('f, 'w, 'a) action \<Rightarrow> ('e, 'w, 'a) action" where
  "act_map_err f m w = (case m w of (r, w') \<Rightarrow> (map_err f r, w'))"

fun act_each :: "('x \<Rightarrow> ('e, 'w, unit) action) \<Rightarrow> 'x list \<Rightarrow> ('e, 'w, unit) action" where
  "act_each f [] = act_return ()"
| "act_each f (x # xs) = act_then (f x) (act_each f xs)"

text \<open>One effect: ask the environment, record the call.\<close>

definition perform :: "effect \<Rightarrow> (effect list \<Rightarrow> 'a) \<Rightarrow> ('e, effect list, 'a) action" where
  "perform eff answer tr = (Inr (answer tr), tr @ [eff])"

definition run_output :: "os \<Rightarrow> command \<Rightarrow> ('e, effect list, string + process_output) action" where
  "run_output os c = perform (Output c) (\<lambda>tr. os_output os tr c)"

text \<open>An action on one part of a larger state.\<close>

definition act_on_snd :: "('e, 'b, 'r) action \<Rightarrow> ('e, 'a \<times> 'b, 'r) action" where
  "act_on_snd m = (\<lambda>(a, b). case m b of (r, b') \<Rightarrow> (r, (a, b')))"

lemma act_return_run [simp, act_simps]: "act_return a w = (Inr a, w)"
  by (simp add: act_return_def)

lemma act_fail_run [simp, act_simps]: "act_fail e w = (Inl e, w)"
  by (simp add: act_fail_def)

lemma act_lift_run [act_simps]: "act_lift f r w = (map_err f r, w)"
  by (simp add: act_lift_def)

lemma act_lift_cases [act_simps]:
  "act_lift f (Inl e) w = (Inl (f e), w)" "act_lift f (Inr a) w = (Inr a, w)"
  by (simp_all add: act_lift_def)

lemma perform_run [act_simps]: "perform eff answer tr = (Inr (answer tr), tr @ [eff])"
  by (simp add: perform_def)

lemma run_output_run [act_simps]:
  "run_output os c tr = (Inr (os_output os tr c), tr @ [Output c])"
  by (simp add: run_output_def perform_def)

lemma act_result_run [act_simps]: "act_result m w = (Inr (fst (m w)), snd (m w))"
  by (simp add: act_result_def split: prod.splits)

lemma act_map_err_run [act_simps]: "act_map_err f m w = (map_err f (fst (m w)), snd (m w))"
  by (simp add: act_map_err_def split: prod.splits)

lemma act_bind_ok [act_simps]: "m w = (Inr a, w') \<Longrightarrow> act_bind m f w = f a w'"
  by (simp add: act_bind_def)

lemma act_bind_err [act_simps]: "m w = (Inl e, w') \<Longrightarrow> act_bind m f w = (Inl e, w')"
  by (simp add: act_bind_def)

lemma act_then_ok [act_simps]: "m w = (Inr u, w') \<Longrightarrow> act_then m k w = k w'"
  by (simp add: act_then_def act_bind_def)

lemma act_then_err [act_simps]: "m w = (Inl e, w') \<Longrightarrow> act_then m k w = (Inl e, w')"
  by (simp add: act_then_def act_bind_def)

lemma act_bind_cases:
  assumes "act_bind m f w = (r, w'')"
  obtains (err) e where "m w = (Inl e, w'')" and "r = Inl e"
    | (ok) a w' where "m w = (Inr a, w')" and "f a w' = (r, w'')"
proof -
  obtain r1 w1 where m: "m w = (r1, w1)" by (cases "m w") auto
  show thesis
  proof (cases r1)
    case (Inl e)
    then show thesis using m assms err by (auto simp: act_bind_def)
  next
    case (Inr a)
    then show thesis using m assms ok by (auto simp: act_bind_def)
  qed
qed

lemma act_then_cases:
  assumes "act_then m k w = (r, w'')"
  obtains (err) e where "m w = (Inl e, w'')" and "r = Inl e"
    | (ok) w' where "m w = (Inr (), w')" and "k w' = (r, w'')"
  using assms unfolding act_then_def by (auto elim: act_bind_cases)

section \<open>What holds of every error of an action\<close>

text \<open>\<open>errors_satisfy P m\<close>: whenever \<open>m\<close> fails, its error has the property.\<close>

definition errors_satisfy :: "('e \<Rightarrow> bool) \<Rightarrow> ('e, 'w, 'a) action \<Rightarrow> bool" where
  "errors_satisfy P m \<longleftrightarrow> (\<forall>w e w'. m w = (Inl e, w') \<longrightarrow> P e)"

lemma errors_satisfyD: "errors_satisfy P m \<Longrightarrow> m w = (Inl e, w') \<Longrightarrow> P e"
  by (auto simp: errors_satisfy_def)

lemma errors_satisfy_return [intro, simp]: "errors_satisfy P (act_return a)"
  by (simp add: errors_satisfy_def)

lemma errors_satisfy_fail [simp]: "errors_satisfy P (act_fail e) \<longleftrightarrow> P e"
  by (simp add: errors_satisfy_def)

lemma errors_satisfy_perform [intro, simp]: "errors_satisfy P (perform eff answer)"
  by (simp add: errors_satisfy_def perform_def)

lemma errors_satisfy_run_output [intro, simp]: "errors_satisfy P (run_output os c)"
  by (simp add: run_output_def)

lemma errors_satisfy_lift [intro]: "(\<And>x. P (f x)) \<Longrightarrow> errors_satisfy P (act_lift f r)"
  by (cases r) (simp_all add: errors_satisfy_def act_lift_def)

lemma errors_satisfy_result [intro, simp]: "errors_satisfy P (act_result m)"
  by (simp add: errors_satisfy_def act_result_def split: prod.splits)

lemma errors_satisfy_bind [intro]:
  "errors_satisfy P m \<Longrightarrow> (\<And>a. errors_satisfy P (f a)) \<Longrightarrow> errors_satisfy P (act_bind m f)"
  unfolding errors_satisfy_def by (metis act_bind_cases sum.inject(1))

lemma errors_satisfy_then [intro]:
  "errors_satisfy P m \<Longrightarrow> errors_satisfy P k \<Longrightarrow> errors_satisfy P (act_then m k)"
  unfolding act_then_def by blast

lemma errors_satisfy_each [intro]:
  "(\<And>x. x \<in> set xs \<Longrightarrow> errors_satisfy P (f x)) \<Longrightarrow> errors_satisfy P (act_each f xs)"
  by (induction xs) auto

section \<open>Effects are only appended\<close>

definition appends :: "('e, effect list, 'a) action \<Rightarrow> bool" where
  "appends m \<longleftrightarrow> (\<forall>tr. prefix tr (snd (m tr)))"

lemma appendsD: "appends m \<Longrightarrow> m tr = (r, tr') \<Longrightarrow> prefix tr tr'"
  unfolding appends_def by (metis snd_conv)

lemma appends_basic [intro, simp]:
  "appends (act_return a)" "appends (act_fail e)" "appends (act_lift f r)"
  "appends (perform eff answer)" "appends (run_output os c)"
  by (simp_all add: appends_def act_lift_def perform_def run_output_def)

lemma appends_result [intro]: "appends m \<Longrightarrow> appends (act_result m)"
  by (simp add: appends_def act_result_run)

lemma appends_bind [intro]:
  assumes "appends m" and "\<And>a. appends (f a)"
  shows "appends (act_bind m f)"
  unfolding appends_def
proof
  fix tr
  show "prefix tr (snd (act_bind m f tr))"
  proof (cases "act_bind m f tr")
    case (Pair r tr'')
    then show ?thesis
      using assms by (auto elim!: act_bind_cases dest: appendsD intro: prefix_order.trans)
  qed
qed

lemma appends_then [intro]: "appends m \<Longrightarrow> appends k \<Longrightarrow> appends (act_then m k)"
  unfolding act_then_def by blast

lemma appends_each [intro]: "(\<And>x. x \<in> set xs \<Longrightarrow> appends (f x)) \<Longrightarrow> appends (act_each f xs)"
  by (induction xs) auto

text \<open>\<open>does_only E m\<close>: the only effects of \<open>m\<close> are those in \<open>E\<close>.\<close>

definition does_only :: "effect set \<Rightarrow> ('e, effect list, 'a) action \<Rightarrow> bool" where
  "does_only E m \<longleftrightarrow> (\<forall>tr. \<exists>es. snd (m tr) = tr @ es \<and> set es \<subseteq> E)"

lemma does_onlyD: "does_only E m \<Longrightarrow> m tr = (r, tr') \<Longrightarrow> \<exists>es. tr' = tr @ es \<and> set es \<subseteq> E"
  unfolding does_only_def by (metis snd_conv)

lemma does_only_basic [intro, simp]:
  "does_only E (act_return a)" "does_only E (act_fail e)" "does_only E (act_lift f r)"
  by (simp_all add: does_only_def act_lift_def)

lemma does_only_perform [intro]: "eff \<in> E \<Longrightarrow> does_only E (perform eff answer)"
  by (simp add: does_only_def perform_def)

lemma does_only_output [intro]: "Output c \<in> E \<Longrightarrow> does_only E (run_output os c)"
  unfolding run_output_def by (rule does_only_perform)

lemma does_only_bind [intro]:
  assumes "does_only E m" and "\<And>a. does_only E (f a)"
  shows "does_only E (act_bind m f)"
  unfolding does_only_def
proof
  fix tr
  obtain r es where m: "m tr = (r, tr @ es)" and es: "set es \<subseteq> E"
    using assms(1) unfolding does_only_def by (metis prod.collapse)
  show "\<exists>es. snd (act_bind m f tr) = tr @ es \<and> set es \<subseteq> E"
  proof (cases r)
    case (Inl e)
    with m es show ?thesis by (simp add: act_bind_def)
  next
    case (Inr a)
    obtain es' where "snd (f a (tr @ es)) = (tr @ es) @ es'" and "set es' \<subseteq> E"
      using assms(2) unfolding does_only_def by blast
    with m es Inr show ?thesis by (intro exI [of _ "es @ es'"]) (simp add: act_bind_def)
  qed
qed

lemma does_only_then [intro]: "does_only E m \<Longrightarrow> does_only E k \<Longrightarrow> does_only E (act_then m k)"
  unfolding act_then_def by blast

lemma does_only_each [intro]: "(\<And>x. x \<in> set xs \<Longrightarrow> does_only E (f x)) \<Longrightarrow> does_only E (act_each f xs)"
  by (induction xs) auto

text \<open>
  If every step of a loop succeeds and records a fixed list of effects, so does the loop.
\<close>

lemma act_each_ok:
  assumes "\<And>x tr. x \<in> set xs \<Longrightarrow> f x tr = (Inr (), tr @ g x)"
  shows "act_each f xs tr = (Inr (), tr @ concat (map g xs))"
  using assms by (induction xs arbitrary: tr) (auto simp: act_then_ok)

end
