(* ===== verification/Lifecycle_Manager.thy ===== *)
theory Lifecycle_Manager
  imports Os_Effects
begin

text \<open>
  What the adapters' lifecycle managers have in common: the health record of
  \<open>adapter/traits.rs\<close>, the pause between stop and start, and the contract \<open>lifecycle_manager\<close>
  that the ION and Hardy managers fulfil. The facts a caller of \<open>restart\<close> needs are proved once
  in the locale.
\<close>

record health_status =
  hs_running :: bool
  hs_uptime_secs :: "u64 option"
  hs_message :: "string option"

text \<open>The programs started, in order: what a trace of effects says about child processes.\<close>

fun spawned_program :: "effect \<Rightarrow> string option" where
  "spawned_program (Spawn c) = Some (cmd_program c)"
| "spawned_program (Output c) = Some (cmd_program c)"
| "spawned_program _ = None"

definition spawned :: "effect list \<Rightarrow> string list" where
  "spawned tr = List.map_filter spawned_program tr"

lemma spawned_simps [simp]:
  "spawned [] = []" "spawned (tr @ us) = spawned tr @ spawned us"
  "spawned (e # tr) = (case spawned_program e of None \<Rightarrow> spawned tr | Some p \<Rightarrow> p # spawned tr)"
  by (simp_all add: spawned_def List.map_filter_def split: option.split)

definition pause_millis :: "nat \<Rightarrow> ('e, 's \<times> effect list, unit) action" where
  "pause_millis n = act_on_snd (perform (Sleep_millis n) (\<lambda>_. ()))"

text \<open>\<open>restart\<close> in both managers: stop, whatever it answers, pause, start.\<close>

definition restart_with ::
  "('e, 's \<times> effect list, unit) action \<Rightarrow> (string \<Rightarrow> ('e, 's \<times> effect list, unit) action)
     \<Rightarrow> string \<Rightarrow> ('e, 's \<times> effect list, unit) action" where
  "restart_with stop start config_dir =
     act_bind (act_result stop) (\<lambda>_. act_then (pause_millis 500) (start config_dir))"

lemma act_on_snd_run [act_simps]: "act_on_snd m (a, b) = (fst (m b), (a, snd (m b)))"
  by (simp add: act_on_snd_def split: prod.splits)

lemma errors_satisfy_on_snd [intro]: "errors_satisfy P m \<Longrightarrow> errors_satisfy P (act_on_snd m)"
  by (auto simp: errors_satisfy_def act_on_snd_def split: prod.splits)

lemma restart_with_run:
  "restart_with stop start d w =
     start d (fst (snd (stop w)), snd (snd (stop w)) @ [Sleep_millis 500])"
  by (cases "snd (stop w)")
    (simp add: restart_with_def pause_millis_def act_bind_def act_then_def act_result_run
      act_on_snd_run perform_run)

definition lifecycle_error :: "string \<Rightarrow> string \<Rightarrow> abstraction_error \<Rightarrow> bool" where
  "lifecycle_error backend operation e \<longleftrightarrow>
     ae_category e = LifecycleError \<and> ec_operation (ae_context e) = operation
     \<and> ec_backend (ae_context e) = Some backend"

locale lifecycle_manager =
  fixes backend :: string
    and start :: "string \<Rightarrow> (abstraction_error, 's \<times> effect list, unit) action"
    and stop :: "(abstraction_error, 's \<times> effect list, unit) action"
    and restart :: "string \<Rightarrow> (abstraction_error, 's \<times> effect list, unit) action"
    and health :: "(abstraction_error, 's \<times> effect list, health_status) action"
  assumes start_errors: "errors_satisfy (lifecycle_error backend ''start'') (start d)"
    and stop_errors: "errors_satisfy (lifecycle_error backend ''stop'') stop"
    and restart_is: "restart d = restart_with stop start d"
    and stop_keeps_state: "fst (snd (stop w)) = fst w"
    and stop_appends: "prefix (snd w) (snd (snd (stop w)))"
    and start_appends: "prefix (snd w) (snd (snd (start d w)))"
    and health_total: "\<exists>h w'. health w = (Inr h, w')"
begin

text \<open>A restart fails only as a start fails, and its errors say so.\<close>

lemma restart_errors: "errors_satisfy (lifecycle_error backend ''start'') (restart d)"
  using start_errors by (auto simp: errors_satisfy_def restart_is restart_with_run)

text \<open>
  The result of a restart is that of a start after the effects of stop and the pause, even if
  the stop itself failed.
\<close>

lemma restart_after_stop:
  "restart d (s, tr) = start d (s, snd (snd (stop (s, tr))) @ [Sleep_millis 500])"
  using stop_keeps_state [of "(s, tr)"] by (simp add: restart_is restart_with_run)

lemma restart_stops_first:
  "prefix (snd (snd (stop (s, tr))) @ [Sleep_millis 500]) (snd (snd (restart d (s, tr))))"
  using start_appends [of "(s, snd (snd (stop (s, tr))) @ [Sleep_millis 500])" d]
  by (simp add: restart_after_stop)

end

end
