(* ===== verification/Dtn_Model.thy ===== *)
theory Dtn_Model
  imports Rust_Text
begin

text \<open>
  The canonical configuration model of \<open>src/radiant-dtn-abstraction/src/model/\<close>: nodes,
  neighbours and their convergence layer links, the contact plan, routing and the top-level
  network configuration. Record fields carry a short prefix for their struct. The opaque values
  of \<open>backend_options\<close> (a third-party YAML type) are the type parameter \<open>'y\<close>.
\<close>

section \<open>Nodes and endpoints\<close>

datatype endpoint_id = Ipn u64 u64 | Dtn string string

record service_demux =
  sd_service_number :: u64
  sd_description :: "string option"

record node_definition =
  nd_node_number :: u64
  nd_endpoint_id :: "endpoint_id option"
  nd_callsign_eid :: "endpoint_id option"
  nd_name :: string
  nd_services :: "service_demux list"

section \<open>Neighbours and links\<close>

text \<open>
  The fields of each link variant, in the order of the source:
  \<open>LtpUdp id local_engine_id remote_engine_id remote_host remote_port local_port mtu segment_rate\<close>,
  \<open>TcpCl id remote_host remote_port local_port keepalive_interval_secs\<close>,
  \<open>Kiss id tnc_device baud_rate local_engine_id remote_engine_id frame_size\<close>,
  \<open>Udp id remote_host remote_port local_port\<close>.
\<close>

datatype convergence_layer_link =
    LtpUdp string u64 u64 string u16 u16 "u32 option" "u32 option"
  | TcpCl string string u16 "u16 option" "u32 option"
  | Kiss string string u32 u64 u64 "u32 option"
  | Udp string string u16 "u16 option"

record neighbor =
  nb_node_number :: u64
  nb_name :: "string option"
  nb_links :: "convergence_layer_link list"
  nb_rate_limit_bps :: "u64 option"

datatype convergence_layer_type = Type_LtpUdp | Type_TcpCl | Type_Kiss | Type_Udp

section \<open>Contact plan\<close>

record contact =
  ct_source_node :: u64
  ct_dest_node :: u64
  ct_start_time :: i64
  ct_end_time :: i64
  ct_rate_bps :: u64
  ct_confidence :: f64

record range =
  rg_source_node :: u64
  rg_dest_node :: u64
  rg_owlt_secs :: f64

record contact_plan =
  cp_contacts :: "contact list"
  cp_ranges :: "range list"

definition default_confidence :: f64 where
  "default_confidence = F64_finite 1 0"

section \<open>Routing\<close>

datatype routing_strategy = Cgr | Static | Default

record static_route =
  sr_destination_node :: u64
  sr_next_hop_node :: u64

record routing_config =
  rc_strategy :: routing_strategy
  rc_static_routes :: "static_route list"

section \<open>The network configuration\<close>

record security_config =
  sec_enabled :: bool

record storage_config =
  st_path :: string
  st_max_bytes :: "u64 option"

record 'y network_configuration =
  nc_version :: string
  nc_backend :: string
  nc_local_node :: node_definition
  nc_neighbors :: "neighbor list"
  nc_contact_plan :: contact_plan
  nc_routing :: routing_config
  nc_security :: "security_config option"
  nc_storage :: "storage_config option"
  nc_backend_options :: "string \<rightharpoonup> 'y"

section \<open>Predicates on links\<close>

text \<open>The patterns the generators match on.\<close>

fun is_ltp_udp :: "convergence_layer_link \<Rightarrow> bool" where
  "is_ltp_udp (LtpUdp _ _ _ _ _ _ _ _) = True"
| "is_ltp_udp _ = False"

fun is_tcpcl :: "convergence_layer_link \<Rightarrow> bool" where
  "is_tcpcl (TcpCl _ _ _ _ _) = True"
| "is_tcpcl _ = False"

text \<open>All links of a configuration, in the order the generators walk them.\<close>

definition all_links :: "neighbor list \<Rightarrow> convergence_layer_link list" where
  "all_links ns = concat (map nb_links ns)"

lemma in_all_links: "l \<in> set (all_links ns) \<longleftrightarrow> (\<exists>n \<in> set ns. l \<in> set (nb_links n))"
  by (auto simp: all_links_def)

lemma all_links_simps [simp]:
  "all_links [] = []" "all_links (n # ns) = nb_links n @ all_links ns"
  by (simp_all add: all_links_def)

end
