(* ===== verification/Capability.thy ===== *)
theory Capability
  imports Dtn_Model Dtn_Error
begin

text \<open>
  Capability sets (\<open>adapter/capability.rs\<close>) and the checks against them
  (\<open>adapter/capability_check.rs\<close>). The locale \<open>hot_reconfig_backend\<close> states what the declared
  capabilities promise about a backend's run-time operations; the two backends interpret it.
\<close>

section \<open>Capability sets\<close>

record hot_reconfig_capabilities =
  hc_add_contact :: bool
  hc_remove_contact :: bool
  hc_add_neighbor :: bool
  hc_remove_neighbor :: bool
  hc_enable_link :: bool
  hc_disable_link :: bool

record security_capabilities =
  sc_bpsec_bib :: bool
  sc_bpsec_bcb :: bool

record capability_set =
  cap_hot_reconfig :: hot_reconfig_capabilities
  cap_convergence_layers :: "convergence_layer_type list"
  cap_routing_strategies :: "routing_strategy list"
  cap_security :: security_capabilities

definition hot_reconfig_all :: hot_reconfig_capabilities where
  "hot_reconfig_all =
     \<lparr>hc_add_contact = True, hc_remove_contact = True, hc_add_neighbor = True,
      hc_remove_neighbor = True, hc_enable_link = True, hc_disable_link = True\<rparr>"

definition hot_reconfig_none :: hot_reconfig_capabilities where
  "hot_reconfig_none =
     \<lparr>hc_add_contact = False, hc_remove_contact = False, hc_add_neighbor = False,
      hc_remove_neighbor = False, hc_enable_link = False, hc_disable_link = False\<rparr>"

definition security_none :: security_capabilities where
  "security_none = \<lparr>sc_bpsec_bib = False, sc_bpsec_bcb = False\<rparr>"

definition security_full :: security_capabilities where
  "security_full = \<lparr>sc_bpsec_bib = True, sc_bpsec_bcb = True\<rparr>"

section \<open>Checks\<close>

datatype hot_reconfig_op =
    AddContact | RemoveContact | AddNeighbor | RemoveNeighbor | EnableLink | DisableLink

fun operation_name :: "hot_reconfig_op \<Rightarrow> string" where
  "operation_name AddContact = ''add_contact''"
| "operation_name RemoveContact = ''remove_contact''"
| "operation_name AddNeighbor = ''add_neighbor''"
| "operation_name RemoveNeighbor = ''remove_neighbor''"
| "operation_name EnableLink = ''enable_link''"
| "operation_name DisableLink = ''disable_link''"

fun supports :: "capability_set \<Rightarrow> hot_reconfig_op \<Rightarrow> bool" where
  "supports caps AddContact = hc_add_contact (cap_hot_reconfig caps)"
| "supports caps RemoveContact = hc_remove_contact (cap_hot_reconfig caps)"
| "supports caps AddNeighbor = hc_add_neighbor (cap_hot_reconfig caps)"
| "supports caps RemoveNeighbor = hc_remove_neighbor (cap_hot_reconfig caps)"
| "supports caps EnableLink = hc_enable_link (cap_hot_reconfig caps)"
| "supports caps DisableLink = hc_disable_link (cap_hot_reconfig caps)"

definition check_hot_reconfig_capability ::
  "capability_set \<Rightarrow> hot_reconfig_op \<Rightarrow> string \<Rightarrow> abstraction_error + unit" where
  "check_hot_reconfig_capability caps op backend_name =
     (if supports caps op then Inr ()
      else Inl (with_backend backend_name (new_error UnsupportedOperation
             (''Operation '' @ [CHR 0x27] @ operation_name op @ [CHR 0x27]
              @ '' is not supported by backend '' @ [CHR 0x27] @ backend_name @ [CHR 0x27])
             (operation_name op))))"

text \<open>The derived \<open>Debug\<close> names of the two enums.\<close>

fun debug_cl_type :: "convergence_layer_type \<Rightarrow> string" where
  "debug_cl_type Type_LtpUdp = ''LtpUdp''"
| "debug_cl_type Type_TcpCl = ''TcpCl''"
| "debug_cl_type Type_Kiss = ''Kiss''"
| "debug_cl_type Type_Udp = ''Udp''"

fun debug_strategy :: "routing_strategy \<Rightarrow> string" where
  "debug_strategy Cgr = ''Cgr''"
| "debug_strategy Static = ''Static''"
| "debug_strategy Default = ''Default''"

definition check_convergence_layer_support ::
  "capability_set \<Rightarrow> convergence_layer_type \<Rightarrow> string \<Rightarrow> abstraction_error + unit" where
  "check_convergence_layer_support caps cl backend_name =
     (if cl \<in> set (cap_convergence_layers caps) then Inr ()
      else Inl (with_backend backend_name (new_error UnsupportedOperation
             (''Convergence layer '' @ [CHR 0x27] @ debug_cl_type cl @ [CHR 0x27]
              @ '' is not supported by backend '' @ [CHR 0x27] @ backend_name @ [CHR 0x27])
             ''check_convergence_layer'')))"

definition check_routing_strategy_support ::
  "capability_set \<Rightarrow> routing_strategy \<Rightarrow> string \<Rightarrow> abstraction_error + unit" where
  "check_routing_strategy_support caps strategy backend_name =
     (if strategy \<in> set (cap_routing_strategies caps) then Inr ()
      else Inl (with_backend backend_name (new_error UnsupportedOperation
             (''Routing strategy '' @ [CHR 0x27] @ debug_strategy strategy @ [CHR 0x27]
              @ '' is not supported by backend '' @ [CHR 0x27] @ backend_name @ [CHR 0x27])
             ''check_routing_strategy'')))"

lemma operation_name_inj [simp]: "operation_name a = operation_name b \<longleftrightarrow> a = b"
  by (cases a; cases b) simp_all

lemma check_hot_reconfig_ok: "check_hot_reconfig_capability caps op b = Inr () \<longleftrightarrow> supports caps op"
  by (simp add: check_hot_reconfig_capability_def)

lemma check_hot_reconfig_err:
  "check_hot_reconfig_capability caps op b = Inl e \<Longrightarrow>
   \<not> supports caps op \<and> ae_category e = UnsupportedOperation
   \<and> ec_operation (ae_context e) = operation_name op \<and> ec_backend (ae_context e) = Some b"
  by (auto simp: check_hot_reconfig_capability_def split: if_splits)

section \<open>Requests to a running engine\<close>

text \<open>The argument records of the trait (\<open>adapter/traits.rs\<close>).\<close>

record contact_ref =
  cr_source_node :: u64
  cr_dest_node :: u64
  cr_start_time :: i64

record node_ref =
  nr_node_number :: u64

text \<open>One hot reconfiguration call with its argument.\<close>

datatype hot_request =
    Req_add_contact contact | Req_remove_contact contact_ref
  | Req_add_neighbor neighbor | Req_remove_neighbor node_ref
  | Req_enable_link string | Req_disable_link string

fun request_op :: "hot_request \<Rightarrow> hot_reconfig_op" where
  "request_op (Req_add_contact _) = AddContact"
| "request_op (Req_remove_contact _) = RemoveContact"
| "request_op (Req_add_neighbor _) = AddNeighbor"
| "request_op (Req_remove_neighbor _) = RemoveNeighbor"
| "request_op (Req_enable_link _) = EnableLink"
| "request_op (Req_disable_link _) = DisableLink"

text \<open>
  The contract between declared capabilities and behaviour, over any state \<open>'w\<close> of the world:
  an unsupported request is refused as such without touching the world; a supported one is
  never refused as unsupported; every error names the requested operation and the backend.
\<close>

locale hot_reconfig_backend =
  fixes caps :: capability_set
    and backend :: string
    and run :: "hot_request \<Rightarrow> 'w \<Rightarrow> (abstraction_error + unit) \<times> 'w"
  assumes unsupported_refused:
      "\<not> supports caps (request_op req) \<Longrightarrow>
       \<exists>e. run req w = (Inl e, w) \<and> ae_category e = UnsupportedOperation"
    and supported_not_refused:
      "supports caps (request_op req) \<Longrightarrow> run req w = (Inl e, w') \<Longrightarrow>
       ae_category e \<noteq> UnsupportedOperation"
    and error_context:
      "run req w = (Inl e, w') \<Longrightarrow>
       ec_operation (ae_context e) = operation_name (request_op req)
       \<and> ec_backend (ae_context e) = Some backend"
begin

text \<open>The static check predicts the refusal, and agrees with it in category and context.\<close>

lemma check_predicts_refusal:
  "(\<exists>e w'. run req w = (Inl e, w') \<and> ae_category e = UnsupportedOperation) \<longleftrightarrow>
   \<not> is_ok (check_hot_reconfig_capability caps (request_op req) backend)"
proof (cases "supports caps (request_op req)")
  case True
  then have "is_ok (check_hot_reconfig_capability caps (request_op req) backend)"
    by (simp add: check_hot_reconfig_capability_def)
  then show ?thesis using supported_not_refused [OF True] by blast
next
  case False
  then have "\<not> is_ok (check_hot_reconfig_capability caps (request_op req) backend)"
    by (simp add: check_hot_reconfig_capability_def)
  then show ?thesis using unsupported_refused [OF False] by blast
qed

lemma refusal_changes_nothing:
  assumes "run req w = (Inl e, w')" and "ae_category e = UnsupportedOperation"
  shows "w' = w"
  using assms supported_not_refused unsupported_refused by (metis prod.inject)

end

end
