(* ===== verification/Ion_Reconfig.thy ===== *)
theory Ion_Reconfig
  imports Capability Os_Effects
begin

text \<open>
  Hot reconfiguration of a running ION node, \<open>adapter/ion/hot_reconfig.rs\<close>: commands piped to
  the admin tools. The lemmas give the exact sequence of tool invocations of each operation when
  the tools succeed, the errors when they do not, and the interpretation of the capability
  contract for ION.
\<close>

record ion_hot_reconfig =
  ihr_bin_dir :: "string option"

definition ion_bin_path :: "string option \<Rightarrow> string \<Rightarrow> string" where
  "ion_bin_path bin_dir name = (case bin_dir of Some dir \<Rightarrow> path_join dir name | None \<Rightarrow> name)"

text \<open>\<open>{:?}\<close> of an exit code.\<close>

fun debug_code :: "int option \<Rightarrow> string" where
  "debug_code None = ''None''"
| "debug_code (Some n) = ''Some('' @ show_int n @ '')''"

text \<open>The tail of a failure message: the standard output, when it says anything.\<close>

definition stdout_note :: "string \<Rightarrow> string" where
  "stdout_note out = (if trim out \<noteq> [] then '' | stdout: '' @ trim out else [])"

definition ion_runtime_error :: "string \<Rightarrow> string \<Rightarrow> abstraction_error" where
  "ion_runtime_error msg operation = with_backend ''ion-dtn'' (new_error RuntimeError msg operation)"

definition admin_failed :: "string \<Rightarrow> string \<Rightarrow> process_output \<Rightarrow> abstraction_error" where
  "admin_failed tool_name operation p =
     with_backend_code (''exit_code:'' @ show_int (unwrap_or (-1) (po_code p)))
       (ion_runtime_error (tool_name @ '' command failed (exit code '' @ debug_code (po_code p) @ ''): ''
          @ trim (po_stderr p) @ stdout_note (po_stdout p)) operation)"

definition pipe_to_admin ::
  "os \<Rightarrow> ion_hot_reconfig \<Rightarrow> string \<Rightarrow> string \<Rightarrow> string \<Rightarrow> (abstraction_error, effect list, unit) action"
  where
  "pipe_to_admin os self tool_name cmd operation =
     (let c = \<lparr>cmd_program = ion_bin_path (ihr_bin_dir self) tool_name, cmd_args = [],
               cmd_stdin = Stdin_piped, cmd_dir = None\<rparr>
      in act_bind (perform (Spawn c) (\<lambda>tr. os_spawn os tr c)) (\<lambda>r.
         act_then (act_lift (\<lambda>e. ion_runtime_error
             (''Failed to spawn '' @ tool_name @ '': '' @ e) operation) r)
        (act_bind (perform (Write_stdin cmd) (\<lambda>tr. os_write_stdin os tr cmd)) (\<lambda>r.
         act_then (act_lift (\<lambda>e. ion_runtime_error
             (''Failed to write to '' @ tool_name @ '' stdin: '' @ e) operation) r)
        (act_bind (perform Wait (\<lambda>tr. os_wait os tr)) (\<lambda>r.
         act_bind (act_lift (\<lambda>e. ion_runtime_error
             (''Failed to wait for '' @ tool_name @ '': '' @ e) operation) r) (\<lambda>output.
         if \<not> po_success output then act_fail (admin_failed tool_name operation output)
         else act_return ())))))))"

definition admin_quit :: "string" where
  "admin_quit = [LF] @ ''q'' @ [LF]"

definition ion_add_contact ::
  "os \<Rightarrow> ion_hot_reconfig \<Rightarrow> contact \<Rightarrow> (abstraction_error, effect list, unit) action" where
  "ion_add_contact os self t =
     pipe_to_admin os self ''ionadmin''
       (''a contact +'' @ show_i64 (ct_start_time t) @ '' +'' @ show_i64 (ct_end_time t) @ '' ''
        @ show_word (ct_source_node t) @ '' '' @ show_word (ct_dest_node t) @ '' ''
        @ show_word (ct_rate_bps t) @ admin_quit) ''add_contact''"

definition ion_remove_contact ::
  "os \<Rightarrow> ion_hot_reconfig \<Rightarrow> contact_ref \<Rightarrow> (abstraction_error, effect list, unit) action" where
  "ion_remove_contact os self t =
     pipe_to_admin os self ''ionadmin''
       (''d contact +'' @ show_i64 (cr_start_time t) @ '' '' @ show_word (cr_source_node t) @ '' ''
        @ show_word (cr_dest_node t) @ admin_quit) ''remove_contact''"

fun extract_engine_id :: "convergence_layer_link \<Rightarrow> u64 option" where
  "extract_engine_id (LtpUdp _ _ remote_engine_id _ _ _ _ _) = Some remote_engine_id"
| "extract_engine_id (Kiss _ _ _ _ remote_engine_id _) = Some remote_engine_id"
| "extract_engine_id _ = None"

text \<open>The body of the loop over the links, and the plan entry after it.\<close>

definition ion_add_outduct ::
  "os \<Rightarrow> ion_hot_reconfig \<Rightarrow> convergence_layer_link \<Rightarrow> (abstraction_error, effect list, unit) action"
  where
  "ion_add_outduct os self link =
     (case extract_engine_id link of
        Some engine_id \<Rightarrow> pipe_to_admin os self ''bpadmin''
          (''a outduct ltp '' @ show_word engine_id @ '' ltpclo'' @ admin_quit) ''add_neighbor''
      | None \<Rightarrow> act_return ())"

definition ion_add_plan ::
  "os \<Rightarrow> ion_hot_reconfig \<Rightarrow> neighbor \<Rightarrow> (abstraction_error, effect list, unit) action" where
  "ion_add_plan os self n =
     (case find_map extract_engine_id (nb_links n) of
        Some engine_id \<Rightarrow> pipe_to_admin os self ''ipnadmin''
          (''a plan '' @ show_word (nb_node_number n) @ '' ltp/'' @ show_word engine_id @ admin_quit)
          ''add_neighbor''
      | None \<Rightarrow> act_return ())"

definition ion_add_neighbor ::
  "os \<Rightarrow> ion_hot_reconfig \<Rightarrow> neighbor \<Rightarrow> (abstraction_error, effect list, unit) action" where
  "ion_add_neighbor os self n =
     act_then (act_each (ion_add_outduct os self) (nb_links n)) (ion_add_plan os self n)"

definition ion_remove_neighbor ::
  "os \<Rightarrow> ion_hot_reconfig \<Rightarrow> node_ref \<Rightarrow> (abstraction_error, effect list, unit) action" where
  "ion_remove_neighbor os self r =
     act_then
       (pipe_to_admin os self ''ipnadmin''
          (''d plan '' @ show_word (nr_node_number r) @ admin_quit) ''remove_neighbor'')
       (pipe_to_admin os self ''bpadmin''
          (''d outduct ltp '' @ show_word (nr_node_number r) @ admin_quit) ''remove_neighbor'')"

definition ion_enable_link ::
  "os \<Rightarrow> ion_hot_reconfig \<Rightarrow> string \<Rightarrow> (abstraction_error, effect list, unit) action" where
  "ion_enable_link os self link_id =
     pipe_to_admin os self ''bpadmin'' (''r start ltp/'' @ link_id @ admin_quit) ''enable_link''"

definition ion_disable_link ::
  "os \<Rightarrow> ion_hot_reconfig \<Rightarrow> string \<Rightarrow> (abstraction_error, effect list, unit) action" where
  "ion_disable_link os self link_id =
     pipe_to_admin os self ''bpadmin'' (''r stop ltp/'' @ link_id @ admin_quit) ''disable_link''"

definition ion_capabilities :: capability_set where
  "ion_capabilities =
     \<lparr>cap_hot_reconfig = hot_reconfig_all,
      cap_convergence_layers = [Type_LtpUdp, Type_Kiss, Type_TcpCl, Type_Udp],
      cap_routing_strategies = [Cgr, Static, Default],
      cap_security = security_none\<rparr>"

fun ion_hot_run ::
  "os \<Rightarrow> ion_hot_reconfig \<Rightarrow> hot_request \<Rightarrow> (abstraction_error, effect list, unit) action" where
  "ion_hot_run os self (Req_add_contact t) = ion_add_contact os self t"
| "ion_hot_run os self (Req_remove_contact t) = ion_remove_contact os self t"
| "ion_hot_run os self (Req_add_neighbor n) = ion_add_neighbor os self n"
| "ion_hot_run os self (Req_remove_neighbor r) = ion_remove_neighbor os self r"
| "ion_hot_run os self (Req_enable_link l) = ion_enable_link os self l"
| "ion_hot_run os self (Req_disable_link l) = ion_disable_link os self l"

section \<open>One piped command\<close>

text \<open>The three effects of a successful call: start the tool, send the text, wait.\<close>

definition admin_session :: "ion_hot_reconfig \<Rightarrow> string \<Rightarrow> string \<Rightarrow> effect list" where
  "admin_session self tool cmd =
     [Spawn \<lparr>cmd_program = ion_bin_path (ihr_bin_dir self) tool, cmd_args = [],
             cmd_stdin = Stdin_piped, cmd_dir = None\<rparr>,
      Write_stdin cmd, Wait]"

text \<open>The environment lets every admin tool start, read its input and exit with code 0.\<close>

definition admin_tools_work :: "os \<Rightarrow> bool" where
  "admin_tools_work os \<longleftrightarrow>
     (\<forall>tr c. os_spawn os tr c = Inr ()) \<and> (\<forall>tr s. os_write_stdin os tr s = Inr ())
     \<and> (\<forall>tr. \<exists>p. os_wait os tr = Inr p \<and> po_success p)"

lemma pipe_to_admin_ok:
  assumes "admin_tools_work os"
  shows "pipe_to_admin os self tool cmd op tr = (Inr (), tr @ admin_session self tool cmd)"
proof -
  let ?c = "\<lparr>cmd_program = ion_bin_path (ihr_bin_dir self) tool, cmd_args = [],
             cmd_stdin = Stdin_piped, cmd_dir = None\<rparr>"
  have "os_spawn os tr ?c = Inr ()" and "os_write_stdin os (tr @ [Spawn ?c]) cmd = Inr ()"
    using assms by (simp_all add: admin_tools_work_def)
  moreover obtain p where "os_wait os (tr @ [Spawn ?c, Write_stdin cmd]) = Inr p" and "po_success p"
    using assms unfolding admin_tools_work_def by blast
  ultimately show ?thesis
    by (simp add: pipe_to_admin_def admin_session_def Let_def act_bind_def act_then_def
        perform_run act_lift_run)
qed

definition ion_hot_error :: "string \<Rightarrow> abstraction_error \<Rightarrow> bool" where
  "ion_hot_error op e \<longleftrightarrow>
     ae_category e = RuntimeError \<and> ec_operation (ae_context e) = op
     \<and> ec_backend (ae_context e) = Some ''ion-dtn''"

lemma pipe_to_admin_errors: "errors_satisfy (ion_hot_error op) (pipe_to_admin os self tool cmd op)"
  unfolding pipe_to_admin_def Let_def
  by (intro errors_satisfy_bind errors_satisfy_then errors_satisfy_perform errors_satisfy_lift)
    (auto simp: ion_hot_error_def ion_runtime_error_def admin_failed_def)

lemma pipe_to_admin_appends: "appends (pipe_to_admin os self tool cmd op)"
  unfolding pipe_to_admin_def Let_def
  by (intro appends_bind appends_then) auto

lemma ion_hot_run_errors:
  "errors_satisfy (ion_hot_error (operation_name (request_op req))) (ion_hot_run os self req)"
proof (cases req)
  case (Req_add_neighbor n)
  have outduct: "errors_satisfy (ion_hot_error ''add_neighbor'') (ion_add_outduct os self link)" for link
    by (cases "extract_engine_id link") (simp_all add: ion_add_outduct_def pipe_to_admin_errors)
  have plan: "errors_satisfy (ion_hot_error ''add_neighbor'') (ion_add_plan os self n)"
    by (cases "find_map extract_engine_id (nb_links n)")
      (simp_all add: ion_add_plan_def pipe_to_admin_errors)
  show ?thesis
    unfolding Req_add_neighbor ion_hot_run.simps request_op.simps operation_name.simps ion_add_neighbor_def
    by (intro errors_satisfy_then errors_satisfy_each outduct plan)
next
  case (Req_remove_neighbor r)
  then show ?thesis
    by (simp add: ion_remove_neighbor_def errors_satisfy_then pipe_to_admin_errors)
qed (simp_all add: ion_add_contact_def ion_remove_contact_def ion_enable_link_def
      ion_disable_link_def pipe_to_admin_errors)

lemma ion_supports_all: "supports ion_capabilities op"
  by (cases op) (simp_all add: ion_capabilities_def hot_reconfig_all_def)

lemma ion_hot_errorD:
  "ion_hot_run os self req w = (Inl e, w') \<Longrightarrow>
   ion_hot_error (operation_name (request_op req)) e"
  using ion_hot_run_errors by (rule errors_satisfyD)

text \<open>ION fulfils the capability contract: it supports everything and never refuses.\<close>

interpretation ion_hot: hot_reconfig_backend ion_capabilities "''ion-dtn''" "ion_hot_run os self"
  for os self
proof (unfold_locales, goal_cases)
  case (1 req w)
  then show ?case by (simp only: ion_supports_all not_True_eq_False)
next
  case (2 req w e w')
  from ion_hot_errorD [OF this(2)] have "ae_category e = RuntimeError"
    unfolding ion_hot_error_def by (rule conjunct1)
  then show ?case by simp
next
  case (3 req w e w')
  from ion_hot_errorD [OF this] show ?case unfolding ion_hot_error_def by (rule conjunct2)
qed

section \<open>What each operation does\<close>

definition outduct_session :: "ion_hot_reconfig \<Rightarrow> u64 \<Rightarrow> effect list" where
  "outduct_session self engine =
     admin_session self ''bpadmin'' (''a outduct ltp '' @ show_word engine @ '' ltpclo'' @ admin_quit)"

definition plan_session :: "ion_hot_reconfig \<Rightarrow> u64 \<Rightarrow> u64 \<Rightarrow> effect list" where
  "plan_session self node engine =
     admin_session self ''ipnadmin''
       (''a plan '' @ show_word node @ '' ltp/'' @ show_word engine @ admin_quit)"

text \<open>The engine ids of the LTP-framed links of a neighbour, in order.\<close>

definition ltp_engines :: "neighbor \<Rightarrow> u64 list" where
  "ltp_engines n = List.map_filter extract_engine_id (nb_links n)"

lemma find_map_map_filter:
  "find_map f xs = (case List.map_filter f xs of [] \<Rightarrow> None | y # _ \<Rightarrow> Some y)"
  by (induction xs) (auto simp: List.map_filter_simps split: option.splits)

lemma ion_add_outduct_ok:
  "admin_tools_work os \<Longrightarrow> ion_add_outduct os self link tr =
     (Inr (), tr @ (case extract_engine_id link of None \<Rightarrow> [] | Some e \<Rightarrow> outduct_session self e))"
  by (simp add: ion_add_outduct_def outduct_session_def pipe_to_admin_ok split: option.split)

lemma concat_map_filter:
  "concat (map (\<lambda>x. case f x of None \<Rightarrow> [] | Some y \<Rightarrow> g y) xs) = concat (map g (List.map_filter f xs))"
  by (induction xs) (auto simp: List.map_filter_simps split: option.splits)

lemma ion_add_plan_ok:
  "admin_tools_work os \<Longrightarrow> ion_add_plan os self n tr =
     (Inr (), tr @ (case ltp_engines n of [] \<Rightarrow> [] | e # _ \<Rightarrow> plan_session self (nb_node_number n) e))"
  by (simp add: ion_add_plan_def plan_session_def find_map_map_filter ltp_engines_def pipe_to_admin_ok
      split: list.split)

text \<open>
  The engines that a neighbour is to be reached through: one for every link that carries LTP, be it
  over UDP or over a KISS modem, and none for a TCP or UDP link.
\<close>

fun link_engines :: "convergence_layer_link \<Rightarrow> u64 list" where
  "link_engines (LtpUdp link_id local_engine remote_engine host rport lport mtu sr) = [remote_engine]"
| "link_engines (Kiss link_id device baud local_engine remote_engine frame) = [remote_engine]"
| "link_engines (TcpCl link_id host rport lport keepalive) = []"
| "link_engines (Udp link_id host rport lport) = []"

lemma ltp_engines_links: "ltp_engines n = concat (map link_engines (nb_links n))"
proof -
  have one: "List.map_filter extract_engine_id (l # ls) = link_engines l @ List.map_filter extract_engine_id ls" for l ls
    by (cases l) (simp_all add: List.map_filter_simps)
  have "List.map_filter extract_engine_id ls = concat (map link_engines ls)" for ls
    by (induction ls) (simp add: List.map_filter_simps, simp only: one list.map concat.simps)
  then show ?thesis by (simp add: ltp_engines_def)
qed

text \<open>
  C34: with working admin tools, adding a neighbour runs bpadmin once for every LTP or KISS link, in
  the order of the links, with the outduct of the link's remote engine; then ipnadmin once, with a plan
  through the first of these engines; and reports success. For a neighbour with TCP or UDP links
  only, it runs no tool at all and still reports success.
\<close>

theorem ion_add_neighbor_sessions:
  assumes "admin_tools_work os"
  shows "ion_add_neighbor os self n tr =
      (Inr (), tr @ concat (map (outduct_session self) (concat (map link_engines (nb_links n))))
         @ (case concat (map link_engines (nb_links n)) of
              [] \<Rightarrow> []
            | first # _ \<Rightarrow> plan_session self (nb_node_number n) first))
    \<and> (list_all (\<lambda>l. case l of TcpCl _ _ _ _ _ \<Rightarrow> True | Udp _ _ _ _ \<Rightarrow> True | _ \<Rightarrow> False) (nb_links n) \<longrightarrow>
        ion_add_neighbor os self n tr = (Inr (), tr))"
proof
  have "act_each (ion_add_outduct os self) (nb_links n) tr =
      (Inr (), tr @ concat (map (outduct_session self) (ltp_engines n)))"
    unfolding ltp_engines_def concat_map_filter [symmetric]
    by (rule act_each_ok) (rule ion_add_outduct_ok [OF assms])
  then show run: "ion_add_neighbor os self n tr =
      (Inr (), tr @ concat (map (outduct_session self) (concat (map link_engines (nb_links n))))
         @ (case concat (map link_engines (nb_links n)) of
              [] \<Rightarrow> []
            | first # _ \<Rightarrow> plan_session self (nb_node_number n) first))"
    by (simp add: ion_add_neighbor_def act_then_ok ion_add_plan_ok [OF assms] ltp_engines_links)
  have "concat (map link_engines ls) = []"
    if "list_all (\<lambda>l. case l of TcpCl _ _ _ _ _ \<Rightarrow> True | Udp _ _ _ _ \<Rightarrow> True | _ \<Rightarrow> False) ls" for ls
    using that by (induction ls) (auto split: convergence_layer_link.splits)
  with run show "list_all (\<lambda>l. case l of TcpCl _ _ _ _ _ \<Rightarrow> True | Udp _ _ _ _ \<Rightarrow> True | _ \<Rightarrow> False) (nb_links n) \<longrightarrow>
        ion_add_neighbor os self n tr = (Inr (), tr)" by (simp del: concat_eq_Nil_conv)
qed

lemma quiet_tools_work: "admin_tools_work quiet_os"
  by (simp add: admin_tools_work_def quiet_os_def quiet_output_def po_success_def)

definition tcp_neighbor :: neighbor where
  "tcp_neighbor = \<lparr>nb_node_number = 30, nb_name = None,
     nb_links = [TcpCl ''t'' ''10.0.0.3'' 4556 None None], nb_rate_limit_bps = None\<rparr>"

definition kiss_neighbor :: neighbor where
  "kiss_neighbor = \<lparr>nb_node_number = 40, nb_name = None,
     nb_links = [TcpCl ''t'' ''10.0.0.4'' 4556 None None, Kiss ''k'' ''/dev/ttyUSB0'' 9600 10 41 None], nb_rate_limit_bps = None\<rparr>"

theorem ion_add_neighbor_sessions_witness:
  "ion_add_neighbor quiet_os \<lparr>ihr_bin_dir = None\<rparr> tcp_neighbor [] = (Inr (), [])
   \<and> ion_add_neighbor quiet_os \<lparr>ihr_bin_dir = None\<rparr> kiss_neighbor []
       = (Inr (), outduct_session \<lparr>ihr_bin_dir = None\<rparr> 41 @ plan_session \<lparr>ihr_bin_dir = None\<rparr> 40 41)"
  using ion_add_neighbor_sessions [OF quiet_tools_work, of "\<lparr>ihr_bin_dir = None\<rparr>" tcp_neighbor "[]"]
    ion_add_neighbor_sessions [OF quiet_tools_work, of "\<lparr>ihr_bin_dir = None\<rparr>" kiss_neighbor "[]"]
  by (simp add: tcp_neighbor_def kiss_neighbor_def)

text \<open>Removing a neighbour deletes the plan, then the outduct named by the node number.\<close>

lemma ion_remove_neighbor_sessions:
  "admin_tools_work os \<Longrightarrow>
   ion_remove_neighbor os self r tr =
     (Inr (), tr @ admin_session self ''ipnadmin'' (''d plan '' @ show_word (nr_node_number r) @ admin_quit)
       @ admin_session self ''bpadmin'' (''d outduct ltp '' @ show_word (nr_node_number r) @ admin_quit))"
  by (simp add: ion_remove_neighbor_def act_then_ok pipe_to_admin_ok)

text \<open>
  removing a neighbour that is reached through an LTP engine whose id is not its node number
  leaves that engine's outduct in place: no command the removal sends deletes it, although the
  operation reports success.
\<close>

theorem ion_remove_neighbor_keeps_outduct:
  assumes "admin_tools_work os" and "e \<in> set (ltp_engines n)" and "e \<noteq> nb_node_number n"
  shows "\<exists>effs. ion_remove_neighbor os self \<lparr>nr_node_number = nb_node_number n\<rparr> tr = (Inr (), tr @ effs)
     \<and> Write_stdin (''d outduct ltp '' @ show_word e @ admin_quit) \<notin> set effs"
  using assms(3) ion_remove_neighbor_sessions [OF assms(1), of self "\<lparr>nr_node_number = nb_node_number n\<rparr>" tr]
  by (auto simp: admin_session_def)

definition ltp_neighbor :: neighbor where
  "ltp_neighbor = \<lparr>nb_node_number = 20, nb_name = None,
     nb_links = [LtpUdp ''l'' 10 2020 ''10.0.0.2'' 1113 1113 None None], nb_rate_limit_bps = None\<rparr>"

theorem ion_remove_neighbor_keeps_outduct_witness:
  "2020 \<in> set (ltp_engines ltp_neighbor) \<and>
   (\<exists>effs. ion_remove_neighbor quiet_os \<lparr>ihr_bin_dir = None\<rparr>
        \<lparr>nr_node_number = nb_node_number ltp_neighbor\<rparr> [] = (Inr (), [] @ effs)
     \<and> Write_stdin (''d outduct ltp '' @ show_word (2020 :: u64) @ admin_quit) \<notin> set effs)"
proof -
  have e: "2020 \<in> set (ltp_engines ltp_neighbor)" and ne: "2020 \<noteq> nb_node_number ltp_neighbor"
    by (simp_all add: ltp_engines_def ltp_neighbor_def List.map_filter_simps)
  show ?thesis
    using e ion_remove_neighbor_keeps_outduct [OF quiet_tools_work e ne, of "\<lparr>ihr_bin_dir = None\<rparr>" "[]"]
    by blast
qed

text \<open>The admin tool reads its input line by line.\<close>

lemma join_LF_render: "join [LF] (l # ls) @ [LF] = render (l # ls)"
  by (induction ls arbitrary: l) auto

lemma str_lines_joined_quit:
  assumes "list_all clean_line (l # ls)" and "LF \<notin> set pre" and "pre \<noteq> []" and "last pre \<noteq> CR"
  shows "str_lines (pre @ join [LF] (l # ls) @ admin_quit) = (pre @ l) # ls @ [''q'']"
proof -
  have "pre @ join [LF] (l # ls) @ admin_quit = render ((pre @ l) # ls @ [''q''])"
    using join_LF_render [of l ls] by (simp add: admin_quit_def)
  moreover have "list_all clean_line ((pre @ l) # ls @ [''q''])"
    using assms by (cases "l = []") (auto simp: clean_line_def)
  ultimately show ?thesis by (simp only: str_lines_render)
qed

text \<open>
  enabling a link sends bpadmin one line for every line of the link identifier, then the quit
  command. An identifier of one line gives the single start command; an identifier with line feeds
  (it comes from a request path) makes bpadmin run its further lines as commands of their own.
\<close>

theorem ion_enable_link_lines:
  assumes "admin_tools_work os" and "list_all clean_line (l # ls)"
  shows "\<exists>txt. ion_enable_link os self (join [LF] (l # ls)) tr = (Inr (), tr @ admin_session self ''bpadmin'' txt)
     \<and> str_lines txt = (''r start ltp/'' @ l) # ls @ [''q'']"
proof -
  have "str_lines (''r start ltp/'' @ join [LF] (l # ls) @ admin_quit) = (''r start ltp/'' @ l) # ls @ [''q'']"
    by (rule str_lines_joined_quit [OF assms(2)]) simp_all
  then show ?thesis
    unfolding ion_enable_link_def using pipe_to_admin_ok [OF assms(1)] by blast
qed

theorem ion_enable_link_lines_witness:
  "\<exists>txt. ion_enable_link quiet_os \<lparr>ihr_bin_dir = None\<rparr> (''1'' @ [LF] @ ''d plan 20'') []
        = (Inr (), admin_session \<lparr>ihr_bin_dir = None\<rparr> ''bpadmin'' txt)
     \<and> str_lines txt = [''r start ltp/1'', ''d plan 20'', ''q'']"
proof -
  have "list_all clean_line [''1'', ''d plan 20'']" by (simp add: clean_line_def)
  from ion_enable_link_lines [OF quiet_tools_work this, of "\<lparr>ihr_bin_dir = None\<rparr>" "[]"]
  show ?thesis by simp
qed

end
