(* ===== verification/Ion_Lifecycle.thy ===== *)
theory Ion_Lifecycle
  imports Lifecycle_Manager Ion_Reconfig
begin

text \<open>
  Lifecycle of the ION daemons, \<open>adapter/ion/lifecycle.rs\<close>: starting them by feeding the four
  admin scripts in order, stopping them, health, and the version banner. The lemmas give the
  order in which the tools run, that a failed step runs no later tool, and what the version
  parser returns.
\<close>

record ion_lifecycle =
  il_bin_dir :: "string option"
  il_config_dir :: "string option"

definition new_ion_lifecycle :: "string option \<Rightarrow> ion_lifecycle" where
  "new_ion_lifecycle bin_dir = \<lparr>il_bin_dir = bin_dir, il_config_dir = None\<rparr>"

definition quoted :: "string \<Rightarrow> string" where
  "quoted s = [CHR 0x27] @ s @ [CHR 0x27]"

definition ion_lifecycle_error :: "string \<Rightarrow> string \<Rightarrow> abstraction_error" where
  "ion_lifecycle_error msg operation = with_backend ''ion-dtn'' (new_error LifecycleError msg operation)"

section \<open>Configuration files\<close>

fun first_with_extension :: "string \<Rightarrow> string \<Rightarrow> (string + string) list \<Rightarrow> string option" where
  "first_with_extension dir ext [] = None"
| "first_with_extension dir ext (Inl _ # es) = first_with_extension dir ext es"
| "first_with_extension dir ext (Inr name # es) =
     (if extension name = Some ext then Some (path_join dir name)
      else first_with_extension dir ext es)"

definition find_config_file ::
  "os \<Rightarrow> string \<Rightarrow> string \<Rightarrow> (abstraction_error, effect list, string) action" where
  "find_config_file os config_dir ext =
     act_bind (perform (Read_dir config_dir) (\<lambda>tr. os_read_dir os tr config_dir)) (\<lambda>r.
     act_bind (act_lift (\<lambda>e. ion_lifecycle_error
         (''Cannot read config directory '' @ quoted config_dir @ '': '' @ e) ''start'') r) (\<lambda>entries.
     case first_with_extension config_dir ext entries of
       Some path \<Rightarrow> act_return path
     | None \<Rightarrow> act_fail (ion_lifecycle_error
         (''No .'' @ ext @ '' config file found in '' @ quoted config_dir) ''start'')))"

section \<open>Running the admin tools\<close>

definition run_admin_command :: "ion_lifecycle \<Rightarrow> string \<Rightarrow> string \<Rightarrow> command" where
  "run_admin_command self tool_name config_file =
     \<lparr>cmd_program = ion_bin_path (il_bin_dir self) tool_name, cmd_args = [config_file],
      cmd_stdin = Stdin_null, cmd_dir = Some (unwrap_or ''.'' (path_parent config_file))\<rparr>"

definition run_admin_failed :: "string \<Rightarrow> string \<Rightarrow> process_output \<Rightarrow> abstraction_error" where
  "run_admin_failed tool_name config_file p =
     with_resource config_file (ion_lifecycle_error
       (tool_name @ '' failed (exit code '' @ debug_code (po_code p) @ ''): '' @ trim (po_stderr p)
        @ stdout_note (po_stdout p)) ''start'')"

definition run_admin ::
  "os \<Rightarrow> ion_lifecycle \<Rightarrow> string \<Rightarrow> string \<Rightarrow> (abstraction_error, effect list, unit) action" where
  "run_admin os self tool_name config_file =
     (let c = run_admin_command self tool_name config_file
      in act_bind (perform (Spawn c) (\<lambda>tr. os_spawn os tr c)) (\<lambda>r.
         act_then (act_lift (\<lambda>e. with_resource config_file (ion_lifecycle_error
             (''Failed to execute '' @ tool_name @ '': '' @ e) ''start'')) r)
        (act_bind (perform (Wait_timeout 10) (\<lambda>tr. os_wait_timeout os tr 10)) (\<lambda>w.
         case w of
           None \<Rightarrow> act_fail (ion_lifecycle_error
             (tool_name @ '' timed out after 10 seconds'') ''start'')
         | Some r \<Rightarrow>
             act_bind (act_lift (\<lambda>e. ion_lifecycle_error
               (''Failed to wait for '' @ tool_name @ '': '' @ e) ''start'') r) (\<lambda>output.
             if \<not> po_success output then act_fail (run_admin_failed tool_name config_file output)
             else act_return ())))))"

text \<open>The body of \<open>start\<close> after it has remembered the directory.\<close>

definition ion_start_tools ::
  "os \<Rightarrow> ion_lifecycle \<Rightarrow> string \<Rightarrow> (abstraction_error, effect list, unit) action" where
  "ion_start_tools os self config_dir =
     act_bind (find_config_file os config_dir ''ionrc'') (\<lambda>ionrc.
     act_bind (find_config_file os config_dir ''ltprc'') (\<lambda>ltprc.
     act_bind (find_config_file os config_dir ''bprc'') (\<lambda>bprc.
     act_bind (find_config_file os config_dir ''ipnrc'') (\<lambda>ipnrc.
     act_then (run_admin os self ''ionadmin'' ionrc)
    (act_then (run_admin os self ''ltpadmin'' ltprc)
    (act_then (run_admin os self ''bpadmin'' bprc)
              (run_admin os self ''ipnadmin'' ipnrc)))))))"

definition ion_start ::
  "os \<Rightarrow> string \<Rightarrow> (abstraction_error, ion_lifecycle \<times> effect list, unit) action" where
  "ion_start os config_dir = (\<lambda>(self, tr).
     let self' = self\<lparr>il_config_dir := Some config_dir\<rparr>
     in case ion_start_tools os self' config_dir tr of (r, tr') \<Rightarrow> (r, (self', tr')))"

definition plain_command :: "string \<Rightarrow> string list \<Rightarrow> command" where
  "plain_command prog args =
     \<lparr>cmd_program = prog, cmd_args = args, cmd_stdin = Stdin_default, cmd_dir = None\<rparr>"

definition ion_stop_tools :: "os \<Rightarrow> ion_lifecycle \<Rightarrow> (abstraction_error, effect list, unit) action" where
  "ion_stop_tools os self =
     act_bind (run_output os (plain_command (ion_bin_path (il_bin_dir self) ''ionstop'') [])) (\<lambda>r.
     act_bind (act_lift (\<lambda>e. ion_lifecycle_error (''Failed to execute ionstop: '' @ e) ''stop'') r) (\<lambda>output.
     if \<not> po_success output
     then act_fail (ion_lifecycle_error (''ionstop failed (exit code '' @ debug_code (po_code output)
            @ ''): '' @ po_stderr output) ''stop'')
     else act_return ()))"

definition ion_stop :: "os \<Rightarrow> (abstraction_error, ion_lifecycle \<times> effect list, unit) action" where
  "ion_stop os = (\<lambda>(self, tr). act_on_snd (ion_stop_tools os self) (self, tr))"

definition ion_restart ::
  "os \<Rightarrow> string \<Rightarrow> (abstraction_error, ion_lifecycle \<times> effect list, unit) action" where
  "ion_restart os config_dir =
     act_bind (act_result (ion_stop os)) (\<lambda>_.
     act_then (pause_millis 500) (ion_start os config_dir))"

definition command_succeeds :: "string + process_output \<Rightarrow> bool" where
  "command_succeeds r = (case r of Inl _ \<Rightarrow> False | Inr p \<Rightarrow> po_success p)"

definition check_rfxclock :: "os \<Rightarrow> ('e, effect list, bool) action" where
  "check_rfxclock os =
     act_bind (run_output os (plain_command ''pgrep'' [''-x'', ''rfxclock''])) (\<lambda>r.
     act_return (command_succeeds r))"

definition health_message :: "bool \<Rightarrow> string \<Rightarrow> health_status" where
  "health_message running msg = \<lparr>hs_running = running, hs_uptime_secs = None, hs_message = Some msg\<rparr>"

definition ion_health_tools ::
  "os \<Rightarrow> ion_lifecycle \<Rightarrow> (abstraction_error, effect list, health_status) action" where
  "ion_health_tools os self =
     act_bind (run_output os (plain_command (ion_bin_path (il_bin_dir self) ''bplist'') [])) (\<lambda>r.
     case r of
       Inr output \<Rightarrow>
         if po_success output then act_return (health_message True ''ION BP agent is running'')
         else act_bind (check_rfxclock os) (\<lambda>up.
           act_return (if up then health_message True ''rfxclock is running (bplist unavailable)''
                       else health_message False (''ION not running: '' @ trim (po_stderr output))))
     | Inl _ \<Rightarrow> act_bind (check_rfxclock os) (\<lambda>up.
           act_return (if up then health_message True ''rfxclock is running (bplist not available)''
                       else health_message False ''ION not running (bplist not available)'')))"

definition ion_health ::
  "os \<Rightarrow> (abstraction_error, ion_lifecycle \<times> effect list, health_status) action" where
  "ion_health os = (\<lambda>(self, tr). act_on_snd (ion_health_tools os self) (self, tr))"

section \<open>The version banner\<close>

text \<open>
  The inner loop of \<open>extract_version_number\<close>: digits and at most two dots, then one letter; the
  character that ends the run is consumed too. The result is the dot count, the text collected
  and the characters left.
\<close>

fun take_version :: "nat \<Rightarrow> string \<Rightarrow> nat \<times> string \<times> string" where
  "take_version dots [] = (dots, [], [])"
| "take_version dots (c # cs) =
     (if is_ascii_digit c \<or> (c = CHR ''.'' \<and> dots < 2)
      then (case take_version (if c = CHR ''.'' then Suc dots else dots) cs of
              (d, v, rest) \<Rightarrow> (d, c # v, rest))
      else if is_ascii_alphabetic c then (dots, [c], cs)
      else (dots, [], cs))"

lemma take_version_rest: "take_version dots s = (d, v, rest) \<Longrightarrow> length rest \<le> length s"
  by (induction dots s arbitrary: d v rest rule: take_version.induct)
    (auto split: if_splits prod.splits intro: le_SucI)

lemma take_version_rest_less:
  "take_version dots (c # cs) = (d, v, rest) \<Longrightarrow> length rest < length (c # cs)"
  using take_version_rest [of _ cs] by (fastforce split: if_splits prod.splits simp: le_imp_less_Suc)

function ion_extract_version :: "string \<Rightarrow> string option" where
  "ion_extract_version [] = None"
| "ion_extract_version (c # cs) =
     (if is_ascii_digit c
      then (case take_version 0 (c # cs) of
              (dots, version, rest) \<Rightarrow>
                if 1 \<le> dots \<and> 3 \<le> length version then Some version else ion_extract_version rest)
      else ion_extract_version cs)"
  by pat_completeness auto
termination
  by (relation "measure length") (auto dest: take_version_rest_less [OF sym] simp del: take_version.simps)

fun parse_ion_version_lines :: "string list \<Rightarrow> string option" where
  "parse_ion_version_lines [] = None"
| "parse_ion_version_lines (line # ls) =
     (let line_upper = to_uppercase line
      in if contains_str line_upper ''ION''
            \<and> (contains_str line_upper ''OPEN SOURCE'' \<or> contains_str line_upper ''OPEN-SOURCE'')
         then (case ion_extract_version line of
                 Some version \<Rightarrow> Some (''ION '' @ version)
               | None \<Rightarrow> Some (trim line))
         else parse_ion_version_lines ls)"

definition parse_ion_version :: "string \<Rightarrow> string option" where
  "parse_ion_version out = parse_ion_version_lines (str_lines out)"

text \<open>The first line of the output, or \<open>unknown\<close>.\<close>

definition first_line :: "string \<Rightarrow> string" where
  "first_line out = (case str_lines out of [] \<Rightarrow> ''unknown'' | l # _ \<Rightarrow> l)"

definition ion_version_tools ::
  "os \<Rightarrow> ion_lifecycle \<Rightarrow> (abstraction_error, effect list, string) action" where
  "ion_version_tools os self =
     act_bind (run_output os (plain_command (ion_bin_path (il_bin_dir self) ''ionadmin'') [''.''])) (\<lambda>r.
     act_bind (act_lift (\<lambda>e. ion_lifecycle_error
         (''Failed to execute ionadmin for version query: '' @ e) ''version'') r) (\<lambda>output.
     let combined = po_stdout output @ [LF] @ po_stderr output
     in case parse_ion_version combined of
          Some version \<Rightarrow> act_return version
        | None \<Rightarrow>
            if trim (po_stdout output) \<noteq> [] then act_return (trim (first_line (po_stdout output)))
            else act_fail (ion_lifecycle_error
              ''Could not determine ION version from ionadmin output'' ''version'')))"

definition ion_version ::
  "os \<Rightarrow> (abstraction_error, ion_lifecycle \<times> effect list, string) action" where
  "ion_version os = (\<lambda>(self, tr). act_on_snd (ion_version_tools os self) (self, tr))"

section \<open>The lifecycle contract\<close>

lemma ion_lifecycle_error_ok [simp]:
  "lifecycle_error ''ion-dtn'' op (ion_lifecycle_error msg op)"
  "lifecycle_error ''ion-dtn'' op (with_resource r (ion_lifecycle_error msg op))"
  by (simp_all add: lifecycle_error_def ion_lifecycle_error_def)

lemma run_admin_failed_ok [simp]: "lifecycle_error ''ion-dtn'' ''start'' (run_admin_failed tool f p)"
  by (simp add: run_admin_failed_def)

lemma find_config_file_errors:
  "errors_satisfy (lifecycle_error ''ion-dtn'' ''start'') (find_config_file os d ext)"
  unfolding find_config_file_def
  by (intro errors_satisfy_bind errors_satisfy_perform errors_satisfy_lift) (auto split: option.split)

lemma run_admin_errors:
  "errors_satisfy (lifecycle_error ''ion-dtn'' ''start'') (run_admin os self tool f)"
  unfolding run_admin_def Let_def
  by (intro errors_satisfy_bind errors_satisfy_then errors_satisfy_perform errors_satisfy_lift)
    (auto split: option.split intro!: errors_satisfy_bind errors_satisfy_lift)

lemma ion_start_tools_errors:
  "errors_satisfy (lifecycle_error ''ion-dtn'' ''start'') (ion_start_tools os self d)"
  unfolding ion_start_tools_def
  by (intro errors_satisfy_bind errors_satisfy_then find_config_file_errors run_admin_errors)

lemma ion_stop_tools_errors:
  "errors_satisfy (lifecycle_error ''ion-dtn'' ''stop'') (ion_stop_tools os self)"
  unfolding ion_stop_tools_def
  by (intro errors_satisfy_bind errors_satisfy_run_output errors_satisfy_lift) auto

lemma find_config_file_appends [intro]: "appends (find_config_file os d ext)"
  unfolding find_config_file_def by (intro appends_bind) (auto split: option.split)

lemma run_admin_appends [intro]: "appends (run_admin os self tool f)"
  unfolding run_admin_def Let_def by (intro appends_bind appends_then) (auto split: option.split)

lemma ion_start_tools_appends: "appends (ion_start_tools os self d)"
  unfolding ion_start_tools_def by (intro appends_bind appends_then) auto

lemma ion_stop_tools_appends: "appends (ion_stop_tools os self)"
  unfolding ion_stop_tools_def by (intro appends_bind) auto

lemma ion_health_tools_total: "\<exists>h tr'. ion_health_tools os self tr = (Inr h, tr')"
  by (auto simp: ion_health_tools_def act_bind_def run_output_run check_rfxclock_def split: sum.split)

lemma ion_start_run:
  "ion_start os d (self, tr) =
     (fst (ion_start_tools os (self\<lparr>il_config_dir := Some d\<rparr>) d tr),
      (self\<lparr>il_config_dir := Some d\<rparr>, snd (ion_start_tools os (self\<lparr>il_config_dir := Some d\<rparr>) d tr)))"
  by (simp add: ion_start_def Let_def split: prod.splits)

lemma ion_stop_run:
  "ion_stop os (self, tr) = (fst (ion_stop_tools os self tr), (self, snd (ion_stop_tools os self tr)))"
  by (simp add: ion_stop_def act_on_snd_run)

interpretation ion_life: lifecycle_manager "''ion-dtn''" "ion_start os" "ion_stop os" "ion_restart os"
  "ion_health os" for os
proof (unfold_locales, goal_cases)
  case (1 d)
  show ?case using ion_start_tools_errors [of os _ d]
    by (simp add: errors_satisfy_def ion_start_run split_paired_all) (metis prod.collapse)
next
  case 2
  show ?case using ion_stop_tools_errors [of os]
    by (simp add: errors_satisfy_def ion_stop_run split_paired_all) (metis prod.collapse)
next
  case (3 d)
  show ?case by (simp add: ion_restart_def restart_with_def)
next
  case (4 w)
  show ?case by (cases w) (simp add: ion_stop_run)
next
  case (5 w)
  show ?case using ion_stop_tools_appends [of os "fst w"]
    by (cases w) (simp add: ion_stop_run appends_def)
next
  case (6 w d)
  show ?case using ion_start_tools_appends [of os _ d]
    by (cases w) (simp add: ion_start_run appends_def)
next
  case (7 w)
  show ?case using ion_health_tools_total [of os "fst w" "snd w"]
    by (cases w) (auto simp: ion_health_def act_on_snd_run)
qed

section \<open>The order of the tools\<close>

text \<open>Starting lists the directory and runs tools; it writes no file.\<close>

definition start_kinds :: "effect set" where
  "start_kinds = {e. \<exists>c d n. e = Spawn c \<or> e = Wait_timeout n \<or> e = Read_dir d}"

lemma ion_start_tools_does_only: "does_only start_kinds (ion_start_tools os self d)"
  by (auto simp: ion_start_tools_def find_config_file_def run_admin_def Let_def start_kinds_def
      intro!: does_only_bind does_only_then does_only_perform split: option.split)


lemma find_config_file_spawns:
  "find_config_file os d ext tr = (r, tr') \<Longrightarrow> spawned tr' = spawned tr"
  by (auto simp: find_config_file_def perform_run act_lift_def elim!: act_bind_cases split: option.splits)

text \<open>
  What makes one run of an admin tool a success: it can be spawned, and it exits with code 0 before
  the time limit of ten seconds.
\<close>

definition tool_succeeds :: "os \<Rightarrow> effect list \<Rightarrow> command \<Rightarrow> bool" where
  "tool_succeeds os tr c \<longleftrightarrow> os_spawn os tr c = Inr ()
     \<and> (\<exists>p. os_wait_timeout os (tr @ [Spawn c]) 10 = Some (Inr p) \<and> po_code p = Some 0)"

definition ion_tools :: "ion_lifecycle \<Rightarrow> string list" where
  "ion_tools self =
     map (ion_bin_path (il_bin_dir self)) [''ionadmin'', ''ltpadmin'', ''bpadmin'', ''ipnadmin'']"

lemma run_admin_effects:
  assumes "run_admin os self tool f tr = (r, tr')"
  obtains es where "tr' = tr @ Spawn (run_admin_command self tool f) # es" and "spawned es = []"
    and "\<And>c. Spawn c \<notin> set es"
    and "r = Inr () \<longleftrightarrow> tool_succeeds os tr (run_admin_command self tool f)"
proof -
  let ?c = "run_admin_command self tool f"
  have "\<exists>es. tr' = tr @ Spawn ?c # es \<and> spawned es = [] \<and> (\<forall>c. Spawn c \<notin> set es)
      \<and> (r = Inr () \<longleftrightarrow> tool_succeeds os tr ?c)"
    using assms
    by (cases "os_spawn os tr ?c"; cases "os_wait_timeout os (tr @ [Spawn ?c]) 10")
      (auto simp: run_admin_def Let_def act_bind_def act_then_def perform_run act_lift_def tool_succeeds_def
        po_success_def split: sum.splits if_splits)
  then show thesis using that by blast
qed

text \<open>
  A run of tools: what a list of admin scripts does from a trace on. A tool that fails is the last
  one run, and the run succeeds exactly when every tool of the list has been run with success.
\<close>

definition tools_run :: "os \<Rightarrow> effect list \<Rightarrow> string list \<Rightarrow> effect list \<Rightarrow> 'e + unit \<Rightarrow> bool" where
  "tools_run os tr tools es r \<longleftrightarrow>
     (\<exists>k \<le> length tools. spawned es = take k tools
        \<and> (\<forall>pre c post. es = pre @ Spawn c # post \<and> \<not> tool_succeeds os (tr @ pre) c \<longrightarrow> spawned post = [])
        \<and> (r = Inr () \<longleftrightarrow> k = length tools
              \<and> (\<forall>pre c post. es = pre @ Spawn c # post \<longrightarrow> tool_succeeds os (tr @ pre) c)))"

lemma no_spawn_split:
  assumes "\<And>c. Spawn c \<notin> set es"
  shows "es @ fs = pre @ Spawn c # post \<longleftrightarrow> (\<exists>mid. pre = es @ mid \<and> fs = mid @ Spawn c # post)"
proof
  assume "es @ fs = pre @ Spawn c # post"
  then consider us where "es = pre @ us" "us @ fs = Spawn c # post" | us where "pre = es @ us" "fs = us @ Spawn c # post"
    unfolding append_eq_append_conv2 by blast
  then show "\<exists>mid. pre = es @ mid \<and> fs = mid @ Spawn c # post"
  proof cases
    case (1 us)
    with assms [of c] show ?thesis by (cases us) auto
  next
    case (2 us)
    then show ?thesis by blast
  qed
qed auto

lemma tools_run_skip:
  assumes "tools_run os (tr @ es) tools fs r" and "spawned es = []" and "\<And>c. Spawn c \<notin> set es"
  shows "tools_run os tr tools (es @ fs) r"
proof -
  have "(\<forall>pre c post. es @ fs = pre @ Spawn c # post \<longrightarrow> P pre c post)
      \<longleftrightarrow> (\<forall>pre c post. fs = pre @ Spawn c # post \<longrightarrow> P (es @ pre) c post)" for P
    unfolding no_spawn_split [OF assms(3)] by blast
  note split = this [of "\<lambda>pre c post. tool_succeeds os (tr @ pre) c"]
    this [of "\<lambda>pre c post. \<not> tool_succeeds os (tr @ pre) c \<longrightarrow> spawned post = []"]
  show ?thesis
    using assms(1) unfolding tools_run_def imp_conjL split by (simp add: assms(2))
qed

lemma tools_run_none [simp]: "tools_run os tr (t # ts) [] (Inl e)" "tools_run os tr [] [] (Inr ())"
  by (auto simp: tools_run_def)

lemma tools_run_first:
  assumes "run_admin os self tool f tr = (r, tr1)"
    and "r = Inr () \<Longrightarrow> tools_run os tr1 ts fs r2"
    and "r \<noteq> Inr () \<Longrightarrow> fs = [] \<and> r2 \<noteq> Inr ()"
  shows "\<exists>es. tr1 = tr @ es \<and> tools_run os tr (ion_bin_path (il_bin_dir self) tool # ts) (es @ fs) r2"
proof -
  let ?c = "run_admin_command self tool f"
  obtain es where tr1: "tr1 = tr @ Spawn ?c # es" and es: "spawned es = []" "\<And>c. Spawn c \<notin> set es"
    and ok: "r = Inr () \<longleftrightarrow> tool_succeeds os tr ?c" using run_admin_effects [OF assms(1)] by blast
  have prog: "cmd_program ?c = ion_bin_path (il_bin_dir self) tool" by (simp add: run_admin_command_def)
  have later: "tools_run os (tr @ [Spawn ?c]) ts (es @ fs) r2" if "r = Inr ()"
    using assms(2) [OF that] es by (intro tools_run_skip) (simp_all add: tr1)
  have "tools_run os tr (ion_bin_path (il_bin_dir self) tool # ts) (Spawn ?c # es @ fs) r2"
  proof (cases "r = Inr ()")
    case True
    then have "tool_succeeds os tr ?c" using ok by simp
    with later [OF True] show ?thesis
      unfolding tools_run_def
      by (elim exE conjE; intro exI [of _ "Suc _"]) (auto simp: prog Cons_eq_append_conv)
  next
    case False
    then have "\<not> tool_succeeds os tr ?c" "fs = []" "r2 \<noteq> Inr ()" using ok assms(3) by auto
    with es show ?thesis
      unfolding tools_run_def
      by (intro exI [of _ 1]) (auto simp: prog Cons_eq_append_conv dest: split_list)
  qed
  then show ?thesis using tr1 by auto
qed

lemma find_then_tools:
  assumes "act_bind (find_config_file os d ext) m tr = (r, tr')"
    and "\<And>f tr1 r tr'. m f tr1 = (r, tr') \<Longrightarrow> \<exists>es. tr' = tr1 @ es \<and> tools_run os tr1 (t # ts) es r"
  shows "\<exists>es. tr' = tr @ es \<and> tools_run os tr (t # ts) es r"
proof -
  have effects: "\<exists>r. find_config_file os d ext tr = (r, tr @ [Read_dir d])"
    by (auto simp: find_config_file_def act_bind_def perform_run act_lift_def split: sum.split option.split)
  from assms(1) obtain es where "tr' = tr @ [Read_dir d] @ es" and "tools_run os (tr @ [Read_dir d]) (t # ts) es r"
  proof (cases rule: act_bind_cases)
    case (err e)
    with effects that [of "[]"] show ?thesis by simp
  next
    case (ok f tr1)
    with effects assms(2) [OF ok(2)] that show ?thesis by auto
  qed
  moreover from this(2) have "tools_run os tr (t # ts) ([Read_dir d] @ es) r" by (rule tools_run_skip) simp_all
  ultimately show ?thesis by blast
qed

lemma admin_then_tools:
  assumes "act_then (run_admin os self tool f) m tr = (r, tr')"
    and "\<And>tr1 r tr'. m tr1 = (r, tr') \<Longrightarrow> \<exists>es. tr' = tr1 @ es \<and> tools_run os tr1 ts es r"
  shows "\<exists>es. tr' = tr @ es \<and> tools_run os tr (ion_bin_path (il_bin_dir self) tool # ts) es r"
  using assms(1)
proof (cases rule: act_then_cases)
  case (err e)
  from tools_run_first [OF err(1), of ts "[]" r] err(2) show ?thesis by auto
next
  case (ok tr1)
  from assms(2) [OF ok(2)] obtain fs where "tr' = tr1 @ fs" "tools_run os tr1 ts fs r" by blast
  with tools_run_first [OF ok(1), of ts fs r] show ?thesis by auto
qed

lemma admin_last_tool:
  assumes "run_admin os self tool f tr = (r, tr')"
  shows "\<exists>es. tr' = tr @ es \<and> tools_run os tr [ion_bin_path (il_bin_dir self) tool] es r"
proof -
  have "act_then (run_admin os self tool f) (act_return ()) tr = (r, tr')"
    using assms by (auto simp: act_then_def act_bind_def split: sum.split)
  then show ?thesis by (rule admin_then_tools) simp
qed

lemma ion_start_tools_run:
  "ion_start_tools os self d tr = (r, tr') \<Longrightarrow> \<exists>es. tr' = tr @ es \<and> tools_run os tr (ion_tools self) es r"
  unfolding ion_start_tools_def ion_tools_def list.map
  by (erule find_then_tools)+ (erule admin_then_tools | erule admin_last_tool)+

text \<open>
  C11: starting ION runs the admin tools in the fixed order ionadmin, ltpadmin, bpadmin, ipnadmin, each
  at most once: the programs a start runs are the first \<open>k\<close> of that sequence, whatever the environment
  answers. A tool that cannot be spawned, does not end within ten seconds, or exits with another code
  than 0, is the last one run. The start succeeds exactly when all four are run and each of them
  exits with 0 in time.
\<close>

theorem ion_start_runs_in_order:
  assumes "ion_start os d (self, tr) = (r, (self', tr'))"
  shows "\<exists>k es. k \<le> 4 \<and> tr' = tr @ es
    \<and> spawned es = take k (map (ion_bin_path (il_bin_dir self)) [''ionadmin'', ''ltpadmin'', ''bpadmin'', ''ipnadmin''])
    \<and> (\<forall>pre c post. es = pre @ Spawn c # post \<and> \<not> tool_succeeds os (tr @ pre) c \<longrightarrow> spawned post = [])
    \<and> (r = Inr () \<longleftrightarrow> k = 4
         \<and> (\<forall>pre c post. es = pre @ Spawn c # post \<longrightarrow> tool_succeeds os (tr @ pre) c))"
proof -
  have "ion_start_tools os (self\<lparr>il_config_dir := Some d\<rparr>) d tr = (r, tr')"
    using assms by (auto simp: ion_start_run)
  from ion_start_tools_run [OF this] obtain es
    where "tr' = tr @ es" and run: "tools_run os tr (ion_tools self) es r" by (auto simp: ion_tools_def)
  moreover have "length (ion_tools self) = 4" by (simp add: ion_tools_def)
  ultimately show ?thesis using run unfolding tools_run_def by (metis ion_tools_def)
qed

text \<open>A system on which all scripts are there and the second tool fails.\<close>

definition second_fails_os :: os where
  "second_fails_os = quiet_os\<lparr>
     os_read_dir := (\<lambda>_ _. Inr (map Inr [''n.ionrc'', ''n.ltprc'', ''n.bprc'', ''n.ipnrc''])),
     os_wait_timeout := (\<lambda>tr _. Some (Inr (quiet_output\<lparr>po_code := Some (if length (spawned tr) = 2 then 1 else 0)\<rparr>)))\<rparr>"

lemma second_fails_find:
  "ext \<in> {''ionrc'', ''ltprc'', ''bprc'', ''ipnrc''} \<Longrightarrow>
   find_config_file second_fails_os ''/etc'' ext tr = (Inr (path_join ''/etc'' (''n.'' @ ext)), tr @ [Read_dir ''/etc''])"
  by (auto simp: find_config_file_def act_bind_def perform_run act_lift_def second_fails_os_def text_eval)

lemma second_fails_run:
  "run_admin second_fails_os self tool f tr =
     ((if length (spawned tr) = 1 then Inl (run_admin_failed tool f (quiet_output\<lparr>po_code := Some 1\<rparr>)) else Inr ()),
      tr @ [Spawn (run_admin_command self tool f), Wait_timeout 10])"
  by (simp add: run_admin_def Let_def act_bind_def act_then_def perform_run act_lift_def second_fails_os_def
      quiet_os_def quiet_output_def po_success_def run_admin_command_def)

theorem ion_start_runs_in_order_witness:
  "\<exists>r w. ion_start second_fails_os ''/etc'' (new_ion_lifecycle None, []) = (r, w)
     \<and> spawned (snd w) = [''ionadmin'', ''ltpadmin''] \<and> r \<noteq> Inr ()"
proof -
  obtain r s tr where run: "ion_start second_fails_os ''/etc'' (new_ion_lifecycle None, []) = (r, (s, tr))"
    by (metis prod.collapse)
  then have sp: "spawned tr = [''ionadmin'', ''ltpadmin'']"
    by (auto simp: ion_start_run ion_start_tools_def act_bind_def act_then_def second_fails_find second_fails_run
        run_admin_command_def new_ion_lifecycle_def ion_bin_path_def)
  from ion_start_runs_in_order [OF run] obtain k es where k: "k \<le> 4" "tr = [] @ es"
    "spawned es = take k (map (ion_bin_path None) [''ionadmin'', ''ltpadmin'', ''bpadmin'', ''ipnadmin''])"
    and ok: "r = Inr () \<Longrightarrow> k = 4" unfolding new_ion_lifecycle_def by auto
  from k have "length (spawned tr) = k" by simp
  with sp ok have "r \<noteq> Inr ()" by auto
  with run sp show ?thesis by auto
qed

section \<open>Which configuration file is used\<close>

lemma first_with_extension_Some:
  "first_with_extension d ext es = Some p \<longleftrightarrow>
     (\<exists>pre name post. es = pre @ Inr name # post \<and> extension name = Some ext \<and> p = path_join d name
        \<and> (\<forall>n. Inr n \<in> set pre \<longrightarrow> extension n \<noteq> Some ext))"
  (is "?l es \<longleftrightarrow> ?r es")
proof (induction es)
  case Nil
  then show ?case by simp
next
  case (Cons e es)
  show ?case
  proof (cases "\<exists>name. e = Inr name \<and> extension name = Some ext")
    case True
    then obtain name where e: "e = Inr name" "extension name = Some ext" by blast
    show ?thesis
    proof
      assume "?l (e # es)"
      with e show "?r (e # es)"
        by (intro exI [of _ "[]"] exI [of _ name] exI [of _ es]) simp
    next
      assume "?r (e # es)"
      with e show "?l (e # es)" by (auto simp: Cons_eq_append_conv)
    qed
  next
    case False
    then have "?l (e # es) \<longleftrightarrow> ?l es" by (cases e) auto
    also have "\<dots> \<longleftrightarrow> ?r es" by (rule Cons.IH)
    also have "\<dots> \<longleftrightarrow> ?r (e # es)"
    proof
      assume "?r es"
      then obtain pre name post where "es = pre @ Inr name # post" "extension name = Some ext"
        "p = path_join d name" "\<forall>n. Inr n \<in> set pre \<longrightarrow> extension n \<noteq> Some ext" by blast
      with False show "?r (e # es)" by (intro exI [of _ "e # pre"]) auto
    next
      assume "?r (e # es)"
      with False show "?r es" by (auto simp: Cons_eq_append_conv) metis
    qed
    finally show ?thesis .
  qed
qed

section \<open>What the version parser returns\<close>

lemma take_version_split: "take_version k s = (d, v, rest) \<Longrightarrow> \<exists>mid. s = v @ mid @ rest"
proof (induction k s arbitrary: d v rest rule: take_version.induct)
  case (1 dots)
  then show ?case by simp
next
  case (2 dots c cs)
  then show ?case by (fastforce split: if_splits prod.splits)
qed

lemma take_version_spec:
  "take_version k s = (d, v, rest) \<Longrightarrow> k \<le> 2 \<Longrightarrow> d = k + count_list v (CHR ''.'') \<and> d \<le> 2"
proof (induction k s arbitrary: d v rest rule: take_version.induct)
  case (1 dots)
  then show ?case by simp
next
  case (2 dots c cs)
  have "\<not> is_ascii_digit (CHR ''.'')" "\<not> is_ascii_alphabetic (CHR ''.'')"
    by (simp_all add: text_eval)
  with 2 show ?case by (fastforce split: if_splits prod.splits)
qed

text \<open>
  a version number found in the ION banner is a substring of it that starts with a digit, has one
  or two dots and at least three characters; the search always ends.
\<close>

theorem ion_extract_version_spec:
  assumes "ion_extract_version s = Some v"
  shows "sublist v s \<and> is_ascii_digit (hd v) \<and> count_list v (CHR ''.'') \<in> {1, 2} \<and> 3 \<le> length v"
  using assms
proof (induction s rule: ion_extract_version.induct)
  case 1
  then show ?case by simp
next
  case (2 c cs)
  show ?case
  proof (cases "is_ascii_digit c")
    case False
    with 2 show ?thesis by (auto intro: sublist_Cons_right [THEN iffD2])
  next
    case True
    obtain d w rest where t: "take_version 0 (c # cs) = (d, w, rest)" by (metis prod_cases3)
    then obtain mid where split: "c # cs = w @ mid @ rest" using take_version_split by blast
    from t True have hd: "hd w = c" by (auto split: prod.splits if_splits)
    have dots: "d = count_list w (CHR ''.'')" "d \<le> 2" using take_version_spec [OF t] by simp_all
    show ?thesis
    proof (cases "1 \<le> d \<and> 3 \<le> length w")
      case True
      with \<open>is_ascii_digit c\<close> t 2(3) have "v = w" by simp
      with True \<open>is_ascii_digit c\<close> hd dots split show ?thesis by (auto simp: sublist_def) 
    next
      case False
      with \<open>is_ascii_digit c\<close> t 2(3) have "ion_extract_version rest = Some v" by auto
      with 2(1) [OF \<open>is_ascii_digit c\<close> t [symmetric] refl] False
      have "sublist v rest \<and> is_ascii_digit (hd v) \<and> count_list v (CHR ''.'') \<in> {1, 2} \<and> 3 \<le> length v"
        by blast
      moreover have "sublist rest (c # cs)" unfolding split sublist_def by (metis append.assoc append_Nil2)
      ultimately show ?thesis by (blast intro: sublist_order.order_trans)
    qed
  qed
qed

theorem ion_extract_version_spec_witness:
  "ion_extract_version '': ION 4.1.2s'' = Some ''4.1.2s'' \<and> sublist ''4.1.2s'' '': ION 4.1.2s''"
proof -
  have "ion_extract_version '': ION 4.1.2s'' = Some ''4.1.2s''" by (simp add: text_eval)
  with ion_extract_version_spec [OF this] show ?thesis by blast
qed

end
