(* ===== verification/Hardy_Reconfig.thy ===== *)
theory Hardy_Reconfig
  imports Ion_Reconfig
begin

text \<open>
  Hot reconfiguration of Hardy, \<open>adapter/hardy/hot_reconfig.rs\<close>: requests to its management API
  sent with curl. The JSON encoder (a third-party library) is the parameter \<open>to_json\<close>, given
  the fields of the request body and answering with a text or its error. Hardy interprets the
  same capability contract as ION.
\<close>

datatype json_arg = J_u64 u64 | J_i64 i64 | J_f64 f64

type_synonym json_encoder = "(string \<times> json_arg) list \<Rightarrow> string + string"

record hardy_hot_reconfig =
  hhr_management_url :: string

definition hardy_default_url :: string where
  "hardy_default_url = ''http://127.0.0.1:8472''"

definition new_hardy_hot_reconfig :: "string option \<Rightarrow> hardy_hot_reconfig" where
  "new_hardy_hot_reconfig url = \<lparr>hhr_management_url = unwrap_or hardy_default_url url\<rparr>"

definition curl_command :: "string \<Rightarrow> string \<Rightarrow> string \<Rightarrow> command" where
  "curl_command verb body url =
     \<lparr>cmd_program = ''curl'',
      cmd_args = [''-s'', ''-X'', verb, ''-H'', ''Content-Type: application/json'', ''-d'', body,
                  ''-w'', ''%{http_code}'', ''-o'', ''/dev/null'', url],
      cmd_stdin = Stdin_default, cmd_dir = None\<rparr>"

definition http_code_of :: "process_output \<Rightarrow> u16" where
  "http_code_of p = unwrap_or 0 (parse_word (trim (po_stdout p)))"

definition hardy_http_error :: "u16 \<Rightarrow> string \<Rightarrow> string \<Rightarrow> abstraction_error" where
  "hardy_http_error http_code operation url =
     with_resource url (with_backend_code (''http_'' @ show_word http_code)
       (with_backend ''hardy'' (new_error RuntimeError
         (''Hardy management API returned HTTP '' @ show_word http_code @ '': '' @ operation) operation)))"

text \<open>\<open>post_json\<close> and \<open>delete_json\<close> differ in the HTTP verb only.\<close>

definition send_json ::
  "string \<Rightarrow> os \<Rightarrow> json_encoder \<Rightarrow> string \<Rightarrow> (string \<times> json_arg) list \<Rightarrow> string
     \<Rightarrow> (abstraction_error, effect list, unit) action" where
  "send_json verb os to_json url body operation =
     act_bind (act_lift (\<lambda>e. with_backend ''hardy'' (new_error RuntimeError
         (''Failed to serialize request body: '' @ e) operation)) (to_json body)) (\<lambda>body_str.
     act_bind (run_output os (curl_command verb body_str url)) (\<lambda>r.
     act_bind (act_lift (\<lambda>e. with_resource url (with_backend ''hardy'' (new_error CommunicationError
         (''Failed to reach Hardy management API: '' @ e) operation))) r) (\<lambda>output.
     let http_code = http_code_of output
     in if \<not> (200 \<le> http_code \<and> http_code < 300)
        then act_fail (hardy_http_error http_code operation url)
        else act_return ())))"

definition post_json ::
  "os \<Rightarrow> json_encoder \<Rightarrow> string \<Rightarrow> (string \<times> json_arg) list \<Rightarrow> string
     \<Rightarrow> (abstraction_error, effect list, unit) action" where
  "post_json = send_json ''POST''"

definition delete_json ::
  "os \<Rightarrow> json_encoder \<Rightarrow> string \<Rightarrow> (string \<times> json_arg) list \<Rightarrow> string
     \<Rightarrow> (abstraction_error, effect list, unit) action" where
  "delete_json = send_json ''DELETE''"

definition hardy_add_contact ::
  "os \<Rightarrow> json_encoder \<Rightarrow> hardy_hot_reconfig \<Rightarrow> contact \<Rightarrow> (abstraction_error, effect list, unit) action"
  where
  "hardy_add_contact os to_json self t =
     post_json os to_json (hhr_management_url self @ ''/api/contacts'')
       [(''source_node'', J_u64 (ct_source_node t)), (''dest_node'', J_u64 (ct_dest_node t)),
        (''start_time'', J_i64 (ct_start_time t)), (''end_time'', J_i64 (ct_end_time t)),
        (''rate_bps'', J_u64 (ct_rate_bps t)), (''confidence'', J_f64 (ct_confidence t))]
       ''add_contact''"

definition hardy_remove_contact ::
  "os \<Rightarrow> json_encoder \<Rightarrow> hardy_hot_reconfig \<Rightarrow> contact_ref \<Rightarrow> (abstraction_error, effect list, unit) action"
  where
  "hardy_remove_contact os to_json self t =
     delete_json os to_json (hhr_management_url self @ ''/api/contacts'')
       [(''source_node'', J_u64 (cr_source_node t)), (''dest_node'', J_u64 (cr_dest_node t)),
        (''start_time'', J_i64 (cr_start_time t))]
       ''remove_contact''"

definition hardy_add_neighbor ::
  "neighbor \<Rightarrow> (abstraction_error, effect list, unit) action" where
  "hardy_add_neighbor n =
     act_fail (with_backend ''hardy'' (new_error UnsupportedOperation
       ''Hardy does not support adding neighbors at runtime; restart required'' ''add_neighbor''))"

definition hardy_remove_neighbor ::
  "node_ref \<Rightarrow> (abstraction_error, effect list, unit) action" where
  "hardy_remove_neighbor r =
     act_fail (with_backend ''hardy'' (new_error UnsupportedOperation
       ''Hardy does not support removing neighbors at runtime; restart required'' ''remove_neighbor''))"

definition hardy_enable_link ::
  "os \<Rightarrow> json_encoder \<Rightarrow> hardy_hot_reconfig \<Rightarrow> string \<Rightarrow> (abstraction_error, effect list, unit) action"
  where
  "hardy_enable_link os to_json self link_id =
     post_json os to_json (hhr_management_url self @ ''/api/links/'' @ link_id @ ''/enable'') []
       ''enable_link''"

definition hardy_disable_link ::
  "os \<Rightarrow> json_encoder \<Rightarrow> hardy_hot_reconfig \<Rightarrow> string \<Rightarrow> (abstraction_error, effect list, unit) action"
  where
  "hardy_disable_link os to_json self link_id =
     post_json os to_json (hhr_management_url self @ ''/api/links/'' @ link_id @ ''/disable'') []
       ''disable_link''"

definition hardy_capabilities :: capability_set where
  "hardy_capabilities =
     \<lparr>cap_hot_reconfig =
        \<lparr>hc_add_contact = True, hc_remove_contact = True, hc_add_neighbor = False,
         hc_remove_neighbor = False, hc_enable_link = True, hc_disable_link = True\<rparr>,
      cap_convergence_layers = [Type_LtpUdp, Type_TcpCl, Type_Kiss, Type_Udp],
      cap_routing_strategies = [Cgr, Static, Default],
      cap_security = security_none\<rparr>"

fun hardy_hot_run ::
  "os \<Rightarrow> json_encoder \<Rightarrow> hardy_hot_reconfig \<Rightarrow> hot_request
     \<Rightarrow> (abstraction_error, effect list, unit) action" where
  "hardy_hot_run os to_json self (Req_add_contact t) = hardy_add_contact os to_json self t"
| "hardy_hot_run os to_json self (Req_remove_contact t) = hardy_remove_contact os to_json self t"
| "hardy_hot_run os to_json self (Req_add_neighbor n) = hardy_add_neighbor n"
| "hardy_hot_run os to_json self (Req_remove_neighbor r) = hardy_remove_neighbor r"
| "hardy_hot_run os to_json self (Req_enable_link l) = hardy_enable_link os to_json self l"
| "hardy_hot_run os to_json self (Req_disable_link l) = hardy_disable_link os to_json self l"

section \<open>Requests\<close>

definition hardy_hot_error :: "string \<Rightarrow> abstraction_error \<Rightarrow> bool" where
  "hardy_hot_error op e \<longleftrightarrow>
     ae_category e \<in> {RuntimeError, CommunicationError} \<and> ec_operation (ae_context e) = op
     \<and> ec_backend (ae_context e) = Some ''hardy''"

lemma send_json_errors: "errors_satisfy (hardy_hot_error op) (send_json verb os to_json url body op)"
  unfolding send_json_def Let_def
  by (intro errors_satisfy_bind errors_satisfy_run_output errors_satisfy_lift)
    (auto simp: hardy_hot_error_def hardy_http_error_def)

lemmas json_errors = send_json_errors [of _ "''POST''", folded post_json_def]
  send_json_errors [of _ "''DELETE''", folded delete_json_def]

lemma send_json_ok_iff:
  "(\<exists>tr'. send_json verb os to_json url body op tr = (Inr (), tr')) \<longleftrightarrow>
     (\<exists>b p. to_json body = Inr b \<and> os_output os tr (curl_command verb b url) = Inr p
        \<and> 200 \<le> http_code_of p \<and> http_code_of p < 300)"
  by (cases "to_json body")
    (auto simp: send_json_def act_bind_def act_lift_run run_output_run Let_def split: sum.splits)

lemma hardy_supported_errors:
  "supports hardy_capabilities (request_op req) \<Longrightarrow>
   errors_satisfy (hardy_hot_error (operation_name (request_op req))) (hardy_hot_run os to_json self req)"
  by (cases req)
    (simp_all add: hardy_add_contact_def hardy_remove_contact_def hardy_enable_link_def
      hardy_disable_link_def hardy_capabilities_def json_errors)

lemma hardy_unsupported:
  "\<not> supports hardy_capabilities (request_op req) \<Longrightarrow>
   \<exists>e. hardy_hot_run os to_json self req w = (Inl e, w) \<and> ae_category e = UnsupportedOperation
     \<and> ec_operation (ae_context e) = operation_name (request_op req)
     \<and> ec_backend (ae_context e) = Some ''hardy''"
  by (cases req) (simp_all add: hardy_add_neighbor_def hardy_remove_neighbor_def hardy_capabilities_def)

lemma hardy_hot_errorD:
  "supports hardy_capabilities (request_op req) \<Longrightarrow>
   hardy_hot_run os to_json self req w = (Inl e, w') \<Longrightarrow>
   hardy_hot_error (operation_name (request_op req)) e"
  using hardy_supported_errors by (rule errors_satisfyD)

text \<open>Hardy fulfils the capability contract: it refuses exactly the two neighbour operations.\<close>

interpretation hardy_hot: hot_reconfig_backend hardy_capabilities "''hardy''" "hardy_hot_run os to_json self"
  for os to_json self
proof (unfold_locales, goal_cases)
  case (1 req w)
  then show ?case using hardy_unsupported by blast
next
  case (2 req w e w')
  from hardy_hot_errorD [OF 2] have "ae_category e \<in> {RuntimeError, CommunicationError}"
    unfolding hardy_hot_error_def by (rule conjunct1)
  then show ?case by auto
next
  case (3 req w e w')
  show ?case
  proof (cases "supports hardy_capabilities (request_op req)")
    case True
    from hardy_hot_errorD [OF True 3] show ?thesis unfolding hardy_hot_error_def by blast
  next
    case False
    from hardy_unsupported [OF False, of os to_json self w] 3 show ?thesis by auto
  qed
qed

text \<open>
  C13: Hardy's declared capabilities are exactly what its run-time operations do: a request is
  refused with UnsupportedOperation, before any effect, if and only if the static capability check
  rejects it, which it does for adding and removing a neighbour and for nothing else. The check's error
  has the same category, operation and backend as the error of the refused request, and a request
  that the check lets pass never fails as unsupported, whatever curl does.
\<close>

theorem hardy_check_predicts_refusal:
  "((\<exists>e. hardy_hot_run os to_json self req tr = (Inl e, tr) \<and> ae_category e = UnsupportedOperation) \<longleftrightarrow>
     \<not> is_ok (check_hot_reconfig_capability hardy_capabilities (request_op req) ''hardy''))
   \<and> (is_ok (check_hot_reconfig_capability hardy_capabilities (request_op req) ''hardy'') \<longleftrightarrow>
     request_op req \<notin> {AddNeighbor, RemoveNeighbor})
   \<and> (case check_hot_reconfig_capability hardy_capabilities (request_op req) ''hardy'' of
        Inl checked \<Rightarrow>
          \<exists>e. hardy_hot_run os to_json self req tr = (Inl e, tr)
            \<and> ae_category e = UnsupportedOperation \<and> ae_category checked = UnsupportedOperation
            \<and> ec_operation (ae_context checked) = ec_operation (ae_context e)
            \<and> ec_backend (ae_context checked) = ec_backend (ae_context e)
            \<and> ec_backend (ae_context e) = Some ''hardy''
      | Inr _ \<Rightarrow>
          \<nexists>e tr'. hardy_hot_run os to_json self req tr = (Inl e, tr') \<and> ae_category e = UnsupportedOperation)"
  (is "?refused \<and> ?which \<and> ?same_context")
proof (intro conjI)
  note check = hardy_hot.check_predicts_refusal [of os to_json self req tr]
    hardy_hot.refusal_changes_nothing [of os to_json self req tr]
  show refused: ?refused using check by blast
  show ?which by (cases req) (simp_all add: check_hot_reconfig_capability_def hardy_capabilities_def)
  show ?same_context
  proof (cases "check_hot_reconfig_capability hardy_capabilities (request_op req) ''hardy''")
    case (Inl checked)
    with refused obtain e where e: "hardy_hot_run os to_json self req tr = (Inl e, tr)"
      "ae_category e = UnsupportedOperation" by auto
    with Inl check_hot_reconfig_err [OF Inl] hardy_hot.error_context [OF e(1)] show ?thesis by auto
  next
    case (Inr u)
    with check show ?thesis by auto
  qed
qed

text \<open>The same for ION, which never refuses.\<close>

lemma ion_never_refuses:
  "ion_hot_run os self req tr = (Inl e, tr') \<Longrightarrow> ae_category e \<noteq> UnsupportedOperation"
  by (rule ion_hot.supported_not_refused [OF ion_supports_all])

text \<open>
  An engine that cannot be reached: curl runs, prints the code 000 and fails. The error is a
  RuntimeError with code http_0, not a CommunicationError.
\<close>

lemma unreachable_is_runtime_error:
  assumes "to_json body = Inr b" and "os_output os tr (curl_command verb b url) = Inr p"
    and "trim (po_stdout p) = ''000''"
  shows "send_json verb os to_json url body op tr
    = (Inl (hardy_http_error 0 op url), tr @ [Output (curl_command verb b url)])"
proof -
  have "http_code_of p = 0" using assms(3) by (simp add: http_code_of_def text_eval)
  then show ?thesis
    using assms by (simp add: send_json_def act_bind_def act_lift_run run_output_run Let_def)
qed

end
