(* ===== verification/Hardy_Lifecycle.thy ===== *)
theory Hardy_Lifecycle
  imports Ion_Lifecycle Hardy_Reconfig
begin

text \<open>
  Lifecycle of the Hardy daemon, \<open>adapter/hardy/lifecycle.rs\<close>: one binary started with
  \<open>hardy.yaml\<close>, stopped by a signal, checked with pgrep; and its version parser. It interprets
  the same lifecycle contract as ION.
\<close>

record hardy_lifecycle =
  hl_bin_dir :: "string option"
  hl_config_dir :: "string option"
  hl_management_url :: string

definition new_hardy_lifecycle :: "string option \<Rightarrow> string option \<Rightarrow> hardy_lifecycle" where
  "new_hardy_lifecycle bin_dir url =
     \<lparr>hl_bin_dir = bin_dir, hl_config_dir = None, hl_management_url = unwrap_or hardy_default_url url\<rparr>"

definition hardy_bin_path :: "hardy_lifecycle \<Rightarrow> string \<Rightarrow> string" where
  "hardy_bin_path self name = (case hl_bin_dir self of Some dir \<Rightarrow> path_join dir name | None \<Rightarrow> name)"

definition hardy_lifecycle_error :: "string \<Rightarrow> string \<Rightarrow> abstraction_error" where
  "hardy_lifecycle_error msg operation = with_backend ''hardy'' (new_error LifecycleError msg operation)"

section \<open>Operations\<close>

definition hardy_start_tools ::
  "os \<Rightarrow> hardy_lifecycle \<Rightarrow> string \<Rightarrow> (abstraction_error, effect list, unit) action" where
  "hardy_start_tools os self config_dir =
     (let config_file = path_join config_dir ''hardy.yaml''
      in act_bind (perform (Path_exists config_file) (\<lambda>tr. os_exists os tr config_file)) (\<lambda>exists.
         if \<not> exists
         then act_fail (with_resource config_file (hardy_lifecycle_error
                (''Hardy config file not found: '' @ config_file) ''start''))
         else
           act_bind (run_output os (plain_command (hardy_bin_path self ''hardy'')
              [''--config'', config_file, ''daemon''])) (\<lambda>r.
           act_bind (act_lift (\<lambda>e. hardy_lifecycle_error (''Failed to execute hardy: '' @ e) ''start'') r)
            (\<lambda>output.
           if \<not> po_success output
           then act_fail (with_resource config_file (hardy_lifecycle_error
                  (''Hardy failed to start (exit code '' @ debug_code (po_code output) @ ''): ''
                   @ trim (po_stderr output) @ stdout_note (po_stdout output)) ''start''))
           else act_return ()))))"

definition hardy_start ::
  "os \<Rightarrow> string \<Rightarrow> (abstraction_error, hardy_lifecycle \<times> effect list, unit) action" where
  "hardy_start os config_dir = (\<lambda>(self, tr).
     let self' = self\<lparr>hl_config_dir := Some config_dir\<rparr>
     in case hardy_start_tools os self' config_dir tr of (r, tr') \<Rightarrow> (r, (self', tr')))"

definition hardy_stop_tools :: "os \<Rightarrow> (abstraction_error, effect list, unit) action" where
  "hardy_stop_tools os =
     act_bind (run_output os (plain_command ''pkill'' [''-TERM'', ''-x'', ''hardy''])) (\<lambda>r.
     act_bind (act_lift (\<lambda>e. hardy_lifecycle_error
         (''Failed to execute pkill for hardy: '' @ e) ''stop'') r) (\<lambda>output.
     if \<not> po_success output
     then (let exit_code = unwrap_or (-1) (po_code output)
           in if exit_code = 1 then act_return ()
              else act_fail (hardy_lifecycle_error
                (''pkill hardy failed (exit code '' @ show_int exit_code @ ''): ''
                 @ trim (po_stderr output)) ''stop''))
     else act_return ()))"

definition hardy_stop :: "os \<Rightarrow> (abstraction_error, hardy_lifecycle \<times> effect list, unit) action" where
  "hardy_stop os = act_on_snd (hardy_stop_tools os)"

definition hardy_restart ::
  "os \<Rightarrow> string \<Rightarrow> (abstraction_error, hardy_lifecycle \<times> effect list, unit) action" where
  "hardy_restart os config_dir =
     act_bind (act_result (hardy_stop os)) (\<lambda>_.
     act_then (pause_millis 500) (hardy_start os config_dir))"

definition check_hardy_process :: "os \<Rightarrow> ('e, effect list, bool) action" where
  "check_hardy_process os =
     act_bind (run_output os (plain_command ''pgrep'' [''-x'', ''hardy''])) (\<lambda>r.
     act_return (command_succeeds r))"

definition hardy_health ::
  "os \<Rightarrow> (abstraction_error, hardy_lifecycle \<times> effect list, health_status) action" where
  "hardy_health os =
     act_on_snd (act_bind (check_hardy_process os) (\<lambda>up.
       act_return (if up then health_message True ''Hardy daemon is running''
                   else health_message False ''Hardy daemon is not running'')))"

section \<open>The version parser\<close>

text \<open>
  \<open>extract_semver_from_iter\<close>: digits and at most two dots, then, once a dot was seen, a suffix
  of letters, digits, dashes and dots. The result is the dot count and the text collected.
\<close>

definition is_suffix_char :: "char \<Rightarrow> bool" where
  "is_suffix_char c \<longleftrightarrow> is_ascii_alphanumeric c \<or> c = CHR ''-'' \<or> c = CHR ''.''"

fun take_semver :: "nat \<Rightarrow> string \<Rightarrow> nat \<times> string" where
  "take_semver dots [] = (dots, [])"
| "take_semver dots (c # cs) =
     (if is_ascii_digit c then (case take_semver dots cs of (d, v) \<Rightarrow> (d, c # v))
      else if c = CHR ''.'' \<and> dots < 2
      then (case take_semver (Suc dots) cs of (d, v) \<Rightarrow> (d, c # v))
      else if c = CHR ''-'' \<or> is_ascii_alphabetic c
      then (dots, if 1 \<le> dots then takeWhile is_suffix_char (c # cs) else [])
      else (dots, []))"

definition extract_semver :: "string \<Rightarrow> string option" where
  "extract_semver s =
     (case take_semver 0 s of
        (dots, version) \<Rightarrow> if 1 \<le> dots \<and> 3 \<le> length version then Some version else None)"

fun hardy_extract_version :: "string \<Rightarrow> string option" where
  "hardy_extract_version [] = None"
| "hardy_extract_version (c # cs) =
     (if c = CHR ''v'' \<or> c = CHR ''V''
      then (if cs \<noteq> [] \<and> is_ascii_digit (hd cs) then extract_semver cs else hardy_extract_version cs)
      else if is_ascii_digit c then extract_semver (c # cs)
      else hardy_extract_version cs)"

fun parse_hardy_version_lines :: "string list \<Rightarrow> string option" where
  "parse_hardy_version_lines [] = None"
| "parse_hardy_version_lines (line # ls) =
     (let trimmed = trim line
      in if trimmed = [] then parse_hardy_version_lines ls
         else if contains_str (to_lowercase trimmed) ''hardy''
         then (case hardy_extract_version trimmed of
                 Some version \<Rightarrow> Some (''Hardy '' @ version)
               | None \<Rightarrow> Some trimmed)
         else (case hardy_extract_version trimmed of
                 Some version \<Rightarrow> Some (''Hardy '' @ version)
               | None \<Rightarrow> parse_hardy_version_lines ls))"

definition parse_hardy_version :: "string \<Rightarrow> string option" where
  "parse_hardy_version out = parse_hardy_version_lines (str_lines out)"

definition hardy_version_tools ::
  "os \<Rightarrow> hardy_lifecycle \<Rightarrow> (abstraction_error, effect list, string) action" where
  "hardy_version_tools os self =
     act_bind (run_output os (plain_command (hardy_bin_path self ''hardy'') [''--version''])) (\<lambda>r.
     act_bind (act_lift (\<lambda>e. hardy_lifecycle_error
         (''Failed to execute hardy --version: '' @ e) ''version'') r) (\<lambda>output.
     let combined = po_stdout output @ [LF] @ po_stderr output
     in case parse_hardy_version combined of
          Some version \<Rightarrow> act_return version
        | None \<Rightarrow>
            if trim (po_stdout output) \<noteq> [] then act_return (trim (first_line (po_stdout output)))
            else act_fail (hardy_lifecycle_error
              ''Could not determine Hardy version from output'' ''version'')))"

definition hardy_version ::
  "os \<Rightarrow> (abstraction_error, hardy_lifecycle \<times> effect list, string) action" where
  "hardy_version os = (\<lambda>(self, tr). act_on_snd (hardy_version_tools os self) (self, tr))"

section \<open>The lifecycle contract\<close>

lemma hardy_lifecycle_error_ok [simp]:
  "lifecycle_error ''hardy'' op (hardy_lifecycle_error msg op)"
  "lifecycle_error ''hardy'' op (with_resource r (hardy_lifecycle_error msg op))"
  by (simp_all add: lifecycle_error_def hardy_lifecycle_error_def)

lemma hardy_start_tools_errors:
  "errors_satisfy (lifecycle_error ''hardy'' ''start'') (hardy_start_tools os self d)"
  unfolding hardy_start_tools_def Let_def
  by (intro errors_satisfy_bind errors_satisfy_perform)
    (auto intro!: errors_satisfy_bind errors_satisfy_lift)

lemma hardy_stop_tools_errors:
  "errors_satisfy (lifecycle_error ''hardy'' ''stop'') (hardy_stop_tools os)"
  unfolding hardy_stop_tools_def Let_def
  by (intro errors_satisfy_bind errors_satisfy_run_output errors_satisfy_lift) auto

lemma hardy_start_tools_appends: "appends (hardy_start_tools os self d)"
  unfolding hardy_start_tools_def Let_def by (intro appends_bind) (auto intro!: appends_bind)

lemma hardy_stop_tools_appends: "appends (hardy_stop_tools os)"
  unfolding hardy_stop_tools_def Let_def by (intro appends_bind) auto

lemma hardy_start_run:
  "hardy_start os d (self, tr) =
     (fst (hardy_start_tools os (self\<lparr>hl_config_dir := Some d\<rparr>) d tr),
      (self\<lparr>hl_config_dir := Some d\<rparr>, snd (hardy_start_tools os (self\<lparr>hl_config_dir := Some d\<rparr>) d tr)))"
  by (simp add: hardy_start_def Let_def split: prod.splits)

lemma hardy_stop_run:
  "hardy_stop os (self, tr) = (fst (hardy_stop_tools os tr), (self, snd (hardy_stop_tools os tr)))"
  by (simp add: hardy_stop_def act_on_snd_run)

interpretation hardy_life: lifecycle_manager "''hardy''" "hardy_start os" "hardy_stop os"
  "hardy_restart os" "hardy_health os" for os
proof (unfold_locales, goal_cases)
  case (1 d)
  show ?case using hardy_start_tools_errors [of os _ d]
    by (simp add: errors_satisfy_def hardy_start_run split_paired_all) (metis prod.collapse)
next
  case 2
  show ?case using hardy_stop_tools_errors [of os]
    by (simp add: errors_satisfy_def hardy_stop_run split_paired_all) (metis prod.collapse)
next
  case (3 d)
  show ?case by (simp add: hardy_restart_def restart_with_def)
next
  case (4 w)
  show ?case by (cases w) (simp add: hardy_stop_run)
next
  case (5 w)
  show ?case using hardy_stop_tools_appends [of os]
    by (cases w) (simp add: hardy_stop_run appends_def)
next
  case (6 w d)
  show ?case using hardy_start_tools_appends [of os _ d]
    by (cases w) (simp add: hardy_start_run appends_def)
next
  case (7 w)
  show ?case
    by (cases w) (auto simp: hardy_health_def act_on_snd_run act_bind_def check_hardy_process_def run_output_run)
qed

text \<open>
  restarting Hardy is stopping it, ignoring the outcome, a pause of 500 milliseconds, and
  starting it: the result is the start's, and every error of a restart is a lifecycle error of the
  start, even when the stop had failed.
\<close>

theorem hardy_restart_is_stop_pause_start:
  "hardy_restart os d (self, tr) =
     hardy_start os d (self, snd (hardy_stop_tools os tr) @ [Sleep_millis 500])
   \<and> (\<forall>e. fst (hardy_restart os d (self, tr)) = Inl e \<longrightarrow> lifecycle_error ''hardy'' ''start'' e)"
proof -
  have "errors_satisfy (lifecycle_error ''hardy'' ''start'') (hardy_restart os d)"
    by (rule hardy_life.restart_errors)
  then have "fst (hardy_restart os d (self, tr)) = Inl e \<Longrightarrow> lifecycle_error ''hardy'' ''start'' e" for e
    unfolding errors_satisfy_def by (metis prod.collapse)
  moreover have "hardy_restart os d (self, tr) =
      hardy_start os d (self, snd (hardy_stop_tools os tr) @ [Sleep_millis 500])"
    using hardy_life.restart_after_stop [of os d self tr] by (simp add: hardy_stop_run)
  ultimately show ?thesis by blast
qed

theorem hardy_restart_is_stop_pause_start_witness:
  "lifecycle_error ''hardy'' ''start''
     (projl (fst (hardy_restart quiet_os ''/etc'' (new_hardy_lifecycle None None, []))))"
proof -
  let ?self = "new_hardy_lifecycle None None"
  have "\<exists>e. fst (hardy_restart quiet_os ''/etc'' (?self, [])) = Inl e"
    unfolding hardy_restart_is_stop_pause_start [THEN conjunct1]
    by (simp add: hardy_start_run hardy_start_tools_def Let_def act_bind_def perform_run quiet_os_def)
  with hardy_restart_is_stop_pause_start [of quiet_os "''/etc''" ?self "[]"] show ?thesis by auto
qed

section \<open>What the version parser returns\<close>

lemma prefix_takeWhile: "prefix (takeWhile p s) s"
  by (metis prefixI takeWhile_dropWhile_id)

lemma take_semver_prefix: "take_semver k s = (d, v) \<Longrightarrow> prefix v s \<and> k \<le> d"
proof (induction k s arbitrary: d v rule: take_semver.induct)
  case (2 k c cs)
  then show ?case
    by (auto split: if_splits prod.splits dest: Suc_leD simp: prefix_takeWhile)
qed simp

lemma take_semver_dot:
  "take_semver k s = (d, v) \<Longrightarrow> k < d \<Longrightarrow> CHR ''.'' \<in> set v"
proof (induction k s arbitrary: d v rule: take_semver.induct)
  case (2 k c cs)
  then show ?case by (auto split: if_splits prod.splits)
qed simp

lemma take_semver_hd:
  "take_semver k (c # cs) = (d, v) \<Longrightarrow> is_ascii_digit c \<Longrightarrow> v \<noteq> [] \<and> hd v = c"
  by (auto split: prod.splits)

lemma extract_semver_spec:
  assumes "extract_semver s = Some v" and "s \<noteq> []" and "is_ascii_digit (hd s)"
  shows "prefix v s \<and> is_ascii_digit (hd v) \<and> CHR ''.'' \<in> set v \<and> 3 \<le> length v"
proof -
  obtain d w where t: "take_semver 0 s = (d, w)" by (cases "take_semver 0 s")
  with assms(1) have w: "v = w" "1 \<le> d" "3 \<le> length w"
    by (auto simp: extract_semver_def split: if_splits)
  obtain c cs where s: "s = c # cs" using assms(2) by (cases s) auto
  show ?thesis
    using take_semver_prefix [OF t] take_semver_dot [OF t] take_semver_hd [of 0 c cs d w] t w assms(3) s
    by auto
qed

text \<open>
  A version number found in Hardy's output is a substring of it that starts with a digit and holds
  a dot.
\<close>

lemma hardy_extract_version_spec:
  "hardy_extract_version s = Some v \<Longrightarrow>
     sublist v s \<and> is_ascii_digit (hd v) \<and> CHR ''.'' \<in> set v \<and> 3 \<le> length v"
proof (induction s)
  case Nil
  then show ?case by simp
next
  case (Cons c cs)
  consider (here) "is_ascii_digit c" "extract_semver (c # cs) = Some v"
    | (after_v) "cs \<noteq> []" "is_ascii_digit (hd cs)" "extract_semver cs = Some v"
    | (later) "hardy_extract_version cs = Some v"
    using Cons.prems by (auto split: if_splits)
  then show ?case
  proof cases
    case here
    from extract_semver_spec [OF here(2)] here(1) show ?thesis by auto
  next
    case after_v
    from extract_semver_spec [OF after_v(3,1,2)] show ?thesis
      by (auto intro: sublist_Cons_right [THEN iffD2])
  next
    case later
    from Cons.IH [OF later] show ?thesis by (auto intro: sublist_Cons_right [THEN iffD2])
  qed
qed

end
