(* ===== verification/Config_Generator.thy ===== *)
theory Config_Generator
  imports Dtn_Model Os_Effects "HOL-Library.List_Lexorder" "HOL-Library.Char_ord"
begin

text \<open>
  What the configuration generators share: the generated file set of \<open>adapter/traits.rs\<close> and
  the loop that writes it to a directory. A \<open>HashMap\<close> is iterated in an order the library does
  not fix, so the loop takes the order as the parameter \<open>iter\<close>. The contract of a generator
  is the locale \<open>config_generator\<close>.
\<close>

record generated_config =
  gc_files :: "string \<rightharpoonup> string"

text \<open>What is known of a map's iteration: every entry once.\<close>

definition map_iteration :: "((string \<rightharpoonup> string) \<Rightarrow> (string \<times> string) list) \<Rightarrow> bool" where
  "map_iteration iter \<longleftrightarrow>
     (\<forall>m. finite (dom m) \<longrightarrow>
        distinct (map fst (iter m)) \<and> (\<forall>k v. (k, v) \<in> set (iter m) \<longleftrightarrow> m k = Some v))"

text \<open>The iteration by ascending key is one of them.\<close>

definition sorted_iteration :: "(string \<rightharpoonup> string) \<Rightarrow> (string \<times> string) list" where
  "sorted_iteration m = map (\<lambda>k. (k, the (m k))) (sorted_list_of_set (dom m))"

lemma sorted_iteration_ok: "map_iteration sorted_iteration"
  unfolding map_iteration_def
proof (intro allI impI conjI)
  fix m :: "string \<rightharpoonup> string"
  assume fin: "finite (dom m)"
  show "distinct (map fst (sorted_iteration m))"
    by (simp add: sorted_iteration_def comp_def)
  fix k v
  show "(k, v) \<in> set (sorted_iteration m) \<longleftrightarrow> m k = Some v"
    using fin by (auto simp: sorted_iteration_def)
qed

text \<open>
  The loop of \<open>deploy\<close>, of \<open>cmd_generate\<close> and of \<open>generate_to_temp\<close>: create the directory, then
  write every file under it; \<open>dir_err\<close> and \<open>file_err\<close> make the caller's errors.
\<close>

definition write_one ::
  "os \<Rightarrow> (string \<Rightarrow> string \<Rightarrow> 'e) \<Rightarrow> string \<Rightarrow> string \<times> string \<Rightarrow> ('e, effect list, unit) action" where
  "write_one os file_err dir = (\<lambda>(filename, content).
     let file_path = path_join dir filename
     in act_bind (perform (Write_file file_path content) (\<lambda>tr. os_write_file os tr file_path content))
          (act_lift (file_err file_path)))"

definition write_files ::
  "os \<Rightarrow> ((string \<rightharpoonup> string) \<Rightarrow> (string \<times> string) list) \<Rightarrow> (string \<Rightarrow> 'e) \<Rightarrow> (string \<Rightarrow> string \<Rightarrow> 'e)
     \<Rightarrow> string \<Rightarrow> generated_config \<Rightarrow> ('e, effect list, unit) action" where
  "write_files os iter dir_err file_err dir generated =
     act_bind (perform (Create_dir_all dir) (\<lambda>tr. os_create_dir_all os tr dir)) (\<lambda>r.
     act_then (act_lift dir_err r)
       (act_each (write_one os file_err dir) (iter (gc_files generated))))"

definition writes_work :: "os \<Rightarrow> bool" where
  "writes_work os \<longleftrightarrow>
     (\<forall>tr d. os_create_dir_all os tr d = Inr ()) \<and> (\<forall>tr p s. os_write_file os tr p s = Inr ())"

definition write_effects :: "string \<Rightarrow> (string \<times> string) list \<Rightarrow> effect list" where
  "write_effects dir kvs =
     Create_dir_all dir # map (\<lambda>(k, v). Write_file (path_join dir k) v) kvs"

lemma write_one_ok:
  "writes_work os \<Longrightarrow> write_one os fe d kv tr = (Inr (), tr @ [Write_file (path_join d (fst kv)) (snd kv)])"
  by (simp add: write_one_def writes_work_def act_bind_def perform_run act_lift_def Let_def
      split: prod.split)

lemma write_files_ok:
  assumes "writes_work os"
  shows "write_files os iter de fe d g tr = (Inr (), tr @ write_effects d (iter (gc_files g)))"
proof -
  have "act_each (write_one os fe d) kvs tr =
      (Inr (), tr @ concat (map (\<lambda>kv. [Write_file (path_join d (fst kv)) (snd kv)]) kvs))" for kvs tr
    by (rule act_each_ok) (rule write_one_ok [OF assms])
  moreover have "concat (map (\<lambda>kv. [Write_file (path_join d (fst kv)) (snd kv)]) kvs)
      = map (\<lambda>(k, v). Write_file (path_join d k) v) kvs" for kvs
    by (induction kvs) auto
  ultimately show ?thesis
    using assms
    by (simp add: write_files_def writes_work_def act_bind_def perform_run act_then_def act_lift_def
        write_effects_def)
qed

lemma write_files_does_only:
  "does_only (insert (Create_dir_all d) ((\<lambda>(k, v). Write_file (path_join d k) v) ` set (iter (gc_files g))))
     (write_files os iter de fe d g)"
  by (force simp: write_files_def write_one_def Let_def
      intro!: does_only_bind does_only_then does_only_perform does_only_each split: prod.split)

text \<open>The file system as the last text written to each path.\<close>

fun written :: "effect list \<Rightarrow> string \<rightharpoonup> string" where
  "written [] = Map.empty"
| "written (e # es) = (\<lambda>p. case written es p of
       Some s \<Rightarrow> Some s
     | None \<Rightarrow> (case e of Write_file q s \<Rightarrow> if q = p then Some s else None | _ \<Rightarrow> None))"

lemma written_append: "written (xs @ ys) p = (case written ys p of Some s \<Rightarrow> Some s | None \<Rightarrow> written xs p)"
  by (induction xs) (auto split: option.split)

section \<open>The contract of a generator\<close>

text \<open>
  A generator names its files without repetition, with plain relative names, and takes no
  notice of the security section (no encryption directive can depend on it).
\<close>

definition plain_name :: "string \<Rightarrow> bool" where
  "plain_name n \<longleftrightarrow> n \<noteq> [] \<and> hd n \<noteq> CHR ''/''"

locale config_generator =
  fixes generate :: "'y network_configuration \<Rightarrow> generated_config"
    and file_names :: "'y network_configuration \<Rightarrow> string list"
  assumes names_exact: "dom (gc_files (generate c)) = set (file_names c)"
    and names_distinct: "distinct (file_names c)"
    and names_plain: "n \<in> set (file_names c) \<Longrightarrow> plain_name n"
    and security_ignored: "generate (c\<lparr>nc_security := s\<rparr>) = generate c"
begin

lemma finite_files [simp]: "finite (dom (gc_files (generate c)))"
  by (simp add: names_exact)

lemma file_count: "card (dom (gc_files (generate c))) = length (file_names c)"
  by (simp add: names_exact distinct_card names_distinct)

lemma same_without_security:
  "c\<lparr>nc_security := None\<rparr> = c'\<lparr>nc_security := None\<rparr> \<Longrightarrow> generate c = generate c'"
  by (metis security_ignored)

text \<open>Whatever the iteration order, deployment leaves exactly the generated texts on disk.\<close>

lemma written_entries:
  assumes "distinct (map fst kvs)" and "\<forall>kv \<in> set kvs. plain_name (fst kv)"
    and "plain_name k" and "d \<noteq> []"
  shows "written (map (\<lambda>(k, v). Write_file (path_join d k) v) kvs) (path_join d k) = map_of kvs k"
  using assms
proof (induction kvs)
  case Nil
  then show ?case by simp
next
  case (Cons kv kvs)
  obtain k0 v0 where kv: "kv = (k0, v0)" by (cases kv)
  have inj: "path_join d k0 = path_join d k \<longleftrightarrow> k0 = k"
    using Cons.prems kv by (auto simp: path_join_def plain_name_def)
  have "map_of kvs k0 = None" using Cons.prems(1) kv by (simp add: map_of_eq_None_iff)
  with Cons inj kv show ?case by (auto split: option.split)
qed

lemma deployed_files:
  assumes "writes_work os" and "map_iteration iter" and "d \<noteq> []" and "plain_name k"
  shows "fst (write_files os iter de fe d (generate c) tr) = Inr ()"
    and "written (drop (length tr) (snd (write_files os iter de fe d (generate c) tr))) (path_join d k)
       = gc_files (generate c) k"
proof -
  let ?kvs = "iter (gc_files (generate c))"
  have it: "distinct (map fst ?kvs)" "\<And>k v. (k, v) \<in> set ?kvs \<longleftrightarrow> gc_files (generate c) k = Some v"
    using assms(2) finite_files [of c] unfolding map_iteration_def by blast+
  show "fst (write_files os iter de fe d (generate c) tr) = Inr ()"
    by (simp add: write_files_ok [OF assms(1)])
  have names: "\<forall>kv \<in> set ?kvs. plain_name (fst kv)"
    using it(2) names_exact [of c] names_plain by fastforce
  have "map_of ?kvs k = gc_files (generate c) k"
    using it by (metis map_of_SomeD map_of_is_SomeI not_None_eq)
  with written_entries [OF it(1) names assms(4,3)]
  show "written (drop (length tr) (snd (write_files os iter de fe d (generate c) tr))) (path_join d k)
      = gc_files (generate c) k"
    by (simp add: write_files_ok [OF assms(1)] write_effects_def split: option.split)
qed

end

end
