(* ===== verification/Validation.thy ===== *)
theory Validation
  imports Dtn_Model Dtn_Error
begin

text \<open>
  Structural validation of a configuration, \<open>src/radiant-dtn-abstraction/src/validation/mod.rs\<close>.
  Each check is the list of details it pushes; \<open>validate\<close> runs all of them (fail-slow). The
  abstract specification is the relation \<open>violates\<close>, one rule per way a configuration can be
  wrong, and the lemmas show that the checks report exactly the violations.
\<close>

definition detail :: "string \<Rightarrow> string \<Rightarrow> string \<Rightarrow> validation_detail" where
  "detail path rule msg = \<lparr>vd_path = path, vd_rule = rule, vd_message = msg\<rparr>"

lemma detail_inj [simp]: "detail p r m = detail p' r' m' \<longleftrightarrow> p = p' \<and> r = r' \<and> m = m'"
  by (simp add: detail_def)

text \<open>The path text \<open>name[i]rest\<close>.\<close>

definition indexed :: "string \<Rightarrow> nat \<Rightarrow> string \<Rightarrow> string" where
  "indexed base i rest = base @ ''['' @ show_nat i @ '']'' @ rest"

section \<open>The checks\<close>

definition defined_nodes :: "'y network_configuration \<Rightarrow> u64 set" where
  "defined_nodes c =
     foldl (\<lambda>s n. insert (nb_node_number n) s) {nd_node_number (nc_local_node c)} (nc_neighbors c)"

definition local_duplicate_detail :: "nat \<Rightarrow> neighbor \<Rightarrow> validation_detail" where
  "local_duplicate_detail i n =
     detail (indexed ''neighbors'' i ''.node_number'') ''duplicate_node_number''
       (''Neighbor node_number '' @ show_word (nb_node_number n)
        @ '' duplicates local_node.node_number'')"

definition check_duplicate_local_node :: "'y network_configuration \<Rightarrow> validation_detail list" where
  "check_duplicate_local_node c =
     concat (map (\<lambda>(i, n). if nb_node_number n = nd_node_number (nc_local_node c)
                           then [local_duplicate_detail i n] else [])
       (enumerate_from 0 (nc_neighbors c)))"

definition neighbor_duplicate_detail :: "nat \<Rightarrow> neighbor \<Rightarrow> validation_detail" where
  "neighbor_duplicate_detail i n =
     detail (indexed ''neighbors'' i ''.node_number'') ''duplicate_node_number''
       (''Duplicate neighbor node_number '' @ show_word (nb_node_number n)
        @ '' (already defined by another neighbor)'')"

fun duplicate_neighbors_from :: "u64 set \<Rightarrow> nat \<Rightarrow> neighbor list \<Rightarrow> validation_detail list" where
  "duplicate_neighbors_from seen i [] = []"
| "duplicate_neighbors_from seen i (n # ns) =
     (if nb_node_number n \<in> seen
      then neighbor_duplicate_detail i n # duplicate_neighbors_from seen (Suc i) ns
      else duplicate_neighbors_from (insert (nb_node_number n) seen) (Suc i) ns)"

definition check_duplicate_neighbor_nodes ::
  "'y network_configuration \<Rightarrow> validation_detail list" where
  "check_duplicate_neighbor_nodes c = duplicate_neighbors_from {} 0 (nc_neighbors c)"

text \<open>One referential integrity error: element \<open>i\<close> of \<open>base\<close>, its field, what it is called.\<close>

definition reference_detail ::
  "string \<Rightarrow> nat \<Rightarrow> string \<Rightarrow> string \<Rightarrow> u64 \<Rightarrow> validation_detail" where
  "reference_detail base i field what node =
     detail (indexed base i (''.'' @ field)) ''referential_integrity''
       (what @ '' '' @ field @ '' '' @ show_word node @ '' does not reference a defined node'')"

definition unresolved ::
  "u64 set \<Rightarrow> string \<Rightarrow> string \<Rightarrow> nat \<Rightarrow> (string \<times> u64) list \<Rightarrow> validation_detail list" where
  "unresolved nodes base what i refs =
     concat (map (\<lambda>(field, node). if node \<in> nodes then [] else [reference_detail base i field what node])
       refs)"

definition check_contact_node_references ::
  "'y network_configuration \<Rightarrow> u64 set \<Rightarrow> validation_detail list" where
  "check_contact_node_references c nodes =
     concat (map (\<lambda>(i, t). unresolved nodes ''contact_plan.contacts'' ''Contact'' i
                   [(''source_node'', ct_source_node t), (''dest_node'', ct_dest_node t)])
       (enumerate_from 0 (cp_contacts (nc_contact_plan c))))"

definition check_range_node_references ::
  "'y network_configuration \<Rightarrow> u64 set \<Rightarrow> validation_detail list" where
  "check_range_node_references c nodes =
     concat (map (\<lambda>(i, r). unresolved nodes ''contact_plan.ranges'' ''Range'' i
                   [(''source_node'', rg_source_node r), (''dest_node'', rg_dest_node r)])
       (enumerate_from 0 (cp_ranges (nc_contact_plan c))))"

definition temporal_detail :: "nat \<Rightarrow> contact \<Rightarrow> validation_detail" where
  "temporal_detail i t =
     detail (indexed ''contact_plan.contacts'' i []) ''temporal_order''
       (''Contact start_time ('' @ show_i64 (ct_start_time t)
        @ '') must be less than end_time ('' @ show_i64 (ct_end_time t) @ '')'')"

definition check_contact_temporal_constraints ::
  "'y network_configuration \<Rightarrow> validation_detail list" where
  "check_contact_temporal_constraints c =
     concat (map (\<lambda>(i, t). if sint (ct_end_time t) \<le> sint (ct_start_time t)
                           then [temporal_detail i t] else [])
       (enumerate_from 0 (cp_contacts (nc_contact_plan c))))"

definition check_static_route_references ::
  "'y network_configuration \<Rightarrow> u64 set \<Rightarrow> validation_detail list" where
  "check_static_route_references c nodes =
     (if rc_strategy (nc_routing c) \<noteq> Static then []
      else concat (map (\<lambda>(i, r). unresolved nodes ''routing.static_routes'' ''Static route'' i
             [(''destination_node'', sr_destination_node r), (''next_hop_node'', sr_next_hop_node r)])
           (enumerate_from 0 (rc_static_routes (nc_routing c)))))"

definition validation_errors :: "'y network_configuration \<Rightarrow> validation_detail list" where
  "validation_errors c =
     check_duplicate_local_node c
     @ check_duplicate_neighbor_nodes c
     @ check_contact_node_references c (defined_nodes c)
     @ check_range_node_references c (defined_nodes c)
     @ check_contact_temporal_constraints c
     @ check_static_route_references c (defined_nodes c)"

definition validate :: "'y network_configuration \<Rightarrow> validation_detail list + unit" where
  "validate c = (let errors = validation_errors c in if errors = [] then Inr () else Inl errors)"

definition derive_default_endpoint :: "node_definition \<Rightarrow> node_definition" where
  "derive_default_endpoint n =
     (if nd_endpoint_id n = None then n\<lparr>nd_endpoint_id := Some (Ipn (nd_node_number n) 0)\<rparr> else n)"

section \<open>The specification\<close>

definition known_node :: "'y network_configuration \<Rightarrow> u64 \<Rightarrow> bool" where
  "known_node c n \<longleftrightarrow>
     n = nd_node_number (nc_local_node c) \<or> n \<in> nb_node_number ` set (nc_neighbors c)"

text \<open>What can be wrong with a configuration, and the detail that reports it.\<close>

inductive violates :: "'y network_configuration \<Rightarrow> validation_detail \<Rightarrow> bool" for c where
  neighbor_is_local:
    "i < length (nc_neighbors c) \<Longrightarrow>
     nb_node_number (nc_neighbors c ! i) = nd_node_number (nc_local_node c) \<Longrightarrow>
     violates c (local_duplicate_detail i (nc_neighbors c ! i))"
| neighbor_repeated:
    "i < length (nc_neighbors c) \<Longrightarrow> j < i \<Longrightarrow>
     nb_node_number (nc_neighbors c ! i) = nb_node_number (nc_neighbors c ! j) \<Longrightarrow>
     violates c (neighbor_duplicate_detail i (nc_neighbors c ! i))"
| contact_unknown:
    "i < length (cp_contacts (nc_contact_plan c)) \<Longrightarrow> t = cp_contacts (nc_contact_plan c) ! i \<Longrightarrow>
     (f, n) \<in> {(''source_node'', ct_source_node t), (''dest_node'', ct_dest_node t)} \<Longrightarrow>
     \<not> known_node c n \<Longrightarrow>
     violates c (reference_detail ''contact_plan.contacts'' i f ''Contact'' n)"
| range_unknown:
    "i < length (cp_ranges (nc_contact_plan c)) \<Longrightarrow> r = cp_ranges (nc_contact_plan c) ! i \<Longrightarrow>
     (f, n) \<in> {(''source_node'', rg_source_node r), (''dest_node'', rg_dest_node r)} \<Longrightarrow>
     \<not> known_node c n \<Longrightarrow>
     violates c (reference_detail ''contact_plan.ranges'' i f ''Range'' n)"
| contact_not_forward:
    "i < length (cp_contacts (nc_contact_plan c)) \<Longrightarrow> t = cp_contacts (nc_contact_plan c) ! i \<Longrightarrow>
     \<not> sint (ct_start_time t) < sint (ct_end_time t) \<Longrightarrow> violates c (temporal_detail i t)"
| route_unknown:
    "rc_strategy (nc_routing c) = Static \<Longrightarrow>
     i < length (rc_static_routes (nc_routing c)) \<Longrightarrow> q = rc_static_routes (nc_routing c) ! i \<Longrightarrow>
     (f, n) \<in> {(''destination_node'', sr_destination_node q), (''next_hop_node'', sr_next_hop_node q)} \<Longrightarrow>
     \<not> known_node c n \<Longrightarrow>
     violates c (reference_detail ''routing.static_routes'' i f ''Static route'' n)"

definition well_formed :: "'y network_configuration \<Rightarrow> bool" where
  "well_formed c \<longleftrightarrow>
     distinct (nd_node_number (nc_local_node c) # map nb_node_number (nc_neighbors c))
     \<and> (\<forall>t \<in> set (cp_contacts (nc_contact_plan c)).
           known_node c (ct_source_node t) \<and> known_node c (ct_dest_node t)
           \<and> sint (ct_start_time t) < sint (ct_end_time t))
     \<and> (\<forall>r \<in> set (cp_ranges (nc_contact_plan c)).
           known_node c (rg_source_node r) \<and> known_node c (rg_dest_node r))
     \<and> (rc_strategy (nc_routing c) = Static \<longrightarrow>
          (\<forall>q \<in> set (rc_static_routes (nc_routing c)).
              known_node c (sr_destination_node q) \<and> known_node c (sr_next_hop_node q)))"

section \<open>The checks report the violations\<close>

lemma foldl_insert: "foldl (\<lambda>s n. insert (f n) s) S xs = S \<union> f ` set xs"
  by (induction xs arbitrary: S) auto

lemma mem_defined_nodes: "n \<in> defined_nodes c \<longleftrightarrow> known_node c n"
  by (auto simp: defined_nodes_def known_node_def foldl_insert)

lemma set_duplicate_neighbors_from:
  "d \<in> set (duplicate_neighbors_from seen k ns) \<longleftrightarrow>
     (\<exists>i < length ns. d = neighbor_duplicate_detail (k + i) (ns ! i)
        \<and> (nb_node_number (ns ! i) \<in> seen
           \<or> (\<exists>j < i. nb_node_number (ns ! i) = nb_node_number (ns ! j))))"
proof (induction ns arbitrary: seen k)
  case Nil
  then show ?case by simp
next
  case (Cons n ns)
  have split: "(\<exists>i < length (n # ns). Q i) \<longleftrightarrow> Q 0 \<or> (\<exists>i < length ns. Q (Suc i))" for Q
    by (auto simp: less_Suc_eq_0_disj)
  have split': "(\<exists>j < Suc i. Q j) \<longleftrightarrow> Q 0 \<or> (\<exists>j < i. Q (Suc j))" for Q i
    by (auto simp: less_Suc_eq_0_disj)
  show ?case
  proof (cases "nb_node_number n \<in> seen")
    case True
    then show ?thesis using Cons.IH [of seen "Suc k"]
      by (simp only: split split' duplicate_neighbors_from.simps if_True set_simps insert_iff)
        auto
  next
    case False
    then show ?thesis using Cons.IH [of "insert (nb_node_number n) seen" "Suc k"]
      by (simp only: split split' duplicate_neighbors_from.simps if_False) auto
  qed
qed

lemma set_unresolved:
  "d \<in> set (unresolved nodes base what i refs) \<longleftrightarrow>
     (\<exists>f n. (f, n) \<in> set refs \<and> n \<notin> nodes \<and> d = reference_detail base i f what n)"
  by (induction refs) (auto simp: unresolved_def)

lemma set_concat_enumerate:
  "d \<in> set (concat (map (\<lambda>(i, x). g i x) (enumerate_from 0 xs))) \<longleftrightarrow>
     (\<exists>i < length xs. d \<in> set (g i (xs ! i)))"
  by (fastforce simp: set_enumerate_0)

lemmas check_defs =
  check_duplicate_local_node_def check_duplicate_neighbor_nodes_def
  check_contact_node_references_def check_range_node_references_def
  check_contact_temporal_constraints_def check_static_route_references_def

lemma local_check_iff:
  "d \<in> set (check_duplicate_local_node c) \<longleftrightarrow>
     (\<exists>i < length (nc_neighbors c).
        nb_node_number (nc_neighbors c ! i) = nd_node_number (nc_local_node c)
        \<and> d = local_duplicate_detail i (nc_neighbors c ! i))"
  unfolding check_defs set_concat_enumerate by auto

lemma contact_check_iff:
  "d \<in> set (check_contact_node_references c (defined_nodes c)) \<longleftrightarrow>
     (\<exists>i < length (cp_contacts (nc_contact_plan c)). \<exists>f n.
        (f, n) \<in> {(''source_node'', ct_source_node (cp_contacts (nc_contact_plan c) ! i)),
                  (''dest_node'', ct_dest_node (cp_contacts (nc_contact_plan c) ! i))}
        \<and> \<not> known_node c n \<and> d = reference_detail ''contact_plan.contacts'' i f ''Contact'' n)"
  unfolding check_defs set_concat_enumerate set_unresolved mem_defined_nodes by simp

lemma range_check_iff:
  "d \<in> set (check_range_node_references c (defined_nodes c)) \<longleftrightarrow>
     (\<exists>i < length (cp_ranges (nc_contact_plan c)). \<exists>f n.
        (f, n) \<in> {(''source_node'', rg_source_node (cp_ranges (nc_contact_plan c) ! i)),
                  (''dest_node'', rg_dest_node (cp_ranges (nc_contact_plan c) ! i))}
        \<and> \<not> known_node c n \<and> d = reference_detail ''contact_plan.ranges'' i f ''Range'' n)"
  unfolding check_defs set_concat_enumerate set_unresolved mem_defined_nodes by simp

lemma temporal_check_iff:
  "d \<in> set (check_contact_temporal_constraints c) \<longleftrightarrow>
     (\<exists>i < length (cp_contacts (nc_contact_plan c)).
        \<not> sint (ct_start_time (cp_contacts (nc_contact_plan c) ! i))
            < sint (ct_end_time (cp_contacts (nc_contact_plan c) ! i))
        \<and> d = temporal_detail i (cp_contacts (nc_contact_plan c) ! i))"
  unfolding check_defs set_concat_enumerate by (auto simp: not_less)

lemma route_check_iff:
  "d \<in> set (check_static_route_references c (defined_nodes c)) \<longleftrightarrow>
     rc_strategy (nc_routing c) = Static \<and>
     (\<exists>i < length (rc_static_routes (nc_routing c)). \<exists>f n.
        (f, n) \<in> {(''destination_node'', sr_destination_node (rc_static_routes (nc_routing c) ! i)),
                  (''next_hop_node'', sr_next_hop_node (rc_static_routes (nc_routing c) ! i))}
        \<and> \<not> known_node c n
        \<and> d = reference_detail ''routing.static_routes'' i f ''Static route'' n)"
proof (cases "rc_strategy (nc_routing c) = Static")
  case True
  then show ?thesis
    unfolding check_static_route_references_def
    by (simp only: set_concat_enumerate set_unresolved mem_defined_nodes if_False simp_thms) simp
next
  case False
  then show ?thesis by (simp add: check_static_route_references_def)
qed

lemmas check_iffs =
  local_check_iff contact_check_iff range_check_iff temporal_check_iff route_check_iff

lemma duplicate_check_iff:
  "d \<in> set (check_duplicate_neighbor_nodes c) \<longleftrightarrow>
     (\<exists>i < length (nc_neighbors c). \<exists>j < i.
        nb_node_number (nc_neighbors c ! i) = nb_node_number (nc_neighbors c ! j)
        \<and> d = neighbor_duplicate_detail i (nc_neighbors c ! i))"
  by (auto simp: check_duplicate_neighbor_nodes_def set_duplicate_neighbors_from)

lemma validation_errors_sound: "d \<in> set (validation_errors c) \<Longrightarrow> violates c d"
  unfolding validation_errors_def set_append Un_iff
proof (elim disjE)
  assume "d \<in> set (check_duplicate_local_node c)"
  then show ?thesis unfolding local_check_iff by (blast intro: neighbor_is_local)
next
  assume "d \<in> set (check_duplicate_neighbor_nodes c)"
  then show ?thesis unfolding duplicate_check_iff by (blast intro: neighbor_repeated)
next
  assume "d \<in> set (check_contact_node_references c (defined_nodes c))"
  then show ?thesis unfolding contact_check_iff by (blast intro: contact_unknown [OF _ refl])
next
  assume "d \<in> set (check_range_node_references c (defined_nodes c))"
  then show ?thesis unfolding range_check_iff by (blast intro: range_unknown [OF _ refl])
next
  assume "d \<in> set (check_contact_temporal_constraints c)"
  then show ?thesis unfolding temporal_check_iff by (blast intro: contact_not_forward [OF _ refl])
next
  assume "d \<in> set (check_static_route_references c (defined_nodes c))"
  then show ?thesis unfolding route_check_iff by (blast intro: route_unknown [OF _ _ refl])
qed

lemma validation_errors_complete: "violates c d \<Longrightarrow> d \<in> set (validation_errors c)"
  unfolding validation_errors_def set_append Un_iff
proof (induction rule: violates.induct)
  case (neighbor_is_local i)
  then show ?case using local_check_iff by blast
next
  case (neighbor_repeated i j)
  then show ?case using duplicate_check_iff by blast
next
  case (contact_unknown i t f n)
  then have "reference_detail ''contact_plan.contacts'' i f ''Contact'' n
      \<in> set (check_contact_node_references c (defined_nodes c))"
    unfolding contact_check_iff by blast
  then show ?case by blast
next
  case (range_unknown i r f n)
  then have "reference_detail ''contact_plan.ranges'' i f ''Range'' n
      \<in> set (check_range_node_references c (defined_nodes c))"
    unfolding range_check_iff by blast
  then show ?case by blast
next
  case (contact_not_forward i t)
  then show ?case using temporal_check_iff by blast
next
  case (route_unknown i q f n)
  then have "reference_detail ''routing.static_routes'' i f ''Static route'' n
      \<in> set (check_static_route_references c (defined_nodes c))"
    unfolding route_check_iff by blast
  then show ?case by blast
qed

lemma validation_errors_iff: "d \<in> set (validation_errors c) \<longleftrightarrow> violates c d"
  using validation_errors_sound validation_errors_complete by blast

text \<open>No violation is the same as being well-formed: each conjunct of the one is a rule of the other.\<close>

lemma distinct_no_repeat:
  "distinct xs \<longleftrightarrow> \<not> (\<exists>i < length xs. \<exists>j < i. xs ! i = xs ! j)"
  by (auto simp: distinct_conv_nth nat_neq_iff) (metis less_trans)+

lemma well_formed_if_no_violation:
  assumes no: "\<And>d. \<not> violates c d"
  shows "well_formed c"
proof -
  have "distinct (map nb_node_number (nc_neighbors c))"
    unfolding distinct_no_repeat using no by (auto dest: neighbor_repeated)
  moreover have "nd_node_number (nc_local_node c) \<notin> nb_node_number ` set (nc_neighbors c)"
    using no neighbor_is_local [of _ c] by (auto simp: in_set_conv_nth) metis
  moreover have "known_node c (ct_source_node t) \<and> known_node c (ct_dest_node t)
      \<and> sint (ct_start_time t) < sint (ct_end_time t)"
    if "t \<in> set (cp_contacts (nc_contact_plan c))" for t
    using that no contact_unknown [of _ c t] contact_not_forward [of _ c t]
    by (auto simp: in_set_conv_nth) blast+
  moreover have "known_node c (rg_source_node r) \<and> known_node c (rg_dest_node r)"
    if "r \<in> set (cp_ranges (nc_contact_plan c))" for r
    using that no range_unknown [of _ c r] by (auto simp: in_set_conv_nth)
  moreover have "known_node c (sr_destination_node q) \<and> known_node c (sr_next_hop_node q)"
    if "rc_strategy (nc_routing c) = Static" "q \<in> set (rc_static_routes (nc_routing c))" for q
    using that no route_unknown [of c _ q] by (auto simp: in_set_conv_nth)
  ultimately show ?thesis by (simp add: well_formed_def)
qed

lemma no_violation_if_well_formed:
  assumes "well_formed c"
  shows "\<not> violates c d"
proof
  assume "violates c d"
  then show False
  proof (induction rule: violates.induct)
    case (neighbor_is_local i)
    then have "nd_node_number (nc_local_node c) \<in> nb_node_number ` set (nc_neighbors c)"
      by (metis image_eqI nth_mem)
    with assms show ?case by (simp add: well_formed_def)
  next
    case (neighbor_repeated i j)
    then have "\<exists>i < length (map nb_node_number (nc_neighbors c)).
        \<exists>j < i. map nb_node_number (nc_neighbors c) ! i = map nb_node_number (nc_neighbors c) ! j"
      by (intro exI [of _ i] exI [of _ j] conjI) simp_all
    then have "\<not> distinct (map nb_node_number (nc_neighbors c))"
      unfolding distinct_no_repeat by blast
    with assms show ?case by (simp add: well_formed_def)
  qed (use assms in \<open>auto simp: well_formed_def\<close>)
qed

lemma validate_ok_iff: "validate c = Inr () \<longleftrightarrow> well_formed c"
proof -
  have "validate c = Inr () \<longleftrightarrow> validation_errors c = []"
    by (simp add: validate_def Let_def)
  also have "\<dots> \<longleftrightarrow> (\<forall>d. \<not> violates c d)"
    using validation_errors_iff [of _ c] by (metis list.set_intros(1) neq_Nil_conv set_empty2 empty_iff)
  also have "\<dots> \<longleftrightarrow> well_formed c"
    using well_formed_if_no_violation no_violation_if_well_formed by blast
  finally show ?thesis .
qed

text \<open>
  C1: validation accepts exactly the well-formed configurations: all node numbers different,
  every contact, range and (under static routing) route between known nodes, every contact with
  its start before its end.
\<close>

theorem validate_ok_iff_well_formed: "validate c = Inr () \<longleftrightarrow> well_formed c"
  by (rule validate_ok_iff)

text \<open>
  validation is fail-slow and exact: when it rejects, the details it returns are precisely the
  violations of the configuration, none left out and none invented.
\<close>

theorem validate_reports_all:
  assumes "validate c = Inl es"
  shows "es \<noteq> [] \<and> set es = {d. violates c d}"
proof -
  from assms have "es = validation_errors c" and "es \<noteq> []"
    by (auto simp: validate_def Let_def split: if_splits)
  then show ?thesis by (auto simp: validation_errors_iff)
qed

text \<open>A configuration with two mistakes: the neighbour is the local node, a contact runs backwards.\<close>

definition bad_config :: "string network_configuration" where
  "bad_config =
     \<lparr>nc_version = ''1.0'', nc_backend = ''ion-dtn'',
      nc_local_node = \<lparr>nd_node_number = 10, nd_endpoint_id = None, nd_callsign_eid = None,
        nd_name = ''gs'', nd_services = []\<rparr>,
      nc_neighbors = [\<lparr>nb_node_number = 10, nb_name = None, nb_links = [], nb_rate_limit_bps = None\<rparr>],
      nc_contact_plan = \<lparr>cp_contacts = [\<lparr>ct_source_node = 10, ct_dest_node = 10, ct_start_time = 9,
        ct_end_time = 5, ct_rate_bps = 9600, ct_confidence = default_confidence\<rparr>], cp_ranges = []\<rparr>,
      nc_routing = \<lparr>rc_strategy = Cgr, rc_static_routes = []\<rparr>,
      nc_security = None, nc_storage = None, nc_backend_options = Map.empty\<rparr>"

lemma bad_config_rejected: "\<exists>es. validate bad_config = Inl es"
  by (simp add: validate_def validation_errors_def check_duplicate_local_node_def bad_config_def Let_def)

theorem validate_reports_all_witness:
  "\<exists>es. validate bad_config = Inl es \<and> violates bad_config (hd es)"
proof -
  obtain es where es: "validate bad_config = Inl es" using bad_config_rejected by blast
  from validate_reports_all [OF es] have "hd es \<in> {d. violates bad_config d}"
    by (metis hd_in_set)
  with es show ?thesis by blast
qed

text \<open>Deriving the default endpoint: it is idempotent and never overwrites a configured one.\<close>

lemma derive_default_endpoint_sel [simp]:
  "nd_endpoint_id (derive_default_endpoint n) =
     (case nd_endpoint_id n of None \<Rightarrow> Some (Ipn (nd_node_number n) 0) | Some e \<Rightarrow> Some e)"
  "nd_node_number (derive_default_endpoint n) = nd_node_number n"
  by (auto simp: derive_default_endpoint_def split: option.splits)

lemma derive_default_endpoint_idem:
  "derive_default_endpoint (derive_default_endpoint n) = derive_default_endpoint n"
  by (auto simp: derive_default_endpoint_def)

end
