(* ===== verification/Hardy_Config.thy ===== *)
theory Hardy_Config
  imports Config_Generator Validation
begin

text \<open>
  Generation of Hardy's YAML files, \<open>adapter/hardy/config_gen.rs\<close>. The opaque YAML values of
  \<open>backend_options\<close> are read with the parameter \<open>as_str\<close>, the third-party accessor. The lemmas
  show that service keys and numbers never repeat, that the search for a free key ends, and which
  files exist.
\<close>

section \<open>Options\<close>

definition option_str ::
  "('y \<Rightarrow> string option) \<Rightarrow> 'y network_configuration \<Rightarrow> string \<Rightarrow> string \<Rightarrow> string" where
  "option_str as_str c key fallback =
     unwrap_or fallback (Option.bind (nc_backend_options c key) as_str)"

definition default_grpc_address :: string where
  "default_grpc_address = ''[::1]:50051''"

definition dquote :: "string \<Rightarrow> string" where
  "dquote s = [CHR 0x22] @ s @ [CHR 0x22]"

section \<open>The LTP convergence layer file\<close>

text \<open>The pairs of a neighbour and one of its LTP/UDP links, in order.\<close>

definition ltp_links :: "neighbor list \<Rightarrow> (neighbor \<times> convergence_layer_link) list" where
  "ltp_links ns = filter (\<lambda>(_, l). is_ltp_udp l) (concat (map (\<lambda>n. map (\<lambda>l. (n, l)) (nb_links n)) ns))"

fun ltp_span_lines :: "neighbor \<times> convergence_layer_link \<Rightarrow> string list" where
  "ltp_span_lines (n, LtpUdp _ _ remote_engine_id remote_host remote_port _ mtu _) =
     [''    - engine-id: '' @ show_word remote_engine_id,
      ''      address: '' @ dquote (remote_host @ '':'' @ show_word remote_port),
      ''      max-segment-size: '' @ show_word (unwrap_or 1400 mtu),
      ''      framing: none'',
      ''      node-ids:'',
      ''        - '' @ dquote (''ipn:'' @ show_word (nb_node_number n) @ ''.0'')]"
| "ltp_span_lines (n, _) = []"

definition ltp_cla_lines ::
  "('y \<Rightarrow> string option) \<Rightarrow> 'y network_configuration \<Rightarrow> u64 \<Rightarrow> u16 \<Rightarrow> string list" where
  "ltp_cla_lines as_str c local_engine_id local_port =
     [''# hardy-ltp-cla (hardy-ltp-server) configuration'',
      ''# Generated by radiant-dtn-abstraction (Hardy adapter)'',
      ''# Bridges Hardy BPA (gRPC) <-> LTP/UDP for interoperability'', [],
      ''grpc:'',
      ''  endpoint: '' @ dquote (''http://'' @ option_str as_str c ''grpc_address'' default_grpc_address),
      ''  reconnect-initial-secs: 1.0'',
      ''  reconnect-max-secs: 10.0'', [],
      ''ltp:'',
      ''  bind: '' @ dquote (''0.0.0.0:'' @ show_word local_port),
      ''  engine-id: '' @ show_word local_engine_id,
      ''  client-service-id: 1'',
      ''  spans:'']
     @ concat (map ltp_span_lines (ltp_links (nc_neighbors c)))"

definition generate_ltp_cla_yaml ::
  "('y \<Rightarrow> string option) \<Rightarrow> 'y network_configuration \<Rightarrow> string option" where
  "generate_ltp_cla_yaml as_str c =
     (case ltp_links (nc_neighbors c) of
        (_, LtpUdp _ local_engine_id _ _ _ local_port _ _) # _ \<Rightarrow>
          Some (render (ltp_cla_lines as_str c local_engine_id local_port))
      | _ \<Rightarrow> None)"

section \<open>The main file, section by section\<close>

definition log_level_lines :: "('y \<Rightarrow> string option) \<Rightarrow> 'y network_configuration \<Rightarrow> string list" where
  "log_level_lines as_str c = [''log-level: '' @ option_str as_str c ''log_level'' ''info'', []]"

definition dtn_node_id :: "node_definition \<Rightarrow> string" where
  "dtn_node_id n =
     (case nd_callsign_eid n of
        Some (Dtn authority path) \<Rightarrow>
          if path = [] then ''dtn://'' @ authority @ ''/'' else ''dtn://'' @ authority @ ''/'' @ path
      | _ \<Rightarrow> ''dtn://node'' @ show_word (nd_node_number n) @ ''/'')"

definition node_ids_lines :: "node_definition \<Rightarrow> string list" where
  "node_ids_lines n =
     [''node-ids:'',
      ''  - '' @ dquote (''ipn:'' @ show_word (nd_node_number n) @ ''.0''),
      ''  - '' @ dquote (dtn_node_id n), []]"

definition grpc_lines :: "('y \<Rightarrow> string option) \<Rightarrow> 'y network_configuration \<Rightarrow> string list" where
  "grpc_lines as_str c =
     [''grpc:'',
      ''  address: '' @ dquote (option_str as_str c ''grpc_address'' default_grpc_address),
      if list_ex (\<lambda>n. list_ex is_ltp_udp (nb_links n)) (nc_neighbors c)
      then ''  services: ['' @ dquote ''application'' @ '', '' @ dquote ''cla'' @ '', '' @ dquote ''service''
           @ '', '' @ dquote ''ltp'' @ '']''
      else ''  services: ['' @ dquote ''application'' @ '', '' @ dquote ''cla'' @ '', '' @ dquote ''service'' @ '']'',
      []]"

definition storage_lines :: "'y network_configuration \<Rightarrow> string list" where
  "storage_lines c =
     [''storage:'']
     @ (case nc_storage c of
          Some st \<Rightarrow>
            [''  metadata:'', ''    type: '' @ dquote ''sqlite'',
             ''    path: '' @ dquote (st_path st @ ''/metadata.db''),
             ''  bundle:'', ''    type: '' @ dquote ''localdisk'',
             ''    path: '' @ dquote (st_path st @ ''/bundles'')]
        | None \<Rightarrow>
            [''  metadata:'', ''    type: '' @ dquote ''memory'',
             ''  bundle:'', ''    type: '' @ dquote ''memory''])
     @ [[]]"

definition rfc9171_lines :: "string list" where
  "rfc9171_lines =
     [''rfc9171-validity:'', ''  primary-block-integrity: false'', ''  bundle-age-required: false'', []]"

section \<open>Built-in services\<close>

text \<open>
  The search for a free key. The counter is a \<open>u32\<close>; it would have to pass \<open>2 ^ 32 - 1\<close> for the
  increment to overflow, and \<open>None\<close> is that panic.
\<close>

function fresh_key :: "string set \<Rightarrow> string \<Rightarrow> nat \<Rightarrow> string \<Rightarrow> string option" where
  "fresh_key used original counter key =
     (if key \<in> used
      then (if counter + 1 < 2 ^ 32
            then fresh_key used original (counter + 1) (original @ ''-'' @ show_nat counter)
            else None)
      else Some key)"
  by pat_completeness auto
termination
  by (relation "measure (\<lambda>(used, original, counter, key). 2 ^ 32 - counter)") auto

declare fresh_key.simps [simp del]

definition service_description :: "service_demux \<Rightarrow> string" where
  "service_description svc = unwrap_or ''service'' (sd_description svc)"

definition base_key :: "service_demux \<Rightarrow> string" where
  "base_key svc = replace_chars [CHR '' ''] (CHR ''-'') (to_lowercase (service_description svc))"

definition service_key :: "string set \<Rightarrow> service_demux \<Rightarrow> string option" where
  "service_key used svc =
     (let base_name = base_key svc;
          key_name = (if base_name \<in> used
                      then base_name @ ''-'' @ show_word (sd_service_number svc) else base_name)
      in fresh_key used key_name 2 key_name)"

text \<open>One emitted service: its key, its number and its description.\<close>

type_synonym service_entry = "string \<times> u64 \<times> string"

fun collect_services ::
  "string set \<Rightarrow> u64 set \<Rightarrow> service_demux list \<Rightarrow> service_entry list option" where
  "collect_services used_keys used_numbers [] = Some []"
| "collect_services used_keys used_numbers (svc # svcs) =
     (if sd_service_number svc \<in> used_numbers then collect_services used_keys used_numbers svcs
      else case service_key used_keys svc of
             None \<Rightarrow> None
           | Some key \<Rightarrow>
               map_option (Cons (key, sd_service_number svc, service_description svc))
                 (collect_services (insert key used_keys) (insert (sd_service_number svc) used_numbers) svcs))"

definition service_line :: "service_entry \<Rightarrow> string" where
  "service_line = (\<lambda>(key, number, desc).
     ''  '' @ key @ '': ['' @ show_word number @ '', '' @ dquote desc @ '']'')"

definition built_in_services_lines :: "node_definition \<Rightarrow> string list option" where
  "built_in_services_lines n =
     map_option (\<lambda>entries. [''built-in-services:'', ''  echo: [7, '' @ dquote ''echo'' @ '']'']
                           @ map service_line entries @ [[]])
       (collect_services {''echo''} {7} (nd_services n))"

section \<open>Routes and convergence layers\<close>

definition static_routes_lines :: "routing_config \<Rightarrow> string list" where
  "static_routes_lines routing =
     (if rc_strategy routing \<noteq> Static then []
      else [''static-routes:'', ''  routes-file: '' @ dquote ''static_routes.yaml'', []])"

fun cla_entry_lines :: "nat \<times> convergence_layer_link \<Rightarrow> string list" where
  "cla_entry_lines (idx, TcpCl i _ _ local_port _) =
     [''  - name: '' @ dquote (if i = [] then ''tcp-cla-'' @ show_nat (idx + 1) else i),
      ''    type: '' @ dquote ''tcpclv4'',
      ''    address: '' @ dquote (''[::]:'' @ show_word (unwrap_or 4556 local_port)),
      ''    segment-mru: 16384'',
      ''    transfer-mru: 562949953421312'']"
| "cla_entry_lines (idx, _) = []"

fun external_cla_note :: "convergence_layer_link \<Rightarrow> string list" where
  "external_cla_note (LtpUdp i _ _ remote_host remote_port _ _ _) =
     [''# - LTP/UDP link '' @ dquote i @ '' -> '' @ remote_host @ '':'' @ show_word remote_port]"
| "external_cla_note (Kiss i tnc_device _ _ _ _) =
     [''# - KISS link '' @ dquote i @ '' via '' @ tnc_device]"
| "external_cla_note (Udp i remote_host remote_port _) =
     [''# - UDP link '' @ dquote i @ '' -> '' @ remote_host @ '':'' @ show_word remote_port]"
| "external_cla_note (TcpCl _ _ _ _ _) = []"

definition clas_lines :: "neighbor list \<Rightarrow> string list" where
  "clas_lines ns =
     (let tcpcl_entries = filter is_tcpcl (all_links ns);
          has_non_tcpcl = list_ex (\<lambda>l. \<not> is_tcpcl l) (all_links ns)
      in (if tcpcl_entries = [] \<and> \<not> has_non_tcpcl then []
          else (if tcpcl_entries \<noteq> []
                then ''clas:'' # concat (map cla_entry_lines (enumerate_from 0 tcpcl_entries)) else [])
               @ (if has_non_tcpcl
                  then [[], ''# NOTE: LTP/UDP/KISS convergence layers require the separate'',
                        ''# hardy-ltp-cla binary. Configure it independently.'']
                       @ concat (map external_cla_note (all_links ns))
                  else [])))"

definition hardy_lines ::
  "('y \<Rightarrow> string option) \<Rightarrow> 'y network_configuration \<Rightarrow> string list option" where
  "hardy_lines as_str c =
     map_option (\<lambda>services.
         [''# Hardy BPA server configuration'',
          ''# Generated by radiant-dtn-abstraction (Hardy adapter)'',
          ''# Amateur radio compliant: no BPSec/encryption'', []]
         @ log_level_lines as_str c
         @ node_ids_lines (nc_local_node c)
         @ grpc_lines as_str c
         @ storage_lines c
         @ rfc9171_lines
         @ services
         @ static_routes_lines (nc_routing c)
         @ clas_lines (nc_neighbors c))
       (built_in_services_lines (nc_local_node c))"

definition generate_hardy_yaml ::
  "('y \<Rightarrow> string option) \<Rightarrow> 'y network_configuration \<Rightarrow> string option" where
  "generate_hardy_yaml as_str c = map_option render (hardy_lines as_str c)"

definition route_lines :: "static_route \<Rightarrow> string list" where
  "route_lines r =
     [''  - destination: '' @ dquote (''ipn:'' @ show_word (sr_destination_node r) @ ''.0''),
      ''    next-hop: '' @ dquote (''ipn:'' @ show_word (sr_next_hop_node r) @ ''.0'')]"

definition generate_static_routes_yaml :: "'y network_configuration \<Rightarrow> string" where
  "generate_static_routes_yaml c = render (
     [''# Hardy static routes'', ''# Generated by radiant-dtn-abstraction'', [], ''routes:'']
     @ concat (map route_lines (rc_static_routes (nc_routing c))))"

definition generate_hardy_config ::
  "('y \<Rightarrow> string option) \<Rightarrow> 'y network_configuration \<Rightarrow> generated_config option" where
  "generate_hardy_config as_str c =
     map_option (\<lambda>yaml_content.
       (let files = Map.empty(''hardy.yaml'' \<mapsto> yaml_content);
            files = (if rc_strategy (nc_routing c) = Static \<and> rc_static_routes (nc_routing c) \<noteq> []
                     then files(''static_routes.yaml'' \<mapsto> generate_static_routes_yaml c) else files)
        in \<lparr>gc_files = (case generate_ltp_cla_yaml as_str c of
              Some ltp_cla_content \<Rightarrow> files(''ltp-cla.yaml'' \<mapsto> ltp_cla_content)
            | None \<Rightarrow> files)\<rparr>))
       (generate_hardy_yaml as_str c)"

section \<open>The search for a free key ends\<close>

text \<open>The candidates after the first are pairwise different.\<close>

lemma candidate_inj: "inj_on (\<lambda>k. original @ ''-'' @ show_nat k) A"
  by (auto simp: inj_on_def)

lemma fresh_key_Some: "fresh_key used original counter key = Some k \<Longrightarrow> k \<notin> used"
proof (induction used original counter key rule: fresh_key.induct)
  case (1 used original counter key)
  then show ?case by (subst (asm) fresh_key.simps) (auto split: if_splits)
qed

lemma fresh_key_finds:
  assumes "counter \<le> k" and "k + 1 < 2 ^ 32" and "original @ ''-'' @ show_nat k \<notin> used"
  shows "\<exists>r. fresh_key used original counter key = Some r"
  using assms
proof (induction used original counter key rule: fresh_key.induct)
  case (1 used original counter key)
  show ?case
  proof (cases "key \<in> used")
    case False
    then show ?thesis by (subst fresh_key.simps) simp
  next
    case True
    have less: "counter + 1 < 2 ^ 32" using "1.prems" by simp
    show ?thesis
    proof (cases "counter = k")
      case True
      then show ?thesis using \<open>key \<in> used\<close> less "1.prems"(3)
        by (subst fresh_key.simps, subst fresh_key.simps) simp
    next
      case False
      with "1.prems" have "counter + 1 \<le> k" by simp
      from "1.IH" [OF \<open>key \<in> used\<close> less this "1.prems"(2,3)] show ?thesis
        using \<open>key \<in> used\<close> less by (subst fresh_key.simps) simp
    qed
  qed
qed

text \<open>Fewer used keys than counter values: the search returns.\<close>

lemma fresh_key_returns:
  assumes "finite used" and "card used + 3 < 2 ^ 32"
  shows "\<exists>r. fresh_key used original 2 key = Some r"
proof -
  have "\<exists>k. 2 \<le> k \<and> k < 2 + (card used + 1) \<and> original @ ''-'' @ show_nat k \<notin> used"
    using fresh_nat_exists [OF assms(1) candidate_inj [of original "{2 ..< 2 + (card used + 1)}"]] by simp
  then obtain k where "2 \<le> k" "k < 2 + (card used + 1)" "original @ ''-'' @ show_nat k \<notin> used" by blast
  with assms(2) fresh_key_finds [of 2 k original used key] show ?thesis by simp
qed

lemma service_key_fresh: "service_key used svc = Some k \<Longrightarrow> k \<notin> used"
  unfolding service_key_def Let_def by (rule fresh_key_Some)

lemma collect_services_returns:
  assumes "finite used" and "card used + length svcs + 3 < 2 ^ 32"
  shows "\<exists>es. collect_services used nums svcs = Some es"
  using assms
proof (induction svcs arbitrary: used nums)
  case Nil
  then show ?case by simp
next
  case (Cons svc svcs)
  show ?case
  proof (cases "sd_service_number svc \<in> nums")
    case True
    then show ?thesis using Cons.IH [of used nums] Cons.prems by simp
  next
    case False
    obtain k where k: "service_key used svc = Some k"
      using fresh_key_returns [of used] Cons.prems by (fastforce simp: service_key_def Let_def)
    have "card (insert k used) + length svcs + 3 < 2 ^ 32"
      using Cons.prems service_key_fresh [OF k] by simp
    then obtain es where "collect_services (insert k used) (insert (sd_service_number svc) nums) svcs = Some es"
      using Cons.IH [of "insert k used"] Cons.prems(1) by blast
    with k False show ?thesis by simp
  qed
qed

lemma collect_services_distinct:
  "collect_services used nums svcs = Some es \<Longrightarrow>
     distinct (map fst es) \<and> distinct (map (fst \<circ> snd) es)
     \<and> fst ` set es \<inter> used = {} \<and> (fst \<circ> snd) ` set es \<inter> nums = {}
     \<and> nums \<union> (fst \<circ> snd) ` set es = nums \<union> sd_service_number ` set svcs"
proof (induction svcs arbitrary: used nums es)
  case Nil
  then show ?case by simp
next
  case (Cons svc svcs)
  show ?case
  proof (cases "sd_service_number svc \<in> nums")
    case True
    with Cons.prems Cons.IH [of used nums es] show ?thesis by auto
  next
    case False
    with Cons.prems obtain k fs where k: "service_key used svc = Some k"
      and fs: "collect_services (insert k used) (insert (sd_service_number svc) nums) svcs = Some fs"
      and es: "es = (k, sd_service_number svc, service_description svc) # fs"
      by (auto split: option.splits)
    from Cons.IH [OF fs] service_key_fresh [OF k] False show ?thesis unfolding es by auto
  qed
qed

text \<open>
  C21: Hardy's service table is generated for every node with fewer than about four billion services
  (the counter cannot overflow), its keys are pairwise different and differ from the reserved
  echo, its numbers are pairwise different and differ from 7, and every service number of the
  node is served.
\<close>

theorem hardy_services_unique:
  assumes "length (nd_services n) + 4 < 2 ^ 32"
  shows "\<exists>es. collect_services {''echo''} {7} (nd_services n) = Some es
     \<and> distinct (''echo'' # map fst es) \<and> distinct (7 # map (fst \<circ> snd) es)
     \<and> insert 7 ((fst \<circ> snd) ` set es) = insert 7 (sd_service_number ` set (nd_services n))"
proof -
  obtain es where es: "collect_services {''echo''} {7} (nd_services n) = Some es"
    using collect_services_returns [of "{''echo''}" "nd_services n" "{7}"] assms by auto
  from collect_services_distinct [OF es] es show ?thesis by auto
qed

definition busy_node :: node_definition where
  "busy_node = \<lparr>nd_node_number = 5, nd_endpoint_id = None, nd_callsign_eid = None, nd_name = ''n'',
     nd_services = [\<lparr>sd_service_number = 42, sd_description = Some ''Echo''\<rparr>,
                    \<lparr>sd_service_number = 42, sd_description = None\<rparr>]\<rparr>"

theorem hardy_services_unique_witness:
  "\<exists>es. collect_services {''echo''} {7} (nd_services busy_node) = Some es
     \<and> insert 7 ((fst \<circ> snd) ` set es) = {7, 42}"
proof -
  have "length (nd_services busy_node) + 4 < 2 ^ 32" by (simp add: busy_node_def)
  from hardy_services_unique [OF this] show ?thesis by (auto simp: busy_node_def)
qed

section \<open>The generated files\<close>

definition hardy_serves :: "'y network_configuration \<Rightarrow> bool" where
  "hardy_serves c \<longleftrightarrow> length (nd_services (nc_local_node c)) + 4 < 2 ^ 32"

lemma services_generated:
  assumes "length (nd_services n) + 4 < 2 ^ 32"
  shows "\<exists>ls. built_in_services_lines n = Some ls"
proof -
  obtain es where "collect_services {''echo''} {7} (nd_services n) = Some es"
    using collect_services_returns [of "{''echo''}" "nd_services n" "{7}"] assms by auto
  then show ?thesis by (simp add: built_in_services_lines_def)
qed

lemma hardy_generated:
  assumes "hardy_serves c"
  obtains ls g where "hardy_lines as_str c = Some ls" and "generate_hardy_config as_str c = Some g"
    and "gc_files g ''hardy.yaml'' = Some (render ls)"
    and "gc_files g ''static_routes.yaml'' =
           (if rc_strategy (nc_routing c) = Static \<and> rc_static_routes (nc_routing c) \<noteq> []
            then Some (generate_static_routes_yaml c) else None)"
    and "gc_files g ''ltp-cla.yaml'' = generate_ltp_cla_yaml as_str c"
    and "dom (gc_files g) \<subseteq> {''hardy.yaml'', ''static_routes.yaml'', ''ltp-cla.yaml''}"
proof -
  obtain ss where ss: "built_in_services_lines (nc_local_node c) = Some ss"
    using services_generated assms unfolding hardy_serves_def by blast
  define ls where "ls = the (hardy_lines as_str c)"
  have ls: "hardy_lines as_str c = Some ls" by (simp add: ls_def hardy_lines_def ss)
  define g where "g = the (generate_hardy_config as_str c)"
  have g: "generate_hardy_config as_str c = Some g"
    by (simp add: g_def generate_hardy_config_def generate_hardy_yaml_def ls)
  have gd: "g = the (generate_hardy_config as_str c)" by (simp add: g)
  show ?thesis
    by (rule that [OF ls g])
      (auto simp: gd generate_hardy_config_def generate_hardy_yaml_def ls Let_def split: option.splits if_splits)
qed

lemma is_ltp_udp_in_ltp_links:
  "(\<exists>l \<in> set (all_links ns). is_ltp_udp l) \<longleftrightarrow> ltp_links ns \<noteq> []"
  by (auto simp: ltp_links_def filter_empty_conv all_links_def)

lemma generate_ltp_cla_None: "generate_ltp_cla_yaml as_str c = None \<longleftrightarrow> ltp_links (nc_neighbors c) = []"
proof -
  have "is_ltp_udp l" if "ltp_links ns = (n, l) # rest" for ns n l rest
    using that unfolding ltp_links_def by (auto dest!: filter_eq_ConsD)
  then show ?thesis
    by (fastforce simp: generate_ltp_cla_yaml_def split: list.splits convergence_layer_link.splits)
qed

text \<open>
  C22: generation of Hardy's files returns for every configuration with fewer than about four
  billion services (no panic), and the files are exactly: hardy.yaml; static_routes.yaml when the
  strategy is static and there is a route; ltp-cla.yaml when some neighbour has an LTP/UDP link.
\<close>

theorem hardy_file_set:
  assumes "hardy_serves c"
  shows "\<exists>g. generate_hardy_config as_str c = Some g \<and> dom (gc_files g) =
      {''hardy.yaml''}
      \<union> (if rc_strategy (nc_routing c) = Static \<and> rc_static_routes (nc_routing c) \<noteq> []
         then {''static_routes.yaml''} else {})
      \<union> (if \<exists>l \<in> set (all_links (nc_neighbors c)). is_ltp_udp l then {''ltp-cla.yaml''} else {})"
proof -
  obtain ls g where g: "generate_hardy_config as_str c = Some g"
    and f: "gc_files g ''hardy.yaml'' = Some (render ls)"
    "gc_files g ''static_routes.yaml'' =
       (if rc_strategy (nc_routing c) = Static \<and> rc_static_routes (nc_routing c) \<noteq> []
        then Some (generate_static_routes_yaml c) else None)"
    "gc_files g ''ltp-cla.yaml'' = generate_ltp_cla_yaml as_str c"
    and d: "dom (gc_files g) \<subseteq> {''hardy.yaml'', ''static_routes.yaml'', ''ltp-cla.yaml''}"
    using hardy_generated [OF assms] by blast
  have "''ltp-cla.yaml'' \<in> dom (gc_files g) \<longleftrightarrow> (\<exists>l \<in> set (all_links (nc_neighbors c)). is_ltp_udp l)"
    unfolding is_ltp_udp_in_ltp_links f(3) domIff generate_ltp_cla_None ..
  moreover have "''hardy.yaml'' \<in> dom (gc_files g)" unfolding domIff f(1) by simp
  moreover have "''static_routes.yaml'' \<in> dom (gc_files g) \<longleftrightarrow>
      rc_strategy (nc_routing c) = Static \<and> rc_static_routes (nc_routing c) \<noteq> []"
    unfolding domIff f(2) by simp
  ultimately show ?thesis using g d by (intro exI [of _ g]) (auto split: if_splits)
qed

text \<open>
  A Hardy node: static routing chosen, no route yet, two neighbours over TCP without a local port.
\<close>

definition hardy_config :: "string network_configuration" where
  "hardy_config =
     \<lparr>nc_version = ''1.0'', nc_backend = ''hardy'',
      nc_local_node = \<lparr>nd_node_number = 10, nd_endpoint_id = None, nd_callsign_eid = None,
        nd_name = ''gs'', nd_services = []\<rparr>,
      nc_neighbors =
        [\<lparr>nb_node_number = 20, nb_name = None,
          nb_links = [TcpCl ''a'' ''10.0.0.2'' 4556 None None], nb_rate_limit_bps = None\<rparr>,
         \<lparr>nb_node_number = 30, nb_name = None,
          nb_links = [TcpCl ''b'' ''10.0.0.3'' 4556 None None], nb_rate_limit_bps = None\<rparr>],
      nc_contact_plan = \<lparr>cp_contacts = [], cp_ranges = []\<rparr>,
      nc_routing = \<lparr>rc_strategy = Static, rc_static_routes = []\<rparr>,
      nc_security = None, nc_storage = None, nc_backend_options = Map.empty\<rparr>"

lemma hardy_config_serves: "hardy_serves hardy_config"
  by (simp add: hardy_serves_def hardy_config_def)

lemma hardy_config_valid: "validate hardy_config = Inr ()"
  unfolding validate_ok_iff by (simp add: well_formed_def known_node_def hardy_config_def)

theorem hardy_file_set_witness:
  "\<exists>g. generate_hardy_config Some hardy_config = Some g \<and> dom (gc_files g) = {''hardy.yaml''}"
  using hardy_file_set [OF hardy_config_serves, of Some] by (simp add: hardy_config_def all_links_def)

definition routes_reference :: string where
  "routes_reference = ''  routes-file: '' @ dquote ''static_routes.yaml''"

lemma hardy_lines_routes:
  assumes "hardy_lines as_str c = Some ls" and "rc_strategy (nc_routing c) = Static"
  shows "routes_reference \<in> set ls"
proof -
  have "routes_reference \<in> set (static_routes_lines (nc_routing c))"
    using assms(2) by (simp add: static_routes_lines_def routes_reference_def)
  moreover obtain ss where "ls = [''# Hardy BPA server configuration'',
          ''# Generated by radiant-dtn-abstraction (Hardy adapter)'',
          ''# Amateur radio compliant: no BPSec/encryption'', []]
         @ log_level_lines as_str c @ node_ids_lines (nc_local_node c) @ grpc_lines as_str c
         @ storage_lines c @ rfc9171_lines @ ss @ static_routes_lines (nc_routing c)
         @ clas_lines (nc_neighbors c)"
    using assms(1) unfolding hardy_lines_def by blast
  ultimately show ?thesis by (simp only: set_append Un_iff simp_thms)
qed

text \<open>
  static routing with no route yet: hardy.yaml tells Hardy to load static_routes.yaml, and that
  file is not among the generated ones.
\<close>

theorem hardy_routes_file_missing:
  assumes "hardy_serves c" and "rc_strategy (nc_routing c) = Static" and "rc_static_routes (nc_routing c) = []"
  shows "\<exists>g ls. generate_hardy_config as_str c = Some g
      \<and> gc_files g ''hardy.yaml'' = Some (render ls) \<and> routes_reference \<in> set ls
      \<and> gc_files g ''static_routes.yaml'' = None"
proof -
  obtain ls g where "hardy_lines as_str c = Some ls" "generate_hardy_config as_str c = Some g"
    "gc_files g ''hardy.yaml'' = Some (render ls)"
    "gc_files g ''static_routes.yaml'' =
       (if rc_strategy (nc_routing c) = Static \<and> rc_static_routes (nc_routing c) \<noteq> []
        then Some (generate_static_routes_yaml c) else None)"
    using hardy_generated [OF assms(1)] by blast
  with assms(3) hardy_lines_routes [OF _ assms(2)] show ?thesis by auto
qed

theorem hardy_routes_file_missing_witness:
  "validate hardy_config = Inr () \<and> (\<exists>g ls. generate_hardy_config Some hardy_config = Some g
      \<and> routes_reference \<in> set ls \<and> gc_files g ''static_routes.yaml'' = None)"
proof -
  have "rc_strategy (nc_routing hardy_config) = Static" "rc_static_routes (nc_routing hardy_config) = []"
    by (simp_all add: hardy_config_def)
  from hardy_routes_file_missing [OF hardy_config_serves this, of Some] hardy_config_valid
  show ?thesis by blast
qed

text \<open>
  The contract of a generator. Where generation panics (past the service bound) there is no file.
\<close>

definition hardy_files ::
  "('y \<Rightarrow> string option) \<Rightarrow> 'y network_configuration \<Rightarrow> generated_config" where
  "hardy_files as_str c = unwrap_or \<lparr>gc_files = Map.empty\<rparr> (generate_hardy_config as_str c)"

definition hardy_file_names ::
  "('y \<Rightarrow> string option) \<Rightarrow> 'y network_configuration \<Rightarrow> string list" where
  "hardy_file_names as_str c =
     (if built_in_services_lines (nc_local_node c) = None then []
      else [''hardy.yaml'']
        @ (if rc_strategy (nc_routing c) = Static \<and> rc_static_routes (nc_routing c) \<noteq> []
           then [''static_routes.yaml''] else [])
        @ (if generate_ltp_cla_yaml as_str c = None then [] else [''ltp-cla.yaml'']))"

lemma nc_select:
  "nc_neighbors (c\<lparr>nc_security := s\<rparr>) = nc_neighbors c"
  "nc_local_node (c\<lparr>nc_security := s\<rparr>) = nc_local_node c"
  "nc_routing (c\<lparr>nc_security := s\<rparr>) = nc_routing c"
  "nc_storage (c\<lparr>nc_security := s\<rparr>) = nc_storage c"
  by simp_all

lemma hardy_sections_ignore_security [simp]:
  "option_str as_str (c\<lparr>nc_security := s\<rparr>) = option_str as_str c"
  "log_level_lines as_str (c\<lparr>nc_security := s\<rparr>) = log_level_lines as_str c"
  "grpc_lines as_str (c\<lparr>nc_security := s\<rparr>) = grpc_lines as_str c"
  "storage_lines (c\<lparr>nc_security := s\<rparr>) = storage_lines c"
  "generate_static_routes_yaml (c\<lparr>nc_security := s\<rparr>) = generate_static_routes_yaml c"
  "ltp_cla_lines as_str (c\<lparr>nc_security := s\<rparr>) = ltp_cla_lines as_str c"
proof -
  show o: "option_str as_str (c\<lparr>nc_security := s\<rparr>) = option_str as_str c"
    by (simp add: option_str_def fun_eq_iff)
  show "log_level_lines as_str (c\<lparr>nc_security := s\<rparr>) = log_level_lines as_str c"
    unfolding log_level_lines_def o ..
  show "grpc_lines as_str (c\<lparr>nc_security := s\<rparr>) = grpc_lines as_str c"
    unfolding grpc_lines_def o by (simp only: nc_select)
  show "storage_lines (c\<lparr>nc_security := s\<rparr>) = storage_lines c"
    unfolding storage_lines_def by (simp only: nc_select)
  show "generate_static_routes_yaml (c\<lparr>nc_security := s\<rparr>) = generate_static_routes_yaml c"
    unfolding generate_static_routes_yaml_def by (simp only: nc_select)
  show "ltp_cla_lines as_str (c\<lparr>nc_security := s\<rparr>) = ltp_cla_lines as_str c"
    unfolding fun_eq_iff ltp_cla_lines_def o nc_select by simp
qed

lemma generate_ignores_security:
  "generate_ltp_cla_yaml as_str (c\<lparr>nc_security := s\<rparr>) = generate_ltp_cla_yaml as_str c"
  "hardy_lines as_str (c\<lparr>nc_security := s\<rparr>) = hardy_lines as_str c"
  by (simp_all only: generate_ltp_cla_yaml_def hardy_lines_def hardy_sections_ignore_security
      nc_select)

interpretation hardy_gen: config_generator "hardy_files as_str" "hardy_file_names as_str" for as_str
proof (unfold_locales, goal_cases)
  case (1 c)
  have "generate_hardy_yaml as_str c = None \<longleftrightarrow> built_in_services_lines (nc_local_node c) = None"
    by (simp add: generate_hardy_yaml_def hardy_lines_def)
  then show ?case
    by (auto simp: hardy_files_def hardy_file_names_def generate_hardy_config_def Let_def
        split: option.splits if_splits)
next
  case (2 c)
  show ?case by (simp add: hardy_file_names_def)
next
  case (3 n c)
  then show ?case by (auto simp: hardy_file_names_def plain_name_def split: if_splits)
next
  case 4
  show ?case
    by (simp only: hardy_files_def generate_hardy_config_def generate_hardy_yaml_def
        generate_ignores_security hardy_sections_ignore_security nc_select)
qed

section \<open>Listeners\<close>

fun listen_port :: "convergence_layer_link \<Rightarrow> u16 option" where
  "listen_port (TcpCl _ _ _ local_port _) = Some (unwrap_or 4556 local_port)"
| "listen_port _ = None"

text \<open>The addresses of the \<open>clas\<close> section, in order.\<close>

definition address_line :: "u16 \<Rightarrow> string" where
  "address_line p = ''    address: '' @ dquote (''[::]:'' @ show_word p)"

lemma address_line_eq [simp]: "address_line p = address_line q \<longleftrightarrow> p = q"
  by (simp add: address_line_def dquote_def)

lemma not_address:
  "[] \<noteq> address_line p" "''clas:'' \<noteq> address_line p"
  "''# NOTE: LTP/UDP/KISS convergence layers require the separate'' \<noteq> address_line p"
  "''# hardy-ltp-cla binary. Configure it independently.'' \<noteq> address_line p"
  by (simp_all add: address_line_def)

lemma count_list_concat_map: "count_list (concat (map f xs)) a = sum_list (map (\<lambda>x. count_list (f x) a) xs)"
  by (induction xs) simp_all

lemma count_cla_entry:
  "count_list (cla_entry_lines (k, l)) (address_line p) = (if listen_port l = Some p then 1 else 0)"
proof (cases l)
  case (TcpCl i h rp lp m)
  have "''    address: '' @ dquote (''[::]:'' @ show_word q) = address_line p \<longleftrightarrow> q = p" for q
    unfolding address_line_def [symmetric] by (rule address_line_eq)
  then show ?thesis unfolding TcpCl cla_entry_lines.simps listen_port.simps count_list.simps
    by (simp add: address_line_def dquote_def)
qed simp_all

lemma count_external_note: "count_list (external_cla_note l) (address_line p) = 0"
  by (cases l) (simp_all add: address_line_def)

lemma count_entries:
  "count_list (concat (map cla_entry_lines (enumerate_from k (filter is_tcpcl ls)))) (address_line p)
     = length (filter (\<lambda>l. listen_port l = Some p) ls)"
proof (induction ls arbitrary: k)
  case Nil
  then show ?case by simp
next
  case (Cons l ls)
  show ?case by (cases l) (simp_all add: Cons count_cla_entry del: cla_entry_lines.simps)
qed

text \<open>
  the clas section opens exactly one listener per TCP link, on that link's local port or 4556:
  the number of listeners bound to a port is the number of TCP links with that port. Two TCP
  neighbours without a local port therefore bind the same address twice.
\<close>

theorem hardy_listeners_per_port:
  "count_list (clas_lines ns) (address_line p)
     = length (filter (\<lambda>l. listen_port l = Some p) (all_links ns))"
proof -
  have none: "filter (\<lambda>l. listen_port l = Some p) ls = []" if "filter is_tcpcl ls = []" for ls
    using that by (induction ls) (auto split: if_splits elim: is_tcpcl.elims listen_port.elims)
  have quiet: "count_list (concat (map external_cla_note ls)) (address_line p) = 0" for ls
    by (simp add: count_list_concat_map count_external_note)
  show ?thesis
    using none [of "all_links ns"] count_entries [of 0 "all_links ns" p]
    by (simp add: clas_lines_def Let_def quiet not_address)
qed

lemma hardy_config_listens_twice:
  "count_list (clas_lines (nc_neighbors hardy_config)) (address_line 4556) = 2"
  by (simp add: hardy_config_def clas_lines_def all_links_def Let_def count_cla_entry
      not_address del: cla_entry_lines.simps)

end
