(* ===== verification/Telemetry.thy ===== *)
theory Telemetry
  imports Os_Effects
begin

text \<open>
  What both telemetry collectors share, from \<open>adapter/traits.rs\<close>: the aggregate counters and the
  state of one link, and the warning both parsers log with a preview of the text they could not
  read. The preview is the slice \<open>&output[..output.len().min(200)]\<close>, which panics when byte 200
  is inside a character; the logging library evaluates it only when warnings are enabled, which
  is the flag \<open>logs\<close>.
\<close>

record bundle_statistics =
  bs_sourced :: u64
  bs_forwarded :: u64
  bs_delivered :: u64
  bs_expired :: u64
  bs_queued :: u64

definition zero_stats :: bundle_statistics where
  "zero_stats = \<lparr>bs_sourced = 0, bs_forwarded = 0, bs_delivered = 0, bs_expired = 0, bs_queued = 0\<rparr>"

record link_state =
  ls_neighbor_node :: u64
  ls_link_id :: string
  ls_active :: bool
  ls_bytes_sent :: u64
  ls_bytes_received :: u64

text \<open>The value after the warning, or \<open>None\<close> for the panic.\<close>

definition warn_preview :: "bool \<Rightarrow> string \<Rightarrow> 'a \<Rightarrow> 'a option" where
  "warn_preview logs text a =
     (if logs then map_option (\<lambda>_. a) (slice_to text (min (length text) 200)) else Some a)"

definition splits_char :: "string \<Rightarrow> nat \<Rightarrow> bool" where
  "splits_char s n \<longleftrightarrow> n < length s \<and> n \<noteq> 0 \<and> 128 \<le> code_of (s ! n) \<and> code_of (s ! n) < 192"

lemma warn_preview_None: "warn_preview logs text a = None \<longleftrightarrow> logs \<and> splits_char text 200"
proof (cases "length text \<le> 200")
  case True
  then have "is_char_boundary text (min (length text) 200)" by (simp add: is_char_boundary_def)
  with True show ?thesis by (simp add: warn_preview_def slice_to_def splits_char_def)
next
  case False
  then have "min (length text) 200 = 200" by simp
  moreover have "is_char_boundary text 200 \<longleftrightarrow> \<not> splits_char text 200"
    using False unfolding is_char_boundary_def splits_char_def by linarith
  ultimately show ?thesis by (simp add: warn_preview_def slice_to_def)
qed

lemma warn_preview_cases: "warn_preview logs text a = None \<or> warn_preview logs text a = Some a"
  by (auto simp: warn_preview_def slice_to_def)

lemma ascii_never_splits: "list_all is_ascii s \<Longrightarrow> \<not> splits_char s n"
  unfolding splits_char_def list_all_length is_ascii_def by (meson leD)

lemma warn_preview_ascii: "list_all is_ascii text \<Longrightarrow> warn_preview logs text a = Some a"
  by (simp add: warn_preview_def slice_to_ascii min.commute [of _ 200])

section \<open>Counters by name\<close>

text \<open>The counter names that both parsers recognise, after normalisation.\<close>

definition sourced_names :: "string set" where
  "sourced_names = {''sourced'', ''src'', ''originated''}"

definition forwarded_names :: "string set" where
  "forwarded_names = {''forwarded'', ''fwd'', ''relayed''}"

definition delivered_names :: "string set" where
  "delivered_names = {''delivered'', ''dlv'', ''received''}"

definition expired_names :: "string set" where
  "expired_names = {''expired'', ''exp'', ''ttl_expired'', ''abandoned''}"

definition queued_names :: "string set" where
  "queued_names = {''queued'', ''pending'', ''in_queue'', ''stored''}"

lemmas stat_names =
  sourced_names_def forwarded_names_def delivered_names_def expired_names_def queued_names_def

definition apply_stat_value :: "bundle_statistics \<Rightarrow> string \<Rightarrow> u64 \<Rightarrow> bundle_statistics \<times> bool" where
  "apply_stat_value stats key value =
     (if key \<in> sourced_names then (stats\<lparr>bs_sourced := value\<rparr>, True)
      else if key \<in> forwarded_names then (stats\<lparr>bs_forwarded := value\<rparr>, True)
      else if key \<in> delivered_names then (stats\<lparr>bs_delivered := value\<rparr>, True)
      else if key \<in> expired_names then (stats\<lparr>bs_expired := value\<rparr>, True)
      else if key \<in> queued_names then (stats\<lparr>bs_queued := value\<rparr>, True)
      else (stats, False))"

text \<open>One counter of the record by name: a recognised name changes that counter and no other.\<close>

datatype counter = Sourced | Forwarded | Delivered | Expired | Queued

fun counter_of :: "bundle_statistics \<Rightarrow> counter \<Rightarrow> u64" where
  "counter_of s Sourced = bs_sourced s"
| "counter_of s Forwarded = bs_forwarded s"
| "counter_of s Delivered = bs_delivered s"
| "counter_of s Expired = bs_expired s"
| "counter_of s Queued = bs_queued s"

definition counter_named :: "string \<Rightarrow> counter option" where
  "counter_named key =
     (if key \<in> sourced_names then Some Sourced
      else if key \<in> forwarded_names then Some Forwarded
      else if key \<in> delivered_names then Some Delivered
      else if key \<in> expired_names then Some Expired
      else if key \<in> queued_names then Some Queued
      else None)"

lemma apply_stat_value_counter:
  "apply_stat_value s key v = (s', b) \<Longrightarrow>
     counter_of s' k = (if counter_named key = Some k then v else counter_of s k)
     \<and> b = (counter_named key \<noteq> None)"
  unfolding apply_stat_value_def counter_named_def
  by (cases k) (auto split: if_splits)

lemma counter_of_eqI: "(\<And>k. counter_of s k = counter_of t k) \<Longrightarrow> s = t"
  using counter_of.simps by (metis (full_types) bundle_statistics.equality old.unit.exhaust)

end
