(* ===== verification/Hardy_Telemetry.thy ===== *)
theory Hardy_Telemetry
  imports Hardy_Reconfig Telemetry
begin

text \<open>
  Telemetry of Hardy, \<open>adapter/hardy/telemetry.rs\<close>: two requests to the management API and the
  reading of their JSON answers. The JSON values belong to a third-party library: its parser and
  accessors are the parameter \<open>json_api\<close>, an object being the list of its entries in the order
  the library walks them. As in the other collector \<open>None\<close> is the panic of a preview.
\<close>

record 'v json_api =
  ja_parse :: "string \<Rightarrow> string + 'v"
  ja_entries :: "'v \<Rightarrow> (string \<times> 'v) list option"
  ja_array :: "'v \<Rightarrow> 'v list option"
  ja_u64 :: "'v \<Rightarrow> u64 option"
  ja_str :: "'v \<Rightarrow> string option"
  ja_bool :: "'v \<Rightarrow> bool option"

definition json_get :: "'v json_api \<Rightarrow> 'v \<Rightarrow> string \<Rightarrow> 'v option" where
  "json_get api value key = Option.bind (ja_entries api value) (\<lambda>es. map_of es key)"

record hardy_telemetry =
  ht_management_url :: string

definition new_hardy_telemetry :: "string option \<Rightarrow> hardy_telemetry" where
  "new_hardy_telemetry url = \<lparr>ht_management_url = unwrap_or hardy_default_url url\<rparr>"

section \<open>Statistics\<close>

definition hardy_stat_key :: "string \<Rightarrow> string" where
  "hardy_stat_key key =
     (let key_lower = to_lowercase key
      in unwrap_or key_lower
           (or_else (strip_prefix ''bundles_'' key_lower) (strip_prefix ''bundle_'' key_lower)))"

text \<open>The names are those of ION's table; the arms list them in another order.\<close>

definition stats_entry ::
  "'v json_api \<Rightarrow> bundle_statistics \<times> bool \<Rightarrow> string \<times> 'v \<Rightarrow> bundle_statistics \<times> bool" where
  "stats_entry api = (\<lambda>(stats, found_any) (key, value).
     case apply_stat_value stats (hardy_stat_key key) (unwrap_or 0 (ja_u64 api value)) of
       (stats', known) \<Rightarrow> (stats', found_any \<or> known))"

definition extract_stats_from_object :: "'v json_api \<Rightarrow> 'v \<Rightarrow> bundle_statistics option" where
  "extract_stats_from_object api obj =
     Option.bind (ja_entries api obj) (\<lambda>es.
       case foldl (stats_entry api) (zero_stats, False) es of
         (stats, found_any) \<Rightarrow> if found_any then Some stats else None)"

definition stats_of_value :: "'v json_api \<Rightarrow> 'v \<Rightarrow> bundle_statistics option" where
  "stats_of_value api value =
     or_else (extract_stats_from_object api value)
       (or_else (Option.bind (json_get api value ''stats'') (extract_stats_from_object api))
                (Option.bind (json_get api value ''bundles'') (extract_stats_from_object api)))"

definition parse_stats_json :: "bool \<Rightarrow> 'v json_api \<Rightarrow> string \<Rightarrow> bundle_statistics option" where
  "parse_stats_json logs api json_str =
     (case ja_parse api json_str of
        Inl _ \<Rightarrow> warn_preview logs json_str zero_stats
      | Inr value \<Rightarrow>
          (case stats_of_value api value of
             Some stats \<Rightarrow> Some stats
           | None \<Rightarrow> warn_preview logs json_str zero_stats))"

section \<open>Links\<close>

definition get_first :: "'v json_api \<Rightarrow> 'v \<Rightarrow> string list \<Rightarrow> 'v option" where
  "get_first api obj keys = find_map (json_get api obj) keys"

definition state_says_active :: "string \<Rightarrow> bool" where
  "state_says_active s =
     (let lower = to_lowercase s in lower = ''active'' \<or> lower = ''up'' \<or> lower = ''running'')"

definition extract_link_state_from_object :: "'v json_api \<Rightarrow> 'v \<Rightarrow> link_state option" where
  "extract_link_state_from_object api obj =
     Option.bind (ja_entries api obj) (\<lambda>_.
     Option.bind (Option.bind (get_first api obj [''neighbor_node'', ''peer_node'', ''node_id'', ''remote_node''])
                    (ja_u64 api)) (\<lambda>neighbor_node.
       Some \<lparr>ls_neighbor_node = neighbor_node,
         ls_link_id = unwrap_or ''unknown''
           (Option.bind (get_first api obj [''link_id'', ''id'', ''name'']) (ja_str api)),
         ls_active = unwrap_or False
           (or_else (Option.bind (get_first api obj [''active'', ''up'', ''running'']) (ja_bool api))
              (map_option state_says_active (Option.bind (json_get api obj ''state'') (ja_str api)))),
         ls_bytes_sent = unwrap_or 0
           (Option.bind (get_first api obj [''bytes_sent'', ''sent_bytes'', ''tx_bytes'']) (ja_u64 api)),
         ls_bytes_received = unwrap_or 0
           (Option.bind (get_first api obj [''bytes_received'', ''received_bytes'', ''rx_bytes'', ''bytes_rcvd''])
              (ja_u64 api))\<rparr>))"

definition extract_link_states_from_array :: "'v json_api \<Rightarrow> 'v list \<Rightarrow> link_state list" where
  "extract_link_states_from_array api arr = List.map_filter (extract_link_state_from_object api) arr"

definition links_of_value :: "'v json_api \<Rightarrow> 'v \<Rightarrow> link_state list option" where
  "links_of_value api value =
     map_option (extract_link_states_from_array api)
       (or_else (ja_array api value) (Option.bind (json_get api value ''links'') (ja_array api)))"

definition parse_links_json :: "bool \<Rightarrow> 'v json_api \<Rightarrow> string \<Rightarrow> link_state list option" where
  "parse_links_json logs api json_str =
     (case ja_parse api json_str of
        Inl _ \<Rightarrow> warn_preview logs json_str []
      | Inr value \<Rightarrow>
          (case links_of_value api value of
             Some links \<Rightarrow> Some links
           | None \<Rightarrow> warn_preview logs json_str []))"

section \<open>Requests\<close>

definition http_get_command :: "string \<Rightarrow> command" where
  "http_get_command url =
     \<lparr>cmd_program = ''curl'', cmd_args = [''-s'', ''-f'', ''--connect-timeout'', ''5'', url],
      cmd_stdin = Stdin_default, cmd_dir = None\<rparr>"

definition http_body :: "string + process_output \<Rightarrow> string option" where
  "http_body r =
     (case r of
        Inl _ \<Rightarrow> None
      | Inr p \<Rightarrow> if \<not> po_success p then None
                 else if trim (po_stdout p) = [] then None else Some (po_stdout p))"

definition http_get :: "os \<Rightarrow> string \<Rightarrow> ('e, effect list, string option) action" where
  "http_get os url = act_bind (run_output os (http_get_command url)) (\<lambda>r. act_return (http_body r))"

definition hardy_collect_stats ::
  "bool \<Rightarrow> os \<Rightarrow> 'v json_api \<Rightarrow> hardy_telemetry \<Rightarrow> ('e, effect list, bundle_statistics option) action" where
  "hardy_collect_stats logs os api self =
     act_bind (http_get os (ht_management_url self @ ''/api/stats'')) (\<lambda>json_output.
       act_return (case json_output of
         Some json_str \<Rightarrow> parse_stats_json logs api json_str
       | None \<Rightarrow> Some zero_stats))"

definition hardy_link_states ::
  "bool \<Rightarrow> os \<Rightarrow> 'v json_api \<Rightarrow> hardy_telemetry \<Rightarrow> ('e, effect list, link_state list option) action" where
  "hardy_link_states logs os api self =
     act_bind (http_get os (ht_management_url self @ ''/api/links'')) (\<lambda>json_output.
       act_return (case json_output of
         Some json_str \<Rightarrow> parse_links_json logs api json_str
       | None \<Rightarrow> Some []))"

section \<open>The documented answers read back\<close>

definition entry_counter :: "string \<times> 'v \<Rightarrow> counter option" where
  "entry_counter e = counter_named (hardy_stat_key (fst e))"

text \<open>Each counter is the value of the last entry that names it.\<close>

lemma stats_entries:
  "counter_of (fst (foldl (stats_entry api) (s, b) es)) k =
     (case filter (\<lambda>e. entry_counter e = Some k) (rev es) of
        [] \<Rightarrow> counter_of s k
      | e # _ \<Rightarrow> unwrap_or 0 (ja_u64 api (snd e)))
   \<and> snd (foldl (stats_entry api) (s, b) es) = (b \<or> (\<exists>e \<in> set es. entry_counter e \<noteq> None))"
proof (induction es rule: rev_induct)
  case Nil
  then show ?case by simp
next
  case (snoc e es)
  obtain s1 b1 where f: "foldl (stats_entry api) (s, b) es = (s1, b1)" by fastforce
  obtain key val where e: "e = (key, val)" by fastforce
  obtain s2 b2 where a: "apply_stat_value s1 (hardy_stat_key key) (unwrap_or 0 (ja_u64 api val)) = (s2, b2)"
    by fastforce
  have stepped: "stats_entry api (s1, b1) e = (s2, b1 \<or> b2)" by (simp add: stats_entry_def e a)
  have "counter_of s2 k = (if entry_counter e = Some k then unwrap_or 0 (ja_u64 api (snd e)) else counter_of s1 k)"
    and "b2 = (entry_counter e \<noteq> None)"
    using apply_stat_value_counter [OF a, of k] by (simp_all add: entry_counter_def e)
  moreover have "foldl (stats_entry api) (s, b) (es @ [e]) = (s2, b1 \<or> b2)" by (simp add: f stepped)
  ultimately show ?case using snoc.IH unfolding f by (simp only: fst_conv snd_conv) auto
qed

text \<open>An answer that names every counter once, in any order and among any other members.\<close>

definition names_once :: "(string \<times> 'v) list \<Rightarrow> (counter \<Rightarrow> string \<times> 'v) \<Rightarrow> bool" where
  "names_once es entry \<longleftrightarrow> (\<forall>k. filter (\<lambda>e. entry_counter e = Some k) es = [entry k])"

lemma stats_named_once:
  assumes "ja_entries api obj = Some es" and "names_once es entry"
  shows "\<exists>st. extract_stats_from_object api obj = Some st
     \<and> (\<forall>k. counter_of st k = unwrap_or 0 (ja_u64 api (snd (entry k))))"
proof -
  obtain st b where f: "foldl (stats_entry api) (zero_stats, False) es = (st, b)" by fastforce
  have rev: "filter (\<lambda>e. entry_counter e = Some k) (rev es) = [entry k]" for k
    using assms(2) by (simp add: names_once_def rev_filter [symmetric])
  have "counter_of st k = unwrap_or 0 (ja_u64 api (snd (entry k)))" for k
    using stats_entries [of api zero_stats False es k] by (simp add: f rev)
  moreover have "entry Sourced \<in> set (filter (\<lambda>e. entry_counter e = Some Sourced) es)"
    using assms(2) by (simp only: names_once_def) simp
  then have "b" using stats_entries [of api zero_stats False es Sourced] by (auto simp: f)
  ultimately show ?thesis using assms(1) f by (simp add: extract_stats_from_object_def)
qed

text \<open>
  C36: Hardy's statistics answer is read by name: when the answer is an object that names every
  counter once (under any of its accepted names, in any order, among other members), each
  counter is the number of its member, or zero when that is not an unsigned integer.
\<close>

theorem hardy_stats_by_name:
  assumes "ja_parse api json_str = Inr obj" and "ja_entries api obj = Some es" and "names_once es entry"
  shows "\<exists>st. parse_stats_json logs api json_str = Some st
     \<and> (\<forall>k. counter_of st k = unwrap_or 0 (ja_u64 api (snd (entry k))))"
proof -
  from stats_named_once [OF assms(2,3)] obtain st where
    st: "extract_stats_from_object api obj = Some st"
      "\<forall>k. counter_of st k = unwrap_or 0 (ja_u64 api (snd (entry k)))" by blast
  then show ?thesis by (simp add: parse_stats_json_def stats_of_value_def assms(1))
qed

text \<open>A small JSON library: a value is a number, a text, a flag, an array or an object.\<close>

datatype toy_json =
    Toy_num u64 | Toy_str string | Toy_bool bool | Toy_array "toy_json list" | Toy_object "(string \<times> toy_json) list"

definition toy_answer :: toy_json where
  "toy_answer = Toy_object [(''bundles_delivered'', Toy_num 35), (''bundles_expired'', Toy_num 2),
     (''bundles_forwarded'', Toy_num 38), (''bundles_queued'', Toy_num 5), (''bundles_sourced'', Toy_num 42)]"

definition toy_api :: "toy_json json_api" where
  "toy_api = \<lparr>ja_parse = (\<lambda>s. Inr toy_answer),
     ja_entries = (\<lambda>v. case v of Toy_object es \<Rightarrow> Some es | _ \<Rightarrow> None),
     ja_array = (\<lambda>v. case v of Toy_array xs \<Rightarrow> Some xs | _ \<Rightarrow> None),
     ja_u64 = (\<lambda>v. case v of Toy_num n \<Rightarrow> Some n | _ \<Rightarrow> None),
     ja_str = (\<lambda>v. case v of Toy_str s \<Rightarrow> Some s | _ \<Rightarrow> None),
     ja_bool = (\<lambda>v. case v of Toy_bool b \<Rightarrow> Some b | _ \<Rightarrow> None)\<rparr>"

fun toy_entry :: "counter \<Rightarrow> string \<times> toy_json" where
  "toy_entry Sourced = (''bundles_sourced'', Toy_num 42)"
| "toy_entry Forwarded = (''bundles_forwarded'', Toy_num 38)"
| "toy_entry Delivered = (''bundles_delivered'', Toy_num 35)"
| "toy_entry Expired = (''bundles_expired'', Toy_num 2)"
| "toy_entry Queued = (''bundles_queued'', Toy_num 5)"

lemma documented_names:
  "counter_named (hardy_stat_key ''bundles_sourced'') = Some Sourced"
  "counter_named (hardy_stat_key ''bundles_forwarded'') = Some Forwarded"
  "counter_named (hardy_stat_key ''bundles_delivered'') = Some Delivered"
  "counter_named (hardy_stat_key ''bundles_expired'') = Some Expired"
  "counter_named (hardy_stat_key ''bundles_queued'') = Some Queued"
  by (simp_all add: hardy_stat_key_def strip_prefix_def across_numbers counter_named_def stat_names)

lemma toy_names_once: "\<exists>es. ja_entries toy_api toy_answer = Some es \<and> names_once es toy_entry"
proof -
  define es where "es = (case toy_answer of Toy_object es \<Rightarrow> es | _ \<Rightarrow> [])"
  have "filter (\<lambda>e. entry_counter e = Some k) es = [toy_entry k]" for k
    by (cases k) (simp_all add: es_def toy_answer_def entry_counter_def documented_names)
  then show ?thesis by (simp add: names_once_def toy_api_def es_def toy_answer_def)
qed

theorem hardy_stats_by_name_witness:
  "\<exists>st. parse_stats_json True toy_api [] = Some st \<and> counter_of st Forwarded = 38"
proof -
  have p: "ja_parse toy_api [] = Inr toy_answer" by (simp add: toy_api_def)
  obtain es where es: "ja_entries toy_api toy_answer = Some es" "names_once es toy_entry"
    using toy_names_once by blast
  from hardy_stats_by_name [OF p es, of True] obtain st where
    st: "parse_stats_json True toy_api [] = Some st" and
    k: "\<forall>k. counter_of st k = unwrap_or 0 (ja_u64 toy_api (snd (toy_entry k)))" by blast
  from k [THEN spec, of Forwarded] st show ?thesis by (simp add: toy_api_def)
qed

section \<open>Degradation\<close>

text \<open>
  an unreachable Hardy degrades to zero: when curl cannot be run, exits with an error or prints
  nothing but blanks, the statistics are zero and the link list is empty, with one request each
  and no error.
\<close>

theorem hardy_telemetry_degrades:
  assumes "http_body (os_output os tr (http_get_command (ht_management_url self @ ''/api/stats''))) = None"
    and "http_body (os_output os tr (http_get_command (ht_management_url self @ ''/api/links''))) = None"
  shows "hardy_collect_stats logs os api self tr =
      (Inr (Some zero_stats), tr @ [Output (http_get_command (ht_management_url self @ ''/api/stats''))])
    \<and> hardy_link_states logs os api self tr =
      (Inr (Some []), tr @ [Output (http_get_command (ht_management_url self @ ''/api/links''))])"
  using assms
  by (simp add: hardy_collect_stats_def hardy_link_states_def http_get_def act_bind_def run_output_run)

theorem hardy_telemetry_degrades_witness:
  "fst (hardy_collect_stats True quiet_os toy_api (new_hardy_telemetry None) []) = (Inr (Some zero_stats) :: string + _)"
proof -
  have "http_body (os_output quiet_os [] c) = None" for c
    by (simp add: http_body_def quiet_os_def quiet_output_def trim_def trim_start_def trim_end_by_def)
  then show ?thesis by (simp add: hardy_telemetry_degrades)
qed

end
