(* ===== verification/Adapter_Registry.thy ===== *)
theory Adapter_Registry
  imports Capability Lifecycle_Manager Config_Generator Telemetry
begin

text \<open>
  The adapter interface of \<open>adapter/traits.rs\<close> as a record of operations over a world \<open>'w\<close>, and
  the registry of \<open>adapter/registry.rs\<close>. The registry's lock makes each of its operations atomic, so
  concurrent use is a sequence of them. Its contract is the locale \<open>adapter_lookup\<close>: the first
  registration of a name wins.
\<close>

section \<open>The adapter interface\<close>

text \<open>Where telemetry can panic its result is an option; \<open>None\<close> is the panic.\<close>

record ('y, 'w) backend_adapter =
  ba_name :: string
  ba_capabilities :: capability_set
  ba_validate :: "'y network_configuration \<Rightarrow> (abstraction_error, 'w, unit) action"
  ba_generate_config ::
    "'y network_configuration \<Rightarrow> string \<Rightarrow> (abstraction_error, 'w, generated_config) action"
  ba_deploy :: "'y network_configuration \<Rightarrow> string \<Rightarrow> (abstraction_error, 'w, unit) action"
  ba_start :: "string \<Rightarrow> (abstraction_error, 'w, unit) action"
  ba_stop :: "(abstraction_error, 'w, unit) action"
  ba_restart :: "string \<Rightarrow> (abstraction_error, 'w, unit) action"
  ba_health :: "(abstraction_error, 'w, health_status) action"
  ba_version :: "(abstraction_error, 'w, string) action"
  ba_add_contact :: "contact \<Rightarrow> (abstraction_error, 'w, unit) action"
  ba_remove_contact :: "contact_ref \<Rightarrow> (abstraction_error, 'w, unit) action"
  ba_add_neighbor :: "neighbor \<Rightarrow> (abstraction_error, 'w, unit) action"
  ba_remove_neighbor :: "node_ref \<Rightarrow> (abstraction_error, 'w, unit) action"
  ba_enable_link :: "string \<Rightarrow> (abstraction_error, 'w, unit) action"
  ba_disable_link :: "string \<Rightarrow> (abstraction_error, 'w, unit) action"
  ba_collect_stats :: "(abstraction_error, 'w, bundle_statistics option) action"
  ba_link_states :: "(abstraction_error, 'w, link_state list option) action"

section \<open>The registry\<close>

record 'a adapter_registry =
  ar_adapters :: "string \<rightharpoonup> 'a"

definition new_registry :: "'a adapter_registry" where
  "new_registry = \<lparr>ar_adapters = Map.empty\<rparr>"

definition already_registered :: "string \<Rightarrow> abstraction_error" where
  "already_registered name = with_resource name
     (new_error ConfigurationError (''Adapter already registered: '' @ name) ''register'')"

definition adapter_not_found :: "string \<Rightarrow> abstraction_error" where
  "adapter_not_found name = with_resource name
     (new_error ConfigurationError (''Adapter not found: '' @ name) ''get'')"

definition register_adapter ::
  "'a adapter_registry \<Rightarrow> string \<Rightarrow> 'a \<Rightarrow> (abstraction_error + unit) \<times> 'a adapter_registry" where
  "register_adapter r name adapter =
     (if ar_adapters r name \<noteq> None then (Inl (already_registered name), r)
      else (Inr (), r\<lparr>ar_adapters := (ar_adapters r)(name \<mapsto> adapter)\<rparr>))"

definition get_adapter :: "'a adapter_registry \<Rightarrow> string \<Rightarrow> abstraction_error + 'a" where
  "get_adapter r name = ok_or (adapter_not_found name) (ar_adapters r name)"

text \<open>The names in no particular order: the parameter \<open>keys\<close> is the map's iteration.\<close>

definition list_adapters :: "((string \<rightharpoonup> 'a) \<Rightarrow> string list) \<Rightarrow> 'a adapter_registry \<Rightarrow> string list" where
  "list_adapters keys r = keys (ar_adapters r)"

section \<open>The contract of a registry\<close>

locale adapter_lookup =
  fixes empty_registry :: "'r"
    and get :: "'r \<Rightarrow> string \<Rightarrow> abstraction_error + 'a"
    and register :: "'r \<Rightarrow> string \<Rightarrow> 'a \<Rightarrow> (abstraction_error + unit) \<times> 'r"
  assumes empty_get: "\<not> is_ok (get empty_registry n)"
    and register_fresh: "\<not> is_ok (get r n) \<Longrightarrow> fst (register r n a) = Inr () \<and> get (snd (register r n a)) n = Inr a"
    and register_taken: "is_ok (get r n) \<Longrightarrow> \<not> is_ok (fst (register r n a)) \<and> snd (register r n a) = r"
    and register_other: "m \<noteq> n \<Longrightarrow> get (snd (register r n a)) m = get r m"
    and missing_category: "get r n = Inl e \<Longrightarrow> ae_category e = ConfigurationError"
begin

text \<open>Any sequence of registrations, refused ones included.\<close>

definition register_all :: "'r \<Rightarrow> (string \<times> 'a) list \<Rightarrow> 'r" where
  "register_all r kvs = foldl (\<lambda>r (n, a). snd (register r n a)) r kvs"

lemma register_all_simps [simp]:
  "register_all r [] = r" "register_all r ((n, a) # kvs) = register_all (snd (register r n a)) kvs"
  by (simp_all add: register_all_def)

lemma registered_stays: "get r n = Inr a \<Longrightarrow> get (register_all r kvs) n = Inr a"
proof (induction kvs arbitrary: r)
  case Nil
  then show ?case by simp
next
  case (Cons kv kvs)
  obtain m b where kv: "kv = (m, b)" by fastforce
  have "get (snd (register r m b)) n = Inr a"
    using Cons.prems register_taken [of r n b] register_other [of n m r b] by (cases "m = n") auto
  with Cons.IH show ?case by (simp add: kv)
qed

lemma first_wins:
  assumes "\<not> is_ok (get r n)"
  shows "get (register_all r kvs) n = (case map_of kvs n of Some a \<Rightarrow> Inr a | None \<Rightarrow> get r n)"
  using assms
proof (induction kvs arbitrary: r)
  case Nil
  then show ?case by simp
next
  case (Cons kv kvs)
  obtain m b where kv: "kv = (m, b)" by fastforce
  show ?case
  proof (cases "m = n")
    case True
    then show ?thesis
      using registered_stays register_fresh [OF Cons.prems] by (simp add: kv)
  next
    case False
    then have g: "get (snd (register r m b)) n = get r n" by (simp add: register_other)
    with Cons.prems Cons.IH [of "snd (register r m b)"] False show ?thesis
      by (cases "map_of kvs n") (simp_all add: kv)
  qed
qed

end

interpretation registry: adapter_lookup new_registry get_adapter register_adapter
proof (unfold_locales, goal_cases)
  case (1 n)
  show ?case by (simp add: get_adapter_def new_registry_def)
next
  case (2 r n a)
  then show ?case by (cases "ar_adapters r n") (simp_all add: get_adapter_def register_adapter_def)
next
  case (3 r n a)
  then show ?case by (cases "ar_adapters r n") (simp_all add: get_adapter_def register_adapter_def)
next
  case (4 m n r a)
  then show ?case by (simp add: get_adapter_def register_adapter_def)
next
  case (5 r n e)
  then show ?case
    by (cases "ar_adapters r n") (auto simp: get_adapter_def adapter_not_found_def)
qed

text \<open>
  after any sequence of registrations, refused ones included, looking a name up gives the first
  adapter registered under it, and the not-found error when there was none: a registered
  adapter is never replaced or lost.
\<close>

theorem registry_first_wins:
  fixes kvs :: "(string \<times> 'a) list"
  shows "get_adapter (registry.register_all new_registry kvs) name =
     (case map_of kvs name of Some a \<Rightarrow> Inr a | None \<Rightarrow> Inl (adapter_not_found name))"
proof -
  have "(get_adapter new_registry name :: abstraction_error + 'a) = Inl (adapter_not_found name)"
    by (simp add: get_adapter_def new_registry_def)
  with registry.first_wins [of new_registry name kvs] show ?thesis
    by (cases "map_of kvs name") simp_all
qed

end
