(* ===== verification/Engine_State.thy ===== *)
theory Engine_State
  imports Dtn_Error
begin

text \<open>
  The engine lifecycle state machine of \<open>src/radiant-dtn-abstraction/src/lifecycle/state.rs\<close>:
  its five states, the table of legal transitions, and the two operations that change state.
  The step relation \<open>sm_step\<close> is any call of either operation; the lemmas give the invariant
  that ties the failure reason to the Failed state, which machines are reachable, and what each
  operation does on each branch.
\<close>

datatype engine_state = Stopped | Starting | Running | Stopping | Failed

text \<open>Statements about all five states are evaluated.\<close>

instantiation engine_state :: enum
begin

definition enum_engine_state :: "engine_state list" where
  "enum_engine_state = [Stopped, Starting, Running, Stopping, Failed]"

definition enum_all_engine_state :: "(engine_state \<Rightarrow> bool) \<Rightarrow> bool" where
  "enum_all_engine_state P \<longleftrightarrow> P Stopped \<and> P Starting \<and> P Running \<and> P Stopping \<and> P Failed"

definition enum_ex_engine_state :: "(engine_state \<Rightarrow> bool) \<Rightarrow> bool" where
  "enum_ex_engine_state P \<longleftrightarrow> P Stopped \<or> P Starting \<or> P Running \<or> P Stopping \<or> P Failed"

instance
proof
  show univ: "(UNIV :: engine_state set) = set enum_class.enum"
    by (auto simp: enum_engine_state_def intro: engine_state.exhaust)
  show "distinct (enum_class.enum :: engine_state list)"
    by (simp add: enum_engine_state_def)
  fix P :: "engine_state \<Rightarrow> bool"
  show "enum_class.enum_all P \<longleftrightarrow> Ball UNIV P"
    unfolding univ by (simp add: enum_all_engine_state_def enum_engine_state_def)
  show "enum_class.enum_ex P \<longleftrightarrow> Bex UNIV P"
    unfolding univ by (simp add: enum_ex_engine_state_def enum_engine_state_def)
qed

end

fun state_name :: "engine_state \<Rightarrow> string" where
  "state_name Stopped = ''Stopped''"
| "state_name Starting = ''Starting''"
| "state_name Running = ''Running''"
| "state_name Stopping = ''Stopping''"
| "state_name Failed = ''Failed''"

record state_machine =
  sm_state :: engine_state
  sm_failure_reason :: "string option"

definition new_machine :: state_machine where
  "new_machine = \<lparr>sm_state = Stopped, sm_failure_reason = None\<rparr>"

fun is_valid_transition :: "engine_state \<Rightarrow> engine_state \<Rightarrow> bool" where
  "is_valid_transition Stopped Starting = True"
| "is_valid_transition Starting Running = True"
| "is_valid_transition Starting Failed = True"
| "is_valid_transition Running Stopping = True"
| "is_valid_transition Running Failed = True"
| "is_valid_transition Stopping Stopped = True"
| "is_valid_transition Failed Starting = True"
| "is_valid_transition Failed Stopped = True"
| "is_valid_transition _ _ = False"

text \<open>The arrow of the error messages is U+2192, three bytes in UTF-8.\<close>

definition arrow :: string where
  "arrow = [CHR 0xE2, CHR 0x86, CHR 0x92]"

definition use_failed_error :: abstraction_error where
  "use_failed_error = new_error LifecycleError
     ''Use transition_to_failed() to transition to the Failed state with a reason''
     ''state_transition''"

definition illegal_transition :: "engine_state \<Rightarrow> engine_state \<Rightarrow> abstraction_error" where
  "illegal_transition from to = new_error LifecycleError
     (''Illegal state transition: '' @ state_name from @ '' '' @ arrow @ '' '' @ state_name to)
     ''state_transition''"

definition transition_to ::
  "state_machine \<Rightarrow> engine_state \<Rightarrow> (abstraction_error + unit) \<times> state_machine" where
  "transition_to sm new_state =
     (if new_state = Failed then (Inl use_failed_error, sm)
      else if \<not> is_valid_transition (sm_state sm) new_state
      then (Inl (illegal_transition (sm_state sm) new_state), sm)
      else let sm1 = sm\<lparr>sm_state := new_state\<rparr>
           in (Inr (), if sm_failure_reason sm1 \<noteq> None then sm1\<lparr>sm_failure_reason := None\<rparr> else sm1))"

definition transition_to_failed ::
  "state_machine \<Rightarrow> string \<Rightarrow> (abstraction_error + unit) \<times> state_machine" where
  "transition_to_failed sm reason =
     (if \<not> is_valid_transition (sm_state sm) Failed
      then (Inl (illegal_transition (sm_state sm) Failed), sm)
      else (Inr (), sm\<lparr>sm_state := Failed, sm_failure_reason := Some reason\<rparr>))"

section \<open>The operations, branch by branch\<close>

lemma valid_to_Failed: "is_valid_transition s Failed \<longleftrightarrow> s = Starting \<or> s = Running"
  by (cases s) auto

lemma valid_transition_irrefl: "\<not> is_valid_transition s s"
  by (cases s) auto

lemma transition_to_ok:
  "t \<noteq> Failed \<Longrightarrow> is_valid_transition (sm_state sm) t \<Longrightarrow>
   transition_to sm t = (Inr (), \<lparr>sm_state = t, sm_failure_reason = None\<rparr>)"
  by (cases sm) (auto simp: transition_to_def Let_def)

lemma transition_to_err:
  "t = Failed \<or> \<not> is_valid_transition (sm_state sm) t \<Longrightarrow> \<exists>e. transition_to sm t = (Inl e, sm)"
  by (auto simp: transition_to_def)

lemma transition_to_ok_iff:
  "fst (transition_to sm t) = Inr () \<longleftrightarrow> t \<noteq> Failed \<and> is_valid_transition (sm_state sm) t"
  by (auto simp: transition_to_def Let_def)

lemma transition_to_failed_ok_iff:
  "fst (transition_to_failed sm r) = Inr () \<longleftrightarrow> is_valid_transition (sm_state sm) Failed"
  by (auto simp: transition_to_failed_def)

lemma transition_errors_category:
  "fst (transition_to sm t) = Inl e \<Longrightarrow> ae_category e = LifecycleError"
  "fst (transition_to_failed sm r) = Inl e \<Longrightarrow> ae_category e = LifecycleError"
  by (auto simp: transition_to_def transition_to_failed_def use_failed_error_def
      illegal_transition_def Let_def split: if_splits)

section \<open>Runs of the machine\<close>

datatype sm_op = To engine_state | To_failed string

fun sm_apply :: "state_machine \<Rightarrow> sm_op \<Rightarrow> (abstraction_error + unit) \<times> state_machine" where
  "sm_apply sm (To s) = transition_to sm s"
| "sm_apply sm (To_failed r) = transition_to_failed sm r"

inductive sm_step :: "state_machine \<Rightarrow> state_machine \<Rightarrow> bool" where
  sm_stepI: "sm_apply sm op = (r, sm') \<Longrightarrow> sm_step sm sm'"

inductive sm_reachable :: "state_machine \<Rightarrow> bool" where
  sm_start: "sm_reachable new_machine"
| sm_next: "sm_reachable sm \<Longrightarrow> sm_step sm sm' \<Longrightarrow> sm_reachable sm'"

inductive_simps sm_step_iff: "sm_step sm sm'"

definition sm_inv :: "state_machine \<Rightarrow> bool" where
  "sm_inv sm \<longleftrightarrow> (sm_failure_reason sm \<noteq> None \<longleftrightarrow> sm_state sm = Failed)"

lemma transition_to_inv: "sm_inv sm \<Longrightarrow> sm_inv (snd (transition_to sm t))"
  by (auto simp: transition_to_def sm_inv_def Let_def)

lemma transition_to_failed_inv: "sm_inv sm \<Longrightarrow> sm_inv (snd (transition_to_failed sm r))"
  by (auto simp: transition_to_failed_def sm_inv_def)

lemma sm_step_inv: "sm_step sm sm' \<Longrightarrow> sm_inv sm \<Longrightarrow> sm_inv sm'"
proof (induction rule: sm_step.induct)
  case (sm_stepI sm op r sm')
  then show ?case
    using transition_to_inv [of sm] transition_to_failed_inv [of sm]
    by (cases op) (metis snd_conv sm_apply.simps)+
qed

lemma sm_step_edge:
  "sm_step sm sm' \<Longrightarrow> sm' = sm \<or> is_valid_transition (sm_state sm) (sm_state sm')"
proof (induction rule: sm_step.induct)
  case (sm_stepI sm op r sm')
  then show ?case
    by (cases op) (auto simp: transition_to_def transition_to_failed_def Let_def split: if_splits)
qed

lemma sm_reachable_inv: "sm_reachable sm \<Longrightarrow> sm_inv sm"
proof (induction rule: sm_reachable.induct)
  case sm_start
  show ?case by (simp add: sm_inv_def new_machine_def)
next
  case (sm_next sm sm')
  then show ?case by (blast intro: sm_step_inv)
qed

lemma sm_reachable_apply: "sm_reachable sm \<Longrightarrow> sm_reachable (snd (sm_apply sm op))"
  by (metis prod.collapse sm_next sm_stepI)

text \<open>The path to each state.\<close>

fun sm_run :: "state_machine \<Rightarrow> sm_op list \<Rightarrow> state_machine" where
  "sm_run sm [] = sm"
| "sm_run sm (op # ops) = sm_run (snd (sm_apply sm op)) ops"

lemma sm_run_reachable: "sm_reachable sm \<Longrightarrow> sm_reachable (sm_run sm ops)"
  by (induction ops arbitrary: sm) (auto intro: sm_reachable_apply)

text \<open>From \<open>s\<close> to \<open>t\<close> in at most so many legal transitions.\<close>

fun within :: "nat \<Rightarrow> engine_state \<Rightarrow> engine_state \<Rightarrow> bool" where
  "within 0 s t \<longleftrightarrow> s = t"
| "within (Suc n) s t \<longleftrightarrow> s = t \<or> (\<exists>u. is_valid_transition s u \<and> within n u t)"

lemma within_four: "\<forall>s t. within 4 s t"
  by code_simp

lemma legal_op:
  assumes "is_valid_transition (sm_state sm) u"
  obtains op where "sm_state (snd (sm_apply sm op)) = u"
proof (cases "u = Failed")
  case True
  with assms that [of "To_failed []"] show ?thesis by (simp add: transition_to_failed_def)
next
  case False
  with assms that [of "To u"] show ?thesis by (simp add: transition_to_ok)
qed

lemma within_run:
  "within n (sm_state sm) t \<Longrightarrow> \<exists>ops. length ops \<le> n \<and> sm_state (sm_run sm ops) = t"
proof (induction n arbitrary: sm)
  case 0
  then show ?case by simp
next
  case (Suc n)
  show ?case
  proof (cases "sm_state sm = t")
    case True
    then have "length [] \<le> Suc n \<and> sm_state (sm_run sm []) = t" by simp
    then show ?thesis by blast
  next
    case False
    with Suc.prems obtain u where u: "is_valid_transition (sm_state sm) u" "within n u t" by auto
    obtain op where "sm_state (snd (sm_apply sm op)) = u" using legal_op [OF u(1)] .
    with Suc.IH u(2) obtain ops
      where "length ops \<le> n" "sm_state (sm_run (snd (sm_apply sm op)) ops) = t" by metis
    then have "length (op # ops) \<le> Suc n \<and> sm_state (sm_run sm (op # ops)) = t" by simp
    then show ?thesis by blast
  qed
qed

text \<open>A sequence of calls that leads to a given machine.\<close>

fun ops_to :: "engine_state \<Rightarrow> string option \<Rightarrow> sm_op list" where
  "ops_to Stopped r = []"
| "ops_to Starting r = [To Starting]"
| "ops_to Running r = [To Starting, To Running]"
| "ops_to Stopping r = [To Starting, To Running, To Stopping]"
| "ops_to Failed r = [To Starting, To_failed (case r of Some x \<Rightarrow> x | None \<Rightarrow> [])]"

lemma ops_to_reach: "sm_inv sm \<Longrightarrow> sm_run new_machine (ops_to (sm_state sm) (sm_failure_reason sm)) = sm"
  by (cases sm, cases "sm_state sm")
    (auto simp: sm_inv_def new_machine_def transition_to_def transition_to_failed_def)

text \<open>
  C12: the machines that calls of the two operations, legal or not, can lead to are exactly those
  in which a failure reason is recorded if and only if the engine is in the Failed state; and
  no state is a dead end: from every machine every state is reached by at most four calls.
\<close>

theorem reachable_machines:
  "(sm_reachable sm \<longleftrightarrow> (sm_failure_reason sm \<noteq> None \<longleftrightarrow> sm_state sm = Failed))
   \<and> (\<exists>ops. length ops \<le> 4 \<and> sm_state (sm_run sm ops) = s)"
proof
  have "sm_reachable sm \<longleftrightarrow> sm_inv sm"
    using sm_reachable_inv sm_run_reachable [OF sm_start] ops_to_reach by metis
  then show "sm_reachable sm \<longleftrightarrow> (sm_failure_reason sm \<noteq> None \<longleftrightarrow> sm_state sm = Failed)"
    by (simp add: sm_inv_def)
  show "\<exists>ops. length ops \<le> 4 \<and> sm_state (sm_run sm ops) = s"
    using within_four within_run by blast
qed

text \<open>In particular:\<close>


theorem failure_reason_iff_failed:
  assumes "sm_reachable sm"
  shows "sm_failure_reason sm \<noteq> None \<longleftrightarrow> sm_state sm = Failed"
  using sm_reachable_inv [OF assms] by (simp add: sm_inv_def)

end
