(* ===== verification/Api_Handlers.thy ===== *)
theory Api_Handlers
  imports Adapter_Registry Engine_State Validation
begin

text \<open>
  The management API: the shared state of \<open>api/mod.rs\<close> and one definition per handler of
  \<open>api/handlers.rs\<close>, with the mapping from errors to status codes. A handler is an action on the
  shared state; what the adapter does to the outside world is the component \<open>ap_world\<close>. The route
  table and the facts about all requests are in \<open>Api_Routes\<close>.
\<close>

section \<open>The shared state\<close>

text \<open>The event bus (\<open>'c\<close>) is carried along; no handler but the event stream uses it.\<close>

record ('y, 'w, 'c) app_state =
  ap_registry :: "('y, 'w) backend_adapter adapter_registry"
  ap_config :: "'y network_configuration option"
  ap_event_bus :: 'c
  ap_machine :: state_machine
  ap_world :: 'w

definition new_app_state ::
  "('y, 'w) backend_adapter adapter_registry \<Rightarrow> 'c \<Rightarrow> 'w \<Rightarrow> ('y, 'w, 'c) app_state" where
  "new_app_state reg bus world =
     \<lparr>ap_registry = reg, ap_config = None, ap_event_bus = bus, ap_machine = new_machine, ap_world = world\<rparr>"

type_synonym ('y, 'w, 'c, 'a) handler = "(abstraction_error, ('y, 'w, 'c) app_state, 'a) action"

text \<open>A call of the adapter: its effects are those on the world.\<close>

definition on_world :: "(abstraction_error, 'w, 'a) action \<Rightarrow> ('y, 'w, 'c, 'a) handler" where
  "on_world m st = (case m (ap_world st) of (r, w) \<Rightarrow> (r, st\<lparr>ap_world := w\<rparr>))"

definition lookup_adapter :: "string \<Rightarrow> ('y, 'w, 'c, ('y, 'w) backend_adapter) handler" where
  "lookup_adapter name st = (get_adapter (ap_registry st) name, st)"

definition store_config :: "'y network_configuration \<Rightarrow> ('y, 'w, 'c, unit) handler" where
  "store_config c st = (Inr (), st\<lparr>ap_config := Some c\<rparr>)"

text \<open>The adapter of the stored configuration, or the handler's own error when there is none.\<close>

definition stored_adapter :: "string \<Rightarrow> string \<Rightarrow> ('y, 'w, 'c, ('y, 'w) backend_adapter) handler" where
  "stored_adapter msg operation st =
     (case ap_config st of
        None \<Rightarrow> (Inl (new_error ConfigurationError msg operation), st)
      | Some config \<Rightarrow> lookup_adapter (nc_backend config) st)"

definition machine_to :: "engine_state \<Rightarrow> ('y, 'w, 'c, unit) handler" where
  "machine_to s st = (case transition_to (ap_machine st) s of (r, sm) \<Rightarrow> (r, st\<lparr>ap_machine := sm\<rparr>))"

definition machine_to_failed :: "string \<Rightarrow> ('y, 'w, 'c, unit) handler" where
  "machine_to_failed reason st =
     (case transition_to_failed (ap_machine st) reason of (r, sm) \<Rightarrow> (r, st\<lparr>ap_machine := sm\<rparr>))"

section \<open>Errors\<close>

text \<open>The JSON text of the details is that of the serialisation library: the parameter \<open>details_json\<close>.\<close>

definition validation_error ::
  "(validation_detail list \<Rightarrow> string option) \<Rightarrow> validation_detail list \<Rightarrow> abstraction_error" where
  "validation_error details_json details =
     with_backend_code (unwrap_or [] (details_json details))
       (new_error ValidationError
         (''Configuration validation failed: '' @ join ''; '' (map vd_message details)) ''validate'')"

definition error_to_status :: "abstraction_error \<Rightarrow> u16" where
  "error_to_status e =
     (case ae_category e of
        ValidationError \<Rightarrow> 400
      | UnsupportedOperation \<Rightarrow> 400
      | ConfigurationError \<Rightarrow> (if contains_str (to_lowercase (ae_message e)) ''not found'' then 404 else 409)
      | LifecycleError \<Rightarrow> 500
      | RuntimeError \<Rightarrow> 500
      | CommunicationError \<Rightarrow> 502)"

definition check_valid ::
  "(validation_detail list \<Rightarrow> string option) \<Rightarrow> 'y network_configuration \<Rightarrow> ('y, 'w, 'c, unit) handler" where
  "check_valid details_json c = act_lift (validation_error details_json) (validate c)"

section \<open>Configuration endpoints\<close>

definition preview_dir :: string where
  "preview_dir = ''/tmp/radiant-preview''"

definition deploy_dir :: string where
  "deploy_dir = ''/var/radiant/config''"

definition post_config ::
  "(validation_detail list \<Rightarrow> string option) \<Rightarrow> 'y network_configuration
     \<Rightarrow> ('y, 'w, 'c, 'y network_configuration) handler" where
  "post_config details_json config =
     act_then (check_valid details_json config)
    (act_then (store_config config) (act_return config))"

definition get_config :: "('y, 'w, 'c, 'y network_configuration) handler" where
  "get_config st =
     (case ap_config st of
        Some config \<Rightarrow> (Inr config, st)
      | None \<Rightarrow> (Inl (new_error ConfigurationError
                  ''No configuration stored. Use POST /config first.'' ''get_config''), st))"

definition post_config_preview ::
  "(validation_detail list \<Rightarrow> string option) \<Rightarrow> 'y network_configuration
     \<Rightarrow> ('y, 'w, 'c, generated_config) handler" where
  "post_config_preview details_json config =
     act_then (check_valid details_json config)
    (act_bind (lookup_adapter (nc_backend config)) (\<lambda>adapter.
     act_then (on_world (ba_validate adapter config))
       (on_world (ba_generate_config adapter config preview_dir))))"

text \<open>\<open>post_config_deploy\<close> up to the write of the configuration, and as a whole.\<close>

definition deploy_files ::
  "(validation_detail list \<Rightarrow> string option) \<Rightarrow> 'y network_configuration \<Rightarrow> ('y, 'w, 'c, unit) handler" where
  "deploy_files details_json config =
     act_then (check_valid details_json config)
    (act_bind (lookup_adapter (nc_backend config)) (\<lambda>adapter.
     act_then (on_world (ba_validate adapter config))
       (on_world (ba_deploy adapter config deploy_dir))))"

definition post_config_deploy ::
  "(validation_detail list \<Rightarrow> string option) \<Rightarrow> 'y network_configuration \<Rightarrow> ('y, 'w, 'c, unit) handler" where
  "post_config_deploy details_json config =
     act_then (deploy_files details_json config) (store_config config)"

section \<open>Lifecycle endpoints\<close>

text \<open>
  Start and stop are two sections of code around the adapter's call: before it the state machine
  is moved under its lock, after it again.
\<close>

definition start_begin :: "('y, 'w, 'c, ('y, 'w) backend_adapter) handler" where
  "start_begin =
     act_bind (stored_adapter ''No configuration stored. Use POST /config first.'' ''start'') (\<lambda>adapter.
     act_then (machine_to Starting) (act_return adapter))"

definition start_finish :: "('y, 'w) backend_adapter \<Rightarrow> ('y, 'w, 'c, engine_state) handler" where
  "start_finish adapter =
     act_bind (act_result (on_world (ba_start adapter deploy_dir))) (\<lambda>r.
     case r of
       Inr _ \<Rightarrow> act_bind (act_result (machine_to Running :: ('y, 'w, 'c, unit) handler)) (\<lambda>_. act_return Running)
     | Inl e \<Rightarrow> act_bind (act_result (machine_to_failed (ae_message e) :: ('y, 'w, 'c, unit) handler))
                  (\<lambda>_. act_fail e))"

definition post_lifecycle_start :: "('y, 'w, 'c, engine_state) handler" where
  "post_lifecycle_start = act_bind start_begin start_finish"

definition stop_begin :: "('y, 'w, 'c, ('y, 'w) backend_adapter) handler" where
  "stop_begin =
     act_bind (stored_adapter ''No configuration stored.'' ''stop'') (\<lambda>adapter.
     act_then (machine_to Stopping) (act_return adapter))"

definition stop_finish :: "('y, 'w) backend_adapter \<Rightarrow> ('y, 'w, 'c, engine_state) handler" where
  "stop_finish adapter =
     act_bind (act_result (on_world (ba_stop adapter))) (\<lambda>r.
     case r of
       Inr _ \<Rightarrow> act_bind (act_result (machine_to Stopped :: ('y, 'w, 'c, unit) handler)) (\<lambda>_. act_return Stopped)
     | Inl e \<Rightarrow> act_fail e)"

definition post_lifecycle_stop :: "('y, 'w, 'c, engine_state) handler" where
  "post_lifecycle_stop = act_bind stop_begin stop_finish"

definition post_lifecycle_restart :: "('y, 'w, 'c, engine_state) handler" where
  "post_lifecycle_restart =
     act_bind (stored_adapter ''No configuration stored.'' ''restart'') (\<lambda>adapter.
     act_then (on_world (ba_restart adapter deploy_dir)) (act_return Running))"

definition get_lifecycle_state :: "('y, 'w, 'c, engine_state) handler" where
  "get_lifecycle_state st = (Inr (sm_state (ap_machine st)), st)"

definition get_lifecycle_health :: "('y, 'w, 'c, health_status) handler" where
  "get_lifecycle_health =
     act_bind (stored_adapter ''No configuration stored.'' ''health'') (\<lambda>adapter. on_world (ba_health adapter))"

definition get_lifecycle_version :: "('y, 'w, 'c, string) handler" where
  "get_lifecycle_version =
     act_bind (stored_adapter ''No configuration stored.'' ''version'') (\<lambda>adapter. on_world (ba_version adapter))"

section \<open>Runtime administration and monitoring endpoints\<close>

definition get_active_adapter :: "('y, 'w, 'c, ('y, 'w) backend_adapter) handler" where
  "get_active_adapter = stored_adapter ''No configuration stored.'' ''get_active_adapter''"

definition with_active ::
  "(('y, 'w) backend_adapter \<Rightarrow> (abstraction_error, 'w, 'a) action) \<Rightarrow> ('y, 'w, 'c, 'a) handler" where
  "with_active call = act_bind get_active_adapter (\<lambda>adapter. on_world (call adapter))"

definition post_runtime_contact :: "contact \<Rightarrow> ('y, 'w, 'c, unit) handler" where
  "post_runtime_contact c = with_active (\<lambda>adapter. ba_add_contact adapter c)"

definition delete_runtime_contact :: "contact_ref \<Rightarrow> ('y, 'w, 'c, unit) handler" where
  "delete_runtime_contact r = with_active (\<lambda>adapter. ba_remove_contact adapter r)"

definition post_runtime_neighbor :: "neighbor \<Rightarrow> ('y, 'w, 'c, unit) handler" where
  "post_runtime_neighbor n = with_active (\<lambda>adapter. ba_add_neighbor adapter n)"

definition delete_runtime_neighbor :: "node_ref \<Rightarrow> ('y, 'w, 'c, unit) handler" where
  "delete_runtime_neighbor r = with_active (\<lambda>adapter. ba_remove_neighbor adapter r)"

definition post_link_enable :: "string \<Rightarrow> ('y, 'w, 'c, unit) handler" where
  "post_link_enable l = with_active (\<lambda>adapter. ba_enable_link adapter l)"

definition post_link_disable :: "string \<Rightarrow> ('y, 'w, 'c, unit) handler" where
  "post_link_disable l = with_active (\<lambda>adapter. ba_disable_link adapter l)"

definition get_stats :: "('y, 'w, 'c, bundle_statistics option) handler" where
  "get_stats = with_active ba_collect_stats"

definition get_stats_links :: "('y, 'w, 'c, link_state list option) handler" where
  "get_stats_links = with_active ba_link_states"

definition get_capabilities :: "('y, 'w, 'c, capability_set) handler" where
  "get_capabilities =
     act_bind (stored_adapter ''No configuration stored. Use POST /config to set backend.'' ''capabilities'')
       (\<lambda>adapter. act_return (ba_capabilities adapter))"

definition get_adapters ::
  "((string \<rightharpoonup> ('y, 'w) backend_adapter) \<Rightarrow> string list) \<Rightarrow> ('y, 'w, 'c, string list) handler" where
  "get_adapters keys st = (Inr (list_adapters keys (ap_registry st)), st)"

end
