(* ===== verification/Api_Routes.thy ===== *)
theory Api_Routes
  imports Api_Handlers
begin

text \<open>
  The route table of \<open>api/routes.rs\<close> as one function on requests, runs of requests one after the
  other, and what holds of all of them: which part of the shared state a request can change, the
  validity of the stored configuration, and what an error leaves behind.
\<close>

datatype 'y api_request =
    Post_config "'y network_configuration" | Get_config
  | Post_config_preview "'y network_configuration" | Post_config_deploy "'y network_configuration"
  | Post_lifecycle_start | Post_lifecycle_stop | Post_lifecycle_restart
  | Get_lifecycle_state | Get_lifecycle_health | Get_lifecycle_version
  | Post_runtime_contact contact | Delete_runtime_contact contact_ref
  | Post_runtime_neighbor neighbor | Delete_runtime_neighbor node_ref
  | Post_link_enable string | Post_link_disable string
  | Get_stats | Get_stats_links | Get_capabilities | Get_adapters

text \<open>The JSON body of a successful answer.\<close>

datatype 'y api_response =
    Resp_ok
  | Resp_config "'y network_configuration"
  | Resp_generated generated_config
  | Resp_state engine_state
  | Resp_health health_status
  | Resp_version string
  | Resp_stats "bundle_statistics option"
  | Resp_links "link_state list option"
  | Resp_capabilities capability_set
  | Resp_adapters "string list"

definition answer :: "('a \<Rightarrow> 'y api_response) \<Rightarrow> ('y, 'w, 'c, 'a) handler \<Rightarrow> ('y, 'w, 'c, 'y api_response) handler" where
  "answer f h = act_bind h (\<lambda>a. act_return (f a))"

text \<open>The third-party parameters of the handlers.\<close>

record ('y, 'w) api_env =
  en_details_json :: "validation_detail list \<Rightarrow> string option"
  en_keys :: "(string \<rightharpoonup> ('y, 'w) backend_adapter) \<Rightarrow> string list"

fun handle :: "('y, 'w) api_env \<Rightarrow> 'y api_request \<Rightarrow> ('y, 'w, 'c, 'y api_response) handler" where
  "handle env (Post_config c) = answer Resp_config (post_config (en_details_json env) c)"
| "handle env Get_config = answer Resp_config get_config"
| "handle env (Post_config_preview c) = answer Resp_generated (post_config_preview (en_details_json env) c)"
| "handle env (Post_config_deploy c) = answer (\<lambda>_. Resp_ok) (post_config_deploy (en_details_json env) c)"
| "handle env Post_lifecycle_start = answer Resp_state post_lifecycle_start"
| "handle env Post_lifecycle_stop = answer Resp_state post_lifecycle_stop"
| "handle env Post_lifecycle_restart = answer Resp_state post_lifecycle_restart"
| "handle env Get_lifecycle_state = answer Resp_state get_lifecycle_state"
| "handle env Get_lifecycle_health = answer Resp_health get_lifecycle_health"
| "handle env Get_lifecycle_version = answer Resp_version get_lifecycle_version"
| "handle env (Post_runtime_contact c) = answer (\<lambda>_. Resp_ok) (post_runtime_contact c)"
| "handle env (Delete_runtime_contact r) = answer (\<lambda>_. Resp_ok) (delete_runtime_contact r)"
| "handle env (Post_runtime_neighbor n) = answer (\<lambda>_. Resp_ok) (post_runtime_neighbor n)"
| "handle env (Delete_runtime_neighbor r) = answer (\<lambda>_. Resp_ok) (delete_runtime_neighbor r)"
| "handle env (Post_link_enable l) = answer (\<lambda>_. Resp_ok) (post_link_enable l)"
| "handle env (Post_link_disable l) = answer (\<lambda>_. Resp_ok) (post_link_disable l)"
| "handle env Get_stats = answer Resp_stats get_stats"
| "handle env Get_stats_links = answer Resp_links get_stats_links"
| "handle env Get_capabilities = answer Resp_capabilities get_capabilities"
| "handle env Get_adapters = answer Resp_adapters (get_adapters (en_keys env))"

definition status_of :: "abstraction_error + 'y api_response \<Rightarrow> u16" where
  "status_of r = (case r of Inl e \<Rightarrow> error_to_status e | Inr _ \<Rightarrow> 200)"

fun serve_requests ::
  "('y, 'w) api_env \<Rightarrow> 'y api_request list \<Rightarrow> ('y, 'w, 'c) app_state
     \<Rightarrow> (abstraction_error + 'y api_response) list \<times> ('y, 'w, 'c) app_state" where
  "serve_requests env [] st = ([], st)"
| "serve_requests env (req # reqs) st =
     (case handle env req st of (r, st') \<Rightarrow>
        (case serve_requests env reqs st' of (rs, st'') \<Rightarrow> (r # rs, st'')))"

section \<open>What a handler leaves alone\<close>

text \<open>
  \<open>preserves P h\<close>: the handler leads from a state with the property to a state with it. It is
  built up along the structure of the handlers.
\<close>

definition preserves :: "('s \<Rightarrow> bool) \<Rightarrow> ('e, 's, 'a) action \<Rightarrow> bool" where
  "preserves P h \<longleftrightarrow> (\<forall>st. P st \<longrightarrow> P (snd (h st)))"

lemma preservesD: "preserves P h \<Longrightarrow> P st \<Longrightarrow> h st = (r, st') \<Longrightarrow> P st'"
  unfolding preserves_def by (metis snd_conv)

lemma preserves_return [intro, simp]: "preserves P (act_return a)"
  by (simp add: preserves_def)

lemma preserves_fail [intro, simp]: "preserves P (act_fail e)"
  by (simp add: preserves_def)

lemma preserves_lift [intro, simp]: "preserves P (act_lift f r)"
  by (simp add: preserves_def act_lift_run)

lemma preserves_result [intro]: "preserves P h \<Longrightarrow> preserves P (act_result h)"
  by (simp add: preserves_def act_result_run)

lemma preserves_bind [intro]:
  "preserves P h \<Longrightarrow> (\<And>a. preserves P (f a)) \<Longrightarrow> preserves P (act_bind h f)"
  by (auto simp: preserves_def act_bind_def split: prod.split sum.split)

lemma preserves_then [intro]: "preserves P h \<Longrightarrow> preserves P k \<Longrightarrow> preserves P (act_then h k)"
  unfolding act_then_def by (rule preserves_bind)

lemma preserves_read [intro, simp]:
  "preserves P (lookup_adapter name)" "preserves P (stored_adapter m op)" "preserves P get_config"
  "preserves P get_lifecycle_state" "preserves P (get_adapters keys)"
  by (auto simp: preserves_def lookup_adapter_def stored_adapter_def get_config_def
      get_lifecycle_state_def get_adapters_def split: option.split)

lemma preserves_answer [intro]: "preserves P h \<Longrightarrow> preserves P (answer f h)"
  unfolding answer_def by (intro preserves_bind) auto

lemma serve_requests_preserves:
  "(\<And>req. req \<in> set reqs \<Longrightarrow> preserves P (handle env req)) \<Longrightarrow> P st \<Longrightarrow> P (snd (serve_requests env reqs st))"
proof (induction reqs arbitrary: st)
  case Nil
  then show ?case by simp
next
  case (Cons req reqs)
  obtain r st' where h: "handle env req st = (r, st')" by fastforce
  have "preserves P (handle env req)" by (rule Cons.prems(1)) simp
  from preservesD [OF this Cons.prems(2) h] have "P st'" .
  then have "P (snd (serve_requests env reqs st'))" using Cons.prems(1) by (intro Cons.IH) auto
  then show ?case by (auto simp: h split: prod.split)
qed

lemma check_valid_run:
  "check_valid dj c st = (if validate c = Inr () then Inr () else Inl (validation_error dj (projl (validate c))), st)"
  by (cases "validate c") (simp_all add: check_valid_def act_lift_def)

lemma preserves_checked:
  assumes "validate c = Inr () \<Longrightarrow> preserves P k"
  shows "preserves P (act_then (check_valid dj c) k)"
  using assms by (auto simp: preserves_def act_then_def act_bind_def check_valid_run)

lemma preserves_world:
  "(\<And>st w. P st \<Longrightarrow> P (st\<lparr>ap_world := w\<rparr>)) \<Longrightarrow> preserves P (on_world m)"
  by (auto simp: preserves_def on_world_def split: prod.split)

lemmas handler_defs =
  post_config_def post_config_preview_def deploy_files_def post_config_deploy_def
  post_lifecycle_restart_def get_lifecycle_health_def get_lifecycle_version_def
  get_active_adapter_def with_active_def post_runtime_contact_def delete_runtime_contact_def
  post_runtime_neighbor_def delete_runtime_neighbor_def post_link_enable_def post_link_disable_def
  get_stats_def get_stats_links_def get_capabilities_def

lemma preserves_lifecycle:
  assumes "\<And>m :: (abstraction_error, _, unit) action. preserves P (on_world m)"
    and "\<And>s. preserves P (machine_to s)" and "\<And>r. preserves P (machine_to_failed r)"
  shows "preserves P (start_begin)" and "preserves P (start_finish adapter)"
    and "preserves P (stop_begin)" and "preserves P (stop_finish adapter)"
  unfolding start_begin_def start_finish_def stop_begin_def stop_finish_def
  using assms by (auto intro!: preserves_bind preserves_then preserves_result split: sum.split)

text \<open>What has to be checked of a property for every request to keep it.\<close>

lemma handle_preserves:
  assumes world: "\<And>st w. P st \<Longrightarrow> P (st\<lparr>ap_world := w\<rparr>)"
    and machine: "req = Post_lifecycle_start \<or> req = Post_lifecycle_stop \<Longrightarrow>
      (\<forall>s. preserves P (machine_to s)) \<and> (\<forall>r. preserves P (machine_to_failed r))"
    and config: "\<And>c. req = Post_config c \<or> req = Post_config_deploy c \<Longrightarrow> validate c = Inr () \<Longrightarrow>
      preserves P (store_config c)"
  shows "preserves P (handle env req)"
proof (cases req)
  case (Post_config c)
  with config [of c] show ?thesis
    by (auto simp: handler_defs intro!: preserves_answer preserves_checked preserves_then)
next
  case (Post_config_deploy c)
  have assoc: "act_then (act_then m k) l = act_then m (act_then k l)" for m k l
    by (auto simp: act_then_def act_bind_def fun_eq_iff split: prod.split sum.split)
  have "preserves P (post_config_deploy (en_details_json env) c)"
    unfolding post_config_deploy_def deploy_files_def assoc
    using Post_config_deploy config [of c]
    by (auto intro!: preserves_checked preserves_bind preserves_then preserves_world world)
  with Post_config_deploy show ?thesis by (simp add: preserves_answer)
next
  case Post_lifecycle_start
  with machine show ?thesis
    by (auto simp: post_lifecycle_start_def intro!: preserves_answer preserves_bind preserves_lifecycle
        preserves_world world)
next
  case Post_lifecycle_stop
  with machine show ?thesis
    by (auto simp: post_lifecycle_stop_def intro!: preserves_answer preserves_bind preserves_lifecycle
        preserves_world world)
qed (auto simp: handler_defs intro!: preserves_answer preserves_bind preserves_then preserves_checked
      preserves_world world)

section \<open>The stored configuration is valid\<close>

definition stored_valid :: "('y, 'w, 'c) app_state \<Rightarrow> bool" where
  "stored_valid st \<longleftrightarrow> (\<forall>c. ap_config st = Some c \<longrightarrow> well_formed c)"

text \<open>A server without adapters, and a small configuration.\<close>

definition bare_env :: "(string, 'w) api_env" where
  "bare_env = \<lparr>en_details_json = (\<lambda>_. None), en_keys = (\<lambda>_. [])\<rparr>"

definition tiny_config :: "string network_configuration" where
  "tiny_config =
     \<lparr>nc_version = ''1.0'', nc_backend = ''toy'',
      nc_local_node = \<lparr>nd_node_number = 1, nd_endpoint_id = None, nd_callsign_eid = None,
        nd_name = ''n'', nd_services = []\<rparr>,
      nc_neighbors = [], nc_contact_plan = \<lparr>cp_contacts = [], cp_ranges = []\<rparr>,
      nc_routing = \<lparr>rc_strategy = Cgr, rc_static_routes = []\<rparr>,
      nc_security = None, nc_storage = None, nc_backend_options = Map.empty\<rparr>"

lemma tiny_config_valid: "validate tiny_config = Inr ()"
  unfolding validate_ok_iff by (simp add: well_formed_def known_node_def tiny_config_def)

definition bare_state :: "(string, unit, unit) app_state" where
  "bare_state = new_app_state new_registry () ()"

lemma post_config_ok:
  "validate c = Inr () \<Longrightarrow> handle env (Post_config c) st = (Inr (Resp_config c), st\<lparr>ap_config := Some c\<rparr>)"
  by (simp add: answer_def post_config_def act_bind_def act_then_def check_valid_run store_config_def)

section \<open>What an error leaves behind\<close>

lemma handle_frame:
  "preserves (\<lambda>st. ap_registry st = reg \<and> ap_event_bus st = bus) (handle env req)"
  by (rule handle_preserves)
    (auto simp: preserves_def machine_to_def machine_to_failed_def store_config_def split: prod.split)

lemma handle_machine_frame:
  "req \<noteq> Post_lifecycle_start \<Longrightarrow> req \<noteq> Post_lifecycle_stop \<Longrightarrow>
   preserves (\<lambda>st. ap_machine st = sm) (handle env req)"
  by (rule handle_preserves) (auto simp: preserves_def store_config_def)

lemma handle_config_frame:
  "(\<And>c. req \<noteq> Post_config c \<and> req \<noteq> Post_config_deploy c) \<Longrightarrow>
   preserves (\<lambda>st. ap_config st = co) (handle env req)"
  by (rule handle_preserves)
    (auto simp: preserves_def machine_to_def machine_to_failed_def split: prod.split)

lemma on_world_frame:
  "on_world m st = (r, st') \<Longrightarrow> \<exists>w. st' = st\<lparr>ap_world := w\<rparr>"
  by (auto simp: on_world_def split: prod.splits)

lemma deploy_files_frame: "preserves (\<lambda>st. ap_config st = co) (deploy_files dj c)"
  unfolding deploy_files_def
  by (auto intro!: preserves_checked preserves_bind preserves_then preserves_world)

lemma failed_request_keeps_config:
  assumes "handle env req st = (Inl e, st')"
  shows "ap_config st' = ap_config st"
proof (cases "\<exists>c. req = Post_config c \<or> req = Post_config_deploy c")
  case False
  then have "preserves (\<lambda>s. ap_config s = ap_config st) (handle env req)"
    by (intro handle_config_frame) blast
  from preservesD [OF this refl assms] show ?thesis .
next
  case True
  then obtain c where "req = Post_config c \<or> req = Post_config_deploy c" by blast
  then show ?thesis
  proof
    assume "req = Post_config c"
    with assms show ?thesis
      by (auto simp: answer_def post_config_def store_config_def check_valid_run split: if_splits
          elim!: act_bind_cases act_then_cases)
  next
    assume r: "req = Post_config_deploy c"
    with assms have "deploy_files (en_details_json env) c st = (Inl e, st')"
      by (auto simp: answer_def post_config_deploy_def store_config_def elim!: act_bind_cases act_then_cases)
    from preservesD [OF deploy_files_frame refl this] show ?thesis .
  qed
qed

section \<open>Start and stop, branch by branch\<close>

abbreviation machine_in :: "engine_state \<Rightarrow> state_machine" where
  "machine_in s \<equiv> \<lparr>sm_state = s, sm_failure_reason = None\<rparr>"

lemma machine_to_ok:
  "s \<noteq> Failed \<Longrightarrow> is_valid_transition (sm_state (ap_machine st)) s \<Longrightarrow>
   machine_to s st = (Inr (), st\<lparr>ap_machine := machine_in s\<rparr>)"
  by (simp add: machine_to_def transition_to_ok)

lemma machine_to_err:
  "\<not> is_valid_transition (sm_state (ap_machine st)) s \<Longrightarrow>
   machine_to s st = (Inl (if s = Failed then use_failed_error else illegal_transition (sm_state (ap_machine st)) s), st)"
  by (simp add: machine_to_def transition_to_def)

lemma start_begin_cases:
  assumes "start_begin st = (r, st')"
  obtains (refused) e where "r = Inl e" and "st' = st"
    | (begun) adapter where "r = Inr adapter" and "st' = st\<lparr>ap_machine := machine_in Starting\<rparr>"
      and "is_valid_transition (sm_state (ap_machine st)) Starting"
  using assms
  by (cases "is_valid_transition (sm_state (ap_machine st)) Starting")
    (auto simp: start_begin_def stored_adapter_def lookup_adapter_def machine_to_ok machine_to_err
      elim!: act_bind_cases act_then_cases split: option.splits)

lemma stop_begin_cases:
  assumes "stop_begin st = (r, st')"
  obtains (refused) e where "r = Inl e" and "st' = st"
    | (begun) adapter where "r = Inr adapter" and "st' = st\<lparr>ap_machine := machine_in Stopping\<rparr>"
      and "sm_state (ap_machine st) = Running"
proof (cases "is_valid_transition (sm_state (ap_machine st)) Stopping")
  case True
  then have "sm_state (ap_machine st) = Running" by (cases "sm_state (ap_machine st)") simp_all
  with True assms that show thesis
    by (auto simp: stop_begin_def stored_adapter_def lookup_adapter_def machine_to_ok
        elim!: act_bind_cases act_then_cases split: option.splits)
next
  case False
  with assms that show thesis
    by (auto simp: stop_begin_def stored_adapter_def lookup_adapter_def machine_to_err
        elim!: act_bind_cases act_then_cases split: option.splits)
qed

lemma start_finish_run:
  assumes "sm_state (ap_machine st) = Starting"
  shows "start_finish adapter st =
    (case ba_start adapter deploy_dir (ap_world st) of
       (Inr _, w) \<Rightarrow> (Inr Running, st\<lparr>ap_world := w, ap_machine := machine_in Running\<rparr>)
     | (Inl e, w) \<Rightarrow> (Inl e, st\<lparr>ap_world := w,
         ap_machine := \<lparr>sm_state = Failed, sm_failure_reason = Some (ae_message e)\<rparr>\<rparr>))"
  using assms
  by (auto simp: start_finish_def act_bind_def act_result_run on_world_def machine_to_ok
      machine_to_failed_def transition_to_failed_def split: prod.split sum.split)

lemma stop_finish_run:
  assumes "sm_state (ap_machine st) = Stopping"
  shows "stop_finish adapter st =
    (case ba_stop adapter (ap_world st) of
       (Inr _, w) \<Rightarrow> (Inr Stopped, st\<lparr>ap_world := w, ap_machine := machine_in Stopped\<rparr>)
     | (Inl e, w) \<Rightarrow> (Inl e, st\<lparr>ap_world := w\<rparr>))"
  using assms
  by (auto simp: stop_finish_def act_bind_def act_result_run on_world_def machine_to_ok
      split: prod.split sum.split)

text \<open>
  The requests that make the adapter start or stop the engine: a configuration is stored, its backend
  is registered, and the machine is in a state from which the engine may be started or stopped.
\<close>

definition asks_engine :: "'y api_request \<Rightarrow> ('y, 'w, 'c) app_state \<Rightarrow> bool" where
  "asks_engine req st \<longleftrightarrow>
     (case ap_config st of None \<Rightarrow> False | Some c \<Rightarrow> ar_adapters (ap_registry st) (nc_backend c) \<noteq> None)
   \<and> (case req of
        Post_lifecycle_start \<Rightarrow> sm_state (ap_machine st) \<in> {Stopped, Failed}
      | Post_lifecycle_stop \<Rightarrow> sm_state (ap_machine st) = Running
      | _ \<Rightarrow> False)"

lemma valid_to_Starting: "is_valid_transition s Starting \<longleftrightarrow> s \<in> {Stopped, Failed}"
  by (cases s) simp_all

lemma valid_to_Stopping: "is_valid_transition s Stopping \<longleftrightarrow> s = Running"
  by (cases s) simp_all

lemma start_begin_asks:
  "is_ok (fst (start_begin st)) \<longleftrightarrow> asks_engine Post_lifecycle_start st"
  by (cases "is_valid_transition (sm_state (ap_machine st)) Starting")
    (auto simp: start_begin_def asks_engine_def stored_adapter_def lookup_adapter_def get_adapter_def ok_or_def
      act_bind_def act_then_def machine_to_ok machine_to_err valid_to_Starting split: option.split)

lemma stop_begin_asks:
  "is_ok (fst (stop_begin st)) \<longleftrightarrow> asks_engine Post_lifecycle_stop st"
  by (cases "is_valid_transition (sm_state (ap_machine st)) Stopping")
    (auto simp: stop_begin_def asks_engine_def stored_adapter_def lookup_adapter_def get_adapter_def ok_or_def
      act_bind_def act_then_def machine_to_ok machine_to_err valid_to_Stopping split: option.split)

lemma failed_start_machine:
  assumes "post_lifecycle_start st = (Inl e, st')"
  shows "ap_machine st' = (if asks_engine Post_lifecycle_start st
    then \<lparr>sm_state = Failed, sm_failure_reason = Some (ae_message e)\<rparr> else ap_machine st)"
  using assms unfolding post_lifecycle_start_def
proof (cases rule: act_bind_cases)
  case (err e')
  then show ?thesis using start_begin_asks [of st] by (auto elim: start_begin_cases)
next
  case (ok a st1)
  from ok(1) have "ap_machine st1 = machine_in Starting" by (auto elim: start_begin_cases)
  with ok start_begin_asks [of st] show ?thesis by (auto simp: start_finish_run split: prod.splits sum.splits)
qed

lemma failed_stop_machine:
  assumes "post_lifecycle_stop st = (Inl e, st')"
  shows "ap_machine st' = (if asks_engine Post_lifecycle_stop st then machine_in Stopping else ap_machine st)"
  using assms unfolding post_lifecycle_stop_def
proof (cases rule: act_bind_cases)
  case (err e')
  then show ?thesis using stop_begin_asks [of st] by (auto elim: stop_begin_cases)
next
  case (ok a st1)
  from ok(1) have "ap_machine st1 = machine_in Stopping" by (auto elim: stop_begin_cases)
  with ok stop_begin_asks [of st] show ?thesis by (auto simp: stop_finish_run split: prod.splits sum.splits)
qed

lemma answer_err: "answer f h st = (Inl e, st') \<longleftrightarrow> h st = (Inl e, st')"
  by (auto simp: answer_def act_bind_def split: prod.split sum.split)

text \<open>
  C14: a request answered with an error leaves the stored configuration, the registered adapters and
  the event bus as they were. It leaves the state machine too, unless it is a start or a stop that
  got as far as the engine (a configuration is stored, its backend is registered, and the machine is
  in Stopped or Failed for a start, in Running for a stop): after such a start the machine is in
  Failed, with the message of the error as the reason; after such a stop it is in Stopping.
\<close>

theorem api_error_effect:
  assumes "handle env req st = (Inl e, st')"
  shows "ap_config st' = ap_config st \<and> ap_registry st' = ap_registry st
    \<and> ap_event_bus st' = ap_event_bus st
    \<and> ap_machine st' =
        (if asks_engine req st
         then (if req = Post_lifecycle_start
               then \<lparr>sm_state = Failed, sm_failure_reason = Some (ae_message e)\<rparr>
               else \<lparr>sm_state = Stopping, sm_failure_reason = None\<rparr>)
         else ap_machine st)"
proof -
  have "ap_registry st' = ap_registry st \<and> ap_event_bus st' = ap_event_bus st"
    by (rule preservesD [OF handle_frame _ assms]) simp
  moreover have "ap_machine st' = (if asks_engine req st
         then (if req = Post_lifecycle_start
               then \<lparr>sm_state = Failed, sm_failure_reason = Some (ae_message e)\<rparr> else machine_in Stopping)
         else ap_machine st)"
  proof (cases "req = Post_lifecycle_start \<or> req = Post_lifecycle_stop")
    case True
    with assms show ?thesis
      using failed_start_machine [of st e st'] failed_stop_machine [of st e st'] by (auto simp: answer_err)
  next
    case False
    then have "preserves (\<lambda>s. ap_machine s = ap_machine st) (handle env req)"
      by (intro handle_machine_frame) auto
    from preservesD [OF this refl assms] False show ?thesis
      by (cases req) (simp_all add: asks_engine_def)
  qed
  ultimately show ?thesis using failed_request_keeps_config [OF assms] by blast
qed

section \<open>A stop that fails\<close>

definition is_lifecycle :: "'y api_request \<Rightarrow> bool" where
  "is_lifecycle req \<longleftrightarrow> req = Post_lifecycle_start \<or> req = Post_lifecycle_stop"

lemma stopping_refuses:
  assumes "sm_state (ap_machine st) = Stopping" and "is_lifecycle req"
  shows "\<exists>e. handle env req st = (Inl e, st)"
proof -
  have "\<exists>e. start_begin st = (Inl e, st)" and "\<exists>e. stop_begin st = (Inl e, st)"
    using assms(1)
    by (auto simp: start_begin_def stop_begin_def stored_adapter_def lookup_adapter_def get_adapter_def
        ok_or_def act_bind_def act_then_def machine_to_err split: option.split)
  then show ?thesis
    using assms(2)
    by (auto simp: is_lifecycle_def answer_def act_bind_def post_lifecycle_start_def post_lifecycle_stop_def)
qed

lemma stopping_stays: "preserves (\<lambda>st. sm_state (ap_machine st) = Stopping) (handle env req)"
proof (cases "is_lifecycle req")
  case True
  show ?thesis unfolding preserves_def
  proof (intro allI impI)
    fix st :: "('a, 'b, 'c) app_state"
    assume "sm_state (ap_machine st) = Stopping"
    moreover from stopping_refuses [OF this True, of env] obtain e where "handle env req st = (Inl e, st)" by blast
    ultimately show "sm_state (ap_machine (snd (handle env req st))) = Stopping" by simp
  qed
next
  case False
  then show ?thesis
    by (intro handle_preserves) (auto simp: is_lifecycle_def preserves_def store_config_def)
qed

lemma stopping_refused_in_run:
  assumes "sm_state (ap_machine st) = Stopping" and "(req, r) \<in> set (zip reqs (fst (serve_requests env reqs st)))"
    and "is_lifecycle req"
  shows "\<not> is_ok r"
  using assms(1,2)
proof (induction reqs arbitrary: st)
  case Nil
  then show ?case by simp
next
  case (Cons q reqs)
  obtain r1 st1 where h: "handle env q st = (r1, st1)" by fastforce
  have "sm_state (ap_machine st1) = Stopping" by (rule preservesD [OF stopping_stays Cons.prems(1) h])
  note IH = Cons.IH [OF this]
  show ?case
  proof (cases "(req, r) = (q, r1)")
    case True
    with stopping_refuses [OF Cons.prems(1) assms(3), of env] h show ?thesis by auto
  next
    case False
    with Cons.prems(2) IH show ?thesis by (auto simp: h split: prod.splits)
  qed
qed

lemma stop_fails:
  assumes "sm_state (ap_machine st) = Running" and "ap_config st = Some c"
    and "get_adapter (ap_registry st) (nc_backend c) = Inr adapter"
    and "ba_stop adapter (ap_world st) = (Inl e, w)"
  shows "handle env Post_lifecycle_stop st = (Inl e, st\<lparr>ap_world := w, ap_machine := machine_in Stopping\<rparr>)"
proof -
  have "stop_begin st = (Inr adapter, st\<lparr>ap_machine := machine_in Stopping\<rparr>)"
    using assms(1-3)
    by (simp add: stop_begin_def stored_adapter_def lookup_adapter_def act_bind_def act_then_def machine_to_ok)
  then show ?thesis
    using assms(4) by (simp add: answer_def act_bind_def post_lifecycle_stop_def stop_finish_run)
qed

text \<open>
  C15: a stop that the engine refuses wedges the server: from then on, whatever requests follow, the
  state is Stopping and every start and every stop is answered with an error; no request of
  the API leads out of it, although the engine still runs.
\<close>

theorem api_failed_stop_wedges:
  assumes "sm_state (ap_machine st) = Running" and "ap_config st = Some c"
    and "get_adapter (ap_registry st) (nc_backend c) = Inr adapter"
    and "ba_stop adapter (ap_world st) = (Inl e, w)"
  shows "\<exists>st1. handle env Post_lifecycle_stop st = (Inl e, st1)
    \<and> (\<forall>reqs. sm_state (ap_machine (snd (serve_requests env reqs st1))) = Stopping
        \<and> (\<forall>req r. (req, r) \<in> set (zip reqs (fst (serve_requests env reqs st1))) \<and> is_lifecycle req
              \<longrightarrow> \<not> is_ok r))"
proof -
  let ?st1 = "st\<lparr>ap_world := w, ap_machine := machine_in Stopping\<rparr>"
  have s: "sm_state (ap_machine ?st1) = Stopping" by simp
  have "sm_state (ap_machine (snd (serve_requests env reqs ?st1))) = Stopping" for reqs
    by (rule serve_requests_preserves [OF stopping_stays s])
  with stop_fails [OF assms, of env] stopping_refused_in_run [OF s] show ?thesis by blast
qed

text \<open>An adapter whose engine starts but does not stop.\<close>

definition stuck_adapter :: "(string, 'w) backend_adapter" where
  "stuck_adapter =
     \<lparr>ba_name = ''toy'',
      ba_capabilities = \<lparr>cap_hot_reconfig = hot_reconfig_none, cap_convergence_layers = [],
        cap_routing_strategies = [], cap_security = security_none\<rparr>,
      ba_validate = (\<lambda>_. act_return ()),
      ba_generate_config = (\<lambda>_ _. act_return \<lparr>gc_files = Map.empty\<rparr>),
      ba_deploy = (\<lambda>_ _. act_return ()),
      ba_start = (\<lambda>_. act_return ()),
      ba_stop = act_fail (new_error LifecycleError ''busy'' ''stop''),
      ba_restart = (\<lambda>_. act_return ()),
      ba_health = act_return \<lparr>hs_running = True, hs_uptime_secs = None, hs_message = None\<rparr>,
      ba_version = act_return ''1.0'',
      ba_add_contact = (\<lambda>_. act_return ()), ba_remove_contact = (\<lambda>_. act_return ()),
      ba_add_neighbor = (\<lambda>_. act_return ()), ba_remove_neighbor = (\<lambda>_. act_return ()),
      ba_enable_link = (\<lambda>_. act_return ()), ba_disable_link = (\<lambda>_. act_return ()),
      ba_collect_stats = act_return (Some zero_stats), ba_link_states = act_return (Some [])\<rparr>"

definition toy_state :: "engine_state \<Rightarrow> (string, unit, unit) app_state" where
  "toy_state s = \<lparr>ap_registry = \<lparr>ar_adapters = [''toy'' \<mapsto> stuck_adapter]\<rparr>, ap_config = Some tiny_config,
     ap_event_bus = (), ap_machine = machine_in s, ap_world = ()\<rparr>"

lemma toy_state_sel [simp]:
  "sm_state (ap_machine (toy_state s)) = s" "ap_config (toy_state s) = Some tiny_config"
  "get_adapter (ap_registry (toy_state s)) (nc_backend tiny_config) = Inr stuck_adapter"
  "ba_stop stuck_adapter w = (Inl (new_error LifecycleError ''busy'' ''stop''), w)"
  "ba_restart stuck_adapter d w = (Inr (), w)"
  by (simp_all add: toy_state_def get_adapter_def tiny_config_def stuck_adapter_def)

theorem api_failed_stop_wedges_witness:
  "\<exists>e st1. handle bare_env Post_lifecycle_stop (toy_state Running) = (Inl e, st1)
     \<and> sm_state (ap_machine (snd (serve_requests bare_env [Post_lifecycle_start, Post_lifecycle_stop] st1))) = Stopping"
  using api_failed_stop_wedges [OF toy_state_sel(1,2,3,4), of bare_env] by blast

text \<open>The same adapter with an engine that does not start either.\<close>

definition broken_adapter :: "(string, 'w) backend_adapter" where
  "broken_adapter = stuck_adapter\<lparr>ba_start := (\<lambda>_. act_fail (new_error LifecycleError ''no engine'' ''start''))\<rparr>"

definition broken_state :: "engine_state \<Rightarrow> (string, unit, unit) app_state" where
  "broken_state s = (toy_state s)\<lparr>ap_registry := \<lparr>ar_adapters = [''toy'' \<mapsto> broken_adapter]\<rparr>\<rparr>"

lemma broken_state_sel [simp]:
  "sm_state (ap_machine (broken_state s)) = s" "ap_config (broken_state s) = Some tiny_config"
  "ar_adapters (ap_registry (broken_state s)) (nc_backend tiny_config) = Some broken_adapter"
  "ba_start broken_adapter d w = (Inl (new_error LifecycleError ''no engine'' ''start''), w)"
  "ba_stop broken_adapter w = (Inl (new_error LifecycleError ''busy'' ''stop''), w)"
  by (simp_all add: broken_state_def broken_adapter_def toy_state_def tiny_config_def stuck_adapter_def act_fail_def)

lemma broken_errors:
  "s \<in> {Stopped, Failed} \<Longrightarrow> fst (handle bare_env Post_lifecycle_start (broken_state s))
    = Inl (new_error LifecycleError ''no engine'' ''start'')"
  "fst (handle bare_env Post_lifecycle_stop (broken_state Running)) = Inl (new_error LifecycleError ''busy'' ''stop'')"
  by (auto simp: answer_def act_bind_def act_then_def post_lifecycle_start_def post_lifecycle_stop_def
      start_begin_def stop_begin_def stored_adapter_def lookup_adapter_def get_adapter_def ok_or_def
      machine_to_ok start_finish_run stop_finish_run)

theorem api_error_effect_witness:
  "ap_machine (snd (handle bare_env Post_lifecycle_start (broken_state Stopped)))
      = \<lparr>sm_state = Failed, sm_failure_reason = Some ''no engine''\<rparr>
   \<and> ap_machine (snd (handle bare_env Post_lifecycle_stop (broken_state Running)))
      = \<lparr>sm_state = Stopping, sm_failure_reason = None\<rparr>"
proof -
  have run: "handle bare_env req (broken_state s) = (Inl e, snd (handle bare_env req (broken_state s)))"
    if "fst (handle bare_env req (broken_state s)) = Inl e" for req s e
    using that by (metis prod.collapse)
  have "asks_engine Post_lifecycle_start (broken_state Stopped)"
    "asks_engine Post_lifecycle_stop (broken_state Running)" by (simp_all add: asks_engine_def)
  with api_error_effect [OF run [OF broken_errors(1)], of Stopped]
    api_error_effect [OF run [OF broken_errors(2)]] show ?thesis by (simp del: handle.simps)
qed

section \<open>Restart\<close>

text \<open>
  restarting does not consult or move the state machine: a restart whose adapter succeeds answers
  Running, and the state query that follows answers whatever the machine said before, also
  Stopped, Stopping or Failed.
\<close>

theorem api_restart_ignores_machine:
  assumes "ap_config st = Some c" and "get_adapter (ap_registry st) (nc_backend c) = Inr adapter"
    and "ba_restart adapter deploy_dir (ap_world st) = (Inr (), w)"
  shows "fst (serve_requests env [Post_lifecycle_restart, Get_lifecycle_state] st)
    = [Inr (Resp_state Running), Inr (Resp_state (sm_state (ap_machine st)))]"
  using assms
  by (simp add: answer_def act_bind_def act_then_def post_lifecycle_restart_def stored_adapter_def
      lookup_adapter_def on_world_def get_lifecycle_state_def)

theorem api_restart_ignores_machine_witness:
  "fst (serve_requests bare_env [Post_lifecycle_restart, Get_lifecycle_state] (toy_state Stopped))
    = [Inr (Resp_state Running), Inr (Resp_state Stopped)]"
  using api_restart_ignores_machine [OF toy_state_sel(2,3,5), of bare_env Stopped] by simp

section \<open>Status codes without a configuration\<close>

text \<open>The message and the operation of the error for a missing configuration, by request.\<close>

fun missing_error :: "'y api_request \<Rightarrow> (string \<times> string) option" where
  "missing_error Get_config = Some (''No configuration stored. Use POST /config first.'', ''get_config'')"
| "missing_error Post_lifecycle_start = Some (''No configuration stored. Use POST /config first.'', ''start'')"
| "missing_error Post_lifecycle_stop = Some (''No configuration stored.'', ''stop'')"
| "missing_error Post_lifecycle_restart = Some (''No configuration stored.'', ''restart'')"
| "missing_error Get_lifecycle_health = Some (''No configuration stored.'', ''health'')"
| "missing_error Get_lifecycle_version = Some (''No configuration stored.'', ''version'')"
| "missing_error Get_capabilities =
     Some (''No configuration stored. Use POST /config to set backend.'', ''capabilities'')"
| "missing_error (Post_config _) = None"
| "missing_error (Post_config_preview _) = None"
| "missing_error (Post_config_deploy _) = None"
| "missing_error Get_lifecycle_state = None"
| "missing_error Get_adapters = None"
| "missing_error _ = Some (''No configuration stored.'', ''get_active_adapter'')"

lemma stored_adapter_missing:
  "ap_config st = None \<Longrightarrow> stored_adapter msg op st = (Inl (new_error ConfigurationError msg op), st)"
  by (simp add: stored_adapter_def)

lemma stored_adapter_unknown:
  "ap_config st = Some c \<Longrightarrow> ar_adapters (ap_registry st) (nc_backend c) = None \<Longrightarrow>
   stored_adapter msg op st = (Inl (adapter_not_found (nc_backend c)), st)"
  by (simp add: stored_adapter_def lookup_adapter_def get_adapter_def)

lemma contains_str_append: "contains_str (s @ t) s"
  unfolding contains_iff_sublist sublist_def by (metis append_Nil)

lemma not_found_status: "error_to_status (adapter_not_found name) = 404"
proof -
  have "to_lowercase (''Adapter not found: '' @ name) = ''adapter '' @ ''not found'' @ '': '' @ to_lowercase name"
    by (simp add: across_numbers)
  moreover have "contains_str (''adapter '' @ ''not found'' @ t) ''not found''" for t
    using contains_str_append [of "''not found''" t] by (simp add: contains_str_simps)
  ultimately show ?thesis by (simp add: error_to_status_def adapter_not_found_def)
qed

lemma missing_status:
  "missing_error req = Some (msg, op) \<Longrightarrow> error_to_status (new_error ConfigurationError msg op) = 409"
  by (cases req) (auto simp: error_to_status_def across_numbers)

lemma needs_config_first:
  assumes "missing_error req = Some (msg, op)" and "req \<noteq> Get_config"
    and "stored_adapter msg op st = (Inl e, st)"
  shows "handle env req st = (Inl e, st)"
  using assms
  by (cases req)
    (auto simp: answer_err handler_defs post_lifecycle_start_def post_lifecycle_stop_def
      start_begin_def stop_begin_def act_bind_def)

text \<open>
  a request that needs the stored configuration changes nothing and is answered with status 409,
  not 404, when there is none (reading the configuration included), and with 404 when the stored
  configuration names a backend that is not registered.
\<close>

theorem api_missing_status:
  assumes "missing_error req = Some (msg, op)"
  shows "(ap_config st = None \<longrightarrow>
       snd (handle env req st) = st \<and> status_of (fst (handle env req st)) = 409)
    \<and> (\<forall>c. ap_config st = Some c \<and> ar_adapters (ap_registry st) (nc_backend c) = None \<and> req \<noteq> Get_config \<longrightarrow>
       snd (handle env req st) = st \<and> status_of (fst (handle env req st)) = 404)"
proof (intro conjI allI impI)
  assume none: "ap_config st = None"
  have "handle env req st = (Inl (new_error ConfigurationError msg op), st)"
  proof (cases "req = Get_config")
    case True
    with assms none show ?thesis by (simp add: answer_def act_bind_def get_config_def)
  next
    case False
    from needs_config_first [OF assms False stored_adapter_missing [OF none]] show ?thesis .
  qed
  with missing_status [OF assms]
  show "snd (handle env req st) = st" "status_of (fst (handle env req st)) = 409"
    by (simp_all add: status_of_def)
next
  fix c
  assume "ap_config st = Some c \<and> ar_adapters (ap_registry st) (nc_backend c) = None \<and> req \<noteq> Get_config"
  with needs_config_first [OF assms _ stored_adapter_unknown]
  have "handle env req st = (Inl (adapter_not_found (nc_backend c)), st)" by blast
  then show "snd (handle env req st) = st" "status_of (fst (handle env req st)) = 404"
    by (simp_all add: status_of_def not_found_status)
qed

theorem api_missing_status_witness:
  "status_of (fst (handle bare_env Get_config bare_state)) = 409"
proof -
  have "missing_error (Get_config :: string api_request)
      = Some (''No configuration stored. Use POST /config first.'', ''get_config'')" by simp
  from api_missing_status [OF this, of bare_state bare_env] show ?thesis
    by (simp add: bare_state_def new_app_state_def del: handle.simps)
qed

end
