(* ===== verification/Ion_Config.thy ===== *)
theory Ion_Config
  imports Config_Generator Validation
begin

text \<open>
  Generation of the four ION admin scripts, \<open>adapter/ion/config_gen.rs\<close>. Every writer of the
  source is the list of lines it appends. The lemmas show that the scripts agree with each other
  (every plan has its outduct, every outduct its protocol, every LTP outduct its span), that no
  contact is lost, and that delays are rounded up.
\<close>

section \<open>Constants\<close>

definition default_ltp_max_sessions :: u32 where "default_ltp_max_sessions = 32"
definition default_max_export_sessions :: u32 where "default_max_export_sessions = 32"
definition default_max_import_sessions :: u32 where "default_max_import_sessions = 32"
definition default_max_segment_size :: u32 where "default_max_segment_size = 1400"
definition default_block_size :: u32 where "default_block_size = 100000"
definition default_aggregation_time_limit :: u32 where "default_aggregation_time_limit = 1"
definition default_production_rate :: u64 where "default_production_rate = 1000000"
definition default_consumption_rate :: u64 where "default_consumption_rate = 1000000"
definition default_ltp_payload_size :: u32 where "default_ltp_payload_size = 1400"
definition default_ltp_overhead :: u32 where "default_ltp_overhead = 100"

definition apostrophes :: "string \<Rightarrow> string" where
  "apostrophes s = [CHR 0x27] @ s @ [CHR 0x27]"

section \<open>The ionadmin script\<close>

definition contact_command :: "contact \<Rightarrow> string" where
  "contact_command t =
     ''a contact +'' @ show_i64 (ct_start_time t) @ '' +'' @ show_i64 (ct_end_time t) @ '' ''
     @ show_word (ct_source_node t) @ '' '' @ show_word (ct_dest_node t) @ '' ''
     @ show_word (ct_rate_bps t)"

definition write_contact_commands :: "contact_plan \<Rightarrow> u64 \<Rightarrow> string list" where
  "write_contact_commands plan local_node =
     [''## Contacts'',
      ''a contact +0 +86400 '' @ show_word local_node @ '' '' @ show_word local_node @ '' 100000'']
     @ map contact_command (cp_contacts plan) @ [[]]"

definition owlt_of :: "f64 \<Rightarrow> int" where
  "owlt_of v = (if f64_pos v then max (f64_ceil_as_i64 v) 1 else 0)"

definition range_command :: "range \<Rightarrow> string" where
  "range_command r =
     ''a range +0 +86400 '' @ show_word (rg_source_node r) @ '' '' @ show_word (rg_dest_node r) @ '' ''
     @ show_int (owlt_of (rg_owlt_secs r))"

definition write_range_commands :: "contact_plan \<Rightarrow> u64 \<Rightarrow> string list" where
  "write_range_commands plan local_node =
     [''## Ranges'',
      ''a range +0 +86400 '' @ show_word local_node @ '' '' @ show_word local_node @ '' 0'']
     @ map range_command (cp_ranges plan) @ [[]]"

definition ionrc_lines :: "'y network_configuration \<Rightarrow> string list" where
  "ionrc_lines c =
     (let n = nd_node_number (nc_local_node c)
      in [''## File: ionadmin configuration for node '' @ show_word n,
          ''## Generated by radiant-dtn-abstraction (ION adapter)'',
          ''## Amateur radio compliant: no BPSec directives'', [],
          ''1 '' @ show_word n @ '' '' @ apostrophes [], [], ''s'', []]
         @ write_contact_commands (nc_contact_plan c) n
         @ write_range_commands (nc_contact_plan c) n
         @ [''## Production/consumption rates'',
            ''m production '' @ show_word default_production_rate,
            ''m consumption '' @ show_word default_consumption_rate, []])"

definition generate_ionrc :: "'y network_configuration \<Rightarrow> string" where
  "generate_ionrc c = render (ionrc_lines c)"

section \<open>The bpadmin script\<close>

text \<open>The three flags of \<open>collect_protocols\<close>: LTP, TCP, UDP.\<close>

fun note_protocol :: "convergence_layer_link \<Rightarrow> bool \<times> bool \<times> bool \<Rightarrow> bool \<times> bool \<times> bool" where
  "note_protocol (LtpUdp _ _ _ _ _ _ _ _) (ltp, tcp, udp) = (True, tcp, udp)"
| "note_protocol (Kiss _ _ _ _ _ _) (ltp, tcp, udp) = (True, tcp, udp)"
| "note_protocol (TcpCl _ _ _ _ _) (ltp, tcp, udp) = (ltp, True, udp)"
| "note_protocol (Udp _ _ _ _) (ltp, tcp, udp) = (ltp, tcp, True)"

definition collect_protocols :: "neighbor list \<Rightarrow> string list" where
  "collect_protocols ns =
     (case fold note_protocol (all_links ns) (False, False, False) of
        (has_ltp, has_tcp, has_udp) \<Rightarrow>
          (if has_ltp then [''ltp''] else []) @ (if has_tcp then [''tcp''] else [])
          @ (if has_udp then [''udp''] else []))"

definition protocol_command :: "string \<Rightarrow> string" where
  "protocol_command proto =
     (if proto = ''ltp''
      then ''a protocol ltp '' @ show_word default_ltp_payload_size @ '' '' @ show_word default_ltp_overhead
      else ''a protocol '' @ proto)"

fun bprc_link_entries :: "convergence_layer_link \<Rightarrow> string list" where
  "bprc_link_entries (LtpUdp _ local_engine_id remote_engine_id _ _ _ _ _) =
     [''a induct ltp '' @ show_word local_engine_id @ '' ltpcli'',
      ''a outduct ltp '' @ show_word remote_engine_id @ '' ltpclo'']"
| "bprc_link_entries (Kiss _ _ _ local_engine_id remote_engine_id _) =
     [''a induct ltp '' @ show_word local_engine_id @ '' ltpcli'',
      ''a outduct ltp '' @ show_word remote_engine_id @ '' ltpclo'']"
| "bprc_link_entries (TcpCl _ remote_host remote_port local_port _) =
     [''a induct tcp '' @ remote_host @ '':'' @ show_word (unwrap_or 4556 local_port) @ '' tcpcli'',
      ''a outduct tcp '' @ remote_host @ '':'' @ show_word remote_port @ '' tcpclo'']"
| "bprc_link_entries (Udp _ remote_host remote_port local_port) =
     [''a induct udp '' @ remote_host @ '':'' @ show_word (unwrap_or 4556 local_port) @ '' udpcli'',
      ''a outduct udp '' @ remote_host @ '':'' @ show_word remote_port @ '' udpclo'']"

fun callsign_endpoint :: "endpoint_id \<Rightarrow> string" where
  "callsign_endpoint (Dtn authority path) = ''a endpoint dtn://'' @ authority @ ''/'' @ path @ '' x''"
| "callsign_endpoint (Ipn node service) =
     ''a endpoint ipn:'' @ show_word node @ ''.'' @ show_word service @ '' x''"

definition bprc_lines :: "'y network_configuration \<Rightarrow> string list" where
  "bprc_lines c =
     (let n = nd_node_number (nc_local_node c)
      in [''## File: bpadmin configuration for node '' @ show_word n,
          ''## Generated by radiant-dtn-abstraction (ION adapter)'',
          ''## Amateur radio compliant: no BPSec directives'', [],
          ''1'', [],
          ''a scheme ipn '' @ apostrophes ''ipnfw'' @ '' '' @ apostrophes ''ipnadminep'', [],
          ''## Endpoints'',
          ''a endpoint ipn:'' @ show_word n @ ''.0 x'']
         @ map (\<lambda>svc. ''a endpoint ipn:'' @ show_word n @ ''.'' @ show_word (sd_service_number svc) @ '' x'')
             (nd_services (nc_local_node c))
         @ (case nd_callsign_eid (nc_local_node c) of
              None \<Rightarrow> []
            | Some eid \<Rightarrow>
                [[], ''## Callsign EID (amateur radio station identification)'', callsign_endpoint eid])
         @ [[], ''## Protocols'']
         @ map protocol_command (collect_protocols (nc_neighbors c))
         @ [[], ''## Inducts and Outducts'']
         @ concat (map bprc_link_entries (all_links (nc_neighbors c)))
         @ [[], ''s''])"

definition generate_bprc :: "'y network_configuration \<Rightarrow> string" where
  "generate_bprc c = render (bprc_lines c)"

section \<open>The ltpadmin script\<close>

definition span_command :: "u64 \<Rightarrow> u32 \<Rightarrow> string \<Rightarrow> string" where
  "span_command engine seg_size lso =
     ''a span '' @ show_word engine @ '' '' @ show_word default_max_export_sessions @ '' ''
     @ show_word default_max_import_sessions @ '' '' @ show_word seg_size @ '' ''
     @ show_word default_block_size @ '' '' @ show_word default_aggregation_time_limit @ '' ''
     @ apostrophes lso"

fun ltprc_span :: "convergence_layer_link \<Rightarrow> string list" where
  "ltprc_span (LtpUdp _ _ remote_engine_id remote_host remote_port _ mtu _) =
     [span_command remote_engine_id (unwrap_or default_max_segment_size mtu)
        (''udplso '' @ remote_host @ '':'' @ show_word remote_port)]"
| "ltprc_span (Kiss _ tnc_device _ _ remote_engine_id frame_size) =
     [span_command remote_engine_id (unwrap_or default_max_segment_size frame_size)
        (''kisslo '' @ tnc_device)]"
| "ltprc_span _ = []"

fun first_ltp_port :: "convergence_layer_link list \<Rightarrow> u16" where
  "first_ltp_port [] = 1113"
| "first_ltp_port (LtpUdp _ _ _ _ _ local_port _ _ # ls) = local_port"
| "first_ltp_port (_ # ls) = first_ltp_port ls"

definition find_local_ltp_port :: "'y network_configuration \<Rightarrow> u16" where
  "find_local_ltp_port c = first_ltp_port (all_links (nc_neighbors c))"

definition ltprc_lines :: "'y network_configuration \<Rightarrow> string list" where
  "ltprc_lines c =
     (let n = nd_node_number (nc_local_node c); local_port = find_local_ltp_port c
      in [''## File: ltpadmin configuration for node '' @ show_word n,
          ''## Generated by radiant-dtn-abstraction (ION adapter)'', [],
          ''1 '' @ show_word default_ltp_max_sessions, [],
          ''## LTP Spans'',
          span_command n default_max_segment_size (''udplso 127.0.0.1:'' @ show_word local_port)]
         @ concat (map ltprc_span (all_links (nc_neighbors c)))
         @ [[], ''s '' @ apostrophes (''udplsi 0.0.0.0:'' @ show_word local_port)])"

definition generate_ltprc :: "'y network_configuration \<Rightarrow> string" where
  "generate_ltprc c = render (ltprc_lines c)"

section \<open>The ipnadmin script\<close>

definition static_plan :: "static_route \<Rightarrow> string" where
  "static_plan r =
     ''a plan '' @ show_word (sr_destination_node r) @ '' ltp/'' @ show_word (sr_next_hop_node r)"

definition write_routing_config :: "routing_config \<Rightarrow> string list" where
  "write_routing_config routing =
     (case rc_strategy routing of
        Cgr \<Rightarrow> [''## Routing: Contact Graph Routing (CGR)'']
      | Static \<Rightarrow> ''## Routing: Static routes'' # map static_plan (rc_static_routes routing)
      | Default \<Rightarrow> [''## Routing: Backend default'']) @ [[]]"

fun link_to_duct_expression :: "convergence_layer_link \<Rightarrow> string" where
  "link_to_duct_expression (LtpUdp _ _ remote_engine_id _ _ _ _ _) = ''ltp/'' @ show_word remote_engine_id"
| "link_to_duct_expression (Kiss _ _ _ _ remote_engine_id _) = ''ltp/'' @ show_word remote_engine_id"
| "link_to_duct_expression (TcpCl _ remote_host remote_port _ _) =
     ''tcp/'' @ remote_host @ '':'' @ show_word remote_port"
| "link_to_duct_expression (Udp _ remote_host remote_port _) =
     ''udp/'' @ remote_host @ '':'' @ show_word remote_port"

definition ipnrc_plan :: "neighbor \<Rightarrow> string list" where
  "ipnrc_plan n =
     (case nb_links n of
        [] \<Rightarrow> []
      | link # _ \<Rightarrow> [''a plan '' @ show_word (nb_node_number n) @ '' '' @ link_to_duct_expression link])"

definition ipnrc_lines :: "'y network_configuration \<Rightarrow> string list" where
  "ipnrc_lines c =
     [''## File: ipnadmin configuration for node '' @ show_word (nd_node_number (nc_local_node c)),
      ''## Generated by radiant-dtn-abstraction (ION adapter)'', []]
     @ write_routing_config (nc_routing c)
     @ [''## Forwarding plans'']
     @ concat (map ipnrc_plan (nc_neighbors c))"

definition generate_ipnrc :: "'y network_configuration \<Rightarrow> string" where
  "generate_ipnrc c = render (ipnrc_lines c)"

section \<open>All four files\<close>

definition ion_file :: "'y network_configuration \<Rightarrow> string \<Rightarrow> string" where
  "ion_file c ext = ''node'' @ show_word (nd_node_number (nc_local_node c)) @ ''.'' @ ext"

definition generate_ion_config :: "'y network_configuration \<Rightarrow> generated_config" where
  "generate_ion_config c =
     \<lparr>gc_files = Map.empty
        (ion_file c ''ionrc'' \<mapsto> generate_ionrc c,
         ion_file c ''bprc'' \<mapsto> generate_bprc c,
         ion_file c ''ltprc'' \<mapsto> generate_ltprc c,
         ion_file c ''ipnrc'' \<mapsto> generate_ipnrc c)\<rparr>"

definition ion_file_names :: "'y network_configuration \<Rightarrow> string list" where
  "ion_file_names c = map (ion_file c) [''ionrc'', ''bprc'', ''ltprc'', ''ipnrc'']"

lemma ion_file_inj [simp]: "ion_file c e = ion_file c e' \<longleftrightarrow> e = e'"
  by (simp add: ion_file_def)

lemma ion_file_extension [simp]:
  "e \<noteq> [] \<Longrightarrow> CHR ''.'' \<notin> set e \<Longrightarrow> extension (ion_file c e) = Some e"
  unfolding ion_file_def using extension_append [of "''node'' @ show_word (nd_node_number (nc_local_node c))" e]
  by simp

lemmas ion_lines_defs = ionrc_lines_def bprc_lines_def ltprc_lines_def ipnrc_lines_def
lemmas ion_generate_defs = generate_ionrc_def generate_bprc_def generate_ltprc_def generate_ipnrc_def

interpretation ion_gen: config_generator generate_ion_config ion_file_names
proof (unfold_locales, goal_cases)
  case (1 c)
  show ?case by (auto simp: generate_ion_config_def ion_file_names_def)
next
  case (2 c)
  show ?case by (simp add: ion_file_names_def)
next
  case (3 n c)
  then show ?case by (auto simp: ion_file_names_def plain_name_def ion_file_def)
next
  case (4 c s)
  show ?case
    by (simp add: generate_ion_config_def ion_file_def ion_generate_defs ion_lines_defs
        find_local_ltp_port_def)
qed

section \<open>Nothing of the contact plan is lost\<close>

lemma ionrc_clean: "list_all clean_line (ionrc_lines c)"
proof -
  have "list_all no_eol (ionrc_lines c)"
    by (auto simp: ionrc_lines_def Let_def write_contact_commands_def write_range_commands_def
        apostrophes_def contact_command_def range_command_def list_all_iff)
  then show ?thesis by (auto simp: list_all_iff no_eol_clean)
qed

definition loopback_contact :: "u64 \<Rightarrow> string" where
  "loopback_contact n = ''a contact +0 +86400 '' @ show_word n @ '' '' @ show_word n @ '' 100000''"

text \<open>
  read line by line, the ionadmin script has exactly one contact command for the loopback and
  then one for every contact of the plan, in the order of the plan: none is lost, none is added,
  for any configuration.
\<close>

theorem ionrc_contact_commands:
  "filter (starts_with ''a contact '') (str_lines (generate_ionrc c)) =
     loopback_contact (nd_node_number (nc_local_node c)) # map contact_command (cp_contacts (nc_contact_plan c))"
proof -
  have all: "filter (starts_with ''a contact '') (map contact_command ts) = map contact_command ts" for ts
    by (induction ts) (simp_all add: contact_command_def starts_with_def)
  have none: "filter (starts_with ''a contact '') (map range_command rs) = []" for rs
    by (induction rs) (simp_all add: range_command_def starts_with_def)
  have "str_lines (generate_ionrc c) = ionrc_lines c"
    unfolding generate_ionrc_def by (rule str_lines_render [OF ionrc_clean])
  then show ?thesis
    by (simp add: ionrc_lines_def Let_def write_contact_commands_def write_range_commands_def
        all none loopback_contact_def) (simp add: starts_with_def)
qed

lemma contact_command_tokens:
  "split_whitespace (contact_command t) =
     [''a'', ''contact'', CHR ''+'' # show_i64 (ct_start_time t), CHR ''+'' # show_i64 (ct_end_time t),
      show_word (ct_source_node t), show_word (ct_dest_node t), show_word (ct_rate_bps t)]"
proof -
  let ?ws = "[''a'', ''contact'', CHR ''+'' # show_i64 (ct_start_time t), CHR ''+'' # show_i64 (ct_end_time t),
      show_word (ct_source_node t), show_word (ct_dest_node t), show_word (ct_rate_bps t)]"
  have "is_token ''a''" and "is_token ''contact''" by (simp_all add: is_token_def text_eval)
  then have "list_all is_token ?ws" by (simp only: list.pred_inject token_show simp_thms)
  moreover have "contact_command t = join '' '' ?ws" by (simp add: contact_command_def)
  ultimately show ?thesis by (simp only: split_whitespace_join)
qed

text \<open>
  a contact command is lossless: two contacts that print the same command agree on both nodes,
  both times and the rate (the confidence is not printed).
\<close>

theorem contact_command_lossless:
  assumes "contact_command t = contact_command t'"
  shows "t\<lparr>ct_confidence := v\<rparr> = t'\<lparr>ct_confidence := v\<rparr>"
  using assms contact_command_tokens [of t] contact_command_tokens [of t'] by (cases t; cases t') simp

definition sample_contact :: contact where
  "sample_contact = \<lparr>ct_source_node = 10, ct_dest_node = 20, ct_start_time = 1000, ct_end_time = 2000,
     ct_rate_bps = 9600, ct_confidence = default_confidence\<rparr>"

theorem contact_command_lossless_witness:
  "sample_contact\<lparr>ct_confidence := F64_nan\<rparr>
     = (sample_contact\<lparr>ct_confidence := F64_finite 1 (-1)\<rparr>)\<lparr>ct_confidence := F64_nan\<rparr>"
proof -
  have "contact_command sample_contact = contact_command (sample_contact\<lparr>ct_confidence := F64_finite 1 (-1)\<rparr>)"
    by (simp add: contact_command_def)
  then show ?thesis by (rule contact_command_lossless)
qed

section \<open>Delays are rounded up\<close>

lemma owlt_of_zero_iff: "owlt_of v = 0 \<longleftrightarrow> \<not> f64_pos v"
  by (auto simp: owlt_of_def)

text \<open>
  C33: a positive delay of \<open>m * 2 ^ e\<close> seconds that fits is rounded up to the next whole second, so the
  script never understates it and never overstates it by a second or more.
\<close>

theorem owlt_rounds_up:
  assumes "0 < m" and "dyadic_ceil m e \<le> i64_max"
  shows "1 \<le> owlt_of (F64_finite m e)
    \<and> (e < 0 \<longrightarrow> m \<le> owlt_of (F64_finite m e) * 2 ^ nat (- e)
                 \<and> (owlt_of (F64_finite m e) - 1) * 2 ^ nat (- e) < m)
    \<and> (0 \<le> e \<longrightarrow> owlt_of (F64_finite m e) = m * 2 ^ nat e)"
proof (intro conjI)
  have pos: "0 < dyadic_ceil m e" by (rule dyadic_ceil_pos [OF assms(1)])
  then have "i64_min \<le> dyadic_ceil m e" by (simp add: i64_min_def)
  with assms pos have owlt: "owlt_of (F64_finite m e) = dyadic_ceil m e" by (simp add: owlt_of_def)
  show "1 \<le> owlt_of (F64_finite m e)" using owlt pos by simp
  show "e < 0 \<longrightarrow> m \<le> owlt_of (F64_finite m e) * 2 ^ nat (- e)
                 \<and> (owlt_of (F64_finite m e) - 1) * 2 ^ nat (- e) < m"
    unfolding owlt using dyadic_ceil_frac by blast
  show "0 \<le> e \<longrightarrow> owlt_of (F64_finite m e) = m * 2 ^ nat e"
    unfolding owlt by (simp add: dyadic_ceil_def)
qed

text \<open>1.25 seconds, that is \<open>5 * 2 ^ -2\<close>, is written as 2.\<close>

theorem owlt_rounds_up_witness:
  "owlt_of (F64_finite 5 (-2)) = 2 \<and> 5 \<le> owlt_of (F64_finite 5 (-2)) * 2 ^ nat 2"
proof -
  have "(0::int) < 5" and "dyadic_ceil 5 (-2) \<le> i64_max"
    by (simp_all add: dyadic_ceil_def i64_max_def)
  from owlt_rounds_up [OF this] show ?thesis
    by (simp add: owlt_of_def dyadic_ceil_def i64_max_def i64_min_def)
qed

section \<open>The scripts agree with each other\<close>

fun protocol_of :: "convergence_layer_link \<Rightarrow> string" where
  "protocol_of (LtpUdp _ _ _ _ _ _ _ _) = ''ltp''"
| "protocol_of (Kiss _ _ _ _ _ _) = ''ltp''"
| "protocol_of (TcpCl _ _ _ _ _) = ''tcp''"
| "protocol_of (Udp _ _ _ _) = ''udp''"

lemma fold_note_protocol:
  "fold note_protocol ls (a, b, d) =
     (a \<or> ''ltp'' \<in> protocol_of ` set ls, b \<or> ''tcp'' \<in> protocol_of ` set ls,
      d \<or> ''udp'' \<in> protocol_of ` set ls)"
proof (induction ls arbitrary: a b d)
  case Nil
  then show ?case by simp
next
  case (Cons l ls)
  then show ?case by (cases l) simp_all
qed

lemma protocol_of_cases: "protocol_of l \<in> {''ltp'', ''tcp'', ''udp''}"
  by (cases l) simp_all

lemma collect_protocols_exact:
  "set (collect_protocols ns) = protocol_of ` set (all_links ns)" "distinct (collect_protocols ns)"
proof -
  have flags: "set ((if a \<in> S then [a] else []) @ (if b \<in> S then [b] else []) @ (if d \<in> S then [d] else []))
      = {a, b, d} \<inter> S" for a b d :: string and S
    by (cases "a \<in> S"; cases "b \<in> S"; cases "d \<in> S") simp_all
  have "set (collect_protocols ns) = {''ltp'', ''tcp'', ''udp''} \<inter> protocol_of ` set (all_links ns)"
    unfolding collect_protocols_def fold_note_protocol prod.case simp_thms by (rule flags)
  then show "set (collect_protocols ns) = protocol_of ` set (all_links ns)"
    using protocol_of_cases by blast
  show "distinct (collect_protocols ns)" by (simp add: collect_protocols_def fold_note_protocol)
qed

definition outduct_command :: "string \<Rightarrow> string \<Rightarrow> string" where
  "outduct_command proto addr = ''a outduct '' @ proto @ '' '' @ addr @ '' '' @ proto @ ''clo''"

lemma duct_declared:
  "\<exists>addr. link_to_duct_expression l = protocol_of l @ ''/'' @ addr
     \<and> outduct_command (protocol_of l) addr \<in> set (bprc_link_entries l)
     \<and> (protocol_of l = ''ltp'' \<longrightarrow> (\<exists>rest. ''a span '' @ addr @ '' '' @ rest \<in> set (ltprc_span l)))"
  by (cases l) (auto simp: outduct_command_def span_command_def)

text \<open>
  C10: the generated scripts agree: for every neighbour with a link, the ipnadmin script has a plan
  whose duct is declared as an outduct in the bpadmin script, over a protocol that the same script
  declares, and, for LTP, with a span to that engine in the ltpadmin script.
\<close>

theorem ion_scripts_agree:
  assumes n: "n \<in> set (nc_neighbors c)" and l: "nb_links n = l # ls"
  shows "\<exists>proto addr.
     ''a plan '' @ show_word (nb_node_number n) @ '' '' @ proto @ ''/'' @ addr \<in> set (ipnrc_lines c)
     \<and> outduct_command proto addr \<in> set (bprc_lines c)
     \<and> protocol_command proto \<in> set (bprc_lines c)
     \<and> (proto = ''ltp'' \<longrightarrow> (\<exists>rest. ''a span '' @ addr @ '' '' @ rest \<in> set (ltprc_lines c)))"
proof -
  have mem: "l \<in> set (all_links (nc_neighbors c))" using n l unfolding in_all_links by force
  obtain addr where addr: "link_to_duct_expression l = protocol_of l @ ''/'' @ addr"
    and out: "outduct_command (protocol_of l) addr \<in> set (bprc_link_entries l)"
    and span: "protocol_of l = ''ltp'' \<longrightarrow> (\<exists>rest. ''a span '' @ addr @ '' '' @ rest \<in> set (ltprc_span l))"
    using duct_declared by blast
  have "ipnrc_plan n = [''a plan '' @ show_word (nb_node_number n) @ '' '' @ protocol_of l @ ''/'' @ addr]"
    using l addr by (simp add: ipnrc_plan_def)
  then have plan: "''a plan '' @ show_word (nb_node_number n) @ '' '' @ protocol_of l @ ''/'' @ addr
      \<in> set (ipnrc_lines c)"
    using n unfolding ipnrc_lines_def set_append set_concat set_map by force
  have "outduct_command (protocol_of l) addr \<in> set (bprc_lines c)"
    using mem out unfolding bprc_lines_def Let_def set_append set_concat set_map by blast
  moreover have "protocol_command (protocol_of l) \<in> set (bprc_lines c)"
    using mem collect_protocols_exact(1) [of "nc_neighbors c"]
    unfolding bprc_lines_def Let_def set_append set_map by blast
  moreover have "protocol_of l = ''ltp'' \<longrightarrow> (\<exists>rest. ''a span '' @ addr @ '' '' @ rest \<in> set (ltprc_lines c))"
    using mem span unfolding ltprc_lines_def Let_def set_append set_concat set_map by blast
  ultimately show ?thesis using plan by blast
qed

text \<open>A small network: a ground station with an LTP neighbour and a TCP neighbour.\<close>

definition ground_config :: "string network_configuration" where
  "ground_config =
     \<lparr>nc_version = ''1.0'', nc_backend = ''ion-dtn'',
      nc_local_node = \<lparr>nd_node_number = 10, nd_endpoint_id = None, nd_callsign_eid = None,
        nd_name = ''gs'', nd_services = []\<rparr>,
      nc_neighbors =
        [\<lparr>nb_node_number = 20, nb_name = None,
          nb_links = [TcpCl ''t'' ''10.0.0.2'' 4556 None None], nb_rate_limit_bps = None\<rparr>,
         \<lparr>nb_node_number = 30, nb_name = None,
          nb_links = [LtpUdp ''l'' 10 30 ''10.0.0.3'' 1113 1114 None None], nb_rate_limit_bps = None\<rparr>],
      nc_contact_plan = \<lparr>cp_contacts = [sample_contact], cp_ranges = []\<rparr>,
      nc_routing = \<lparr>rc_strategy = Static,
        rc_static_routes = [\<lparr>sr_destination_node = 30, sr_next_hop_node = 20\<rparr>]\<rparr>,
      nc_security = None, nc_storage = None, nc_backend_options = Map.empty\<rparr>"

theorem ion_scripts_agree_witness:
  "hd (nc_neighbors ground_config) \<in> set (nc_neighbors ground_config) \<and>
   (\<exists>proto addr. ''a plan 20 '' @ proto @ ''/'' @ addr \<in> set (ipnrc_lines ground_config)
     \<and> outduct_command proto addr \<in> set (bprc_lines ground_config))"
proof -
  have n: "hd (nc_neighbors ground_config) \<in> set (nc_neighbors ground_config)"
    and l: "nb_links (hd (nc_neighbors ground_config)) = [TcpCl ''t'' ''10.0.0.2'' 4556 None None]"
    and s: "show_word (nb_node_number (hd (nc_neighbors ground_config))) = ''20''"
    by (simp_all add: ground_config_def show_word_def show_nat.simps digit_char_def)
  from ion_scripts_agree [OF n l] n show ?thesis unfolding s by auto
qed

section \<open>The scripts line by line\<close>

text \<open>The texts of the configuration that are copied into the scripts hold no end of line.\<close>

fun plain_link :: "convergence_layer_link \<Rightarrow> bool" where
  "plain_link (LtpUdp _ _ _ remote_host _ _ _ _) = no_eol remote_host"
| "plain_link (Kiss _ tnc_device _ _ _ _) = no_eol tnc_device"
| "plain_link (TcpCl _ remote_host _ _ _) = no_eol remote_host"
| "plain_link (Udp _ remote_host _ _) = no_eol remote_host"

fun plain_endpoint :: "endpoint_id \<Rightarrow> bool" where
  "plain_endpoint (Dtn authority path) \<longleftrightarrow> no_eol authority \<and> no_eol path"
| "plain_endpoint (Ipn _ _) = True"

definition plain_texts :: "'y network_configuration \<Rightarrow> bool" where
  "plain_texts c \<longleftrightarrow> list_all plain_link (all_links (nc_neighbors c))
     \<and> (case nd_callsign_eid (nc_local_node c) of None \<Rightarrow> True | Some eid \<Rightarrow> plain_endpoint eid)"

lemma plain_link_lines:
  assumes "plain_link l"
  shows "list_all no_eol (bprc_link_entries l)" "list_all no_eol (ltprc_span l)"
    "no_eol (link_to_duct_expression l)"
  using assms by (cases l; auto simp: span_command_def apostrophes_def)+

lemma list_all_concat_map: "list_all P (concat (map f xs)) \<longleftrightarrow> (\<forall>x \<in> set xs. list_all P (f x))"
  by (auto simp: list_all_iff)

lemma bprc_plain:
  assumes "plain_texts c"
  shows "list_all no_eol (bprc_lines c)"
proof -
  have "list_all no_eol (bprc_link_entries l)" if "l \<in> set (all_links (nc_neighbors c))" for l
    using assms that plain_link_lines(1) by (auto simp: plain_texts_def list_all_iff)
  moreover have "no_eol (callsign_endpoint eid)" if "nd_callsign_eid (nc_local_node c) = Some eid" for eid
    using assms that by (cases eid) (auto simp: plain_texts_def)
  moreover have "no_eol (protocol_command p)" if "p \<in> set (collect_protocols ns)" for p ns
    using that protocol_of_cases by (fastforce simp: collect_protocols_exact protocol_command_def)
  ultimately show ?thesis
    by (auto simp: bprc_lines_def Let_def apostrophes_def list_all_concat_map list_all_iff split: option.split)
qed

lemma ltprc_plain:
  assumes "plain_texts c"
  shows "list_all no_eol (ltprc_lines c)"
proof -
  have "list_all no_eol (ltprc_span l)" if "l \<in> set (all_links (nc_neighbors c))" for l
    using assms that plain_link_lines(2) by (auto simp: plain_texts_def list_all_iff)
  then show ?thesis
    by (auto simp: ltprc_lines_def Let_def apostrophes_def span_command_def list_all_concat_map list_all_iff)
qed

lemma ipnrc_plain:
  assumes "plain_texts c"
  shows "list_all no_eol (ipnrc_lines c)"
proof -
  have "list_all no_eol (ipnrc_plan n)" if "n \<in> set (nc_neighbors c)" for n
  proof (cases "nb_links n")
    case (Cons l ls)
    with that have "l \<in> set (all_links (nc_neighbors c))" unfolding in_all_links by force
    with assms plain_link_lines(3) Cons show ?thesis
      by (auto simp: plain_texts_def list_all_iff ipnrc_plan_def)
  qed (simp add: ipnrc_plan_def)
  then show ?thesis
    by (auto simp: ipnrc_lines_def write_routing_config_def static_plan_def list_all_concat_map list_all_iff
        split: routing_strategy.split)
qed

lemma str_lines_plain: "list_all no_eol ls \<Longrightarrow> str_lines (render ls) = ls"
  by (rule str_lines_render) (auto simp: list_all_iff no_eol_clean)

text \<open>
  C23: when host names, device names and the callsign endpoint hold no end of line, the four files read
  back line by line are exactly the lines of the four writers: the admin tools see these commands,
  in this order, and no other.
\<close>

theorem ion_scripts_read_back:
  assumes "plain_texts c"
  shows "\<exists>ionrc bprc ltprc ipnrc.
     gc_files (generate_ion_config c) (ion_file c ''ionrc'') = Some ionrc \<and> str_lines ionrc = ionrc_lines c
   \<and> gc_files (generate_ion_config c) (ion_file c ''bprc'') = Some bprc \<and> str_lines bprc = bprc_lines c
   \<and> gc_files (generate_ion_config c) (ion_file c ''ltprc'') = Some ltprc \<and> str_lines ltprc = ltprc_lines c
   \<and> gc_files (generate_ion_config c) (ion_file c ''ipnrc'') = Some ipnrc \<and> str_lines ipnrc = ipnrc_lines c"
  by (simp add: generate_ion_config_def generate_ionrc_def generate_bprc_def generate_ltprc_def generate_ipnrc_def
      str_lines_render ionrc_clean str_lines_plain bprc_plain ltprc_plain ipnrc_plain assms)

theorem ion_scripts_read_back_witness:
  "\<exists>bprc. gc_files (generate_ion_config ground_config) (ion_file ground_config ''bprc'') = Some bprc
     \<and> ''a outduct tcp 10.0.0.2:4556 tcpclo'' \<in> set (str_lines bprc)"
proof -
  have "plain_texts ground_config" by (simp add: plain_texts_def ground_config_def all_links_def)
  moreover have "''a outduct tcp 10.0.0.2:4556 tcpclo'' \<in> set (bprc_lines ground_config)"
    by (simp add: bprc_lines_def Let_def ground_config_def all_links_def show_word_def show_nat.simps digit_char_def)
  ultimately show ?thesis using ion_scripts_read_back by fastforce
qed

text \<open>Validation does not look at the links.\<close>

definition without_links :: "'y network_configuration \<Rightarrow> 'y network_configuration" where
  "without_links c = c\<lparr>nc_neighbors := map (\<lambda>n. n\<lparr>nb_links := []\<rparr>) (nc_neighbors c)\<rparr>"

lemma enumerate_map: "enumerate_from i (map f xs) = map (\<lambda>(j, x). (j, f x)) (enumerate_from i xs)"
  by (induction xs arbitrary: i) simp_all

lemma duplicates_without_links:
  "duplicate_neighbors_from seen i (map (\<lambda>n. n\<lparr>nb_links := []\<rparr>) ns) = duplicate_neighbors_from seen i ns"
  by (induction ns arbitrary: seen i) (simp_all add: neighbor_duplicate_detail_def)

lemma validate_without_links: "validate (without_links c) = validate c"
proof -
  have "check_duplicate_local_node (without_links c) = check_duplicate_local_node c"
    by (auto simp: check_duplicate_local_node_def without_links_def enumerate_map comp_def
        local_duplicate_detail_def intro!: arg_cong [where f = concat] map_cong)
  moreover have "check_duplicate_neighbor_nodes (without_links c) = check_duplicate_neighbor_nodes c"
    by (simp add: check_duplicate_neighbor_nodes_def without_links_def duplicates_without_links)
  moreover have "defined_nodes (without_links c) = defined_nodes c"
    by (simp add: defined_nodes_def without_links_def foldl_map)
  moreover have "check_contact_node_references (without_links c) = check_contact_node_references c"
    "check_range_node_references (without_links c) = check_range_node_references c"
    "check_contact_temporal_constraints (without_links c) = check_contact_temporal_constraints c"
    "check_static_route_references (without_links c) = check_static_route_references c"
    by (simp_all add: fun_eq_iff check_contact_node_references_def check_range_node_references_def
        check_contact_temporal_constraints_def check_static_route_references_def without_links_def)
  ultimately show ?thesis by (simp add: validate_def validation_errors_def)
qed

text \<open>
  C24: the condition is needed, and nothing checks it: over a TCP link, a host name with line feeds around a
  text of one line puts that text as a command of its own into the bpadmin script, and validation
  answers the same as for the configuration without any link, so it cannot tell.
\<close>

theorem ion_host_injects_command:
  assumes "n \<in> set (nc_neighbors c)"
    and "TcpCl i (host @ LF # cmd @ [LF]) remote_port local_port keepalive \<in> set (nb_links n)"
    and "clean_line cmd"
  shows "cmd \<in> set (str_lines (generate_bprc c)) \<and> validate c = validate (without_links c)"
proof
  let ?h = "host @ LF # cmd @ [LF]"
  let ?l = "''a outduct tcp '' @ ?h @ '':'' @ show_word remote_port @ '' tcpclo''"
  have "TcpCl i ?h remote_port local_port keepalive \<in> set (all_links (nc_neighbors c))"
    using assms(1,2) unfolding in_all_links by blast
  moreover have "?l \<in> set (bprc_link_entries (TcpCl i ?h remote_port local_port keepalive))" by simp
  ultimately have "?l \<in> set (bprc_lines c)"
    unfolding bprc_lines_def Let_def set_append set_concat set_map by blast
  moreover have "?l = (''a outduct tcp '' @ host) @ LF # cmd @ LF # '':'' @ show_word remote_port @ '' tcpclo''" by simp
  ultimately show "cmd \<in> set (str_lines (generate_bprc c))"
    unfolding generate_bprc_def using embedded_line [OF _ assms(3)] by metis
qed (simp add: validate_without_links)

definition injected_config :: "string network_configuration" where
  "injected_config = ground_config\<lparr>nc_neighbors :=
     [\<lparr>nb_node_number = 20, nb_name = None,
       nb_links = [TcpCl ''t'' (''10.0.0.2'' @ LF # ''d scheme ipn'' @ [LF]) 4556 None None],
       nb_rate_limit_bps = None\<rparr>],
     nc_routing := \<lparr>rc_strategy = Cgr, rc_static_routes = []\<rparr>\<rparr>"

text \<open>Validation accepts such a configuration.\<close>

theorem ion_host_injects_command_witness:
  "validate injected_config = Inr () \<and> ''d scheme ipn'' \<in> set (str_lines (generate_bprc injected_config))"
proof
  show "validate injected_config = Inr ()"
    unfolding validate_ok_iff
    by (simp add: well_formed_def known_node_def injected_config_def ground_config_def sample_contact_def)
  have "clean_line ''d scheme ipn''" by (rule no_eol_clean) simp
  then show "''d scheme ipn'' \<in> set (str_lines (generate_bprc injected_config))"
    by (intro conjunct1 [OF ion_host_injects_command [of "hd (nc_neighbors injected_config)" _ "''t''" "''10.0.0.2''" _ 4556 None None]])
      (simp_all add: injected_config_def)
qed

section \<open>Static routes\<close>

lemma outduct_not_endpoint: "''a outduct ltp '' @ s \<noteq> callsign_endpoint eid"
  by (cases eid) simp_all

lemma ltp_outduct_line:
  "''a outduct ltp '' @ show_word e @ '' ltpclo'' \<in> set (bprc_link_entries l) \<Longrightarrow>
   \<exists>i le host p lp m q dev b. l = LtpUdp i le e host p lp m q \<or> l = Kiss i dev b le e m"
  by (cases l) auto

lemma ltp_outduct_in_bprc:
  "''a outduct ltp '' @ show_word e @ '' ltpclo'' \<in> set (bprc_lines c) \<Longrightarrow>
   \<exists>l \<in> set (all_links (nc_neighbors c)). ''a outduct ltp '' @ show_word e @ '' ltpclo'' \<in> set (bprc_link_entries l)"
  using outduct_not_endpoint [of "show_word e @ '' ltpclo''"]
  by (auto simp: bprc_lines_def Let_def protocol_command_def split: option.splits if_splits)

text \<open>The remote engine ids of the LTP-framed links of a configuration.\<close>

fun remote_engine :: "convergence_layer_link \<Rightarrow> u64 option" where
  "remote_engine (LtpUdp _ _ e _ _ _ _ _) = Some e"
| "remote_engine (Kiss _ _ _ _ e _) = Some e"
| "remote_engine _ = None"

text \<open>
  under static routing the ipnadmin script sends every route to the LTP duct named by the next
  hop's node number. When no link has that remote engine id (the next hop is reached over TCP, or
  its engine id is another number), the bpadmin script declares no such outduct: the plan dangles.
\<close>

theorem ion_static_route_without_duct:
  assumes "rc_strategy (nc_routing c) = Static" and "r \<in> set (rc_static_routes (nc_routing c))"
    and "\<forall>l \<in> set (all_links (nc_neighbors c)). remote_engine l \<noteq> Some (sr_next_hop_node r)"
  shows "''a plan '' @ show_word (sr_destination_node r) @ '' ltp/'' @ show_word (sr_next_hop_node r)
           \<in> set (ipnrc_lines c)
       \<and> ''a outduct ltp '' @ show_word (sr_next_hop_node r) @ '' ltpclo'' \<notin> set (bprc_lines c)"
proof
  show "''a plan '' @ show_word (sr_destination_node r) @ '' ltp/'' @ show_word (sr_next_hop_node r)
      \<in> set (ipnrc_lines c)"
    using assms(1,2) by (auto simp: ipnrc_lines_def write_routing_config_def static_plan_def image_iff)
  show "''a outduct ltp '' @ show_word (sr_next_hop_node r) @ '' ltpclo'' \<notin> set (bprc_lines c)"
    using assms(3) ltp_outduct_in_bprc ltp_outduct_line by fastforce
qed

lemma ground_config_valid: "validate ground_config = Inr ()"
  unfolding validate_ok_iff by (simp add: well_formed_def known_node_def ground_config_def sample_contact_def)

text \<open>It happens in a configuration that validation accepts.\<close>

theorem ion_static_route_without_duct_witness:
  "validate ground_config = Inr ()
   \<and> ''a plan 30 ltp/20'' \<in> set (ipnrc_lines ground_config)
   \<and> ''a outduct ltp 20 ltpclo'' \<notin> set (bprc_lines ground_config)"
proof -
  let ?r = "\<lparr>sr_destination_node = 30, sr_next_hop_node = 20\<rparr>"
  have "rc_strategy (nc_routing ground_config) = Static"
    and "?r \<in> set (rc_static_routes (nc_routing ground_config))"
    and "\<forall>l \<in> set (all_links (nc_neighbors ground_config)). remote_engine l \<noteq> Some (sr_next_hop_node ?r)"
    by (simp_all add: ground_config_def)
  from ion_static_route_without_duct [OF this] ground_config_valid show ?thesis
    by (simp add: show_word_def show_nat.simps digit_char_def)
qed

end
