(* ===== verification/Ion_Telemetry.thy ===== *)
theory Ion_Telemetry
  imports Ion_Reconfig Telemetry
begin

text \<open>
  Telemetry of ION, \<open>adapter/ion/telemetry.rs\<close>: running the status tools and parsing what they
  print. A result is an option whose \<open>None\<close> is the panic of the warning's preview. The lemmas
  read the documented formats back, say exactly when a parser panics, and what the
  counters are for the other formats.
\<close>

record ion_telemetry =
  it_bin_dir :: "string option"

definition new_ion_telemetry :: "string option \<Rightarrow> ion_telemetry" where
  "new_ion_telemetry bin_dir = \<lparr>it_bin_dir = bin_dir\<rparr>"

section \<open>Bundle statistics\<close>

definition normalize_stat_key :: "string \<Rightarrow> string" where
  "normalize_stat_key key =
     (let lower = to_lowercase key;
          stripped = unwrap_or lower
            (or_else (or_else (strip_prefix ''bundles_'' lower) (strip_prefix ''bundles '' lower))
                     (strip_prefix ''bundle_'' lower))
      in replace_chars '' -'' (CHR ''_'') stripped)"

text \<open>\<open>parse_colon_separated\<close> and \<open>parse_equals_separated\<close>, which differ in the separator.\<close>

definition parse_separated :: "char \<Rightarrow> string \<Rightarrow> (string \<times> string) option" where
  "parse_separated sep line =
     (case split2 sep line of
        (_, None) \<Rightarrow> None
      | (k, Some v) \<Rightarrow>
          (let key = trim k; value = trim v
           in if key = [] \<or> value = [] then None else Some (normalize_stat_key key, value)))"

definition parse_colon_separated :: "string \<Rightarrow> (string \<times> string) option" where
  "parse_colon_separated = parse_separated (CHR '':'')"

definition parse_equals_separated :: "string \<Rightarrow> (string \<times> string) option" where
  "parse_equals_separated = parse_separated (CHR ''='')"

text \<open>The counters so far, and whether any was recognised.\<close>

type_synonym stats_state = "bundle_statistics \<times> bool"

definition apply_parsed :: "string \<times> string \<Rightarrow> stats_state \<Rightarrow> stats_state" where
  "apply_parsed = (\<lambda>(key, value) (stats, parsed_any).
     case parse_word value of
       None \<Rightarrow> (stats, parsed_any)
     | Some val \<Rightarrow> (case apply_stat_value stats key val of (stats', known) \<Rightarrow> (stats', parsed_any \<or> known)))"

definition bpstats_token :: "stats_state \<Rightarrow> string \<Rightarrow> stats_state" where
  "bpstats_token st token =
     (case parse_equals_separated token of None \<Rightarrow> st | Some kv \<Rightarrow> apply_parsed kv st)"

definition bpstats_line :: "stats_state \<Rightarrow> string \<Rightarrow> stats_state" where
  "bpstats_line st l =
     (let line = trim l
      in if line = [] then st
         else case parse_colon_separated line of
                Some kv \<Rightarrow> apply_parsed kv st
              | None \<Rightarrow> foldl bpstats_token st (split_whitespace line))"

definition scan_bpstats :: "string \<Rightarrow> stats_state" where
  "scan_bpstats text = foldl bpstats_line (zero_stats, False) (str_lines text)"

definition parse_bpstats_output :: "bool \<Rightarrow> string \<Rightarrow> bundle_statistics option" where
  "parse_bpstats_output logs text =
     (case scan_bpstats text of (stats, parsed_any) \<Rightarrow>
        if \<not> parsed_any \<and> trim text \<noteq> [] then warn_preview logs text stats else Some stats)"

section \<open>The queue\<close>

definition is_bplist_header_line :: "string \<Rightarrow> bool" where
  "is_bplist_header_line line =
     (let lower = to_lowercase line
      in (starts_with ''bundle'' lower \<and> contains_str lower ''list'')
         \<or> starts_with ''---'' lower \<or> starts_with ''==='' lower
         \<or> starts_with ''#'' lower
         \<or> contains_str lower ''no bundles'' \<or> contains_str lower ''empty'')"

definition bplist_step :: "u64 \<Rightarrow> string \<Rightarrow> u64" where
  "bplist_step count line =
     (let trimmed = trim line
      in if trimmed = [] then count else if is_bplist_header_line trimmed then count else count + 1)"

definition parse_bplist_count :: "string \<Rightarrow> u64" where
  "parse_bplist_count text = foldl bplist_step 0 (str_lines text)"

section \<open>Link states\<close>

definition parse_leading_number :: "string \<Rightarrow> u64 option" where
  "parse_leading_number s =
     (let num_str = takeWhile is_ascii_digit (trim s)
      in if num_str = [] then None else parse_word num_str)"

definition number_after :: "string \<Rightarrow> string \<Rightarrow> (string \<Rightarrow> string) \<Rightarrow> u64 option" where
  "number_after label line clean =
     Option.bind (find_sub label line) (\<lambda>pos. parse_leading_number (clean (drop (pos + length label) line)))"

definition counter_for_key :: "string \<Rightarrow> string \<Rightarrow> u64 option" where
  "counter_for_key line key =
     or_else (or_else (number_after (key @ ''='') line id) (number_after (key @ '':'') line trim))
       (number_after key line (\<lambda>s. dropWhile (\<lambda>c. c \<in> set ''=: '') (trim s)))"

definition extract_counter :: "string \<Rightarrow> string list \<Rightarrow> u64 option" where
  "extract_counter line keys = find_map (counter_for_key line) keys"

definition prefixed_engine_id :: "string \<Rightarrow> string \<Rightarrow> u64 option" where
  "prefixed_engine_id line label =
     Option.bind (strip_prefix label line) (\<lambda>rest.
       let num_str = takeWhile is_ascii_digit (trim rest)
       in if num_str = [] then None else parse_word num_str)"

definition leading_engine_id :: "string \<Rightarrow> u64 option" where
  "leading_engine_id line =
     (case split_whitespace line of
        [] \<Rightarrow> None
      | first_token # _ \<Rightarrow>
          (let cleaned = trim_end_by (\<lambda>c. \<not> is_ascii_digit c) first_token;
               digits = takeWhile is_ascii_digit cleaned
           in if digits = [] then None
              else Option.bind (parse_word digits) (\<lambda>i. if i \<le> 100000 then Some i else None)))"

definition extract_span_engine_id :: "string \<Rightarrow> u64 option" where
  "extract_span_engine_id line =
     or_else (find_map (prefixed_engine_id line) [''span'', ''engine'', ''peer''])
       (leading_engine_id line)"

definition sent_keys :: "string list" where
  "sent_keys = [''bytes_sent'', ''bytes sent'', ''bytessent'', ''sent'']"

definition received_keys :: "string list" where
  "received_keys = [''bytes_rcvd'', ''bytes_received'', ''bytes received'', ''bytesrcvd'', ''rcvd'']"

definition says_active :: "string \<Rightarrow> bool" where
  "says_active lower \<longleftrightarrow>
     (contains_str lower ''active'' \<or> contains_str lower ''running'' \<or> contains_str lower ''up'')
     \<and> \<not> (contains_str lower ''inactive'' \<or> contains_str lower ''stopped'' \<or> contains_str lower ''down'')"

definition parse_ltp_span_line :: "string \<Rightarrow> link_state option" where
  "parse_ltp_span_line line =
     (let lower = to_lowercase line
      in map_option (\<lambda>engine_id.
           \<lparr>ls_neighbor_node = engine_id, ls_link_id = ''ltp-span-'' @ show_word engine_id,
            ls_active = says_active lower,
            ls_bytes_sent = unwrap_or 0 (extract_counter lower sent_keys),
            ls_bytes_received = unwrap_or 0 (extract_counter lower received_keys)\<rparr>)
         (extract_span_engine_id lower))"

definition ltpinfo_links :: "string \<Rightarrow> link_state list" where
  "ltpinfo_links text =
     List.map_filter parse_ltp_span_line (filter (\<lambda>l. l \<noteq> []) (map trim (str_lines text)))"

definition parse_ltpinfo_output :: "bool \<Rightarrow> string \<Rightarrow> link_state list option" where
  "parse_ltpinfo_output logs text =
     (let links = ltpinfo_links text
      in if links = [] \<and> trim text \<noteq> [] then warn_preview logs text links else Some links)"

section \<open>Running the tools\<close>

definition telemetry_command :: "ion_telemetry \<Rightarrow> string \<Rightarrow> string list \<Rightarrow> command" where
  "telemetry_command self name args =
     \<lparr>cmd_program = ion_bin_path (it_bin_dir self) name, cmd_args = args,
      cmd_stdin = Stdin_default, cmd_dir = None\<rparr>"

definition run_bpstats ::
  "bool \<Rightarrow> os \<Rightarrow> ion_telemetry \<Rightarrow> ('e, effect list, bundle_statistics option) action" where
  "run_bpstats logs os self =
     act_bind (run_output os (telemetry_command self ''bpstats'' [])) (\<lambda>r.
       act_return (case r of
         Inl _ \<Rightarrow> Some zero_stats
       | Inr p \<Rightarrow> parse_bpstats_output logs (po_stdout p @ [LF] @ po_stderr p)))"

definition run_bplist_count :: "os \<Rightarrow> ion_telemetry \<Rightarrow> ('e, effect list, u64) action" where
  "run_bplist_count os self =
     act_bind (run_output os (telemetry_command self ''bplist'' [])) (\<lambda>r.
       act_return (case r of Inl _ \<Rightarrow> 0 | Inr p \<Rightarrow> parse_bplist_count (po_stdout p)))"

text \<open>A panic in \<open>run_bpstats\<close> ends the operation before \<open>bplist\<close> runs.\<close>

definition ion_collect_stats ::
  "bool \<Rightarrow> os \<Rightarrow> ion_telemetry \<Rightarrow> ('e, effect list, bundle_statistics option) action" where
  "ion_collect_stats logs os self =
     act_bind (run_bpstats logs os self) (\<lambda>r.
       case r of
         None \<Rightarrow> act_return None
       | Some stats \<Rightarrow>
           act_bind (run_bplist_count os self) (\<lambda>queued.
             act_return (Some \<lparr>bs_sourced = bs_sourced stats, bs_forwarded = bs_forwarded stats,
               bs_delivered = bs_delivered stats, bs_expired = bs_expired stats, bs_queued = queued\<rparr>)))"

definition run_ltpadmin_list_spans ::
  "bool \<Rightarrow> os \<Rightarrow> ion_telemetry \<Rightarrow> ('e, effect list, link_state list option) action" where
  "run_ltpadmin_list_spans logs os self =
     act_bind (run_output os (telemetry_command self ''ltpadmin'' [''l span''])) (\<lambda>r.
       act_return (case r of
         Inl _ \<Rightarrow> Some []
       | Inr p \<Rightarrow> parse_ltpinfo_output logs (po_stdout p)))"

definition run_ltpinfo ::
  "bool \<Rightarrow> os \<Rightarrow> ion_telemetry \<Rightarrow> ('e, effect list, link_state list option) action" where
  "run_ltpinfo logs os self =
     act_bind (run_output os (telemetry_command self ''ltpinfo'' [])) (\<lambda>r.
       case r of
         Inr p \<Rightarrow> if po_success p then act_return (parse_ltpinfo_output logs (po_stdout p))
                  else run_ltpadmin_list_spans logs os self
       | Inl _ \<Rightarrow> run_ltpadmin_list_spans logs os self)"

definition ion_link_states ::
  "bool \<Rightarrow> os \<Rightarrow> ion_telemetry \<Rightarrow> ('e, effect list, link_state list option) action" where
  "ion_link_states = run_ltpinfo"

section \<open>When the parsers return\<close>

text \<open>
  The statistics parser panics exactly when warnings are enabled, no counter was recognised in a
  text that is not blank, and byte 200 of the text lies inside a multi-byte character. (On a text with
  blanks outside ASCII, the model counts more lines as not blank than the program.)
\<close>

lemma bpstats_panic_iff:
  "parse_bpstats_output logs s = None \<longleftrightarrow>
     logs \<and> \<not> snd (scan_bpstats s) \<and> trim s \<noteq> [] \<and> splits_char s 200"
  by (auto simp: parse_bpstats_output_def warn_preview_None split: prod.splits)

text \<open>In a text without a colon or an equals sign no counter is found.\<close>

lemma in_str_lines: "l \<in> set (str_lines s) \<Longrightarrow> set l \<subseteq> set s"
proof -
  have "l \<in> set (lines_acc acc s) \<Longrightarrow> set l \<subseteq> set acc \<union> set s" for acc
    by (induction acc s rule: lines_acc.induct)
      (auto simp: strip_cr_def split: if_splits dest!: in_set_butlastD dest: list.set_sel(2))
  from this [of "[]"] show "l \<in> set (str_lines s) \<Longrightarrow> set l \<subseteq> set s" by (simp add: str_lines_def)
qed

lemma in_split_whitespace: "w \<in> set (split_whitespace s) \<Longrightarrow> set w \<subseteq> set s"
proof -
  have "w \<in> set (words_acc acc s) \<Longrightarrow> set w \<subseteq> set acc \<union> set s" for acc
    by (induction acc s rule: words_acc.induct) (auto split: if_splits)
  from this [of "[]"] show "w \<in> set (split_whitespace s) \<Longrightarrow> set w \<subseteq> set s" by (simp add: split_whitespace_def)
qed

lemma in_trim: "set (trim s) \<subseteq> set s"
  by (auto simp: trim_def trim_start_def trim_end_by_def dest!: set_dropWhileD)

lemma split2_without: "c \<notin> set a \<Longrightarrow> split2 c a = (a, None)"
  by (induction a) auto

lemma no_separator_line:
  assumes "CHR '':'' \<notin> set l" and "CHR ''='' \<notin> set l"
  shows "bpstats_line st l = st"
proof -
  let ?t = "trim l"
  have t: "CHR '':'' \<notin> set ?t" "CHR ''='' \<notin> set ?t" using assms in_trim [of l] by blast+
  have "bpstats_token st w = st" if "w \<in> set (split_whitespace ?t)" for st w
  proof -
    have "CHR ''='' \<notin> set w" using in_split_whitespace [OF that] t(2) by blast
    then show ?thesis by (simp add: bpstats_token_def parse_equals_separated_def parse_separated_def split2_without)
  qed
  then have "foldl bpstats_token st ws = st" if "set ws \<subseteq> set (split_whitespace ?t)" for ws
    using that by (induction ws) auto
  then show ?thesis
    using t(1) by (simp add: bpstats_line_def Let_def parse_colon_separated_def parse_separated_def split2_without)
qed

lemma no_separator_scan:
  assumes "CHR '':'' \<notin> set s" and "CHR ''='' \<notin> set s"
  shows "scan_bpstats s = (zero_stats, False)"
proof -
  have "foldl bpstats_line st ls = st" if "set ls \<subseteq> set (str_lines s)" for st ls
    using that
  proof (induction ls)
    case (Cons l ls)
    then have "bpstats_line st l = st" using assms in_str_lines [of l s] by (intro no_separator_line) auto
    with Cons show ?case by simp
  qed simp
  then show ?thesis by (simp add: scan_bpstats_def)
qed

lemma trim_not_blank:
  assumes "ch \<in> set s" and "\<not> is_white ch"
  shows "trim s \<noteq> []"
proof -
  have "ch \<in> set (trim_start s)"
    using assms unfolding trim_start_def by (metis UnE set_append set_takeWhileD takeWhile_dropWhile_id)
  then show ?thesis using assms(2) by (auto simp: trim_def trim_end_by_def dropWhile_eq_Nil_conv)
qed

text \<open>
  C35: output of bpstats that the parser does not understand can panic the request: when 199 bytes of ASCII,
  not all blank, are followed by a two-byte character and any more text, with no colon and no
  equals sign anywhere, and warnings are written, the preview of the warning cuts the character in two, and there is no
  result. With warnings off, the same text gives the zero counters that the comments promise.
\<close>

theorem bpstats_preview_panics:
  assumes "length front = 199" and "list_all is_ascii front" and "ch \<in> set front" and "\<not> is_white ch"
    and "194 \<le> code_of b1" and "code_of b1 < 224" and "128 \<le> code_of b2" and "code_of b2 < 192"
    and "CHR '':'' \<notin> set (front @ rest)" and "CHR ''='' \<notin> set (front @ rest)"
  shows "parse_bpstats_output True (front @ [b1, b2] @ rest) = None
    \<and> parse_bpstats_output False (front @ [b1, b2] @ rest) = Some zero_stats"
proof -
  let ?s = "front @ [b1, b2] @ rest"
  have "code_of (CHR '':'') < 128" "code_of (CHR ''='') < 128" by (simp_all add: code_of_def)
  with assms have "CHR '':'' \<notin> set ?s" "CHR ''='' \<notin> set ?s" by auto
  from no_separator_scan [OF this] have scan: "scan_bpstats ?s = (zero_stats, False)" .
  have "trim ?s \<noteq> []" using assms(3,4) by (intro trim_not_blank) auto
  moreover have "splits_char ?s 200"
    using assms(1,7,8) by (simp add: splits_char_def nth_append)
  ultimately have "parse_bpstats_output True ?s = None" unfolding bpstats_panic_iff scan by simp
  moreover have "parse_bpstats_output False ?s = Some zero_stats"
    unfolding parse_bpstats_output_def scan by (simp add: warn_preview_def)
  ultimately show ?thesis by blast
qed

text \<open>An error message of 199 letters, and a French word.\<close>

theorem bpstats_preview_panics_witness:
  "parse_bpstats_output True (replicate 199 (CHR ''x'') @ [CHR 0xC3, CHR 0xA9] @ ''teint'') = None
   \<and> parse_bpstats_output False (replicate 199 (CHR ''x'') @ [CHR 0xC3, CHR 0xA9] @ ''teint'') = Some zero_stats"
  by (rule bpstats_preview_panics [where ch = "CHR ''x''"])
    (simp_all add: is_ascii_def is_white_def code_of_def list_all_iff)

lemma bpstats_value:
  "parse_bpstats_output logs s = Some stats \<Longrightarrow> stats = fst (scan_bpstats s)"
  using warn_preview_cases [of logs s "fst (scan_bpstats s)"]
  by (auto simp: parse_bpstats_output_def split: prod.splits if_splits)

lemma bpstats_ascii: "list_all is_ascii s \<Longrightarrow> parse_bpstats_output logs s = Some (fst (scan_bpstats s))"
  by (auto simp: parse_bpstats_output_def warn_preview_ascii split: prod.splits)

lemma ltpinfo_ascii: "list_all is_ascii s \<Longrightarrow> parse_ltpinfo_output logs s = Some (ltpinfo_links s)"
  by (simp add: parse_ltpinfo_output_def Let_def warn_preview_ascii)

section \<open>The documented formats of the statistics\<close>

lemma split2_not_in: "c \<notin> set a \<Longrightarrow> split2 c (a @ c # b) = (a, Some b)" "c \<notin> set a \<Longrightarrow> split2 c a = (a, None)"
  by (induction a) auto

lemma sep_not_in_number [simp]:
  "CHR '':'' \<notin> set (show_word w)" "CHR ''='' \<notin> set (show_word w)"
  using in_show_word_digit [of _ w] by (fastforce simp: is_ascii_digit_def code_of_def)+

definition colon_line :: "string \<Rightarrow> u64 \<Rightarrow> string" where
  "colon_line key v = key @ '': '' @ show_word v"

definition equals_token :: "string \<Rightarrow> u64 \<Rightarrow> string" where
  "equals_token key v = key @ ''='' @ show_word v"

text \<open>A name that trimming and splitting leave alone.\<close>

definition plain_key :: "string \<Rightarrow> bool" where
  "plain_key key \<longleftrightarrow> is_token key \<and> CHR '':'' \<notin> set key \<and> CHR ''='' \<notin> set key"

lemma token_trim: "is_token w \<Longrightarrow> trim w = w"
  by (rule trim_tight) (auto simp: is_token_def list_all_iff)

lemma trim_leading_blank: "trim (CHR '' '' # s) = trim s"
  by (simp add: trim_def trim_start_def is_white_def code_of_def)

lemma parse_colon_line:
  "plain_key key \<Longrightarrow> parse_colon_separated (colon_line key v) = Some (normalize_stat_key key, show_word v)"
  by (simp add: parse_colon_separated_def parse_separated_def colon_line_def split2_not_in plain_key_def
      token_trim trim_leading_blank Let_def) (simp add: is_token_def)

lemma parse_equals_token:
  "plain_key key \<Longrightarrow> parse_equals_separated (equals_token key v) = Some (normalize_stat_key key, show_word v)"
  by (simp add: parse_equals_separated_def parse_separated_def equals_token_def split2_not_in plain_key_def
      token_trim Let_def) (simp add: is_token_def)

lemma colon_line_step:
  assumes "plain_key key"
  shows "bpstats_line st (colon_line key v) = apply_parsed (normalize_stat_key key, show_word v) st"
proof -
  have "trim (colon_line key v) = colon_line key v"
    using assms by (intro trim_tight)
      (auto simp: colon_line_def plain_key_def is_token_def list_all_iff hd_append digit_not_white)
  then show ?thesis
    using assms by (simp add: bpstats_line_def Let_def parse_colon_line) (simp add: colon_line_def)
qed

lemma equals_token_step:
  "plain_key key \<Longrightarrow>
   bpstats_token st (equals_token key v) = apply_parsed (normalize_stat_key key, show_word v) st"
  by (simp add: bpstats_token_def parse_equals_token)

lemma normalize_documented:
  "normalize_stat_key ''sourced'' = ''sourced''" "normalize_stat_key ''forwarded'' = ''forwarded''"
  "normalize_stat_key ''delivered'' = ''delivered''" "normalize_stat_key ''expired'' = ''expired''"
  "normalize_stat_key ''bundles_sourced'' = ''sourced''"
  "normalize_stat_key ''bundles_forwarded'' = ''forwarded''"
  "normalize_stat_key ''bundles_delivered'' = ''delivered''"
  "normalize_stat_key ''bundles_expired'' = ''expired''"
  by (simp_all add: normalize_stat_key_def text_eval)

lemma plain_documented:
  "plain_key ''sourced''" "plain_key ''forwarded''" "plain_key ''delivered''" "plain_key ''expired''"
  "plain_key ''bundles_sourced''" "plain_key ''bundles_forwarded''"
  "plain_key ''bundles_delivered''" "plain_key ''bundles_expired''"
  by (simp_all add: plain_key_def is_token_def text_eval)

lemma apply_parsed_number:
  "apply_parsed (key, show_word v) (stats, b) =
     (fst (apply_stat_value stats key v), b \<or> snd (apply_stat_value stats key v))"
  by (simp add: apply_parsed_def split: prod.splits)

definition stats_of :: "u64 \<Rightarrow> u64 \<Rightarrow> u64 \<Rightarrow> u64 \<Rightarrow> bundle_statistics" where
  "stats_of a b d e =
     \<lparr>bs_sourced = a, bs_forwarded = b, bs_delivered = d, bs_expired = e, bs_queued = 0\<rparr>"

definition colon_report :: "u64 \<Rightarrow> u64 \<Rightarrow> u64 \<Rightarrow> u64 \<Rightarrow> string list" where
  "colon_report a b d e =
     [colon_line ''sourced'' a, colon_line ''forwarded'' b, colon_line ''delivered'' d,
      colon_line ''expired'' e]"

definition equals_tokens :: "u64 \<Rightarrow> u64 \<Rightarrow> u64 \<Rightarrow> u64 \<Rightarrow> string list" where
  "equals_tokens a b d e =
     [equals_token ''bundles_sourced'' a, equals_token ''bundles_forwarded'' b,
      equals_token ''bundles_delivered'' d, equals_token ''bundles_expired'' e]"

lemma no_eol_report: "no_eol (colon_line key v) \<longleftrightarrow> no_eol key" "no_eol (equals_token key v) \<longleftrightarrow> no_eol key"
  by (auto simp: colon_line_def equals_token_def)

lemma scan_rendered:
  "list_all clean_line ls \<Longrightarrow> scan_bpstats (render ls @ [LF]) = foldl bpstats_line (zero_stats, False) ls"
proof -
  assume c: "list_all clean_line ls"
  have "str_lines (render (ls @ [[]])) = ls @ [[]]"
    using c by (intro str_lines_render) (simp add: clean_line_def)
  then show ?thesis by (simp add: scan_bpstats_def bpstats_line_def trim_def trim_start_def trim_end_by_def)
qed

lemma scan_colon_report: "scan_bpstats (render (colon_report a b d e) @ [LF]) = (stats_of a b d e, True)"
proof -
  have clean: "list_all clean_line (colon_report a b d e)"
    by (simp add: colon_report_def no_eol_clean no_eol_report)
  show ?thesis
    unfolding scan_rendered [OF clean] unfolding colon_report_def foldl.simps
    by (simp only: colon_line_step plain_documented normalize_documented apply_parsed_number)
      (simp add: apply_stat_value_def stat_names stats_of_def zero_stats_def)
qed

lemma equals_token_token: "plain_key key \<Longrightarrow> is_token (equals_token key v)"
  using token_show(1) [of v] by (auto simp: plain_key_def is_token_def equals_token_def is_white_def code_of_def)

lemma colon_in_join: "CHR '':'' \<in> set (join '' '' ws) \<longleftrightarrow> (\<exists>w \<in> set ws. CHR '':'' \<in> set w)"
  by (induction "'' '' :: string" ws rule: join.induct) auto

lemma colon_in_token: "plain_key key \<Longrightarrow> CHR '':'' \<notin> set (equals_token key v)"
  by (simp add: plain_key_def equals_token_def)

lemma scan_equals_tokens:
  "scan_bpstats (render [join '' '' (equals_tokens a b d e)] @ [LF]) = (stats_of a b d e, True)"
proof -
  let ?l = "join '' '' (equals_tokens a b d e)"
  have tok: "list_all is_token (equals_tokens a b d e)"
    by (simp add: equals_tokens_def equals_token_token plain_documented)
  have "no_eol ?l" by (simp add: equals_tokens_def no_eol_report)
  then have "list_all clean_line [?l]" by (simp add: no_eol_clean)
  note scan = scan_rendered [OF this]
  have "CHR '':'' \<notin> set ?l"
    unfolding colon_in_join by (simp add: equals_tokens_def colon_in_token plain_documented)
  then have nocolon: "parse_colon_separated ?l = None"
    by (simp add: parse_colon_separated_def parse_separated_def split2_not_in)
  have trimmed: "trim ?l = ?l"
  proof (rule trim_tight)
    show "\<not> is_white (hd ?l)" by (simp add: equals_tokens_def equals_token_def is_white_def code_of_def)
    show "\<not> is_white (last ?l)" by (simp add: equals_tokens_def equals_token_def digit_not_white)
    show "?l \<noteq> []" by (simp add: equals_tokens_def equals_token_def)
  qed
  have "?l \<noteq> []" by (simp add: equals_tokens_def equals_token_def)
  then have "bpstats_line st ?l = foldl bpstats_token st (equals_tokens a b d e)" for st
    by (simp add: bpstats_line_def Let_def nocolon trimmed split_whitespace_join [OF tok])
  then show ?thesis
    unfolding scan foldl.simps
    by (simp only: equals_tokens_def foldl.simps equals_token_step plain_documented normalize_documented
        apply_parsed_number)
      (simp add: apply_stat_value_def stat_names stats_of_def zero_stats_def)
qed

text \<open>
  C25: both documented formats of bpstats read back: for all counters, the colon-separated lines and
  the line of key=value tokens (with nothing on the error stream) parse to exactly these counters,
  whether or not warnings are enabled.
\<close>

theorem bpstats_roundtrip:
  "parse_bpstats_output logs (render (colon_report a b d e) @ [LF]) = Some (stats_of a b d e)
   \<and> parse_bpstats_output logs (render [join '' '' (equals_tokens a b d e)] @ [LF]) = Some (stats_of a b d e)"
  by (simp only: parse_bpstats_output_def scan_colon_report scan_equals_tokens prod.case simp_thms if_False)

section \<open>The tabular format\<close>

lemma set_lines_acc: "l \<in> set (lines_acc acc s) \<Longrightarrow> set l \<subseteq> set acc \<union> set s"
proof (induction acc s rule: lines_acc.induct)
  case (1 acc)
  then show ?case by (auto split: if_splits)
next
  case (2 acc c cs)
  have "set (strip_cr (rev acc)) \<subseteq> set acc"
    by (auto simp: strip_cr_def dest: in_set_butlastD list.set_sel(2))
  with 2 show ?case by (auto split: if_splits)
qed

lemma set_words_acc: "w \<in> set (words_acc acc s) \<Longrightarrow> set w \<subseteq> set acc \<union> set s"
  by (induction acc s rule: words_acc.induct) (auto split: if_splits)

lemma set_trim: "set (trim s) \<subseteq> set s"
  by (auto simp: trim_def trim_start_def trim_end_by_def dest!: set_dropWhileD)

lemma split2_absent: "c \<notin> set s \<Longrightarrow> parse_separated c s = None"
  by (simp add: parse_separated_def split2_not_in)

lemma foldl_unchanged: "(\<And>x u. x \<in> set xs \<Longrightarrow> f u x = u) \<Longrightarrow> foldl f st xs = st"
  by (induction xs arbitrary: st) auto

lemma line_without_separator:
  assumes "CHR '':'' \<notin> set l" and "CHR ''='' \<notin> set l"
  shows "bpstats_line st l = st"
proof -
  have t: "CHR '':'' \<notin> set (trim l)" "CHR ''='' \<notin> set (trim l)" using assms set_trim by blast+
  have "bpstats_token u w = u" if "w \<in> set (split_whitespace (trim l))" for u w
  proof -
    have "CHR ''='' \<notin> set w" using t(2) that set_words_acc [of w "[]" "trim l"]
      by (auto simp: split_whitespace_def)
    then show ?thesis by (simp add: bpstats_token_def parse_equals_separated_def split2_absent)
  qed
  then have "foldl bpstats_token st (split_whitespace (trim l)) = st" by (rule foldl_unchanged)
  then show ?thesis by (simp add: bpstats_line_def Let_def parse_colon_separated_def split2_absent t)
qed

lemma separators_needed:
  assumes "CHR '':'' \<notin> set s" and "CHR ''='' \<notin> set s"
  shows "scan_bpstats s = (zero_stats, False)"
  unfolding scan_bpstats_def
proof (rule foldl_unchanged)
  fix l u
  assume "l \<in> set (str_lines s)"
  then have "set l \<subseteq> set s" using set_lines_acc [of l "[]" s] by (simp add: str_lines_def)
  with assms show "bpstats_line u l = u" by (intro line_without_separator) auto
qed

text \<open>
  a bpstats report without a colon or an equals sign is never understood, whatever its words: the
  whitespace-separated table of names and numbers gives zero counters (and a warning).
\<close>

theorem bpstats_tabular_ignored:
  assumes "CHR '':'' \<notin> set s" and "CHR ''='' \<notin> set s"
  shows "scan_bpstats s = (zero_stats, False)"
  using assms by (rule separators_needed)

theorem bpstats_tabular_ignored_witness:
  "scan_bpstats ''sourced  42  forwarded  38'' = (zero_stats, False)"
  by (rule bpstats_tabular_ignored) simp_all

text \<open>A text of 199 letters and a two-byte character is such a text.\<close>

definition accented_output :: string where
  "accented_output = replicate 199 (CHR ''x'') @ [CHR 0xC3, CHR 0xA9]"

lemma accented_output_panics: "parse_bpstats_output True accented_output = None"
proof -
  have len: "length accented_output = 201" and nth: "accented_output ! 200 = CHR 0xA9"
    by (simp_all add: accented_output_def nth_append)
  have "splits_char accented_output 200" by (simp add: splits_char_def len nth) (simp add: code_of_def)
  moreover have clean: "CHR '':'' \<notin> set accented_output" "CHR ''='' \<notin> set accented_output"
    by (simp_all add: accented_output_def)
  moreover have "trim accented_output = accented_output"
    by (rule trim_tight) (simp_all add: accented_output_def char_tests)
  moreover have "accented_output \<noteq> []" using len by auto
  ultimately show ?thesis
    using separators_needed [OF clean] by (simp add: parse_bpstats_output_def warn_preview_None)
qed

section \<open>The queue depth\<close>

definition bundle_row :: "string \<Rightarrow> bool" where
  "bundle_row l \<longleftrightarrow> trim l \<noteq> [] \<and> \<not> is_bplist_header_line (trim l)"

lemma bplist_step_row: "bplist_step n l = (if bundle_row l then n + 1 else n)"
  by (simp add: bplist_step_def bundle_row_def Let_def)

text \<open>
  the queue depth is the number of rows that are neither blank nor a header, taken modulo the
  width of the counter.
\<close>

theorem bplist_counts_rows:
  "parse_bplist_count s = of_nat (length (filter bundle_row (str_lines s)))"
proof -
  have "foldl bplist_step n ls = n + of_nat (length (filter bundle_row ls))" for n ls
    by (induction ls arbitrary: n) (simp_all add: bplist_step_row)
  then show ?thesis by (simp add: parse_bplist_count_def)
qed

section \<open>The span lines of the LTP tools\<close>

definition span_line :: "u64 \<Rightarrow> string \<Rightarrow> u64 \<Rightarrow> u64 \<Rightarrow> string" where
  "span_line n status sent rcvd =
     ''span '' @ show_word n @ '': '' @ status @ '', bytes_sent='' @ show_word sent
       @ '', bytes_rcvd='' @ show_word rcvd"

lemma number_after_eq:
  "number_after label line clean =
     Option.bind (after_sub label line) (\<lambda>rest. parse_leading_number (clean rest))"
  by (cases "find_sub label line") (simp_all add: number_after_def after_sub_def)

lemma leading_number: "\<not> is_ascii_digit c \<Longrightarrow> \<not> is_white (last (c # r)) \<Longrightarrow> parse_leading_number (show_word w @ c # r) = Some w"
proof -
  assume c: "\<not> is_ascii_digit c" and l: "\<not> is_white (last (c # r))"
  have "trim (show_word w @ c # r) = show_word w @ c # r"
    using l by (intro trim_tight) (auto simp: digit_not_white)
  with c show ?thesis by (simp add: parse_leading_number_def Let_def takeWhile_digits [OF show_word_digits])
qed

lemma leading_number_alone: "parse_leading_number (show_word w) = Some w"
  by (simp add: parse_leading_number_def Let_def takeWhile_digits [OF show_word_digits])

lemma span_line_lower:
  "to_lowercase status = status \<Longrightarrow> to_lowercase (span_line n status a b) = span_line n status a b"
  by (simp add: span_line_def across_numbers)

lemma span_line_engine: "extract_span_engine_id (span_line n status a b) = Some n"
proof -
  have "trim (CHR '' '' # show_word n @ CHR '':'' # r @ show_word b) = show_word n @ CHR '':'' # r @ show_word b" for r
    unfolding trim_leading_blank by (rule trim_tight) (simp_all add: digit_not_white)
  note trimmed = this [of "CHR '' '' # status @ '', bytes_sent='' @ show_word a @ '', bytes_rcvd=''", simplified]
  have "prefixed_engine_id (span_line n status a b) ''span'' = Some n"
    by (simp add: prefixed_engine_id_def span_line_def strip_prefix_def trimmed takeWhile_digits [OF show_word_digits] Let_def
       char_tests)
  then show ?thesis by (simp add: extract_span_engine_id_def)
qed

lemma span_line_sent:
  assumes "status \<in> {''active'', ''inactive''}"
  shows "extract_counter (span_line n status a b) sent_keys = Some a"
proof -
  have "after_sub ''bytes_sent='' (span_line n status a b) = Some (show_word a @ '', bytes_rcvd='' @ show_word b)"
    using assms by (auto simp: span_line_def across_numbers)
  moreover have "parse_leading_number (show_word a @ '', bytes_rcvd='' @ show_word b) = Some a"
    using leading_number [of "CHR '',''" "'' bytes_rcvd='' @ show_word b" a]
    by (simp add: digit_not_white char_tests)
  ultimately show ?thesis
    by (simp add: extract_counter_def sent_keys_def counter_for_key_def number_after_eq)
qed

lemma span_line_received:
  assumes "status \<in> {''active'', ''inactive''}"
  shows "extract_counter (span_line n status a b) received_keys = Some b"
proof -
  have "after_sub ''bytes_rcvd='' (span_line n status a b) = Some (show_word b)"
    using assms by (auto simp: span_line_def across_numbers)
  then show ?thesis
    by (simp add: extract_counter_def received_keys_def counter_for_key_def number_after_eq leading_number_alone)
qed

lemma span_line_active:
  "says_active (span_line n ''active'' a b)" "\<not> says_active (span_line n ''inactive'' a b)"
  by (simp_all add: says_active_def span_line_def across_numbers)

lemma span_line_parsed:
  assumes "status \<in> {''active'', ''inactive''}"
  shows "parse_ltp_span_line (span_line n status a b) =
     Some \<lparr>ls_neighbor_node = n, ls_link_id = ''ltp-span-'' @ show_word n,
           ls_active = (status = ''active''), ls_bytes_sent = a, ls_bytes_received = b\<rparr>"
proof -
  have "to_lowercase status = status" using assms by (auto simp: across_numbers)
  moreover have "says_active (span_line n status a b) \<longleftrightarrow> status = ''active''"
    using assms span_line_active by auto
  ultimately show ?thesis
    by (simp add: parse_ltp_span_line_def Let_def span_line_lower span_line_engine
        span_line_sent [OF assms] span_line_received [OF assms])
qed

text \<open>
  C26: the documented span line reads back: for every engine id and all byte counts, each rendered
  line of an ltpinfo report gives the link of that engine, active exactly when the line says
  active, with these byte counts, in the order of the report.
\<close>

theorem ltpinfo_roundtrip:
  "ltpinfo_links (render (map (\<lambda>(n, up, a, b). span_line n (if up then ''active'' else ''inactive'') a b) spans))
     = map (\<lambda>(n, up, a, b). \<lparr>ls_neighbor_node = n, ls_link_id = ''ltp-span-'' @ show_word n,
           ls_active = up, ls_bytes_sent = a, ls_bytes_received = b\<rparr>) spans"
proof -
  let ?line = "\<lambda>(n, up, a, b). span_line n (if up then ''active'' else ''inactive'') a b"
  have eol: "no_eol (span_line n st a b) \<longleftrightarrow> no_eol st" for n st a b by (auto simp: span_line_def)
  have trimmed: "trim (span_line n st a b) = span_line n st a b" for n st a b
  proof (rule trim_tight)
    show "\<not> is_white (hd (span_line n st a b))" by (simp add: span_line_def char_tests)
    show "\<not> is_white (last (span_line n st a b))" by (simp add: span_line_def digit_not_white)
    show "span_line n st a b \<noteq> []" by (simp add: span_line_def)
  qed
  have ne: "span_line n st a b \<noteq> []" for n st a b by (simp add: span_line_def)
  have "list_all clean_line (map ?line spans)"
    by (auto simp: list_all_iff eol intro!: no_eol_clean)
  then have "str_lines (render (map ?line spans)) = map ?line spans" by (rule str_lines_render)
  moreover have "List.map_filter parse_ltp_span_line (filter (\<lambda>l. l \<noteq> []) (map trim (map ?line spans)))
     = map (\<lambda>(n, up, a, b). \<lparr>ls_neighbor_node = n, ls_link_id = ''ltp-span-'' @ show_word n,
           ls_active = up, ls_bytes_sent = a, ls_bytes_received = b\<rparr>) spans"
    by (induction spans) (auto simp: map_filter_simps trimmed ne span_line_parsed)
  ultimately show ?thesis by (simp add: ltpinfo_links_def)
qed

section \<open>Lines the comments promise and the parser misreads\<close>

definition table_row :: "u64 \<Rightarrow> u64 \<Rightarrow> u64 \<Rightarrow> string" where
  "table_row n sent rcvd =
     show_word n @ ''  active  '' @ show_word sent @ ''  '' @ show_word rcvd"

definition segments_line :: "u64 \<Rightarrow> u64 \<Rightarrow> u64 \<Rightarrow> string" where
  "segments_line n sent rcvd =
     ''engine '' @ show_word n @ ''  segments_sent: '' @ show_word sent
       @ ''  segments_rcvd: '' @ show_word rcvd"

lemma split_first_word:
  "split_whitespace (show_word w @ CHR '' '' # r) = show_word w # split_whitespace r"
  using words_acc_token [of "show_word w" "[]" r] token_show(1) [of w]
  by (simp add: split_whitespace_def is_token_def)

lemma table_row_engine:
  "extract_span_engine_id (table_row n a b) = (if n \<le> 100000 then Some n else None)"
proof -
  have "trim_end_by (\<lambda>c. \<not> is_ascii_digit c) (show_word n) = show_word n"
    using number_last(1) [of n] dropWhile_eq_self_iff [of "\<lambda>c. \<not> is_ascii_digit c" "rev (show_word n)"]
    by (simp add: trim_end_by_def hd_rev)
  then have "leading_engine_id (table_row n a b) = (if n \<le> 100000 then Some n else None)"
    by (simp add: leading_engine_id_def table_row_def split_first_word Let_def takeWhile_digits [OF show_word_digits])
  moreover have "prefixed_engine_id (table_row n a b) (x # xs) = None" if "\<not> is_ascii_digit x" for x xs
    using that by (simp add: prefixed_engine_id_def table_row_def strip_prefix_def
        prefix_digits [OF show_word_digits show_word_nonempty])
  ultimately show ?thesis by (simp add: extract_span_engine_id_def char_tests)
qed

lemma table_row_counters:
  "extract_counter (table_row n a b) sent_keys = None" "extract_counter (table_row n a b) received_keys = None"
  by (simp_all add: extract_counter_def sent_keys_def received_keys_def counter_for_key_def number_after_eq
      table_row_def across_numbers)

text \<open>
  a row of the tabular format that the comment of the line parser lists is recognised as an
  active link of its engine (up to engine 100000), with its byte columns ignored: both counters
  are zero.
\<close>

theorem ltp_table_row_loses_bytes:
  "parse_ltp_span_line (table_row n sent rcvd) =
     (if n \<le> 100000
      then Some \<lparr>ls_neighbor_node = n, ls_link_id = ''ltp-span-'' @ show_word n, ls_active = True,
                 ls_bytes_sent = 0, ls_bytes_received = 0\<rparr>
      else None)"
proof -
  have "to_lowercase (table_row n sent rcvd) = table_row n sent rcvd"
    by (simp add: table_row_def across_numbers)
  moreover have "says_active (table_row n sent rcvd)"
    by (simp add: says_active_def table_row_def across_numbers)
  ultimately show ?thesis
    by (simp add: parse_ltp_span_line_def Let_def table_row_engine table_row_counters)
qed

lemma segments_line_sent: "extract_counter (segments_line n a b) sent_keys = Some a"
proof -
  have "after_sub (''sent'' @ '':'') (segments_line n a b)
      = Some (CHR '' '' # show_word a @ ''  segments_rcvd: '' @ show_word b)"
    by (simp add: segments_line_def across_numbers)
  moreover have "trim (CHR '' '' # show_word a @ ''  segments_rcvd: '' @ show_word b)
      = show_word a @ ''  segments_rcvd: '' @ show_word b"
    unfolding trim_leading_blank by (rule trim_tight) (simp_all add: digit_not_white)
  moreover have "parse_leading_number (show_word a @ ''  segments_rcvd: '' @ show_word b) = Some a"
    using leading_number [of "CHR '' ''" "'' segments_rcvd: '' @ show_word b" a]
    by (simp add: digit_not_white char_tests)
  ultimately have label: "number_after (''sent'' @ '':'') (segments_line n a b) trim = Some a"
    by (simp add: number_after_eq)
  have "counter_for_key (segments_line n a b) ''bytes_sent'' = None"
    "counter_for_key (segments_line n a b) ''bytes sent'' = None"
    "counter_for_key (segments_line n a b) ''bytessent'' = None"
    "number_after (''sent'' @ ''='') (segments_line n a b) id = None"
    by (simp_all add: counter_for_key_def number_after_eq segments_line_def across_numbers)
  then show ?thesis
    using label by (simp only: extract_counter_def sent_keys_def find_map.simps option.case
      counter_for_key_def [of _ "''sent''"] or_else_simps)
qed

text \<open>
  a line that reports segments and no bytes: the number of segments sent is taken for the number of
  bytes sent, because the last key is found inside a longer word.
\<close>

theorem ltp_segments_taken_for_bytes:
  "map_option ls_bytes_sent (parse_ltp_span_line (segments_line n sent rcvd)) = Some sent"
proof -
  have lower: "to_lowercase (segments_line n sent rcvd) = segments_line n sent rcvd"
    by (simp add: segments_line_def across_numbers)
  have "trim (CHR '' '' # show_word n @ CHR '' '' # r @ show_word rcvd) = show_word n @ CHR '' '' # r @ show_word rcvd" for r
    unfolding trim_leading_blank by (rule trim_tight) (simp_all add: digit_not_white)
  note trimmed = this [of "'' segments_sent: '' @ show_word sent @ ''  segments_rcvd: ''", simplified]
  have "prefixed_engine_id (segments_line n sent rcvd) ''engine'' = Some n"
    by (simp add: prefixed_engine_id_def segments_line_def strip_prefix_def trimmed
        takeWhile_digits [OF show_word_digits] Let_def char_tests)
  moreover have "prefixed_engine_id (segments_line n sent rcvd) ''span'' = None"
    by (simp add: prefixed_engine_id_def segments_line_def strip_prefix_def)
  ultimately have "extract_span_engine_id (segments_line n sent rcvd) = Some n"
    by (simp add: extract_span_engine_id_def)
  then show ?thesis by (simp add: parse_ltp_span_line_def lower Let_def segments_line_sent)
qed

section \<open>Collecting\<close>

text \<open>What the statistics tool answered, as the parser reads it.\<close>

definition stats_answer :: "bool \<Rightarrow> string + process_output \<Rightarrow> bundle_statistics option" where
  "stats_answer logs r = (case r of Inl _ \<Rightarrow> Some zero_stats
     | Inr p \<Rightarrow> parse_bpstats_output logs (po_stdout p @ [LF] @ po_stderr p))"

definition stats_command :: "ion_telemetry \<Rightarrow> command" where
  "stats_command self = telemetry_command self ''bpstats'' []"

definition queue_command :: "ion_telemetry \<Rightarrow> command" where
  "queue_command self = telemetry_command self ''bplist'' []"

text \<open>
  collecting ION's statistics succeeds whatever the tools do (absent, failing, printing anything
  the preview can slice): it runs bpstats and then bplist, and nothing else; the queue depth always
  comes from bplist, and it is zero when bplist cannot be run.
\<close>

theorem ion_collect_stats_degrades:
  assumes "stats_answer logs (os_output os tr (stats_command self)) = Some st"
  shows "ion_collect_stats logs os self tr =
     (Inr (Some (st\<lparr>bs_queued :=
        (case os_output os (tr @ [Output (stats_command self)]) (queue_command self) of
           Inl _ \<Rightarrow> 0 | Inr p \<Rightarrow> parse_bplist_count (po_stdout p))\<rparr>)),
      tr @ [Output (stats_command self), Output (queue_command self)])"
  using assms
  by (auto simp: ion_collect_stats_def run_bpstats_def run_bplist_count_def act_bind_def run_output_run
      stats_answer_def stats_command_def queue_command_def split: sum.splits)

theorem ion_collect_stats_degrades_witness:
  "\<exists>tr'. ion_collect_stats True quiet_os (new_ion_telemetry None) [] = (Inr (Some zero_stats), tr')"
proof -
  have "stats_answer True (os_output quiet_os [] (stats_command (new_ion_telemetry None))) = Some zero_stats"
    by (simp add: stats_answer_def quiet_os_def quiet_output_def parse_bpstats_output_def scan_bpstats_def
        str_lines_def strip_cr_def bpstats_line_def trim_def trim_start_def trim_end_by_def char_tests)
  then show ?thesis
    by (simp add: ion_collect_stats_degrades)
      (simp add: quiet_os_def quiet_output_def parse_bplist_count_def str_lines_def zero_stats_def)
qed

end
