(* ===== verification/Ion_Adapter.thy ===== *)
theory Ion_Adapter
  imports Adapter_Registry Ion_Lifecycle Ion_Config Ion_Telemetry
begin

text \<open>
  The ION adapter, \<open>adapter/ion/mod.rs\<close>: the four sub-components behind the trait, over the world
  of the lifecycle manager's state (behind its mutex) and the effects so far. The main lemma runs
  deployment and start together: the scripts that the admin tools read are the ones generated.
\<close>

definition ion_deploy_dir_error :: "string \<Rightarrow> string \<Rightarrow> abstraction_error" where
  "ion_deploy_dir_error dir e = with_backend ''ion-dtn'' (new_error LifecycleError
     (''Failed to create output directory '' @ quoted dir @ '': '' @ e) ''deploy'')"

definition ion_deploy_file_error :: "string \<Rightarrow> string \<Rightarrow> abstraction_error" where
  "ion_deploy_file_error path e = with_backend ''ion-dtn'' (new_error LifecycleError
     (''Failed to write '' @ quoted path @ '': '' @ e) ''deploy'')"

type_synonym ion_world = "ion_lifecycle \<times> effect list"

type_synonym file_iteration = "(string \<rightharpoonup> string) \<Rightarrow> (string \<times> string) list"

definition ion_deploy ::
  "os \<Rightarrow> file_iteration \<Rightarrow> 'y network_configuration \<Rightarrow> string \<Rightarrow> (abstraction_error, ion_world, unit) action"
  where
  "ion_deploy os iter config output_dir =
     act_on_snd (write_files os iter (ion_deploy_dir_error output_dir) ion_deploy_file_error
       output_dir (generate_ion_config config))"

definition ion_adapter ::
  "bool \<Rightarrow> os \<Rightarrow> file_iteration \<Rightarrow> string option \<Rightarrow> ('y, ion_world) backend_adapter" where
  "ion_adapter logs os iter bin_dir =
     (let telemetry = new_ion_telemetry bin_dir; hot = \<lparr>ihr_bin_dir = bin_dir\<rparr>
      in \<lparr>ba_name = ''ion-dtn'',
          ba_capabilities = ion_capabilities,
          ba_validate = (\<lambda>_. act_return ()),
          ba_generate_config = (\<lambda>config _. act_return (generate_ion_config config)),
          ba_deploy = ion_deploy os iter,
          ba_start = ion_start os,
          ba_stop = ion_stop os,
          ba_restart = ion_restart os,
          ba_health = ion_health os,
          ba_version = ion_version os,
          ba_add_contact = (\<lambda>c. act_on_snd (ion_add_contact os hot c)),
          ba_remove_contact = (\<lambda>r. act_on_snd (ion_remove_contact os hot r)),
          ba_add_neighbor = (\<lambda>n. act_on_snd (ion_add_neighbor os hot n)),
          ba_remove_neighbor = (\<lambda>r. act_on_snd (ion_remove_neighbor os hot r)),
          ba_enable_link = (\<lambda>l. act_on_snd (ion_enable_link os hot l)),
          ba_disable_link = (\<lambda>l. act_on_snd (ion_disable_link os hot l)),
          ba_collect_stats = act_on_snd (ion_collect_stats logs os telemetry),
          ba_link_states = act_on_snd (ion_link_states logs os telemetry)\<rparr>)"

text \<open>The world of a new adapter after the effects \<open>tr\<close> of the rest of the program.\<close>

definition new_ion_world :: "string option \<Rightarrow> effect list \<Rightarrow> ion_world" where
  "new_ion_world bin_dir tr = (new_ion_lifecycle bin_dir, tr)"

lemma ion_adapter_sel [simp]:
  "ba_deploy (ion_adapter logs os iter b) = ion_deploy os iter"
  "ba_start (ion_adapter logs os iter b) = ion_start os"
  "ba_stop (ion_adapter logs os iter b) = ion_stop os"
  "ba_restart (ion_adapter logs os iter b) = ion_restart os"
  "ba_validate (ion_adapter logs os iter b) c = act_return ()"
  "ba_generate_config (ion_adapter logs os iter b) c d = act_return (generate_ion_config c)"
  "ba_capabilities (ion_adapter logs os iter b) = ion_capabilities"
  by (simp_all add: ion_adapter_def Let_def)

section \<open>Deployment followed by start\<close>

text \<open>A name of a directory entry.\<close>

definition entry_name :: "string \<Rightarrow> bool" where
  "entry_name n \<longleftrightarrow> n \<noteq> [] \<and> CHR ''/'' \<notin> set n"

text \<open>
  The directory \<open>d\<close> can be listed, in any order, and holds what the program wrote there.
\<close>

definition directory_lists_written :: "os \<Rightarrow> string \<Rightarrow> bool" where
  "directory_lists_written os d \<longleftrightarrow>
     (\<forall>tr. \<exists>es. os_read_dir os tr d = Inr (map Inr es)
        \<and> (\<forall>n. n \<in> set es \<longleftrightarrow> entry_name n \<and> written tr (path_join d n) \<noteq> None))"

text \<open>Every program can be spawned and exits with code 0 within the time limit.\<close>

definition admin_scripts_run :: "os \<Rightarrow> bool" where
  "admin_scripts_run os \<longleftrightarrow>
     (\<forall>tr c. os_spawn os tr c = Inr ())
     \<and> (\<forall>tr n. \<exists>p. os_wait_timeout os tr n = Some (Inr p) \<and> po_success p)"

lemma first_with_extension_unique:
  assumes "f \<in> set es" and "extension f = Some ext"
    and "\<And>n. n \<in> set es \<Longrightarrow> extension n = Some ext \<Longrightarrow> n = f"
  shows "first_with_extension d ext (map Inr es) = Some (path_join d f)"
  using assms
proof (induction es)
  case Nil
  then show ?case by simp
next
  case (Cons n es)
  show ?case
  proof (cases "extension n = Some ext")
    case True
    have "n = f" by (rule Cons.prems(3) [OF _ True]) simp
    then show ?thesis using Cons.prems(2) by simp
  next
    case False
    have "f \<in> set es" using False Cons.prems(1,2) by auto
    from Cons.IH [OF this Cons.prems(2)] Cons.prems(3) False show ?thesis
      by (metis first_with_extension.simps(3) list.set_intros(2) list.simps(9))
  qed
qed

lemma find_config_file_finds:
  assumes "directory_lists_written os d"
    and "entry_name f" and "written tr (path_join d f) \<noteq> None" and "extension f = Some ext"
    and "\<And>n. entry_name n \<Longrightarrow> written tr (path_join d n) \<noteq> None \<Longrightarrow> extension n = Some ext \<Longrightarrow> n = f"
  shows "find_config_file os d ext tr = (Inr (path_join d f), tr @ [Read_dir d])"
proof -
  obtain es where es: "os_read_dir os tr d = Inr (map Inr es)"
    and mem: "\<And>n. n \<in> set es \<longleftrightarrow> entry_name n \<and> written tr (path_join d n) \<noteq> None"
    using assms(1) unfolding directory_lists_written_def by blast
  have "first_with_extension d ext (map Inr es) = Some (path_join d f)"
  proof (rule first_with_extension_unique)
    show "f \<in> set es" using assms(2,3) mem by blast
    show "n = f" if "n \<in> set es" "extension n = Some ext" for n
      using that mem assms(5) by blast
  qed (rule assms(4))
  then show ?thesis
    by (simp add: find_config_file_def act_bind_def perform_run act_lift_def es)
qed

lemma run_admin_ok:
  assumes "admin_scripts_run os"
  shows "run_admin os self tool f tr =
     (Inr (), tr @ [Spawn (run_admin_command self tool f), Wait_timeout 10])"
proof -
  let ?c = "run_admin_command self tool f"
  obtain p where "os_wait_timeout os (tr @ [Spawn ?c]) 10 = Some (Inr p)" and "po_success p"
    using assms unfolding admin_scripts_run_def by blast
  moreover have "os_spawn os tr ?c = Inr ()" using assms by (simp add: admin_scripts_run_def)
  ultimately show ?thesis
    by (simp add: run_admin_def Let_def act_bind_def act_then_def perform_run act_lift_def)
qed

lemma written_no_write:
  "list_all (\<lambda>e. \<forall>q s. e \<noteq> Write_file q s) es \<Longrightarrow> written (tr @ es) p = written tr p"
proof -
  assume "list_all (\<lambda>e. \<forall>q s. e \<noteq> Write_file q s) es"
  then have "written es p = None" by (induction es) (auto split: effect.split)
  then show ?thesis by (simp add: written_append)
qed

lemma ion_file_entry: "CHR ''/'' \<notin> set ext \<Longrightarrow> entry_name (ion_file c ext)"
  using in_show_word_digit [of "CHR ''/''" "nd_node_number (nc_local_node c)"]
  by (auto simp: entry_name_def ion_file_def char_tests)

lemma ion_files_value:
  "gc_files (generate_ion_config c) n \<noteq> None \<longleftrightarrow> n \<in> set (ion_file_names c)"
  using ion_gen.names_exact [of c] by auto

text \<open>What a successful start does once each script is found.\<close>

definition ion_script_runs :: "ion_lifecycle \<Rightarrow> string \<Rightarrow> 'y network_configuration \<Rightarrow> effect list" where
  "ion_script_runs self d c =
     concat (map (\<lambda>(tool, ext). [Spawn (run_admin_command self tool (path_join d (ion_file c ext))), Wait_timeout 10])
       [(''ionadmin'', ''ionrc''), (''ltpadmin'', ''ltprc''), (''bpadmin'', ''bprc''), (''ipnadmin'', ''ipnrc'')])"

definition four_listings :: "string \<Rightarrow> effect list" where
  "four_listings d = [Read_dir d, Read_dir d, Read_dir d, Read_dir d]"

lemma ion_start_tools_finds:
  assumes dir: "directory_lists_written os d" and run: "admin_scripts_run os"
    and files: "\<And>n. entry_name n \<Longrightarrow> written tr (path_join d n) \<noteq> None \<longleftrightarrow> n \<in> set (ion_file_names c)"
  shows "ion_start_tools os self d tr = (Inr (), tr @ four_listings d @ ion_script_runs self d c)"
proof -
  have unique: "n = ion_file c ext" if "n \<in> set (ion_file_names c)" "extension n = Some ext" for n ext
    using that by (auto simp: ion_file_names_def)
  have find: "find_config_file os d ext (tr @ es) = (Inr (path_join d (ion_file c ext)), tr @ es @ [Read_dir d])"
    if "ext \<in> {''ionrc'', ''ltprc'', ''bprc'', ''ipnrc''}" and "list_all (\<lambda>e. \<forall>q s. e \<noteq> Write_file q s) es"
    for ext es
  proof -
    have w: "written (tr @ es) p = written tr p" for p using that(2) by (rule written_no_write)
    have ext: "extension (ion_file c ext) = Some ext" "entry_name (ion_file c ext)"
      "ion_file c ext \<in> set (ion_file_names c)"
      using that(1) by (auto simp: ion_file_names_def intro!: ion_file_entry)
    have "written (tr @ es) (path_join d (ion_file c ext)) \<noteq> None"
      unfolding w using files [OF ext(2)] ext(3) by blast
    from find_config_file_finds [OF dir ext(2) this ext(1)] show ?thesis
      unfolding w using files unique by (metis append.assoc)
  qed
  have f1: "find_config_file os d ''ionrc'' tr = (Inr (path_join d (ion_file c ''ionrc'')), tr @ [Read_dir d])"
    using find [of "''ionrc''" "[]"] by simp
  have f2: "find_config_file os d ''ltprc'' (tr @ [Read_dir d])
      = (Inr (path_join d (ion_file c ''ltprc'')), tr @ [Read_dir d, Read_dir d])"
    using find [of "''ltprc''" "[Read_dir d]"] by simp
  have f3: "find_config_file os d ''bprc'' (tr @ [Read_dir d, Read_dir d])
      = (Inr (path_join d (ion_file c ''bprc'')), tr @ [Read_dir d, Read_dir d, Read_dir d])"
    using find [of "''bprc''" "[Read_dir d, Read_dir d]"] by simp
  have f4: "find_config_file os d ''ipnrc'' (tr @ [Read_dir d, Read_dir d, Read_dir d])
      = (Inr (path_join d (ion_file c ''ipnrc'')), tr @ [Read_dir d, Read_dir d, Read_dir d, Read_dir d])"
    using find [of "''ipnrc''" "[Read_dir d, Read_dir d, Read_dir d]"] by simp
  show ?thesis
    unfolding ion_start_tools_def
    by (simp add: act_bind_ok [where m = "find_config_file os d x" for x, OF f1]
        act_bind_ok [where m = "find_config_file os d x" for x, OF f2]
        act_bind_ok [where m = "find_config_file os d x" for x, OF f3]
        act_bind_ok [where m = "find_config_file os d x" for x, OF f4]
        act_then_ok [where m = "run_admin os self t f" for t f, OF run_admin_ok [OF run]]
        run_admin_ok [OF run] four_listings_def ion_script_runs_def)
qed

lemma ion_deploy_run:
  assumes "writes_work os"
  shows "ion_deploy os iter c d (lc, tr) = (Inr (), (lc, tr @ write_effects d (iter (gc_files (generate_ion_config c)))))"
  by (simp add: ion_deploy_def act_on_snd_run write_files_ok [OF assms])

lemma ion_deployed_content:
  assumes "writes_work os" and "map_iteration iter" and "d \<noteq> []" and "plain_name n"
    and "written tr (path_join d n) = None"
  shows "written (tr @ write_effects d (iter (gc_files (generate_ion_config c)))) (path_join d n)
     = gc_files (generate_ion_config c) n"
  using ion_gen.deployed_files(2) [OF assms(1-4), where c = c and tr = tr] assms(5)
  by (simp add: write_files_ok [OF assms(1)] written_append split: option.split)

lemma entry_name_plain: "entry_name n \<Longrightarrow> plain_name n"
  by (cases n) (auto simp: entry_name_def plain_name_def)

text \<open>
  C3: deploying a configuration to a directory in which the program has written no file before (it may
  have written anywhere else, for instance an earlier deployment to another directory) and then starting
  ION from it succeeds, when files can be written, the directory lists what was written and the
  admin tools run: deployment leaves exactly the generated texts on disk, and the start runs
  ionadmin, ltpadmin, bpadmin and ipnadmin once each, in this order, on the generated ionrc, ltprc,
  bprc and ipnrc file of this node, whatever the order in which files are written or listed.
\<close>

theorem ion_deploy_then_start:
  assumes "writes_work os" and "map_iteration iter" and "admin_scripts_run os"
    and "directory_lists_written os d" and "d \<noteq> []"
    and "\<And>n. entry_name n \<Longrightarrow> written tr (path_join d n) = None"
  shows "\<exists>tr'. ba_deploy (ion_adapter logs os iter bin) c d (lc, tr) = (Inr (), (lc, tr'))
     \<and> (\<forall>n. entry_name n \<longrightarrow> written tr' (path_join d n) = gc_files (generate_ion_config c) n)
     \<and> ba_start (ion_adapter logs os iter bin) d (lc, tr') =
         (Inr (), (lc\<lparr>il_config_dir := Some d\<rparr>,
           tr' @ four_listings d @ ion_script_runs (lc\<lparr>il_config_dir := Some d\<rparr>) d c))"
proof -
  define tr' where "tr' = tr @ write_effects d (iter (gc_files (generate_ion_config c)))"
  have content: "written tr' (path_join d n) = gc_files (generate_ion_config c) n" if "entry_name n" for n
    unfolding tr'_def by (rule ion_deployed_content [OF assms(1,2,5) entry_name_plain [OF that] assms(6) [OF that]])
  then have "written tr' (path_join d n) \<noteq> None \<longleftrightarrow> n \<in> set (ion_file_names c)" if "entry_name n" for n
    using that ion_files_value [of c n] by simp
  from ion_start_tools_finds [OF assms(4,3) this] content show ?thesis
    by (intro exI [of _ tr']) (simp add: ion_deploy_run [OF assms(1)] tr'_def [symmetric] ion_start_run)
qed

text \<open>A disk: every call succeeds and a directory lists what was written under it.\<close>

fun written_path :: "effect \<Rightarrow> string option" where
  "written_path (Write_file p s) = Some p"
| "written_path _ = None"

definition names_under :: "effect list \<Rightarrow> string \<Rightarrow> string list" where
  "names_under tr d = filter entry_name
     (List.map_filter (\<lambda>e. Option.bind (written_path e) (strip_prefix (d @ ''/''))) tr)"

definition disk_os :: os where
  "disk_os = quiet_os\<lparr>os_read_dir := (\<lambda>tr d. Inr (map Inr (names_under tr d)))\<rparr>"

lemma written_iff: "written tr p \<noteq> None \<longleftrightarrow> (\<exists>e \<in> set tr. written_path e = Some p)"
  by (induction tr) (auto split: option.split effect.split)

lemma disk_os_lists:
  assumes "d \<noteq> []" and "last d \<noteq> CHR ''/''"
  shows "directory_lists_written disk_os d"
proof -
  have "n \<in> set (names_under tr d) \<longleftrightarrow> entry_name n \<and> written tr (path_join d n) \<noteq> None" for n tr
  proof -
    have "path_join d n = d @ ''/'' @ n" if "entry_name n"
      using that assms by (cases n) (auto simp: path_join_def entry_name_def)
    then show ?thesis
      unfolding written_iff names_under_def set_filter mem_Collect_eq in_map_filter
      by (auto simp: strip_prefix_Some bind_eq_Some_conv)
  qed
  then show ?thesis by (simp add: directory_lists_written_def disk_os_def)
qed

lemma disk_os_works: "writes_work disk_os" "admin_scripts_run disk_os"
  by (simp_all add: writes_work_def admin_scripts_run_def disk_os_def quiet_os_def quiet_output_def po_success_def)

text \<open>After a deployment of the same configuration to another directory.\<close>

definition deployed_elsewhere :: "effect list" where
  "deployed_elsewhere = write_effects ''/old'' (sorted_iteration (gc_files (generate_ion_config ground_config)))"

lemma write_effects_elsewhere:
  assumes "written (write_effects d kvs) p \<noteq> None"
  shows "\<exists>n v. p = path_join d n \<and> (n, v) \<in> set kvs"
  using assms unfolding written_iff write_effects_def by (auto split: prod.splits)

lemma elsewhere_fresh:
  assumes "entry_name n"
  shows "written deployed_elsewhere (path_join ''/run'' n) = None"
proof (rule ccontr)
  have join: "path_join ''/run'' n = ''/run'' @ CHR ''/'' # n"
    using assms by (cases n) (auto simp: path_join_def entry_name_def)
  assume "written deployed_elsewhere (path_join ''/run'' n) \<noteq> None"
  from write_effects_elsewhere [OF this [unfolded deployed_elsewhere_def]] obtain m v
    where m: "path_join ''/run'' n = path_join ''/old'' m"
      and mem: "(m, v) \<in> set (sorted_iteration (gc_files (generate_ion_config ground_config)))" by blast
  from mem have "gc_files (generate_ion_config ground_config) m = Some v"
    using sorted_iteration_ok ion_gen.finite_files [of ground_config] unfolding map_iteration_def by blast
  then have "plain_name m" using ion_gen.names_exact ion_gen.names_plain by blast
  then have "path_join ''/old'' m = ''/old'' @ CHR ''/'' # m"
    by (cases m) (auto simp: path_join_def plain_name_def)
  with m join show False by simp
qed

theorem ion_deploy_then_start_witness:
  "\<exists>w tr. ba_deploy (ion_adapter True disk_os sorted_iteration None) ground_config ''/run''
         (new_ion_world None deployed_elsewhere) = (Inr (), w)
     \<and> fst (ba_start (ion_adapter True disk_os sorted_iteration None :: (string, _) backend_adapter) ''/run'' w) = Inr ()
     \<and> written (snd w) (path_join ''/run'' (ion_file ground_config ''ionrc'')) = Some (generate_ionrc ground_config)"
proof -
  have "''/run'' \<noteq> []" "last ''/run'' \<noteq> CHR ''/''" by simp_all
  note dir = disk_os_lists [OF this]
  have entry: "entry_name (ion_file ground_config ''ionrc'')" by (rule ion_file_entry) simp
  have val: "gc_files (generate_ion_config ground_config) (ion_file ground_config ''ionrc'') = Some (generate_ionrc ground_config)"
    by (simp add: generate_ion_config_def)
  from ion_deploy_then_start [OF disk_os_works(1) sorted_iteration_ok disk_os_works(2) dir _ elsewhere_fresh,
      of True None ground_config "new_ion_lifecycle None"] entry val
  show ?thesis unfolding new_ion_world_def by fastforce
qed

end
