(* ===== verification/Api_Monitoring.thy ===== *)
theory Api_Monitoring
  imports Api_Routes Ion_Adapter
begin

text \<open>
  What the requests that only ask do to the world. The interface the API relies on is the locale
  \<open>monitored_backend\<close>: the four queries of an adapter keep to a relation \<open>quiet\<close> on its world;
  \<open>previewing_backend\<close> extends it by the two operations behind the preview. The ION adapter is an
  instance: its queries run six monitoring commands and nothing else.
\<close>

fun is_get :: "'y api_request \<Rightarrow> bool" where
  "is_get Get_config = True"
| "is_get Get_lifecycle_state = True"
| "is_get Get_lifecycle_health = True"
| "is_get Get_lifecycle_version = True"
| "is_get Get_stats = True"
| "is_get Get_stats_links = True"
| "is_get Get_capabilities = True"
| "is_get Get_adapters = True"
| "is_get _ = False"

text \<open>A handler that changes nothing but the world, and that only as \<open>quiet\<close> allows.\<close>

definition quietly :: "('w \<Rightarrow> 'w \<Rightarrow> bool) \<Rightarrow> ('y, 'w, 'c) app_state \<Rightarrow> ('y, 'w, 'c, 'a) handler \<Rightarrow> bool" where
  "quietly quiet st h \<longleftrightarrow> (\<exists>w. snd (h st) = st\<lparr>ap_world := w\<rparr> \<and> quiet (ap_world st) w)"

text \<open>The adapter that the server would use is the given one, or there is none.\<close>

definition only_adapter :: "('y, 'w) backend_adapter \<Rightarrow> ('y, 'w, 'c) app_state \<Rightarrow> bool" where
  "only_adapter a st \<longleftrightarrow> (\<forall>n b. ar_adapters (ap_registry st) n = Some b \<longrightarrow> b = a)"

section \<open>The interface\<close>

locale monitored_backend =
  fixes adapter :: "('y, 'w) backend_adapter"
    and quiet :: "'w \<Rightarrow> 'w \<Rightarrow> bool"
  assumes quiet_refl: "quiet w w"
    and health_quiet: "quiet w (snd (ba_health adapter w))"
    and version_quiet: "quiet w (snd (ba_version adapter w))"
    and stats_quiet: "quiet w (snd (ba_collect_stats adapter w))"
    and links_quiet: "quiet w (snd (ba_link_states adapter w))"
begin

lemma quietly_unchanged: "snd (h st) = st \<Longrightarrow> quietly quiet st h"
  unfolding quietly_def using quiet_refl by (intro exI [of _ "ap_world st"]) simp

lemma quietly_answer: "quietly quiet st (answer f h) \<longleftrightarrow> quietly quiet st h"
proof -
  have "snd (answer f h st) = snd (h st)" by (simp add: answer_def act_bind_def split: prod.split sum.split)
  then show ?thesis by (simp add: quietly_def)
qed

lemma lookup_quietly:
  assumes "only_adapter adapter st" and "quietly quiet st (f adapter)"
  shows "quietly quiet st (act_bind (lookup_adapter n) f)"
proof (cases "ar_adapters (ap_registry st) n")
  case None
  then show ?thesis
    by (intro quietly_unchanged) (simp add: act_bind_def lookup_adapter_def get_adapter_def)
next
  case (Some a)
  with assms(1) have "a = adapter" by (simp add: only_adapter_def)
  with assms(2) Some show ?thesis
    by (simp add: quietly_def act_bind_def lookup_adapter_def get_adapter_def)
qed

lemma stored_quietly:
  assumes "only_adapter adapter st" and "quietly quiet st (f adapter)"
  shows "quietly quiet st (act_bind (stored_adapter msg op) f)"
proof (cases "ap_config st")
  case None
  then show ?thesis by (intro quietly_unchanged) (simp add: act_bind_def stored_adapter_def)
next
  case (Some c)
  then have "act_bind (stored_adapter msg op) f st = act_bind (lookup_adapter (nc_backend c)) f st"
    by (simp add: act_bind_def stored_adapter_def)
  with lookup_quietly [of st f, OF assms, of "nc_backend c"] show ?thesis by (simp add: quietly_def)
qed

lemma world_quietly: "quiet (ap_world st) (snd (m (ap_world st))) \<Longrightarrow> quietly quiet st (on_world m)"
  by (auto simp: quietly_def on_world_def split: prod.split)

lemma get_request_quietly:
  assumes "is_get req" and "only_adapter adapter st"
  shows "quietly quiet st (handle env req)"
proof -
  have unchanged: "quietly quiet st (stored_adapter msg op)" "quietly quiet st get_config"
    "quietly quiet st get_lifecycle_state" "quietly quiet st (get_adapters keys)"
    "quietly quiet st (act_return a)" for msg op keys and a :: 'z
    by (auto intro!: quietly_unchanged simp: stored_adapter_def lookup_adapter_def get_config_def
        get_lifecycle_state_def get_adapters_def split: option.split)
  show ?thesis
    using assms
    by (cases req)
      (auto simp: handler_defs quietly_answer unchanged health_quiet version_quiet stats_quiet links_quiet
        intro!: stored_quietly world_quietly)
qed

end

locale previewing_backend = monitored_backend +
  assumes quiet_trans: "quiet u v \<Longrightarrow> quiet v w \<Longrightarrow> quiet u w"
    and validate_quiet: "quiet w (snd (ba_validate adapter c w))"
    and generate_quiet: "quiet w (snd (ba_generate_config adapter c d w))"
begin

lemma then_quietly:
  assumes "quietly quiet st h" and "\<And>st'. only_adapter adapter st' \<Longrightarrow> quietly quiet st' k"
    and "only_adapter adapter st"
  shows "quietly quiet st (act_then h k)"
proof -
  obtain r w where h: "h st = (r, st\<lparr>ap_world := w\<rparr>)" and w: "quiet (ap_world st) w"
    using assms(1) unfolding quietly_def by (metis prod.collapse)
  from assms(3) have "only_adapter adapter (st\<lparr>ap_world := w\<rparr>)" by (simp add: only_adapter_def)
  from assms(2) [OF this] obtain v where "snd (k (st\<lparr>ap_world := w\<rparr>)) = st\<lparr>ap_world := v\<rparr>" and "quiet w v"
    by (auto simp: quietly_def)
  with h w quiet_trans [of "ap_world st" w v] show ?thesis
    by (cases r) (auto simp: quietly_def act_then_def act_bind_def)
qed

lemma preview_quietly:
  assumes "only_adapter adapter st"
  shows "quietly quiet st (handle env (Post_config_preview c))"
proof -
  have "quietly quiet st (check_valid (en_details_json env) c)"
    by (rule quietly_unchanged) (simp add: check_valid_def act_lift_run)
  moreover have "quietly quiet s (act_bind (lookup_adapter (nc_backend c)) (\<lambda>a.
      act_then (on_world (ba_validate a c)) (on_world (ba_generate_config a c preview_dir))))"
    if "only_adapter adapter s" for s :: "('a, 'b, 'z) app_state"
    by (rule lookup_quietly [OF that], rule then_quietly [OF _ _ that])
      (rule world_quietly, rule validate_quiet, rule world_quietly, rule generate_quiet)
  ultimately show ?thesis
    using assms by (auto simp: quietly_answer post_config_preview_def intro: then_quietly)
qed

end

section \<open>The ION adapter\<close>

text \<open>\<open>runs_only cs m\<close>: the only effects of \<open>m\<close> are runs of the commands \<open>cs\<close>.\<close>

abbreviation runs_only :: "command list \<Rightarrow> ('e, effect list, 'a) action \<Rightarrow> bool" where
  "runs_only cs \<equiv> does_only (Output ` set cs)"

definition query_commands :: "string option \<Rightarrow> command list" where
  "query_commands bin_dir =
     [plain_command (ion_bin_path bin_dir ''bplist'') [], plain_command (ion_bin_path bin_dir ''bpstats'') [],
      plain_command (ion_bin_path bin_dir ''ltpinfo'') [], plain_command (ion_bin_path bin_dir ''ltpadmin'') [''l span''],
      plain_command (ion_bin_path bin_dir ''ionadmin'') [''.''], plain_command ''pgrep'' [''-x'', ''rfxclock'']]"

lemma telemetry_command_plain: "telemetry_command t name args = plain_command (ion_bin_path (it_bin_dir t) name) args"
  by (simp add: telemetry_command_def plain_command_def)

lemma ion_queries_run_only:
  "runs_only (query_commands (il_bin_dir lc)) (ion_health_tools os lc)"
  "runs_only (query_commands (il_bin_dir lc)) (ion_version_tools os lc)"
  "runs_only (query_commands (it_bin_dir t)) (ion_collect_stats logs os t)"
  "runs_only (query_commands (it_bin_dir t)) (ion_link_states logs os t)"
  by (auto simp: ion_health_tools_def check_rfxclock_def ion_version_tools_def ion_collect_stats_def run_bpstats_def
      run_bplist_count_def ion_link_states_def run_ltpinfo_def run_ltpadmin_list_spans_def telemetry_command_plain
      query_commands_def Let_def intro!: does_only_bind does_only_output split: sum.split option.split)

text \<open>Between two worlds: the lifecycle state is the same, and only queries have run.\<close>

definition ion_quiet :: "string option \<Rightarrow> ion_world \<Rightarrow> ion_world \<Rightarrow> bool" where
  "ion_quiet bin_dir w w' \<longleftrightarrow> fst w' = fst w
     \<and> (\<exists>es. snd w' = snd w @ es
          \<and> set es \<subseteq> Output ` set (query_commands (il_bin_dir (fst w)) @ query_commands bin_dir))"

lemma ion_quiet_on_snd:
  assumes "runs_only cs m" and "set cs \<subseteq> set (query_commands (il_bin_dir (fst w)) @ query_commands bin_dir)"
  shows "ion_quiet bin_dir w (snd (act_on_snd m w))"
proof -
  obtain es where "snd (m (snd w)) = snd w @ es" and "set es \<subseteq> Output ` set cs"
    using assms(1) unfolding does_only_def by blast
  moreover from this(2) have
    "set es \<subseteq> Output ` set (query_commands (il_bin_dir (fst w)) @ query_commands bin_dir)"
    using assms(2) by (meson image_mono order_trans)
  ultimately show ?thesis by (cases w) (simp add: ion_quiet_def act_on_snd_run)
qed

interpretation ion_monitor: previewing_backend "ion_adapter logs os iter bin_dir" "ion_quiet bin_dir"
  for logs os iter bin_dir
proof (unfold_locales, goal_cases)
  case (1 w)
  show ?case by (simp add: ion_quiet_def)
next
  case (2 w)
  show ?case
    using ion_quiet_on_snd [OF ion_queries_run_only(1), of "fst w" w bin_dir os]
    by (cases w) (simp add: ion_adapter_def Let_def ion_health_def)
next
  case (3 w)
  show ?case
    using ion_quiet_on_snd [OF ion_queries_run_only(2), of "fst w" w bin_dir os]
    by (cases w) (simp add: ion_adapter_def Let_def ion_version_def)
next
  case (4 w)
  show ?case
    using ion_quiet_on_snd [OF ion_queries_run_only(3), of "new_ion_telemetry bin_dir" w bin_dir logs os]
    by (simp add: ion_adapter_def Let_def new_ion_telemetry_def)
next
  case (5 w)
  show ?case
    using ion_quiet_on_snd [OF ion_queries_run_only(4), of "new_ion_telemetry bin_dir" w bin_dir logs os]
    by (simp add: ion_adapter_def Let_def new_ion_telemetry_def)
next
  case (6 u v w)
  then show ?case by (auto simp: ion_quiet_def)
next
  case (7 w c)
  show ?case by (simp add: ion_quiet_def)
next
  case (8 w c d)
  show ?case by (simp add: ion_quiet_def)
qed

text \<open>
  C16: on a server whose only adapter is ION's, a request that only asks (every GET, and the preview of a
  configuration) changes neither the stored configuration nor the state machine nor the registry,
  and all it does outside is to run monitoring commands: no file is written, no admin tool fed.
\<close>

theorem api_queries_only_ask:
  fixes st :: "('y, ion_world, 'c) app_state"
  assumes "is_get req \<or> (\<exists>c. req = Post_config_preview c)"
    and "only_adapter (ion_adapter logs os iter bin_dir) st"
  shows "\<exists>es. snd (handle env req st) = st\<lparr>ap_world := (fst (ap_world st), snd (ap_world st) @ es)\<rparr>
    \<and> set es \<subseteq> Output ` set (query_commands (il_bin_dir (fst (ap_world st))) @ query_commands bin_dir)"
proof -
  have "quietly (ion_quiet bin_dir) st (handle env req)"
    using assms ion_monitor.get_request_quietly ion_monitor.preview_quietly by blast
  then show ?thesis unfolding quietly_def ion_quiet_def by (metis prod.collapse)
qed

text \<open>A server with the ION adapter over \<open>quiet_os\<close>.\<close>

definition ion_state :: "(string, ion_world, unit) app_state" where
  "ion_state =
     (new_app_state \<lparr>ar_adapters = [''ion-dtn'' \<mapsto> ion_adapter True quiet_os sorted_iteration None]\<rparr> ()
        (new_ion_world None []))\<lparr>ap_config := Some ground_config\<rparr>"

theorem api_queries_only_ask_witness:
  "\<exists>es. snd (handle bare_env Get_stats ion_state) = ion_state\<lparr>ap_world := (new_ion_lifecycle None, es)\<rparr>"
proof -
  have "only_adapter (ion_adapter True quiet_os sorted_iteration None) ion_state"
    by (simp add: only_adapter_def ion_state_def new_app_state_def)
  from api_queries_only_ask [OF _ this, of Get_stats bare_env] show ?thesis
    by (fastforce simp: ion_state_def new_app_state_def new_ion_world_def simp del: handle.simps)
qed

end
