(* ===== verification/Api_Concurrency.thy ===== *)
theory Api_Concurrency
  imports Api_Routes
begin

text \<open>
  Requests in flight at the same time. A handler gives up control where it waits for the adapter,
  so a start, a stop and a deployment are two steps each: a \<open>flight\<close> is one that waits. Start and
  stop hold the read lock of the stored configuration until they answer, so no step stores a
  configuration while one of them is in flight; every other request is one step. The relation
  \<open>server_step\<close> is any of these steps, in any order. The locks are the conditions of its rules: a
  step whose lock is held by another request cannot be taken, the wait for it is no step of its own.
  An adapter that never returns is a flight that never ends.
\<close>

datatype ('y, 'w) flight =
    In_start "('y, 'w) backend_adapter"
  | In_stop "('y, 'w) backend_adapter"
  | In_deploy "'y network_configuration"

fun starting :: "('y, 'w) flight \<Rightarrow> bool" where
  "starting (In_start _) = True"
| "starting _ = False"

fun stopping :: "('y, 'w) flight \<Rightarrow> bool" where
  "stopping (In_stop _) = True"
| "stopping _ = False"

text \<open>The flights that hold the read lock of the configuration.\<close>

definition holds_config :: "('y, 'w) flight \<Rightarrow> bool" where
  "holds_config f \<longleftrightarrow> starting f \<or> stopping f"

definition writes_config :: "'y api_request \<Rightarrow> bool" where
  "writes_config req \<longleftrightarrow> (case req of Post_config _ \<Rightarrow> True | _ \<Rightarrow> False)"

definition is_deploy :: "'y api_request \<Rightarrow> bool" where
  "is_deploy req \<longleftrightarrow> (case req of Post_config_deploy _ \<Rightarrow> True | _ \<Rightarrow> False)"

type_synonym ('y, 'w, 'c) server = "('y, 'w, 'c) app_state \<times> ('y, 'w) flight list"

inductive server_step ::
  "('y, 'w) api_env \<Rightarrow> ('y, 'w, 'c) server \<Rightarrow> ('y, 'w, 'c) server \<Rightarrow> bool" for env where
  at_once: "\<not> is_lifecycle req \<Longrightarrow> \<not> is_deploy req \<Longrightarrow>
     (writes_config req \<Longrightarrow> \<not> list_ex holds_config fs) \<Longrightarrow>
     handle env req st = (r, st') \<Longrightarrow> server_step env (st, fs) (st', fs)"
| start_refused: "start_begin st = (Inl e, st') \<Longrightarrow> server_step env (st, fs) (st', fs)"
| start_begins: "start_begin st = (Inr adapter, st') \<Longrightarrow> server_step env (st, fs) (st', In_start adapter # fs)"
| start_ends: "start_finish adapter st = (r, st') \<Longrightarrow>
     server_step env (st, fs @ In_start adapter # gs) (st', fs @ gs)"
| stop_refused: "stop_begin st = (Inl e, st') \<Longrightarrow> server_step env (st, fs) (st', fs)"
| stop_begins: "stop_begin st = (Inr adapter, st') \<Longrightarrow> server_step env (st, fs) (st', In_stop adapter # fs)"
| stop_ends: "stop_finish adapter st = (r, st') \<Longrightarrow>
     server_step env (st, fs @ In_stop adapter # gs) (st', fs @ gs)"
| deploy_refused: "deploy_files (en_details_json env) c st = (Inl e, st') \<Longrightarrow> server_step env (st, fs) (st', fs)"
| deploy_begins: "deploy_files (en_details_json env) c st = (Inr (), st') \<Longrightarrow>
     server_step env (st, fs) (st', In_deploy c # fs)"
| deploy_ends: "\<not> list_ex holds_config (fs @ gs) \<Longrightarrow> store_config c st = (Inr (), st') \<Longrightarrow>
     server_step env (st, fs @ In_deploy c # gs) (st', fs @ gs)"

inductive server_reaches ::
  "('y, 'w) api_env \<Rightarrow> ('y, 'w, 'c) server \<Rightarrow> ('y, 'w, 'c) server \<Rightarrow> bool" for env s where
  reaches_refl: "server_reaches env s s"
| reaches_step: "server_reaches env s t \<Longrightarrow> server_step env t u \<Longrightarrow> server_reaches env s u"

inductive_cases server_step_from: "server_step env (st, fs) u"

section \<open>The invariant\<close>

text \<open>The flights that a state of the machine allows, and the adapter they use.\<close>

definition flights_ok :: "('y, 'w, 'c) server \<Rightarrow> bool" where
  "flights_ok = (\<lambda>(st, fs).
     length (filter starting fs) = (if sm_state (ap_machine st) = Starting then 1 else 0)
   \<and> length (filter stopping fs) \<le> (if sm_state (ap_machine st) = Stopping then 1 else 0)
   \<and> (\<forall>a. In_start a \<in> set fs \<or> In_stop a \<in> set fs \<longrightarrow>
        (\<exists>c. ap_config st = Some c \<and> get_adapter (ap_registry st) (nc_backend c) = Inr a)))"

lemma start_begin_adapter:
  "start_begin st = (Inr a, st') \<Longrightarrow>
   \<exists>c. ap_config st = Some c \<and> get_adapter (ap_registry st) (nc_backend c) = Inr a"
  by (auto simp: start_begin_def stored_adapter_def lookup_adapter_def elim!: act_bind_cases act_then_cases
      split: option.splits)

lemma stop_begin_adapter:
  "stop_begin st = (Inr a, st') \<Longrightarrow>
   \<exists>c. ap_config st = Some c \<and> get_adapter (ap_registry st) (nc_backend c) = Inr a"
  by (auto simp: stop_begin_def stored_adapter_def lookup_adapter_def elim!: act_bind_cases act_then_cases
      split: option.splits)

lemma no_reader_flights:
  "\<not> list_ex holds_config fs \<Longrightarrow> filter starting fs = [] \<and> filter stopping fs = []
     \<and> In_start a \<notin> set fs \<and> In_stop a \<notin> set fs"
  by (fastforce simp: list_ex_iff holds_config_def filter_empty_conv)

text \<open>A step that leaves machine and registry, and the configuration unless no reader is in flight.\<close>

lemma flights_ok_frame:
  assumes "flights_ok (st, fs)" and "ap_machine st' = ap_machine st" and "ap_registry st' = ap_registry st"
    and "ap_config st' = ap_config st \<or> \<not> list_ex holds_config fs"
  shows "flights_ok (st', fs)"
  using assms(4)
proof
  assume "ap_config st' = ap_config st"
  with assms show ?thesis by (simp add: flights_ok_def)
next
  assume "\<not> list_ex holds_config fs"
  with assms(1-3) no_reader_flights [of fs] show ?thesis by (auto simp: flights_ok_def)
qed

lemma deploy_files_keeps:
  "preserves (\<lambda>st. ap_machine st = sm \<and> ap_registry st = reg \<and> ap_config st = co) (deploy_files dj c)"
  unfolding deploy_files_def
  by (auto intro!: preserves_checked preserves_bind preserves_then preserves_world)


text \<open>The machine is in the state its flight needs, so the result that the handler drops is a success.\<close>

lemma in_start_Starting: "flights_ok (st, fs @ In_start a # gs) \<Longrightarrow> sm_state (ap_machine st) = Starting"
  by (auto simp: flights_ok_def split: if_splits)

lemma in_stop_Stopping: "flights_ok (st, fs @ In_stop a # gs) \<Longrightarrow> sm_state (ap_machine st) = Stopping"
  by (auto simp: flights_ok_def split: if_splits)

lemma start_finish_cases:
  assumes "start_finish a st = (r, st')" and "sm_state (ap_machine st) = Starting"
  obtains w where "r = Inr Running" and "st' = st\<lparr>ap_world := w, ap_machine := machine_in Running\<rparr>"
    | e w where "r = Inl e"
      and "st' = st\<lparr>ap_world := w, ap_machine := \<lparr>sm_state = Failed, sm_failure_reason = Some (ae_message e)\<rparr>\<rparr>"
  using assms by (auto simp: start_finish_run split: prod.splits sum.splits)

lemma stop_finish_cases:
  assumes "stop_finish a st = (r, st')" and "sm_state (ap_machine st) = Stopping"
  obtains w where "r = Inr Stopped" and "st' = st\<lparr>ap_world := w, ap_machine := machine_in Stopped\<rparr>"
    | e w where "r = Inl e" and "st' = st\<lparr>ap_world := w\<rparr>"
  using assms by (auto simp: stop_finish_run split: prod.splits sum.splits)

lemma flights_ok_at_once:
  assumes "\<not> is_lifecycle req" and "\<not> is_deploy req"
    and "writes_config req \<Longrightarrow> \<not> list_ex holds_config fs"
    and "handle env req st = (r, st')" and "flights_ok (st, fs)"
  shows "flights_ok (st', fs)"
proof (rule flights_ok_frame [OF assms(5)])
  have "req \<noteq> Post_lifecycle_start" "req \<noteq> Post_lifecycle_stop"
    using assms(1) by (auto simp: is_lifecycle_def)
  from preservesD [OF handle_machine_frame [OF this] refl assms(4)]
  show "ap_machine st' = ap_machine st" .
  show "ap_registry st' = ap_registry st"
    using preservesD [OF handle_frame _ assms(4), of "ap_registry st" "ap_event_bus st"] by simp
  show "ap_config st' = ap_config st \<or> \<not> list_ex holds_config fs"
  proof (cases "writes_config req")
    case True
    with assms(3) show ?thesis by blast
  next
    case False
    then have "\<And>c. req \<noteq> Post_config c \<and> req \<noteq> Post_config_deploy c"
      using assms(2) by (auto simp: writes_config_def is_deploy_def)
    from preservesD [OF handle_config_frame [OF this] refl assms(4)] show ?thesis by simp
  qed
qed

lemma flights_ok_start_begins:
  assumes "start_begin st = (Inr a, st')" and "flights_ok (st, fs)"
  shows "flights_ok (st', In_start a # fs)"
proof -
  from assms(1) obtain st': "st' = st\<lparr>ap_machine := machine_in Starting\<rparr>"
    and "is_valid_transition (sm_state (ap_machine st)) Starting" by (auto elim: start_begin_cases)
  from this(2) [unfolded valid_to_Starting] assms(2) start_begin_adapter [OF assms(1)] st' show ?thesis
    by (auto simp: flights_ok_def)
qed

lemma flights_ok_stop_begins:
  assumes "stop_begin st = (Inr a, st')" and "flights_ok (st, fs)"
  shows "flights_ok (st', In_stop a # fs)"
proof -
  from assms(1) obtain st': "st' = st\<lparr>ap_machine := machine_in Stopping\<rparr>"
    and "sm_state (ap_machine st) = Running" by (auto elim: stop_begin_cases)
  with assms(2) stop_begin_adapter [OF assms(1)] show ?thesis by (auto simp: flights_ok_def)
qed

lemma flights_ok_start_ends:
  assumes "start_finish a st = (r, st')" and "flights_ok (st, fs @ In_start a # gs)"
  shows "flights_ok (st', fs @ gs)"
  using assms(1) in_start_Starting [OF assms(2)]
  by (rule start_finish_cases) (use assms(2) in_start_Starting [OF assms(2)] in \<open>auto simp: flights_ok_def\<close>)

lemma flights_ok_stop_ends:
  assumes "stop_finish a st = (r, st')" and "flights_ok (st, fs @ In_stop a # gs)"
  shows "flights_ok (st', fs @ gs)"
  using assms(1) in_stop_Stopping [OF assms(2)]
  by (rule stop_finish_cases) (use assms(2) in_stop_Stopping [OF assms(2)] in \<open>auto simp: flights_ok_def\<close>)

lemma flights_ok_deploy [simp]: "flights_ok (st, fs @ In_deploy c # gs) \<longleftrightarrow> flights_ok (st, fs @ gs)"
  by (simp add: flights_ok_def)

lemma flights_ok_deploy_files:
  assumes "deploy_files dj c st = (r, st')" and "flights_ok (st, fs)"
  shows "flights_ok (st', fs)"
  using preservesD [OF deploy_files_keeps _ assms(1), of "ap_machine st" "ap_registry st" "ap_config st"]
  by (intro flights_ok_frame [OF assms(2)]) simp_all

lemma server_step_inv: "server_step env s t \<Longrightarrow> flights_ok s \<Longrightarrow> flights_ok t"
proof (induction rule: server_step.induct)
  case (at_once req fs st r st')
  then show ?case by (blast intro: flights_ok_at_once)
next
  case (start_refused st e st' fs)
  then show ?case by (auto elim: start_begin_cases)
next
  case (start_begins st a st' fs)
  then show ?case by (rule flights_ok_start_begins)
next
  case (start_ends a st r st' fs gs)
  then show ?case by (rule flights_ok_start_ends)
next
  case (stop_refused st e st' fs)
  then show ?case by (auto elim: stop_begin_cases)
next
  case (stop_begins st a st' fs)
  then show ?case by (rule flights_ok_stop_begins)
next
  case (stop_ends a st r st' fs gs)
  then show ?case by (rule flights_ok_stop_ends)
next
  case (deploy_refused c st e st' fs)
  then show ?case by (rule flights_ok_deploy_files)
next
  case (deploy_begins c st st' fs)
  then show ?case using flights_ok_deploy [of st' "[]" c fs] by (simp add: flights_ok_deploy_files)
next
  case (deploy_ends fs gs c st st')
  then have "flights_ok (st, fs @ gs)" by simp
  with deploy_ends show ?case by (elim flights_ok_frame) (auto simp: store_config_def)
qed

lemma server_reaches_inv: "server_reaches env s t \<Longrightarrow> flights_ok s \<Longrightarrow> flights_ok t"
proof (induction rule: server_reaches.induct)
  case reaches_refl
  then show ?case .
next
  case (reaches_step t u)
  then show ?case by (simp add: server_step_inv [of env t u])
qed

lemma flights_ok_new: "flights_ok (new_app_state reg bus w, [])"
  by (simp add: flights_ok_def new_app_state_def new_machine_def)

section \<open>Overlapping requests\<close>

text \<open>
  C5: however requests overlap, at most one start or stop is waiting for the engine; while it waits the
  machine is in Starting resp. Stopping, so the transition at its end, whose result the handler
  drops, never fails; and the adapter it waits for is still the one the stored configuration
  names.
\<close>

theorem concurrent_lifecycle_exclusive:
  assumes "server_reaches env (new_app_state reg bus w, []) (st, fs)"
  shows "length (filter starting fs) + length (filter stopping fs) \<le> 1
    \<and> (\<forall>a. In_start a \<in> set fs \<longrightarrow> sm_state (ap_machine st) = Starting
          \<and> fst (machine_to Running st) = Inr () \<and> (\<forall>reason. fst (machine_to_failed reason st) = Inr ()))
    \<and> (\<forall>a. In_stop a \<in> set fs \<longrightarrow> sm_state (ap_machine st) = Stopping
          \<and> fst (machine_to Stopped st) = Inr ())
    \<and> (\<forall>a. In_start a \<in> set fs \<or> In_stop a \<in> set fs \<longrightarrow>
          (\<exists>c. ap_config st = Some c \<and> get_adapter (ap_registry st) (nc_backend c) = Inr a))"
proof (intro conjI allI impI)
  have inv: "flights_ok (st, fs)" by (rule server_reaches_inv [OF assms flights_ok_new])
  then show "length (filter starting fs) + length (filter stopping fs) \<le> 1"
    by (auto simp: flights_ok_def split: if_splits)
  show starting: "sm_state (ap_machine st) = Starting" if "In_start a \<in> set fs" for a
    using split_list [OF that] inv in_start_Starting [of st] by blast
  show stopping: "sm_state (ap_machine st) = Stopping" if "In_stop a \<in> set fs" for a
    using split_list [OF that] inv in_stop_Stopping [of st] by blast
  show "fst (machine_to Running st) = Inr ()" "fst (machine_to_failed reason st) = Inr ()"
    if "In_start a \<in> set fs" for a reason
    using starting [OF that] by (simp_all add: machine_to_ok machine_to_failed_def transition_to_failed_def)
  show "fst (machine_to Stopped st) = Inr ()" if "In_stop a \<in> set fs" for a
    using stopping [OF that] by (simp add: machine_to_ok)
  show "\<exists>c. ap_config st = Some c \<and> get_adapter (ap_registry st) (nc_backend c) = Inr a"
    if "In_start a \<in> set fs \<or> In_stop a \<in> set fs" for a
    using that inv by (auto simp: flights_ok_def)
qed

text \<open>A server whose registry holds the adapter \<open>stuck_adapter\<close> as toy.\<close>

definition toy_registry :: "(string, unit) backend_adapter adapter_registry" where
  "toy_registry = \<lparr>ar_adapters = [''toy'' \<mapsto> stuck_adapter]\<rparr>"

lemma start_begin_run:
  assumes "ap_config st = Some c" and "get_adapter (ap_registry st) (nc_backend c) = Inr a"
    and "is_valid_transition (sm_state (ap_machine st)) Starting"
  shows "start_begin st = (Inr a, st\<lparr>ap_machine := machine_in Starting\<rparr>)"
  using assms
  by (simp add: start_begin_def stored_adapter_def lookup_adapter_def act_bind_def act_then_def machine_to_ok)

lemma server_step_post_config:
  assumes "validate c = Inr ()" and "\<not> list_ex holds_config fs"
  shows "server_step env (st, fs) (st\<lparr>ap_config := Some c\<rparr>, fs)"
  by (rule server_step.at_once [OF _ _ _ post_config_ok [OF assms(1)]])
    (use assms(2) in \<open>simp_all add: is_lifecycle_def is_deploy_def\<close>)

theorem concurrent_lifecycle_exclusive_witness:
  "\<exists>st. server_reaches bare_env (new_app_state toy_registry () (), []) (st, [In_start stuck_adapter])
     \<and> sm_state (ap_machine st) = Starting \<and> fst (machine_to Running st) = Inr ()"
proof -
  let ?s0 = "new_app_state toy_registry () ()"
  let ?s1 = "?s0\<lparr>ap_config := Some tiny_config\<rparr>"
  let ?s2 = "?s1\<lparr>ap_machine := machine_in Starting\<rparr>"
  have "server_step bare_env (?s0, []) (?s1, [])"
    by (rule server_step_post_config [OF tiny_config_valid]) simp
  moreover have "start_begin ?s1 = (Inr stuck_adapter, ?s2)"
    by (rule start_begin_run [where c = tiny_config])
      (simp_all add: toy_registry_def new_app_state_def new_machine_def get_adapter_def tiny_config_def)
  then have "server_step bare_env (?s1, []) (?s2, [In_start stuck_adapter])" by (rule start_begins)
  ultimately have "server_reaches bare_env (?s0, []) (?s2, [In_start stuck_adapter])"
    by (blast intro: reaches_refl reaches_step)
  from this concurrent_lifecycle_exclusive [OF this] show ?thesis by auto
qed

section \<open>The stored configuration and the machine\<close>

text \<open>
  The stored configuration is the one the server started with (\<open>co\<close>) or well formed, and so are the
  configurations on their way.
\<close>

definition config_from :: "'y network_configuration option \<Rightarrow> ('y, 'w, 'c) app_state \<Rightarrow> bool" where
  "config_from co st \<longleftrightarrow> ap_config st = co \<or> (\<exists>c. ap_config st = Some c \<and> well_formed c)"

definition server_wf :: "'y network_configuration option \<Rightarrow> ('y, 'w, 'c) server \<Rightarrow> bool" where
  "server_wf co = (\<lambda>(st, fs). config_from co st \<and> sm_reachable (ap_machine st)
     \<and> (\<forall>c. In_deploy c \<in> set fs \<longrightarrow> well_formed c))"

lemma machine_reachable_moves:
  "preserves (\<lambda>st. sm_reachable (ap_machine st)) (machine_to s)"
  "preserves (\<lambda>st. sm_reachable (ap_machine st)) (machine_to_failed r)"
  using sm_reachable_apply [of _ "To s"] sm_reachable_apply [of _ "To_failed r"]
  by (auto simp: preserves_def machine_to_def machine_to_failed_def split: prod.splits) (metis snd_conv)+

lemma state_wf_preserved:
  fixes P :: "('y, 'w, 'c) app_state \<Rightarrow> bool" and co :: "'y network_configuration option"
  defines "P \<equiv> \<lambda>st. config_from co st \<and> sm_reachable (ap_machine st)"
  shows "preserves P (handle env req)" and "preserves P start_begin" and "preserves P (start_finish a)"
    and "preserves P stop_begin" and "preserves P (stop_finish a)" and "preserves P (deploy_files dj c)"
proof -
  have world: "P (st\<lparr>ap_world := w\<rparr>)" if "P st" for st w
    using that by (simp add: P_def config_from_def)
  have machine: "preserves P (machine_to s)" "preserves P (machine_to_failed r)" for s r
    using machine_reachable_moves(1) [of s] machine_reachable_moves(2) [of r]
    by (auto simp: P_def preserves_def config_from_def machine_to_def machine_to_failed_def split: prod.split)
  have "preserves P (store_config c)" if "validate c = Inr ()" for c
    using that by (simp add: P_def preserves_def config_from_def store_config_def validate_ok_iff)
  then show "preserves P (handle env req)"
    by (intro handle_preserves world) (simp_all add: machine)
  have on: "preserves P (on_world m)" for m :: "(abstraction_error, 'w, unit) action"
    by (rule preserves_world) (rule world)
  show "preserves P start_begin" "preserves P (start_finish a)" "preserves P stop_begin"
    "preserves P (stop_finish a)"
    by (rule preserves_lifecycle; rule on machine)+
  show "preserves P (deploy_files dj c)"
    unfolding deploy_files_def by (intro preserves_checked preserves_bind preserves_then on preserves_read)
qed

lemma deploy_files_valid: "deploy_files dj c st = (Inr (), st') \<Longrightarrow> well_formed c"
  by (auto simp: deploy_files_def check_valid_run validate_ok_iff split: if_splits elim!: act_then_cases)

lemmas state_wf_step = state_wf_preserved [THEN preservesD, OF conjI]

lemma server_step_wf: "server_step env s t \<Longrightarrow> server_wf co s \<Longrightarrow> server_wf co t"
proof (induction rule: server_step.induct)
  case (at_once req fs st r st')
  then show ?case using state_wf_step(1) [where co = co, OF _ _ at_once(4)] by (simp add: server_wf_def)
next
  case (start_refused st e st' fs)
  then show ?case using state_wf_step(2) [where co = co, OF _ _ start_refused(1)] by (simp add: server_wf_def)
next
  case (start_begins st a st' fs)
  then show ?case using state_wf_step(2) [where co = co, OF _ _ start_begins(1)] by (simp add: server_wf_def)
next
  case (start_ends a st r st' fs gs)
  then show ?case using state_wf_step(3) [where co = co, OF _ _ start_ends(1)] by (simp add: server_wf_def)
next
  case (stop_refused st e st' fs)
  then show ?case using state_wf_step(4) [where co = co, OF _ _ stop_refused(1)] by (simp add: server_wf_def)
next
  case (stop_begins st a st' fs)
  then show ?case using state_wf_step(4) [where co = co, OF _ _ stop_begins(1)] by (simp add: server_wf_def)
next
  case (stop_ends a st r st' fs gs)
  then show ?case using state_wf_step(5) [where co = co, OF _ _ stop_ends(1)] by (simp add: server_wf_def)
next
  case (deploy_refused c st e st' fs)
  then show ?case using state_wf_step(6) [where co = co, OF _ _ deploy_refused(1)] by (simp add: server_wf_def)
next
  case (deploy_begins c st st' fs)
  then show ?case using state_wf_step(6) [where co = co, OF _ _ deploy_begins(1)] deploy_files_valid [of _ c st st'] by (simp add: server_wf_def)
next
  case (deploy_ends fs gs c st st')
  then show ?case by (auto simp: server_wf_def store_config_def config_from_def)
qed

lemma server_reaches_wf: "server_reaches env s t \<Longrightarrow> server_wf co s \<Longrightarrow> server_wf co t"
proof (induction rule: server_reaches.induct)
  case reaches_refl
  then show ?case .
next
  case (reaches_step t u)
  then show ?case by (simp add: server_step_wf [of env t u co])
qed

text \<open>
  C6: however requests overlap and whatever the adapters answer, the stored configuration is the one
  the server started with, or a well-formed one that a request has brought; the state machine is in
  a state that its operations reach, and a failure reason is recorded exactly in the state Failed.
  The server may start with any configuration: none, as the library's own state does, or one that
  has not been validated, as the serve command of radiant-ion does.
\<close>

theorem concurrent_state_valid:
  assumes "sm_reachable (ap_machine st0)" and "server_reaches env (st0, []) (st, fs)"
  shows "(ap_config st = ap_config st0 \<or> (\<exists>c. ap_config st = Some c \<and> well_formed c))
    \<and> sm_reachable (ap_machine st)
    \<and> (sm_failure_reason (ap_machine st) \<noteq> None \<longleftrightarrow> sm_state (ap_machine st) = Failed)"
proof -
  have "server_wf (ap_config st0) (st0, [])" using assms(1) by (simp add: server_wf_def config_from_def)
  from server_reaches_wf [OF assms(2) this] have "config_from (ap_config st0) st"
    and r: "sm_reachable (ap_machine st)" by (simp_all add: server_wf_def)
  with sm_reachable_inv [OF r] show ?thesis unfolding config_from_def sm_inv_def by blast
qed

text \<open>A configuration whose static route leads to an unknown node.\<close>

definition lost_config :: "string network_configuration" where
  "lost_config = tiny_config\<lparr>nc_routing := \<lparr>rc_strategy = Static,
     rc_static_routes = [\<lparr>sr_destination_node = 7, sr_next_hop_node = 8\<rparr>]\<rparr>\<rparr>"

lemma lost_config_bad: "\<not> well_formed lost_config"
  by (simp add: well_formed_def known_node_def lost_config_def tiny_config_def)

theorem concurrent_state_valid_witness:
  "\<exists>st. server_reaches bare_env (bare_state\<lparr>ap_config := Some lost_config\<rparr>, []) (st, [])
     \<and> \<not> well_formed lost_config \<and> ap_config st = Some tiny_config
     \<and> (\<exists>c. ap_config st = Some c \<and> well_formed c)"
proof -
  let ?s0 = "bare_state\<lparr>ap_config := Some lost_config\<rparr>"
  let ?s1 = "?s0\<lparr>ap_config := Some tiny_config\<rparr>"
  have "server_step bare_env (?s0, []) (?s1, [])"
    by (rule server_step_post_config [OF tiny_config_valid]) simp
  then have r: "server_reaches bare_env (?s0, []) (?s1, [])" by (blast intro: reaches_refl reaches_step)
  have m: "sm_reachable (ap_machine ?s0)" by (simp add: bare_state_def new_app_state_def sm_start)
  have "well_formed tiny_config" using tiny_config_valid by (simp add: validate_ok_iff)
  then have "lost_config \<noteq> tiny_config" using lost_config_bad by auto
  with concurrent_state_valid [OF m r] r lost_config_bad show ?thesis by auto
qed

section \<open>Requests one after the other\<close>

lemma server_reaches_trans: "server_reaches env t u \<Longrightarrow> server_reaches env s t \<Longrightarrow> server_reaches env s u"
proof (induction rule: server_reaches.induct)
  case reaches_refl
  then show ?case .
next
  case (reaches_step u v)
  then show ?case by (blast intro: server_reaches.reaches_step)
qed

lemma two_steps: "server_step env s t \<Longrightarrow> server_step env t u \<Longrightarrow> server_reaches env s u"
  by (blast intro: reaches_refl reaches_step)

lemma one_step: "server_step env s t \<Longrightarrow> server_reaches env s t"
  by (blast intro: reaches_refl reaches_step)

lemma start_reached:
  assumes "post_lifecycle_start st = (r, st')"
  shows "server_reaches env (st, []) (st', [])"
  using assms unfolding post_lifecycle_start_def
proof (cases rule: act_bind_cases)
  case (err e)
  then show ?thesis by (blast intro: one_step start_refused)
next
  case (ok a st1)
  from start_ends [OF ok(2), of env "[]" "[]"] start_begins [OF ok(1), of env "[]"] show ?thesis
    by (simp add: two_steps)
qed

lemma stop_reached:
  assumes "post_lifecycle_stop st = (r, st')"
  shows "server_reaches env (st, []) (st', [])"
  using assms unfolding post_lifecycle_stop_def
proof (cases rule: act_bind_cases)
  case (err e)
  then show ?thesis by (blast intro: one_step stop_refused)
next
  case (ok a st1)
  from stop_ends [OF ok(2), of env "[]" "[]"] stop_begins [OF ok(1), of env "[]"] show ?thesis
    by (simp add: two_steps)
qed

lemma deploy_reached:
  assumes "post_config_deploy (en_details_json env) c st = (r, st')"
  shows "server_reaches env (st, []) (st', [])"
  using assms unfolding post_config_deploy_def
proof (cases rule: act_then_cases)
  case (err e)
  then show ?thesis by (blast intro: one_step deploy_refused)
next
  case (ok st1)
  then have "r = Inr ()" by (simp add: store_config_def)
  with deploy_ends [of "[]" "[]" c st1 st' env] deploy_begins [OF ok(1), of "[]"] ok(2) show ?thesis
    by (simp add: two_steps)
qed

lemma answer_state: "snd (answer f h st) = snd (h st)"
  by (simp add: answer_def act_bind_def split: prod.split sum.split)

lemma handle_reached: "server_reaches env (st, []) (snd (handle env req st), [])"
proof (cases "is_lifecycle req \<or> is_deploy req")
  case True
  then consider "req = Post_lifecycle_start" | "req = Post_lifecycle_stop" | c where "req = Post_config_deploy c"
    by (cases req) (auto simp: is_lifecycle_def is_deploy_def)
  then show ?thesis
    by cases (simp_all add: answer_state start_reached [OF prod.collapse [symmetric]]
        stop_reached [OF prod.collapse [symmetric]] deploy_reached [OF prod.collapse [symmetric]])
next
  case False
  then show ?thesis
    by (intro one_step at_once [of req _ _ _ "fst (handle env req st)"]) auto
qed

text \<open>
  the step relation simulates the handlers as written: any run of requests answered one after the
  other, each by its whole handler, is a sequence of steps that ends in the same shared state
  with nothing in flight.
\<close>

lemma sequential_run_reached:
  "server_reaches env (st, []) (snd (serve_requests env reqs st), [])"
proof (induction reqs arbitrary: st)
  case Nil
  show ?case by (simp add: reaches_refl)
next
  case (Cons req reqs)
  obtain r st1 where h: "handle env req st = (r, st1)" by fastforce
  with handle_reached [of env st req] Cons.IH [of st1] server_reaches_trans show ?case
    by (fastforce split: prod.splits)
qed

section \<open>Overlapping deployments\<close>

lemma deploy_files_run:
  assumes "validate c = Inr ()" and "get_adapter (ap_registry st) (nc_backend c) = Inr a"
    and "ba_validate a c (ap_world st) = (Inr (), w1)" and "ba_deploy a c deploy_dir w1 = (Inr (), w2)"
  shows "deploy_files dj c st = (Inr (), st\<lparr>ap_world := w2\<rparr>)"
  using assms
  by (simp add: deploy_files_def act_then_def act_bind_def check_valid_run lookup_adapter_def on_world_def)

lemma deploy_run:
  assumes "deploy_files (en_details_json env) c st = (Inr (), st')"
  shows "handle env (Post_config_deploy c) st = (Inr Resp_ok, st'\<lparr>ap_config := Some c\<rparr>)"
  using assms by (simp add: answer_def post_config_deploy_def act_bind_def act_then_def store_config_def)

text \<open>
  C17: a deployment writes the files before it takes the lock of the configuration. Two deployments
  that overlap, with no other request, can run like this: the first writes its files, the second
  writes its files, the second stores its configuration, the first stores its own. Every step
  succeeds, so both are answered with success, and in the end the files are those the second has
  written last, and the stored configuration is that of the first. One after the other, the same two
  deployments leave the same files with the configuration of the second.
\<close>

theorem overlapping_deploys_mix:
  assumes "validate c1 = Inr ()" and "get_adapter (ap_registry st) (nc_backend c1) = Inr a1"
    and "validate c2 = Inr ()" and "get_adapter (ap_registry st) (nc_backend c2) = Inr a2"
    and "ba_validate a1 c1 (ap_world st) = (Inr (), v1)" and "ba_deploy a1 c1 deploy_dir v1 = (Inr (), w1)"
    and "ba_validate a2 c2 w1 = (Inr (), v2)" and "ba_deploy a2 c2 deploy_dir v2 = (Inr (), w2)"
  shows "\<exists>st1 st2 st3 st4.
      deploy_files (en_details_json env) c1 st = (Inr (), st1)
    \<and> server_step env (st, []) (st1, [In_deploy c1])
    \<and> deploy_files (en_details_json env) c2 st1 = (Inr (), st2)
    \<and> server_step env (st1, [In_deploy c1]) (st2, [In_deploy c2, In_deploy c1])
    \<and> store_config c2 st2 = (Inr (), st3)
    \<and> server_step env (st2, [In_deploy c2, In_deploy c1]) (st3, [In_deploy c1])
    \<and> store_config c1 st3 = (Inr (), st4)
    \<and> server_step env (st3, [In_deploy c1]) (st4, [])
    \<and> ap_world st4 = w2 \<and> ap_config st4 = Some c1
    \<and> serve_requests env [Post_config_deploy c1, Post_config_deploy c2] st
        = ([Inr Resp_ok, Inr Resp_ok], st4\<lparr>ap_config := Some c2\<rparr>)"
proof -
  let ?dj = "en_details_json env"
  let ?st1 = "st\<lparr>ap_world := w1\<rparr>" and ?st2 = "st\<lparr>ap_world := w2\<rparr>"
  let ?st3 = "?st2\<lparr>ap_config := Some c2\<rparr>" and ?st4 = "?st2\<lparr>ap_config := Some c1\<rparr>"
  have d1: "deploy_files ?dj c1 st = (Inr (), ?st1)" by (rule deploy_files_run [OF assms(1,2,5,6)])
  have later: "deploy_files ?dj c2 (?st1\<lparr>ap_config := co\<rparr>) = (Inr (), ?st2\<lparr>ap_config := co\<rparr>)" for co
    using deploy_files_run [of c2 "?st1\<lparr>ap_config := co\<rparr>" a2 v2] assms by simp
  from later [of "ap_config st"] have d2: "deploy_files ?dj c2 ?st1 = (Inr (), ?st2)" by simp
  have "server_step env (?st2, [In_deploy c2, In_deploy c1]) (?st3, [In_deploy c1])"
    using deploy_ends [of "[]" "[In_deploy c1]" c2 ?st2 ?st3 env] by (simp add: holds_config_def store_config_def)
  moreover have "server_step env (?st3, [In_deploy c1]) (?st4, [])"
    using deploy_ends [of "[]" "[]" c1 ?st3 ?st4 env] by (simp add: store_config_def)
  moreover have "serve_requests env [Post_config_deploy c1, Post_config_deploy c2] st
        = ([Inr Resp_ok, Inr Resp_ok], ?st4\<lparr>ap_config := Some c2\<rparr>)"
    using deploy_run [OF d1] deploy_run [OF later [of "Some c1"]] by (simp del: handle.simps)
  moreover have "store_config c2 ?st2 = (Inr (), ?st3)" "store_config c1 ?st3 = (Inr (), ?st4)"
    by (simp_all add: store_config_def)
  moreover have "ap_world ?st4 = w2" "ap_config ?st4 = Some c1" by simp_all
  ultimately show ?thesis using d1 d2 deploy_begins [OF d1] deploy_begins [OF d2] by blast
qed

text \<open>An adapter that remembers what was deployed, and two configurations for it.\<close>

definition recording_adapter :: "(string, string network_configuration list) backend_adapter" where
  "recording_adapter = stuck_adapter\<lparr>ba_deploy := (\<lambda>c _ w. (Inr (), w @ [c]))\<rparr>"

definition recording_state ::
  "(string, string network_configuration list, unit) app_state" where
  "recording_state = new_app_state \<lparr>ar_adapters = [''toy'' \<mapsto> recording_adapter]\<rparr> () []"

definition other_config :: "string network_configuration" where
  "other_config = tiny_config\<lparr>nc_version := ''2.0''\<rparr>"

lemma other_config_valid: "validate other_config = Inr ()"
  unfolding validate_ok_iff by (simp add: well_formed_def known_node_def other_config_def tiny_config_def)

lemma recording_sel:
  "get_adapter (ap_registry recording_state) (nc_backend tiny_config) = Inr recording_adapter"
  "get_adapter (ap_registry recording_state) (nc_backend other_config) = Inr recording_adapter"
  "ap_world recording_state = []"
  "ba_validate recording_adapter c w = (Inr (), w)"
  "ba_deploy recording_adapter c d w = (Inr (), w @ [c])"
  by (simp_all add: recording_state_def recording_adapter_def stuck_adapter_def new_app_state_def
      get_adapter_def tiny_config_def other_config_def)

theorem overlapping_deploys_mix_witness:
  "other_config \<noteq> tiny_config
   \<and> (\<exists>st. server_reaches bare_env (recording_state, []) (st, [])
        \<and> ap_config st = Some tiny_config \<and> last (ap_world st) = other_config
        \<and> serve_requests bare_env [Post_config_deploy tiny_config, Post_config_deploy other_config] recording_state
            = ([Inr Resp_ok, Inr Resp_ok], st\<lparr>ap_config := Some other_config\<rparr>))"
proof -
  have "\<exists>st1 st2 st3 st4.
      server_step bare_env (recording_state, []) (st1, [In_deploy tiny_config])
    \<and> server_step bare_env (st1, [In_deploy tiny_config]) (st2, [In_deploy other_config, In_deploy tiny_config])
    \<and> server_step bare_env (st2, [In_deploy other_config, In_deploy tiny_config]) (st3, [In_deploy tiny_config])
    \<and> server_step bare_env (st3, [In_deploy tiny_config]) (st4, [])
    \<and> ap_world st4 = [tiny_config, other_config] \<and> ap_config st4 = Some tiny_config
    \<and> serve_requests bare_env [Post_config_deploy tiny_config, Post_config_deploy other_config] recording_state
        = ([Inr Resp_ok, Inr Resp_ok], st4\<lparr>ap_config := Some other_config\<rparr>)"
    using overlapping_deploys_mix [OF tiny_config_valid recording_sel(1) other_config_valid recording_sel(2),
        of "[]" "[tiny_config]" "[tiny_config]" "[tiny_config, other_config]" bare_env]
    by (simp add: recording_sel del: serve_requests.simps) blast
  moreover have "other_config \<noteq> tiny_config" by (simp add: other_config_def tiny_config_def)
  ultimately show ?thesis by (fastforce intro: reaches_refl reaches_step)
qed


end
