(* ===== verification/Event_Bus.thy ===== *)
theory Event_Bus
  imports Engine_State
begin

text \<open>
  The event bus, \<open>events/bus.rs\<close>, and the event stream that serves it over HTTP, \<open>api/sse.rs\<close>. The
  broadcast channel is a third-party type: its operations are the parameter \<open>broadcast\<close>. A
  timestamp is opaque (\<open>'t\<close>). The lemmas say which frame each received message becomes and when
  the stream ends; under the documented laws of the channel (\<open>broadcast_laws\<close>) a client's stream
  refines a bounded queue of its own (\<open>told\<close>), and no event goes missing without a warning.
\<close>

datatype link_activity = Link_active | Link_inactive

datatype contact_action = Contact_added | Contact_removed

record contact_summary =
  cs_source_node :: u64
  cs_dest_node :: u64
  cs_start_time :: i64
  cs_end_time :: i64

datatype 't dtn_event =
    LinkStateChange 't u64 string link_activity
  | ContactPlanChange 't contact_action contact_summary
  | EngineStateChange 't engine_state engine_state "string option"

text \<open>What \<open>try_recv\<close> answers.\<close>

datatype 'e received = Received 'e | Channel_empty | Channel_lagged u64 | Channel_closed

record ('e, 'c, 'r) broadcast =
  bc_channel :: "nat \<Rightarrow> 'c"
  bc_send :: "'c \<Rightarrow> 'e \<Rightarrow> (unit + nat) \<times> 'c"
  bc_subscribe :: "'c \<Rightarrow> 'r \<times> 'c"
  bc_try_recv :: "'c \<Rightarrow> 'r \<Rightarrow> 'e received \<times> 'r \<times> 'c"

section \<open>The bus\<close>

record 'c event_bus =
  eb_sender :: 'c

definition new_bus :: "('e, 'c, 'r) broadcast \<Rightarrow> nat \<Rightarrow> 'c event_bus" where
  "new_bus bc capacity = \<lparr>eb_sender = bc_channel bc capacity\<rparr>"

text \<open>The answer of \<open>send\<close> is ignored.\<close>

definition publish :: "('e, 'c, 'r) broadcast \<Rightarrow> 'c event_bus \<Rightarrow> 'e \<Rightarrow> 'c event_bus" where
  "publish bc bus event = bus\<lparr>eb_sender := snd (bc_send bc (eb_sender bus) event)\<rparr>"

definition subscribe :: "('e, 'c, 'r) broadcast \<Rightarrow> 'c event_bus \<Rightarrow> 'r \<times> 'c event_bus" where
  "subscribe bc bus = (case bc_subscribe bc (eb_sender bus) of (rx, c) \<Rightarrow> (rx, bus\<lparr>eb_sender := c\<rparr>))"

section \<open>The stream\<close>

record sse_frame =
  sf_event :: string
  sf_data :: string

datatype poll = Ready_frame sse_frame | Ready_end | Pending_woken

fun event_type :: "'t dtn_event \<Rightarrow> string" where
  "event_type (LinkStateChange _ _ _ _) = ''link_state_change''"
| "event_type (ContactPlanChange _ _ _) = ''contact_plan_change''"
| "event_type (EngineStateChange _ _ _ _) = ''engine_state_change''"

text \<open>The JSON encoder is a parameter; its failure is replaced by an empty object.\<close>

definition event_frame :: "('t dtn_event \<Rightarrow> string option) \<Rightarrow> 't dtn_event \<Rightarrow> sse_frame" where
  "event_frame to_json event = \<lparr>sf_event = event_type event, sf_data = unwrap_or ''{}'' (to_json event)\<rparr>"

definition lagged_frame :: "u64 \<Rightarrow> sse_frame" where
  "lagged_frame n = \<lparr>sf_event = ''warning'',
     sf_data = ''{'' @ [CHR 0x22] @ ''lagged_events'' @ [CHR 0x22] @ '': '' @ show_word n @ ''}''\<rparr>"

fun poll_of :: "('t dtn_event \<Rightarrow> string option) \<Rightarrow> 't dtn_event received \<Rightarrow> poll" where
  "poll_of to_json (Received event) = Ready_frame (event_frame to_json event)"
| "poll_of to_json Channel_empty = Pending_woken"
| "poll_of to_json (Channel_lagged n) = Ready_frame (lagged_frame n)"
| "poll_of to_json Channel_closed = Ready_end"

definition poll_next ::
  "('t dtn_event, 'c, 'r) broadcast \<Rightarrow> ('t dtn_event \<Rightarrow> string option) \<Rightarrow> 'r \<times> 'c \<Rightarrow> poll \<times> 'r \<times> 'c" where
  "poll_next bc to_json = (\<lambda>(rx, c). case bc_try_recv bc c rx of
     (msg, rx', c') \<Rightarrow> (poll_of to_json msg, rx', c'))"

text \<open>\<open>n\<close> polls of the executor, which stops at the end of the stream.\<close>

fun poll_many ::
  "nat \<Rightarrow> ('t dtn_event, 'c, 'r) broadcast \<Rightarrow> ('t dtn_event \<Rightarrow> string option) \<Rightarrow> 'r \<times> 'c \<Rightarrow> poll list" where
  "poll_many 0 bc to_json s = []"
| "poll_many (Suc n) bc to_json s =
     (case poll_next bc to_json s of
        (p, s') \<Rightarrow> p # (if p = Ready_end then [] else poll_many n bc to_json s'))"

text \<open>The messages those polls take from the channel.\<close>

fun messages :: "nat \<Rightarrow> ('e, 'c, 'r) broadcast \<Rightarrow> 'r \<times> 'c \<Rightarrow> 'e received list" where
  "messages 0 bc s = []"
| "messages (Suc n) bc s =
     (case bc_try_recv bc (snd s) (fst s) of
        (m, s') \<Rightarrow> m # (if m = Channel_closed then [] else messages n bc s'))"

lemma poll_of_end [simp]: "poll_of to_json m = Ready_end \<longleftrightarrow> m = Channel_closed"
  by (cases m) simp_all

lemma sse_stream_faithful:
  "poll_many n bc to_json s = map (poll_of to_json) (messages n bc s)"
  by (induction n arbitrary: s) (auto simp: poll_next_def split: prod.splits)

section \<open>Publishing while a client reads\<close>

text \<open>
  What the documentation of the broadcast channel says of one receiver, in terms of the events it
  has not seen: it starts with none, a sent event is added at the end, and \<open>try_recv\<close> takes the
  first, unless more than \<open>cap\<close> are waiting, when it reports how many were dropped to leave \<open>cap\<close>.
\<close>

definition broadcast_laws ::
  "('e, 'c, 'r) broadcast \<Rightarrow> nat \<Rightarrow> ('c \<Rightarrow> 'r \<Rightarrow> bool) \<Rightarrow> ('c \<Rightarrow> 'r \<Rightarrow> 'e list) \<Rightarrow> bool" where
  "broadcast_laws bc cap live unread \<longleftrightarrow>
     (\<forall>c rx c'. bc_subscribe bc c = (rx, c') \<longrightarrow> live c' rx \<and> unread c' rx = []) \<and>
     (\<forall>c rx e. live c rx \<longrightarrow> live (snd (bc_send bc c e)) rx
        \<and> unread (snd (bc_send bc c e)) rx = unread c rx @ [e]) \<and>
     (\<forall>c rx m rx' c'. live c rx \<longrightarrow> bc_try_recv bc c rx = (m, rx', c') \<longrightarrow> live c' rx' \<and>
        (let es = unread c rx; lost = length es - cap in
         if cap < length es then m = Channel_lagged (word_of_nat lost) \<and> unread c' rx' = drop lost es
         else (case es of [] \<Rightarrow> m = Channel_empty \<and> unread c' rx' = []
               | e # es' \<Rightarrow> m = Received e \<and> unread c' rx' = es')))"

text \<open>A client's stream, with the events that other tasks publish between its polls.\<close>

datatype 'e stream_op = Publish 'e | Poll

fun stream_run ::
  "('t dtn_event, 'c, 'r) broadcast \<Rightarrow> ('t dtn_event \<Rightarrow> string option) \<Rightarrow> 't dtn_event stream_op list
     \<Rightarrow> 'r \<times> 'c event_bus \<Rightarrow> poll list" where
  "stream_run bc to_json [] s = []"
| "stream_run bc to_json (Publish e # ops) s =
     stream_run bc to_json ops (fst s, publish bc (snd s) e)"
| "stream_run bc to_json (Poll # ops) s =
     (case poll_next bc to_json (fst s, eb_sender (snd s)) of
        (p, rx, c) \<Rightarrow> p # (if p = Ready_end then []
                          else stream_run bc to_json ops (rx, (snd s)\<lparr>eb_sender := c\<rparr>)))"

fun published :: "'e stream_op list \<Rightarrow> 'e list" where
  "published [] = []"
| "published (Publish e # ops) = e # published ops"
| "published (Poll # ops) = published ops"

lemma published_append [simp]: "published (ops @ qs) = published ops @ published qs"
  by (induction ops rule: published.induct) simp_all

lemma published_polls [simp]: "published (replicate n Poll) = []"
  by (induction n) simp_all

text \<open>
  Checking what a client was told against the events published: every message must account for
  the next event, or for as many of the next events as it says were lost. The rest is returned.
\<close>

fun replay :: "'e received list \<Rightarrow> 'e list \<Rightarrow> 'e list option" where
  "replay [] es = Some es"
| "replay (Received e # ms) es =
     (case es of [] \<Rightarrow> None | x # xs \<Rightarrow> if x = e then replay ms xs else None)"
| "replay (Channel_empty # ms) es = replay ms es"
| "replay (Channel_lagged n # ms) es =
     (if 0 < n \<and> unat n \<le> length es then replay ms (drop (unat n) es) else None)"
| "replay (Channel_closed # ms) es = None"

text \<open>The bounded queue that one client sees: the messages it is sent for a backlog \<open>es\<close>.\<close>

fun told :: "nat \<Rightarrow> 'e stream_op list \<Rightarrow> 'e list \<Rightarrow> 'e received list" where
  "told cap [] es = []"
| "told cap (Publish e # ops) es = told cap ops (es @ [e])"
| "told cap (Poll # ops) es =
     (if cap < length es
      then Channel_lagged (word_of_nat (length es - cap)) # told cap ops (drop (length es - cap) es)
      else case es of [] \<Rightarrow> Channel_empty # told cap ops []
           | e # es' \<Rightarrow> Received e # told cap ops es')"

lemma stream_refines_told:
  assumes laws: "broadcast_laws bc cap live unread"
  shows "live (eb_sender bus) rx \<Longrightarrow>
    stream_run bc to_json ops (rx, bus) = map (poll_of to_json) (told cap ops (unread (eb_sender bus) rx))"
proof (induction ops arbitrary: rx bus)
  case (Cons op ops)
  show ?case
  proof (cases op)
    case (Publish e)
    with Cons show ?thesis using laws by (simp add: broadcast_laws_def publish_def)
  next
    case Poll
    obtain m rx' c' where recv: "bc_try_recv bc (eb_sender bus) rx = (m, rx', c')"
      by (metis prod_cases3)
    note law = laws [unfolded broadcast_laws_def, THEN conjunct2, THEN conjunct2, rule_format,
        OF Cons.prems recv]
    with Cons.IH [of "bus\<lparr>eb_sender := c'\<rparr>" rx'] Poll recv show ?thesis
      by (cases "unread (eb_sender bus) rx")
        (auto simp: poll_next_def Let_def split: if_splits)
  qed
qed simp

lemma replay_lagged:
  assumes "0 < k" "k < 2 ^ 64" "k \<le> length es"
  shows "replay (Channel_lagged (word_of_nat k) # ms) es = replay ms (drop k es)"
proof -
  have k: "unat (word_of_nat k :: u64) = k" using assms(2) by (simp add: unat_of_nat)
  with assms(1) have "(word_of_nat k :: u64) \<noteq> 0" by force
  with k assms(3) show ?thesis by (simp add: word_greater_zero_iff)
qed

lemma told_polls:
  assumes "cap < n" "length es < 2 ^ 64"
  shows "replay (told cap (replicate n Poll) es) es = Some []"
proof -
  have short: "length es \<le> n \<Longrightarrow> length es \<le> cap \<Longrightarrow>
      replay (told cap (replicate n Poll) es) es = Some []" for n and es :: "'a list"
    by (induction n arbitrary: es) (auto split: list.split)
  obtain k where n: "n = Suc k" and k: "cap \<le> k" using assms(1) by (cases n) auto
  show ?thesis
  proof (cases "cap < length es")
    case True
    with short [of "drop (length es - cap) es" k] k assms(2) show ?thesis
      by (simp add: n replay_lagged del: replay.simps(4) of_nat_diff)
  next
    case False
    with short [of es n] assms(1) show ?thesis by simp
  qed
qed

lemma told_accounts:
  assumes "cap < n"
  shows "length (es @ published ops) < 2 ^ 64 \<Longrightarrow>
    replay (told cap (ops @ replicate n Poll) es) (es @ published ops) = Some []"
proof (induction ops arbitrary: es)
  case Nil
  then show ?case using told_polls [OF assms] by simp
next
  case (Cons op ops)
  show ?case
  proof (cases op)
    case (Publish e)
    with Cons.IH [of "es @ [e]"] Cons.prems show ?thesis by simp
  next
    case Poll
    consider "cap < length es" | "\<not> cap < length es" by blast
    then show ?thesis
    proof cases
      case 1
      with Cons.IH [of "drop (length es - cap) es"] Cons.prems Poll show ?thesis
        by (simp add: replay_lagged del: replay.simps(4) of_nat_diff)
    next
      case 2
      with Cons.IH [of "tl es"] Cons.prems Poll show ?thesis by (cases es) auto
    qed
  qed
qed

lemma told_keeps_up:
  assumes "cap < n"
  shows "length (es @ published ops) \<le> cap \<Longrightarrow>
    filter (\<lambda>m. m \<noteq> Channel_empty) (told cap (ops @ replicate n Poll) es)
      = map Received (es @ published ops)"
proof (induction ops arbitrary: es)
  case Nil
  have "length es \<le> n \<Longrightarrow> length es \<le> cap \<Longrightarrow>
      filter (\<lambda>m. m \<noteq> Channel_empty) (told cap (replicate n Poll) es) = map Received es" for n
    and es :: "'a list"
    by (induction n arbitrary: es) (auto split: list.split)
  with Nil assms show ?case by simp
next
  case (Cons op ops)
  show ?case
  proof (cases op)
    case (Publish e)
    with Cons.IH [of "es @ [e]"] Cons.prems show ?thesis by simp
  next
    case Poll
    with Cons.IH [of "tl es"] Cons.prems show ?thesis by (cases es) auto
  qed
qed

lemma poll_of_pending: "poll_of to_json m = Pending_woken \<longleftrightarrow> m = Channel_empty"
  by (cases m) simp_all

lemma frames_of_messages:
  "filter (\<lambda>p. p \<noteq> Pending_woken) (map (poll_of to_json) ms)
     = map (poll_of to_json) (filter (\<lambda>m. m \<noteq> Channel_empty) ms)"
  by (simp add: filter_map o_def poll_of_pending)

text \<open>
  C37: a client of the event stream is told of every event published after it subscribed, in
  order and once. However its polls and the publications interleave, once it has polled often
  enough after the last of them, each event has been delivered in its own frame or counted in a
  warning frame, none twice and none out of order; when no more events than the channel holds
  were published, there is no warning and the frames are those of the events. The hypotheses are
  the documented behaviour of the broadcast channel and fewer than 2 ^ 64 events.
\<close>

theorem sse_stream_complete:
  assumes "broadcast_laws bc cap live unread" "subscribe bc bus0 = (rx, bus)"
    and "cap < n" "length (published ops) < 2 ^ 64"
  shows "let polls = stream_run bc to_json (ops @ replicate n Poll) (rx, bus) in
    (\<exists>ms. polls = map (poll_of to_json) ms \<and> replay ms (published ops) = Some [])
    \<and> (length (published ops) \<le> cap \<longrightarrow>
         filter (\<lambda>p. p \<noteq> Pending_woken) polls
           = map (\<lambda>e. Ready_frame (event_frame to_json e)) (published ops))"
proof -
  have "live (eb_sender bus) rx" "unread (eb_sender bus) rx = []"
    using assms(1,2) by (auto simp: broadcast_laws_def subscribe_def split: prod.splits)
  with stream_refines_told [OF assms(1)]
  have polls: "stream_run bc to_json (ops @ replicate n Poll) (rx, bus)
      = map (poll_of to_json) (told cap (ops @ replicate n Poll) [])" by simp
  show ?thesis
    using told_accounts [OF assms(3), of "[]" ops] told_keeps_up [OF assms(3), of "[]" ops] assms(4)
    by (auto simp: Let_def polls frames_of_messages)
qed

text \<open>A channel that keeps every event, and for each receiver the number of those it has seen.\<close>

definition ring :: "nat \<Rightarrow> ('e, 'e list, nat) broadcast" where
  "ring cap = \<lparr>bc_channel = (\<lambda>_. []), bc_send = (\<lambda>c e. (Inr 1, c @ [e])),
     bc_subscribe = (\<lambda>c. (length c, c)),
     bc_try_recv = (\<lambda>c rx.
       if cap < length c - rx then (Channel_lagged (word_of_nat (length c - rx - cap)), length c - cap, c)
       else if rx < length c then (Received (c ! rx), Suc rx, c) else (Channel_empty, rx, c))\<rparr>"

lemma drop_head: "drop n xs = y # ys \<Longrightarrow> xs ! n = y \<and> drop (Suc n) xs = ys"
  by (metis drop_Suc list.sel(3) nth_via_drop tl_drop)

lemma ring_laws: "broadcast_laws (ring cap) cap (\<lambda>c rx. rx \<le> length c) (\<lambda>c rx. drop rx c)"
  by (auto simp: broadcast_laws_def ring_def Let_def split: if_splits list.split
      dest: drop_head)

definition link_event :: "u64 \<Rightarrow> unit dtn_event" where
  "link_event n = LinkStateChange () n ''ltp'' Link_active"

theorem sse_stream_complete_witness:
  "(\<exists>ms. stream_run (ring 1) (\<lambda>_. None) ([Poll, Publish (link_event 2), Publish (link_event 3)]
        @ replicate 2 Poll) (0, new_bus (ring 1) 1) = map (poll_of (\<lambda>_. None)) ms
      \<and> replay ms [link_event 2, link_event 3] = Some [])"
  using sse_stream_complete [of "ring 1" 1 _ _ "new_bus (ring 1) 1" 0 "new_bus (ring 1) 1" 2
      "[Poll, Publish (link_event 2), Publish (link_event 3)]" "\<lambda>_. None", OF ring_laws]
  by (simp add: subscribe_def ring_def new_bus_def)

end
