(* ===== verification/Radiant_Ion.thy ===== *)
theory Radiant_Ion
  imports Ion_Adapter Api_Routes Event_Bus
begin

text \<open>
  The command line program \<open>src/radiant-ion/src/main.rs\<close>: its five commands over the same operating
  system as the adapters, the text it prints, and its exit code. Reading the configuration file,
  the YAML library, the temporary directory, the socket and the HTTP server are the environment
  \<open>cli_env\<close>; log lines are not modelled. The lemmas run the start command from end to end, and say
  in which state the serve command leaves the management API.
\<close>

section \<open>The environment and the world of a command\<close>

record 'y cli_env =
  ce_os :: os
  ce_iter :: file_iteration
  ce_keys :: "(string \<rightharpoonup> string) \<Rightarrow> string list"
  ce_logs :: bool
  ce_temp_dir :: string
  ce_open :: "effect list \<Rightarrow> string \<Rightarrow> string + unit"
  ce_yaml :: "effect list \<Rightarrow> string \<Rightarrow> string + 'y network_configuration"
  ce_bind :: "u16 \<Rightarrow> string + unit"
  ce_served :: "string + unit"
  ce_api :: "('y, ion_world) api_env"

text \<open>An error that \<open>main\<close> reports, or a panic.\<close>

datatype cli_failure = Cli_error string | Cli_panic

text \<open>What has been printed, and the effects so far.\<close>

type_synonym cli_world = "string \<times> effect list"

type_synonym 'a cli_action = "(cli_failure, cli_world, 'a) action"

definition println :: "string \<Rightarrow> unit cli_action" where
  "println s = (\<lambda>(out, tr). (Inr (), (out @ s @ [LF], tr)))"

definition println_opt :: "string option \<Rightarrow> unit cli_action" where
  "println_opt s = (case s of None \<Rightarrow> act_return () | Some t \<Rightarrow> println t)"

text \<open>Operations of the library inside a command; \<open>lc\<close> is the local lifecycle manager.\<close>

definition labelled :: "string \<Rightarrow> abstraction_error \<Rightarrow> cli_failure" where
  "labelled what e = Cli_error (what @ display_error e)"

definition with_lifecycle ::
  "ion_lifecycle \<Rightarrow> (cli_failure, ion_lifecycle \<times> effect list, 'a) action \<Rightarrow> 'a cli_action" where
  "with_lifecycle lc m = (\<lambda>(out, tr). case m (lc, tr) of (r, (_, tr')) \<Rightarrow> (r, (out, tr')))"

definition or_panic :: "('e, 'w, 'a option) action \<Rightarrow> ('e \<Rightarrow> cli_failure) \<Rightarrow> (cli_failure, 'w, 'a) action" where
  "or_panic m f = act_bind (act_map_err f m) (\<lambda>r. case r of None \<Rightarrow> act_fail Cli_panic | Some a \<Rightarrow> act_return a)"

section \<open>Configuration files\<close>

definition load_config :: "'y cli_env \<Rightarrow> string \<Rightarrow> 'y network_configuration cli_action" where
  "load_config env path = (\<lambda>(out, tr).
     (case map_err (\<lambda>e. Cli_error (''Failed to open config file '' @ quoted path @ '': '' @ e)) (ce_open env tr path) of
        Inl e \<Rightarrow> Inl e
      | Inr _ \<Rightarrow> map_err (\<lambda>e. Cli_error (''Failed to parse YAML config '' @ quoted path @ '': '' @ e))
                   (ce_yaml env tr path),
      (out, tr)))"

definition temp_config_dir :: "'y cli_env \<Rightarrow> 'y network_configuration \<Rightarrow> string" where
  "temp_config_dir env config =
     path_join (ce_temp_dir env) (''radiant-ion-node'' @ show_word (nd_node_number (nc_local_node config)))"

definition generate_to_temp :: "'y cli_env \<Rightarrow> 'y network_configuration \<Rightarrow> string cli_action" where
  "generate_to_temp env config =
     (let temp_dir = temp_config_dir env config
      in act_then (act_on_snd (write_files (ce_os env) (ce_iter env)
             (\<lambda>e. Cli_error (''Failed to create temp config dir: '' @ e))
             (\<lambda>path e. Cli_error (''Failed to write temp config '' @ quoted path @ '': '' @ e))
             temp_dir (generate_ion_config config)))
           (act_return temp_dir))"

section \<open>The commands\<close>

definition listed_name :: "string \<Rightarrow> string" where
  "listed_name filename = ''  '' @ filename"

definition cmd_generate :: "'y cli_env \<Rightarrow> string \<Rightarrow> string \<Rightarrow> unit cli_action" where
  "cmd_generate env config_path output_dir =
     act_bind (load_config env config_path) (\<lambda>config.
     let generated = generate_ion_config config
     in act_then (act_on_snd (write_files (ce_os env) (ce_iter env)
            (\<lambda>e. Cli_error (''Failed to create output directory '' @ quoted output_dir @ '': '' @ e))
            (\<lambda>path e. Cli_error (''Failed to write '' @ quoted path @ '': '' @ e))
            output_dir generated))
       (act_then (println (''Generated '' @ show_nat (card (dom (gc_files generated)))
            @ '' ION config files in '' @ quoted output_dir @ '':''))
         (act_each (\<lambda>filename. println (listed_name filename)) (ce_keys env (gc_files generated)))))"

definition running_text :: "bool \<Rightarrow> string" where
  "running_text running = ''  Running: '' @ (if running then ''yes'' else ''no'')"

definition cmd_start :: "'y cli_env \<Rightarrow> string \<Rightarrow> unit cli_action" where
  "cmd_start env config_path =
     act_bind (load_config env config_path) (\<lambda>config.
     act_bind (generate_to_temp env config) (\<lambda>config_dir.
     act_bind (with_lifecycle (new_ion_lifecycle None)
        (act_then (act_map_err (labelled ''Failed to start ION: '') (ion_start (ce_os env) config_dir))
                  (act_map_err (labelled ''Failed to check ION health: '') (ion_health (ce_os env))))) (\<lambda>health.
     act_then (println ''ION started successfully.'')
    (act_then (println (running_text (hs_running health)))
              (println_opt (map_option (\<lambda>msg. ''  Status: '' @ msg) (hs_message health)))))))"

definition cmd_stop :: "'y cli_env \<Rightarrow> unit cli_action" where
  "cmd_stop env =
     act_then (with_lifecycle (new_ion_lifecycle None)
        (act_map_err (labelled ''Failed to stop ION: '') (ion_stop (ce_os env))))
       (println ''ION stopped.'')"

definition link_text :: "link_state \<Rightarrow> string" where
  "link_text l = ''  '' @ ls_link_id l @ '' (node '' @ show_word (ls_neighbor_node l) @ ''): ''
     @ (if ls_active l then ''ACTIVE'' else ''DOWN'')
     @ '' | TX: '' @ show_word (ls_bytes_sent l) @ '' bytes | RX: '' @ show_word (ls_bytes_received l) @ '' bytes''"

definition health_texts :: "health_status \<Rightarrow> string list" where
  "health_texts h =
     [''=== ION Health ==='', running_text (hs_running h)]
     @ (case hs_message h of None \<Rightarrow> [] | Some msg \<Rightarrow> [''  Message: '' @ msg])
     @ (case hs_uptime_secs h of None \<Rightarrow> [] | Some n \<Rightarrow> [''  Uptime:  '' @ show_word n @ ''s''])"

definition stats_texts :: "bundle_statistics \<Rightarrow> string list" where
  "stats_texts s =
     [LF # ''=== Bundle Statistics ==='',
      ''  Sourced:    '' @ show_word (bs_sourced s),
      ''  Forwarded:  '' @ show_word (bs_forwarded s),
      ''  Delivered:  '' @ show_word (bs_delivered s),
      ''  Expired:    '' @ show_word (bs_expired s),
      ''  Queued:     '' @ show_word (bs_queued s)]"

definition link_texts :: "link_state list \<Rightarrow> string list" where
  "link_texts links =
     (LF # ''=== Link States ==='')
     # (if links = [] then [''  No active links reported.''] else map link_text links)"

definition cmd_status :: "'y cli_env \<Rightarrow> unit cli_action" where
  "cmd_status env =
     (let telemetry = new_ion_telemetry None
      in act_bind (with_lifecycle (new_ion_lifecycle None)
           (act_map_err (labelled ''Failed to check ION health: '') (ion_health (ce_os env)))) (\<lambda>health.
         act_then (act_each println (health_texts health))
        (act_bind (act_on_snd (or_panic (ion_collect_stats (ce_logs env) (ce_os env) telemetry)
            (labelled ''Failed to collect stats: ''))) (\<lambda>stats.
         act_then (act_each println (stats_texts stats))
        (act_bind (act_on_snd (or_panic (ion_link_states (ce_logs env) (ce_os env) telemetry)
            (labelled ''Failed to get link states: ''))) (\<lambda>links.
         act_each println (link_texts links)))))))"

section \<open>The server\<close>

text \<open>The shared state that \<open>cmd_serve\<close> builds: the adapter registered, the configuration stored.\<close>

definition register_ion ::
  "'y cli_env \<Rightarrow> ('y, ion_world) backend_adapter adapter_registry cli_action" where
  "register_ion env w =
     (case register_adapter new_registry ''ion-dtn'' (ion_adapter (ce_logs env) (ce_os env) (ce_iter env) None) of
        (r, registry) \<Rightarrow>
          (map_err (labelled ''Failed to register ION adapter: '') (map_sum id (\<lambda>_. registry) r), w))"

definition serve_address :: "u16 \<Rightarrow> string" where
  "serve_address port = ''0.0.0.0:'' @ show_word port"

definition serve_setup ::
  "'y cli_env \<Rightarrow> ('e, 'c, 'r) broadcast \<Rightarrow> string \<Rightarrow> u16
     \<Rightarrow> (('y, ion_world, 'c event_bus) app_state) cli_action" where
  "serve_setup env bc config_path port =
     act_bind (load_config env config_path) (\<lambda>config.
     act_bind (generate_to_temp env config) (\<lambda>config_dir.
     act_then (with_lifecycle (new_ion_lifecycle None)
        (act_map_err (labelled ''Failed to start ION: '') (ion_start (ce_os env) config_dir)))
    (act_bind (register_ion env) (\<lambda>registry (out, tr).
     let state = (new_app_state registry (new_bus bc 256) (new_ion_world None tr))\<lparr>ap_config := Some config\<rparr>
     in act_then (act_lift (\<lambda>e. Cli_error (''Failed to bind to '' @ serve_address port @ '': '' @ e)) (ce_bind env port))
       (act_then (println (''radiant-ion serving on http://'' @ serve_address port))
       (act_then (println ''Press Ctrl+C to stop.'')
          (act_return state))) (out, tr)))))"

text \<open>The requests answered until the signal for shutdown, on the adapter's own world.\<close>

definition serve_http ::
  "'y cli_env \<Rightarrow> 'y api_request list \<Rightarrow> ('y, ion_world, 'c) app_state
     \<Rightarrow> (abstraction_error + 'y api_response) list cli_action" where
  "serve_http env reqs state = (\<lambda>(out, tr).
     case serve_requests (ce_api env) reqs state of
       (rs, state') \<Rightarrow> (Inr rs, (out, snd (ap_world state'))))"

definition serve_shutdown :: "'y cli_env \<Rightarrow> unit cli_action" where
  "serve_shutdown env =
     act_bind (with_lifecycle (new_ion_lifecycle None) (act_result (ion_stop (ce_os env)))) (\<lambda>_.
     println ''radiant-ion stopped.'')"

definition cmd_serve ::
  "'y cli_env \<Rightarrow> ('e, 'c, 'r) broadcast \<Rightarrow> 'y api_request list \<Rightarrow> string \<Rightarrow> u16 \<Rightarrow> unit cli_action" where
  "cmd_serve env bc reqs config_path port =
     act_bind (serve_setup env bc config_path port) (\<lambda>state.
     act_bind (serve_http env reqs state) (\<lambda>_.
     act_then (act_lift (\<lambda>e. Cli_error (''Server error: '' @ e)) (ce_served env))
       (serve_shutdown env)))"

section \<open>The program\<close>

datatype cli_command =
    Generate string string
  | Start string
  | Stop
  | Status
  | Serve string u16

text \<open>The requests \<open>reqs\<close> are those a server would receive.\<close>

fun run_command ::
  "'y cli_env \<Rightarrow> ('e, 'c, 'r) broadcast \<Rightarrow> 'y api_request list \<Rightarrow> cli_command \<Rightarrow> unit cli_action" where
  "run_command env bc reqs (Generate config output_dir) = cmd_generate env config output_dir"
| "run_command env bc reqs (Start config) = cmd_start env config"
| "run_command env bc reqs Stop = cmd_stop env"
| "run_command env bc reqs Status = cmd_status env"
| "run_command env bc reqs (Serve config port) = cmd_serve env bc reqs config port"

fun exit_code :: "cli_failure + unit \<Rightarrow> nat" where
  "exit_code (Inr _) = 0"
| "exit_code (Inl (Cli_error _)) = 1"
| "exit_code (Inl Cli_panic) = 101"

section \<open>Running the pieces\<close>

lemma println_run [act_simps]: "println s (out, tr) = (Inr (), (out @ render [s], tr))"
  by (simp add: println_def)

lemma println_each: "act_each println ls (out, tr) = (Inr (), (out @ render ls, tr))"
  by (induction ls arbitrary: out) (simp_all add: act_then_def act_bind_def println_def)

lemma load_config_run:
  "ce_open env tr path = Inr () \<Longrightarrow> ce_yaml env tr path = Inr c \<Longrightarrow> load_config env path (out, tr) = (Inr c, (out, tr))"
  by (simp add: load_config_def)

lemma generate_to_temp_run:
  "writes_work (ce_os env) \<Longrightarrow> generate_to_temp env c (out, tr) =
     (Inr (temp_config_dir env c),
      (out, tr @ write_effects (temp_config_dir env c) (ce_iter env (gc_files (generate_ion_config c)))))"
  by (simp add: generate_to_temp_def Let_def act_then_def act_bind_def act_on_snd_run write_files_ok)

lemma temp_config_dir_nonempty: "temp_config_dir env c \<noteq> []"
  by (simp add: temp_config_dir_def path_join_def)

text \<open>The file system and the admin tools do their part.\<close>

definition start_conditions :: "'y cli_env \<Rightarrow> 'y network_configuration \<Rightarrow> bool" where
  "start_conditions env c \<longleftrightarrow>
     writes_work (ce_os env) \<and> map_iteration (ce_iter env) \<and> admin_scripts_run (ce_os env)
     \<and> directory_lists_written (ce_os env) (temp_config_dir env c)"

definition started_in :: "string \<Rightarrow> ion_lifecycle" where
  "started_in d = \<lparr>il_bin_dir = None, il_config_dir = Some d\<rparr>"

text \<open>The effects of writing the scripts to the temporary directory and of starting ION from it.\<close>

definition start_effects :: "'y cli_env \<Rightarrow> 'y network_configuration \<Rightarrow> effect list" where
  "start_effects env c =
     (let d = temp_config_dir env c
      in write_effects d (ce_iter env (gc_files (generate_ion_config c)))
         @ four_listings d @ ion_script_runs (started_in d) d c)"

lemma start_from_temp:
  assumes "start_conditions env c"
  shows "ion_start (ce_os env) (temp_config_dir env c)
       (new_ion_lifecycle None, write_effects (temp_config_dir env c) (ce_iter env (gc_files (generate_ion_config c))))
     = (Inr (), (started_in (temp_config_dir env c), start_effects env c))"
proof -
  let ?d = "temp_config_dir env c"
  let ?tr = "write_effects ?d (ce_iter env (gc_files (generate_ion_config c)))"
  have conds: "writes_work (ce_os env)" "map_iteration (ce_iter env)" "admin_scripts_run (ce_os env)"
    "directory_lists_written (ce_os env) ?d"
    using assms by (simp_all add: start_conditions_def)
  have "written ([] @ ?tr) (path_join ?d n) = gc_files (generate_ion_config c) n" if "entry_name n" for n
    by (rule ion_deployed_content [OF conds(1,2) temp_config_dir_nonempty entry_name_plain [OF that]]) simp
  then have "written ?tr (path_join ?d n) \<noteq> None \<longleftrightarrow> n \<in> set (ion_file_names c)" if "entry_name n" for n
    using that ion_files_value [of c n] by simp
  from ion_start_tools_finds [OF conds(4,3) this] show ?thesis
    by (simp add: ion_start_run new_ion_lifecycle_def started_in_def start_effects_def Let_def)
qed

lemma ion_health_run:
  "ion_health os (self, tr) = (fst (ion_health_tools os self tr), (self, snd (ion_health_tools os self tr)))"
  by (simp add: ion_health_def act_on_snd_run)

section \<open>Generate and start\<close>

text \<open>
  C20: the generate command, when files can be written, announces four files, lists the names, and leaves
  exactly the four generated scripts in the output directory.
\<close>

theorem cli_generate_writes:
  assumes "ce_open env tr path = Inr ()" and "ce_yaml env tr path = Inr c"
    and "writes_work (ce_os env)" and "map_iteration (ce_iter env)" and "dir \<noteq> []"
    and "\<And>n. plain_name n \<Longrightarrow> written tr (path_join dir n) = None"
  shows "\<exists>tr'. cmd_generate env path dir (out, tr) =
       (Inr (), (out @ render ((''Generated 4 ION config files in '' @ quoted dir @ '':'')
          # map listed_name (ce_keys env (gc_files (generate_ion_config c)))), tr'))
     \<and> (\<forall>n. plain_name n \<longrightarrow> written tr' (path_join dir n) = gc_files (generate_ion_config c) n)"
proof -
  let ?g = "generate_ion_config c"
  let ?tr' = "tr @ write_effects dir (ce_iter env (gc_files ?g))"
  have each: "act_each (\<lambda>f. println (listed_name f)) fs (o', t) = (Inr (), (o' @ render (map listed_name fs), t))"
    for fs o' t
    by (induction fs arbitrary: o') (simp_all add: act_then_def act_bind_def println_def)
  have "show_nat (card (dom (gc_files ?g))) = ''4''"
    by (simp add: ion_gen.file_count ion_file_names_def show_nat.simps char_tests digit_char_def)
  then have "cmd_generate env path dir (out, tr) =
       (Inr (), (out @ render ((''Generated 4 ION config files in '' @ quoted dir @ '':'')
          # map listed_name (ce_keys env (gc_files ?g))), ?tr'))"
    by (simp add: cmd_generate_def Let_def act_bind_def act_then_def load_config_run [OF assms(1,2)]
        act_on_snd_run write_files_ok [OF assms(3)] println_run each)
  moreover have "written ?tr' (path_join dir n) = gc_files ?g n" if "plain_name n" for n
    by (rule ion_deployed_content [OF assms(3,4,5) that assms(6) [OF that]])
  ultimately show ?thesis by blast
qed

text \<open>
  C4: the start command, when the configuration loads, files can be written, directories list what was
  written and the admin tools run, starts ION from the scripts generated for this configuration:
  it writes them, runs the four tools on them in order, asks for the health, and prints it.
\<close>

theorem cli_start_runs:
  assumes "ce_open env [] path = Inr ()" and "ce_yaml env [] path = Inr c" and "start_conditions env c"
  shows "\<exists>h tr'. ion_health_tools (ce_os env) (started_in (temp_config_dir env c)) (start_effects env c) = (Inr h, tr')
    \<and> cmd_start env path (out, []) =
        (Inr (), (out @ render ([''ION started successfully.'', running_text (hs_running h)]
           @ (case hs_message h of None \<Rightarrow> [] | Some msg \<Rightarrow> [''  Status: '' @ msg])), tr'))"
proof -
  obtain h tr' where h: "ion_health_tools (ce_os env) (started_in (temp_config_dir env c)) (start_effects env c) = (Inr h, tr')"
    using ion_health_tools_total by blast
  have "writes_work (ce_os env)" using assms(3) by (simp add: start_conditions_def)
  from load_config_run [OF assms(1,2)] generate_to_temp_run [OF this] start_from_temp [OF assms(3)] h
  show ?thesis
    by (simp add: cmd_start_def act_bind_def act_then_def with_lifecycle_def act_map_err_run
        ion_health_run println_run println_opt_def split: option.split)
qed

text \<open>An environment whose disk is \<open>disk_os\<close> and whose only configuration is \<open>ground_config\<close>.\<close>

definition disk_env :: "string cli_env" where
  "disk_env = \<lparr>ce_os = disk_os, ce_iter = sorted_iteration, ce_keys = (\<lambda>m. map fst (sorted_iteration m)),
     ce_logs = True, ce_temp_dir = ''/tmp'', ce_open = (\<lambda>_ _. Inr ()), ce_yaml = (\<lambda>_ _. Inr ground_config),
     ce_bind = (\<lambda>_. Inr ()), ce_served = Inr (), ce_api = bare_env\<rparr>"

lemma disk_env_sel [simp]:
  "ce_os disk_env = disk_os" "ce_iter disk_env = sorted_iteration"
  "ce_open disk_env tr path = Inr ()" "ce_yaml disk_env tr path = Inr ground_config"
  "ce_bind disk_env port = Inr ()" "ce_served disk_env = Inr ()" "ce_logs disk_env"
  by (simp_all add: disk_env_def)

lemma temp_config_dir_last: "last (temp_config_dir env c) \<noteq> CHR ''/''"
proof -
  have "last (show_word (nd_node_number (nc_local_node c))) \<noteq> CHR ''/''"
    using in_show_word_digit [of "CHR ''/''" "nd_node_number (nc_local_node c)"]
      last_in_set [of "show_word (nd_node_number (nc_local_node c))"] by (force simp: char_tests)
  then show ?thesis by (simp add: temp_config_dir_def path_join_def)
qed

lemma disk_env_starts: "start_conditions disk_env c"
  using disk_os_lists [OF temp_config_dir_nonempty temp_config_dir_last, of disk_env c]
  by (simp add: start_conditions_def disk_os_works sorted_iteration_ok)

theorem cli_generate_writes_witness:
  "\<exists>out tr. cmd_generate disk_env ''net.yaml'' ''out'' ([], []) = (Inr (), (out, tr))
     \<and> written tr (path_join ''out'' (ion_file ground_config ''ionrc'')) = Some (generate_ionrc ground_config)"
proof -
  have entry: "plain_name (ion_file ground_config ''ionrc'')"
    by (rule entry_name_plain [OF ion_file_entry]) simp
  have val: "gc_files (generate_ion_config ground_config) (ion_file ground_config ''ionrc'')
      = Some (generate_ionrc ground_config)"
    by (simp add: generate_ion_config_def)
  from cli_generate_writes [of disk_env "[]" "''net.yaml''" ground_config "''out''" "[]"] entry val show ?thesis
    by (fastforce simp: disk_os_works sorted_iteration_ok)
qed

theorem cli_start_runs_witness:
  "\<exists>out tr. cmd_start disk_env ''net.yaml'' ([], []) = (Inr (), (out, tr))"
  using cli_start_runs [of disk_env "''net.yaml''" ground_config "[]"] disk_env_starts by auto

section \<open>Status\<close>

definition ascii_tools :: "os \<Rightarrow> bool" where
  "ascii_tools os \<longleftrightarrow> (\<forall>tr c p. os_output os tr c = Inr p \<longrightarrow>
     list_all is_ascii (po_stdout p) \<and> list_all is_ascii (po_stderr p))"

lemma ascii_tools_report:
  "ascii_tools os \<Longrightarrow> os_output os tr c = Inr p \<Longrightarrow> list_all is_ascii (po_stdout p @ [LF] @ po_stderr p)"
proof -
  assume "ascii_tools os" and "os_output os tr c = Inr p"
  then have "list_all is_ascii (po_stdout p)" "list_all is_ascii (po_stderr p)"
    unfolding ascii_tools_def by blast+
  then show ?thesis by (simp add: is_ascii_def code_of_def)
qed

lemma ion_collect_stats_total:
  "\<exists>r tr'. ion_collect_stats logs os t tr = (Inr r, tr') \<and> (ascii_tools os \<longrightarrow> r \<noteq> None)"
proof -
  let ?a = "stats_answer logs (os_output os tr (telemetry_command t ''bpstats'' []))"
  have "?a \<noteq> None" if "ascii_tools os"
    using ascii_tools_report [OF that] by (auto simp: stats_answer_def bpstats_ascii split: sum.split)
  then show ?thesis
    by (cases ?a)
      (auto simp: ion_collect_stats_def run_bpstats_def run_bplist_count_def act_bind_def run_output_run
        stats_answer_def)
qed

lemma ion_link_states_total:
  "\<exists>r tr'. ion_link_states logs os t tr = (Inr r, tr') \<and> (ascii_tools os \<longrightarrow> r \<noteq> None)"
  by (auto simp: ion_link_states_def run_ltpinfo_def run_ltpadmin_list_spans_def act_bind_def run_output_run
      ascii_tools_def ltpinfo_ascii split: sum.split)

text \<open>
  the status command reports no error whatever the tools do, running or not, installed or not: it
  ends well, or with the panic of a preview, which tools that print ASCII cannot cause.
\<close>

theorem cli_status_total:
  "(fst (cmd_status env w) = Inr () \<or> fst (cmd_status env w) = Inl Cli_panic)
   \<and> (ascii_tools (ce_os env) \<longrightarrow> fst (cmd_status env w) = Inr ())"
proof -
  obtain out tr where w: "w = (out, tr)" by fastforce
  let ?t = "new_ion_telemetry None"
  obtain h tr1 where h: "ion_health_tools (ce_os env) (new_ion_lifecycle None) tr = (Inr h, tr1)"
    using ion_health_tools_total by blast
  obtain r tr2 where r: "(ion_collect_stats (ce_logs env) (ce_os env) ?t :: (abstraction_error, _, _) action) tr1 = (Inr r, tr2)"
    and "ascii_tools (ce_os env) \<longrightarrow> r \<noteq> None" using ion_collect_stats_total by blast
  moreover obtain l tr3 where l: "(ion_link_states (ce_logs env) (ce_os env) ?t :: (abstraction_error, _, _) action) tr2 = (Inr l, tr3)"
    and "ascii_tools (ce_os env) \<longrightarrow> l \<noteq> None" using ion_link_states_total by blast
  ultimately show ?thesis
    by (cases r; cases l)
      (simp_all add: w cmd_status_def Let_def act_bind_def act_then_def with_lifecycle_def act_map_err_run
        ion_health_run act_on_snd_run or_panic_def println_each h)
qed

lemma quiet_os_ascii: "ascii_tools quiet_os"
  by (simp add: ascii_tools_def quiet_os_def quiet_output_def)

theorem cli_status_total_witness:
  "fst (cmd_status (disk_env\<lparr>ce_os := quiet_os\<rparr>) ([], [])) = Inr ()"
  using cli_status_total [of "disk_env\<lparr>ce_os := quiet_os\<rparr>" "([], [])"] quiet_os_ascii by simp

section \<open>Serve\<close>

text \<open>The shared state that the server starts from, over the effects so far.\<close>

definition served_state ::
  "'y cli_env \<Rightarrow> ('e, 'c, 'r) broadcast \<Rightarrow> 'y network_configuration \<Rightarrow> effect list
     \<Rightarrow> ('y, ion_world, 'c event_bus) app_state" where
  "served_state env bc c tr =
     \<lparr>ap_registry = \<lparr>ar_adapters = [''ion-dtn'' \<mapsto> ion_adapter (ce_logs env) (ce_os env) (ce_iter env) None]\<rparr>,
      ap_config = Some c, ap_event_bus = new_bus bc 256, ap_machine = new_machine,
      ap_world = (new_ion_lifecycle None, tr)\<rparr>"

lemma served_state_sel [simp]:
  "ap_config (served_state env bc c tr) = Some c" "ap_machine (served_state env bc c tr) = new_machine"
  "ap_world (served_state env bc c tr) = (new_ion_lifecycle None, tr)"
  "get_adapter (ap_registry (served_state env bc c tr)) ''ion-dtn''
     = Inr (ion_adapter (ce_logs env) (ce_os env) (ce_iter env) None)"
  by (simp_all add: served_state_def get_adapter_def)

lemma serve_setup_state:
  assumes "serve_setup env bc path port (out, tr) = (Inr st, w)"
  obtains c where "ce_yaml env tr path = Inr c" and "st = served_state env bc c (snd w)"
proof -
  obtain c where c: "load_config env path (out, tr) = (Inr c, (out, tr))" and y: "ce_yaml env tr path = Inr c"
    using assms unfolding serve_setup_def load_config_def
    by (auto elim!: act_bind_cases split: sum.splits simp: map_err_def)
  have "st = served_state env bc c (snd w)"
    using assms c
    by (auto simp: serve_setup_def act_bind_def act_then_def register_ion_def register_adapter_def new_registry_def
        Let_def act_lift_def println_def new_app_state_def new_ion_world_def served_state_def id_def
        split: prod.splits sum.splits)
  with y that show thesis by blast
qed

lemma serve_setup_run:
  assumes "ce_open env [] path = Inr ()" and "ce_yaml env [] path = Inr c" and "start_conditions env c"
  shows "serve_setup env bc path port (out, []) =
    (case ce_bind env port of
       Inl e \<Rightarrow> (Inl (Cli_error (''Failed to bind to '' @ serve_address port @ '': '' @ e)), (out, start_effects env c))
     | Inr _ \<Rightarrow> (Inr (served_state env bc c (start_effects env c)),
         (out @ render [''radiant-ion serving on http://'' @ serve_address port, ''Press Ctrl+C to stop.''],
          start_effects env c)))"
proof -
  have "writes_work (ce_os env)" using assms(3) by (simp add: start_conditions_def)
  from load_config_run [OF assms(1,2)] generate_to_temp_run [OF this] start_from_temp [OF assms(3)]
  show ?thesis
    by (simp add: serve_setup_def act_bind_def act_then_def with_lifecycle_def act_map_err_run
        register_ion_def register_adapter_def new_registry_def Let_def act_lift_def println_def
        new_app_state_def new_ion_world_def served_state_def split: sum.split)
qed

lemma ion_start_lists_nothing:
  assumes "directory_lists_written os d" and "\<And>n. entry_name n \<Longrightarrow> written tr (path_join d n) = None"
  shows "\<exists>e. ion_start os d (self, tr) = (Inl e, (self\<lparr>il_config_dir := Some d\<rparr>, tr @ [Read_dir d]))
    \<and> ae_category e = LifecycleError"
proof -
  obtain es where es: "os_read_dir os tr d = Inr (map Inr es)"
    and "\<forall>n. n \<in> set es \<longleftrightarrow> entry_name n \<and> written tr (path_join d n) \<noteq> None"
    using assms(1) unfolding directory_lists_written_def by blast
  with assms(2) have "es = []" by (metis list.set_intros(1) neq_Nil_conv)
  with es show ?thesis
    by (simp add: ion_start_run ion_start_tools_def find_config_file_def act_bind_def perform_run act_lift_def
        ion_lifecycle_error_def)
qed

text \<open>The effects of setting up the server: the scripts are written, then ION is started from them.\<close>

definition temp_writes :: "'y cli_env \<Rightarrow> 'y network_configuration \<Rightarrow> effect set" where
  "temp_writes env c = insert (Create_dir_all (temp_config_dir env c))
     ((\<lambda>(k, v). Write_file (path_join (temp_config_dir env c) k) v) ` set (ce_iter env (gc_files (generate_ion_config c))))"

lemma generate_to_temp_effects:
  assumes "generate_to_temp env c (out, tr) = (r, (out', tr'))"
  shows "\<exists>es. tr' = tr @ es \<and> set es \<subseteq> temp_writes env c"
proof -
  let ?de = "\<lambda>e. Cli_error (''Failed to create temp config dir: '' @ e)"
  let ?fe = "\<lambda>path e. Cli_error (''Failed to write temp config '' @ quoted path @ '': '' @ e)"
  let ?m = "write_files (ce_os env) (ce_iter env) ?de ?fe (temp_config_dir env c) (generate_ion_config c)"
  have "snd (?m tr) = tr'"
    using assms by (auto simp: generate_to_temp_def Let_def act_then_def act_bind_def act_on_snd_run
        split: prod.splits sum.splits)
  then have "?m tr = (fst (?m tr), tr')" by (simp add: prod_eq_iff)
  from does_onlyD [OF write_files_does_only this] show ?thesis unfolding temp_writes_def .
qed

lemma serve_setup_effects:
  assumes "serve_setup env bc path port (out, tr) = (Inr st, w)" and "ce_yaml env tr path = Inr c"
  shows "\<exists>ws es. snd w = tr @ ws @ es \<and> set ws \<subseteq> temp_writes env c \<and> set es \<subseteq> start_kinds
    \<and> tools_run (ce_os env) (tr @ ws) (ion_tools (new_ion_lifecycle None)) es (Inr () :: abstraction_error + unit)"
proof -
  have "load_config env path (out, tr) = (Inr c, (out, tr))"
    using assms unfolding serve_setup_def load_config_def
    by (auto elim!: act_bind_cases split: sum.splits simp: map_err_def)
  with assms(1) obtain d out1 tr1 where gen: "generate_to_temp env c (out, tr) = (Inr d, (out1, tr1))"
    and start: "fst (ion_start (ce_os env) d (new_ion_lifecycle None, tr1)) = Inr ()"
    and w: "snd w = snd (snd (ion_start (ce_os env) d (new_ion_lifecycle None, tr1)))"
    by (auto simp: serve_setup_def act_bind_def act_then_def register_ion_def register_adapter_def new_registry_def
        with_lifecycle_def act_map_err_run Let_def act_lift_def println_def map_err_def split: prod.splits sum.splits)
  let ?lc = "(new_ion_lifecycle None)\<lparr>il_config_dir := Some d\<rparr>"
  obtain ws where ws: "tr1 = tr @ ws" "set ws \<subseteq> temp_writes env c" using generate_to_temp_effects [OF gen] by blast
  have run: "ion_start_tools (ce_os env) ?lc d tr1 = (Inr (), snd w)"
    using start w by (simp add: ion_start_run) (metis prod.collapse)
  from ion_start_tools_run [OF run] obtain es where es: "snd w = tr1 @ es"
    and tools: "tools_run (ce_os env) tr1 (ion_tools ?lc) es (Inr () :: abstraction_error + unit)" by blast
  moreover have "set es \<subseteq> start_kinds" using does_onlyD [OF ion_start_tools_does_only run] es by auto
  ultimately show ?thesis using ws by (simp add: ion_tools_def) blast
qed

lemma no_start_in_writes:
  assumes "set ws \<subseteq> temp_writes env c"
  shows "spawned ws = []" and "Spawn k \<notin> set ws"
proof -
  have "spawned_program e = None" if "e \<in> set ws" for e
    using that assms by (auto simp: temp_writes_def)
  then show "spawned ws = []" by (auto simp: spawned_def map_filter_def filter_empty_conv)
  show "Spawn k \<notin> set ws" using assms by (auto simp: temp_writes_def)
qed

text \<open>
  C18: the server starts ION before the API: when it comes up, the four admin tools have been run, in
  order, each with success, and neither ionstop nor any other program has run. Yet the API's state
  machine says Stopped, and a stop request is refused without any effect: as an illegal transition
  from Stopped when the configuration is one for ION (backend \<open>ion-dtn\<close>), and because there is no such
  adapter when it names another backend, which \<open>serve\<close> does not look at. The configuration that the API works with
  is the one that was loaded, checked by nobody.
\<close>

theorem serve_starts_stopped:
  assumes "serve_setup env bc path port (out, tr) = (Inr st, w)"
  shows "\<exists>c es. snd (ap_world st) = tr @ es
    \<and> spawned es = [''ionadmin'', ''ltpadmin'', ''bpadmin'', ''ipnadmin'']
    \<and> (\<forall>pre k post. es = pre @ Spawn k # post \<longrightarrow> tool_succeeds (ce_os env) (tr @ pre) k)
    \<and> ce_yaml env tr path = Inr c \<and> ap_config st = Some c \<and> sm_state (ap_machine st) = Stopped
    \<and> handle api Post_lifecycle_stop st =
        (Inl (if nc_backend c = ''ion-dtn'' then illegal_transition Stopped Stopping
              else adapter_not_found (nc_backend c)), st)"
proof -
  obtain c where y: "ce_yaml env tr path = Inr c" and st: "st = served_state env bc c (snd w)"
    using serve_setup_state [OF assms] .
  obtain ws es where w: "snd w = tr @ ws @ es" and ws: "set ws \<subseteq> temp_writes env c"
    and "tools_run (ce_os env) (tr @ ws) (ion_tools (new_ion_lifecycle None)) es (Inr () :: abstraction_error + unit)"
    using serve_setup_effects [OF assms y] by blast
  from tools_run_skip [OF this(3) no_start_in_writes [OF ws]]
  have run: "tools_run (ce_os env) tr (ion_tools (new_ion_lifecycle None)) (ws @ es) (Inr () :: abstraction_error + unit)" .
  then have "spawned (ws @ es) = [''ionadmin'', ''ltpadmin'', ''bpadmin'', ''ipnadmin'']"
    and "\<And>pre k post. ws @ es = pre @ Spawn k # post \<Longrightarrow> tool_succeeds (ce_os env) (tr @ pre) k"
    unfolding tools_run_def ion_tools_def new_ion_lifecycle_def by (auto simp: ion_bin_path_def)
  moreover have "handle api Post_lifecycle_stop st =
        (Inl (if nc_backend c = ''ion-dtn'' then illegal_transition Stopped Stopping
              else adapter_not_found (nc_backend c)), st)"
    by (simp add: st answer_def act_bind_def act_then_def post_lifecycle_stop_def stop_begin_def
        stored_adapter_def lookup_adapter_def machine_to_err new_machine_def served_state_def get_adapter_def)
  moreover have "snd (ap_world st) = tr @ ws @ es" "ap_config st = Some c" "sm_state (ap_machine st) = Stopped"
    by (simp_all add: st w new_machine_def)
  ultimately show ?thesis using y by blast
qed

lemma split_at_last_slash:
  assumes "d @ CHR ''/'' # n = d' @ CHR ''/'' # n'" and "CHR ''/'' \<notin> set n" and "CHR ''/'' \<notin> set n'"
  shows "d = d'"
  using assms by (auto simp: append_eq_append_conv2 Cons_eq_append_conv append_eq_Cons_conv)

lemma temp_writes_not_deploy:
  assumes "map_iteration (ce_iter env)" and "entry_name n" and "set ws \<subseteq> temp_writes env c"
  shows "written ws (path_join deploy_dir n) = None"
proof (rule ccontr)
  let ?files = "gc_files (generate_ion_config c)" and ?d = "temp_config_dir env c"
  assume "written ws (path_join deploy_dir n) \<noteq> None"
  then obtain m v where m: "path_join deploy_dir n = path_join ?d m" and "(m, v) \<in> set (ce_iter env ?files)"
    using assms(3) unfolding written_iff temp_writes_def by (auto elim!: written_path.elims split: prod.splits)
  then have "?files m = Some v" using assms(1) ion_gen.finite_files [of c] unfolding map_iteration_def by blast
  then have "m \<in> set (ion_file_names c)" using ion_files_value [of c m] by simp
  then have m_entry: "entry_name m" by (auto simp: ion_file_names_def intro!: ion_file_entry)
  have "path_join deploy_dir n = deploy_dir @ CHR ''/'' # n"
    using assms(2) by (cases n) (auto simp: path_join_def entry_name_def deploy_dir_def)
  moreover have "path_join ?d m = ?d @ CHR ''/'' # m"
    using m_entry temp_config_dir_nonempty [of env c] temp_config_dir_last [of env c]
    by (cases m) (auto simp: path_join_def entry_name_def)
  ultimately have "deploy_dir = ?d"
    using m assms(2) m_entry split_at_last_slash [of deploy_dir n ?d m] by (simp add: entry_name_def)
  moreover have "last ?d \<in> set (show_word (nd_node_number (nc_local_node c)))"
    by (simp add: temp_config_dir_def path_join_def)
  moreover have "last deploy_dir = CHR ''g''" by (simp add: deploy_dir_def)
  ultimately have "CHR ''g'' \<in> set (show_word (nd_node_number (nc_local_node c)))" by metis
  from in_show_word_digit [OF this] show False by (simp add: char_tests)
qed

text \<open>
  C19: a restart request to the server of a configuration for ION stops the running engine and cannot
  start it again: the scripts are looked for in the deployment directory, and the server has written
  them elsewhere. The answer is a lifecycle error, with status 500; ionstop has run, and no admin tool
  after it. This is so whenever ionstop runs and exits with 0, and the deployment directory can be
  listed and holds nothing but what this process has written there, which before the first
  deployment is nothing.
\<close>

theorem serve_restart_stops_engine:
  assumes "serve_setup env bc path port (out, []) = (Inr st, w)" and "ce_yaml env [] path = Inr c"
    and "nc_backend c = ''ion-dtn''" and "map_iteration (ce_iter env)"
    and "directory_lists_written (ce_os env) deploy_dir"
    and "os_output (ce_os env) (snd w) (plain_command ''ionstop'' []) = Inr p" and "po_success p"
  shows "\<exists>e st'. handle api Post_lifecycle_restart st = (Inl e, st')
    \<and> ae_category e = LifecycleError \<and> error_to_status e = 500
    \<and> snd (ap_world st') = snd w @ [Output (plain_command ''ionstop'' []), Sleep_millis 500, Read_dir deploy_dir]"
proof -
  let ?lc = "new_ion_lifecycle None"
  let ?tr = "snd w @ [Output (plain_command ''ionstop'' []), Sleep_millis 500]"
  have st: "st = served_state env bc c (snd w)" using serve_setup_state [OF assms(1)] assms(2) by fastforce
  have "ion_stop (ce_os env) (?lc, snd w) = (Inr (), (?lc, snd w @ [Output (plain_command ''ionstop'' [])]))"
    using assms(6,7)
    by (simp add: ion_stop_run ion_stop_tools_def new_ion_lifecycle_def ion_bin_path_def act_bind_def
        run_output_run act_lift_def)
  then have restart: "ion_restart (ce_os env) deploy_dir (?lc, snd w) = ion_start (ce_os env) deploy_dir (?lc, ?tr)"
    by (simp add: ion_life.restart_after_stop)
  obtain ws es where w: "snd w = ws @ es" "set ws \<subseteq> temp_writes env c" "set es \<subseteq> start_kinds"
    using serve_setup_effects [OF assms(1,2)] by auto
  have "list_all (\<lambda>e. \<forall>q s. e \<noteq> Write_file q s) (es @ [Output (plain_command ''ionstop'' []), Sleep_millis 500])"
    using w(3) by (auto simp: list_all_iff start_kinds_def)
  from written_no_write [OF this, of ws]
  have "written ?tr (path_join deploy_dir n) = None" if "entry_name n" for n
    using temp_writes_not_deploy [OF assms(4) that w(2)] by (simp add: w(1))
  from ion_start_lists_nothing [OF assms(5) this] obtain e where
    "ion_start (ce_os env) deploy_dir (?lc, ?tr) = (Inl e, (?lc\<lparr>il_config_dir := Some deploy_dir\<rparr>, ?tr @ [Read_dir deploy_dir]))"
    and "ae_category e = LifecycleError" by blast
  moreover from this(2) have "error_to_status e = 500" by (simp add: error_to_status_def)
  ultimately show ?thesis
    using restart assms(3)
    by (simp add: st answer_def act_bind_def act_then_def post_lifecycle_restart_def stored_adapter_def
        lookup_adapter_def on_world_def)
qed

lemma no_program_writes: "spawned (map (\<lambda>(k, v). Write_file (path_join d k) v) kvs) = []"
  by (induction kvs) auto

text \<open>
  when the port cannot be bound, the serve command ends with an error after it has started ION, and
  does not stop it: the only programs it has run are the four that start the engine.
\<close>

theorem serve_bind_failure_leaves_engine:
  assumes "ce_open env [] path = Inr ()" and "ce_yaml env [] path = Inr c" and "start_conditions env c"
    and "ce_bind env port = Inl e"
  shows "\<exists>msg. cmd_serve env bc reqs path port (out, []) = (Inl (Cli_error msg), (out, start_effects env c))
    \<and> spawned (start_effects env c) = [''ionadmin'', ''ltpadmin'', ''bpadmin'', ''ipnadmin'']"
  using serve_setup_run [OF assms(1-3), of bc port out] assms(4)
  by (simp add: cmd_serve_def act_bind_def start_effects_def Let_def write_effects_def no_program_writes
      four_listings_def ion_script_runs_def run_admin_command_def started_in_def ion_bin_path_def)

text \<open>
  when the server ends in good order, whatever requests it has answered, the last thing done is one
  call of ionstop, and the command succeeds even when that call fails.
\<close>

theorem serve_shutdown_stops_engine:
  assumes "serve_setup env bc path port (out, tr) = (Inr st, (out', tr'))" and "ce_served env = Inr ()"
  shows "cmd_serve env bc reqs path port (out, tr) =
    (Inr (), (out' @ render [''radiant-ion stopped.''],
      snd (ap_world (snd (serve_requests (ce_api env) reqs st))) @ [Output (plain_command ''ionstop'' [])]))"
  using assms
  by (auto simp: cmd_serve_def act_bind_def act_then_def act_lift_def serve_http_def serve_shutdown_def
      with_lifecycle_def act_result_run ion_stop_run ion_stop_tools_def run_output_run println_run
      new_ion_lifecycle_def ion_bin_path_def split: prod.split sum.split)

section \<open>The server on a disk\<close>

definition no_channel :: "(unit, unit, unit) broadcast" where
  "no_channel = \<lparr>bc_channel = (\<lambda>_. ()), bc_send = (\<lambda>c _. (Inr 0, c)), bc_subscribe = (\<lambda>c. ((), c)),
     bc_try_recv = (\<lambda>c r. (Channel_empty, r, c))\<rparr>"

text \<open>The same environment with a configuration for ION that validation refuses: the node has
  the number of its neighbour.\<close>

definition clash_config :: "string network_configuration" where
  "clash_config = ground_config\<lparr>nc_local_node := (nc_local_node ground_config)\<lparr>nd_node_number := 20\<rparr>\<rparr>"

definition serve_env :: "string cli_env" where
  "serve_env = disk_env\<lparr>ce_yaml := (\<lambda>_ _. Inr clash_config)\<rparr>"

lemma serve_env_sel [simp]:
  "ce_os serve_env = disk_os" "ce_iter serve_env = sorted_iteration"
  "ce_open serve_env tr path = Inr ()" "ce_yaml serve_env tr path = Inr clash_config"
  "ce_bind serve_env port = Inr ()" "ce_served serve_env = Inr ()" "ce_temp_dir serve_env = ''/tmp''"
  "nc_backend clash_config = ''ion-dtn''"
  by (simp_all add: serve_env_def disk_env_def clash_config_def ground_config_def)

lemma serve_env_starts: "start_conditions serve_env c"
  using disk_os_lists [OF temp_config_dir_nonempty temp_config_dir_last, of serve_env c]
  by (simp add: start_conditions_def disk_os_works sorted_iteration_ok)

lemma serve_env_setup:
  "\<exists>out. serve_setup serve_env no_channel ''net.yaml'' 3000 ([], [])
     = (Inr (served_state serve_env no_channel clash_config (start_effects serve_env clash_config)),
        (out, start_effects serve_env clash_config))"
  using serve_setup_run [of serve_env "''net.yaml''" clash_config no_channel 3000 "[]"] serve_env_starts by simp

theorem serve_starts_stopped_witness:
  "\<exists>st w. serve_setup serve_env no_channel ''net.yaml'' 3000 ([], []) = (Inr st, w)
     \<and> spawned (snd (ap_world st)) = [''ionadmin'', ''ltpadmin'', ''bpadmin'', ''ipnadmin'']
     \<and> ap_config st = Some clash_config \<and> validate clash_config \<noteq> Inr ()
     \<and> handle bare_env Post_lifecycle_stop st = (Inl (illegal_transition Stopped Stopping), st)"
proof -
  have "validate clash_config \<noteq> Inr ()"
    by (simp add: validate_ok_iff well_formed_def clash_config_def ground_config_def)
  moreover obtain st w where s: "serve_setup serve_env no_channel ''net.yaml'' 3000 ([], []) = (Inr st, w)"
    using serve_env_setup by blast
  moreover from serve_starts_stopped [OF s, of bare_env]
  have "ap_config st = Some clash_config" "spawned (snd (ap_world st)) = [''ionadmin'', ''ltpadmin'', ''bpadmin'', ''ipnadmin'']"
    "handle bare_env Post_lifecycle_stop st = (Inl (illegal_transition Stopped Stopping), st)"
    by auto
  ultimately show ?thesis by blast
qed

theorem serve_restart_stops_engine_witness:
  "\<exists>st w e st'. serve_setup serve_env no_channel ''net.yaml'' 3000 ([], []) = (Inr st, w)
     \<and> handle bare_env Post_lifecycle_restart st = (Inl e, st') \<and> ae_category e = LifecycleError"
proof -
  obtain st w where s: "serve_setup serve_env no_channel ''net.yaml'' 3000 ([], []) = (Inr st, w)"
    using serve_env_setup by blast
  have dir: "directory_lists_written (ce_os serve_env) deploy_dir"
    using disk_os_lists [of deploy_dir] by (simp add: deploy_dir_def)
  from serve_restart_stops_engine [OF s _ _ _ dir, where api = bare_env and p = quiet_output] s
  show ?thesis
    by (simp add: sorted_iteration_ok disk_os_def quiet_os_def quiet_output_def po_success_def) blast
qed

theorem serve_bind_failure_leaves_engine_witness:
  "\<exists>msg. fst (cmd_serve (disk_env\<lparr>ce_bind := (\<lambda>_. Inl ''in use'')\<rparr>) no_channel [] ''net.yaml'' 80 ([], []))
     = Inl (Cli_error msg)"
proof -
  let ?env = "disk_env\<lparr>ce_bind := (\<lambda>_. Inl ''in use'')\<rparr>"
  have "start_conditions ?env ground_config"
    using disk_env_starts [of ground_config] by (simp add: start_conditions_def temp_config_dir_def)
  from serve_bind_failure_leaves_engine [of ?env "''net.yaml''" ground_config, OF _ _ this,
      of 80 "''in use''" no_channel "[]" "[]"]
  show ?thesis by auto
qed

theorem serve_shutdown_stops_engine_witness:
  "\<exists>out tr. cmd_serve serve_env no_channel [Get_lifecycle_state] ''net.yaml'' 3000 ([], []) = (Inr (), (out, tr))
     \<and> last tr = Output (plain_command ''ionstop'' [])"
proof -
  obtain st out tr where s: "serve_setup serve_env no_channel ''net.yaml'' 3000 ([], []) = (Inr st, (out, tr))"
    using serve_env_setup by blast
  from serve_shutdown_stops_engine [OF s, of "[Get_lifecycle_state]"] show ?thesis by auto
qed

end
