(* ===== verification/Ltp_Interop.thy ===== *)
theory Ltp_Interop
  imports Ion_Config Hardy_Config
begin

text \<open>
  The two generators against each other: the lines of a node's generated files that name the engine,
  host and port of a neighbour, and those that name the node's own end. Everything is stated on the
  lines of the files as they are, with no reader of the admin languages or of YAML between: which
  line is there, and that no other line of the file says otherwise. The contract is the locale
  \<open>ltp_node\<close>, interpreted for ION and for Hardy; two nodes of either kind whose configurations mirror
  each other agree (\<open>ltp_pair\<close>). The last section is about two ION nodes over TCP, which do not.
\<close>

section \<open>The lines of a generated file\<close>

definition file_lines :: "generated_config \<Rightarrow> string \<Rightarrow> string list" where
  "file_lines g name = (case gc_files g name of None \<Rightarrow> [] | Some text \<Rightarrow> str_lines text)"

definition ion_lines :: "'y network_configuration \<Rightarrow> string \<Rightarrow> string list" where
  "ion_lines c ext = file_lines (generate_ion_config c) (ion_file c ext)"

definition cla_lines :: "('y \<Rightarrow> string option) \<Rightarrow> 'y network_configuration \<Rightarrow> string list" where
  "cla_lines as_str c =
     (case generate_hardy_config as_str c of None \<Rightarrow> [] | Some g \<Rightarrow> file_lines g ''ltp-cla.yaml'')"

text \<open>The lines that start like this.\<close>

definition lines_from :: "string \<Rightarrow> string list \<Rightarrow> string set" where
  "lines_from p ls = {l \<in> set ls. prefix p l}"

lemma lines_from_only:
  assumes "x \<in> set ls" and "prefix p x" and "\<And>l. l \<in> set ls \<Longrightarrow> prefix p l \<Longrightarrow> l = x"
  shows "lines_from p ls = {x}"
  using assms unfolding lines_from_def by blast

lemma not_digits: "\<not> is_ascii_digit (CHR '' '')" "\<not> is_ascii_digit (CHR ''.'')" "\<not> is_ascii_digit (CHR '':'')"
  by (simp_all add: char_tests)

lemma not_in_number [simp]:
  "CHR '' '' \<notin> set (show_word w)" "CHR ''.'' \<notin> set (show_word w)" "CHR '':'' \<notin> set (show_word w)"
  using in_show_word_digit not_digits by blast+

lemma split_at_first:
  "x \<notin> set xs \<Longrightarrow> x \<notin> set xs' \<Longrightarrow> xs @ x # ys = xs' @ x # ys' \<longleftrightarrow> xs = xs' \<and> ys = ys'"
  by (auto simp: append_eq_append_conv2 Cons_eq_append_conv append_eq_Cons_conv)

lemma prefix_number [simp]: "prefix (show_word a @ '' '') (show_word b @ CHR '' '' # u) \<longleftrightarrow> a = b"
  by (auto simp: prefix_def split_at_first)

section \<open>What the files say\<close>

text \<open>
  ION sends what is for \<open>node\<close> to \<open>engine\<close> at \<open>host\<close> and \<open>port\<close>: the only plan for the node names the LTP
  outduct of the engine, that outduct is declared, and the only span to the engine goes to the host and port.
\<close>

definition ion_directs :: "'y network_configuration \<Rightarrow> u64 \<Rightarrow> u64 \<Rightarrow> string \<Rightarrow> u16 \<Rightarrow> bool" where
  "ion_directs c node engine host port \<longleftrightarrow>
     lines_from (''a plan '' @ show_word node @ '' '') (ion_lines c ''ipnrc'')
       = {''a plan '' @ show_word node @ '' ltp/'' @ show_word engine}
   \<and> ''a outduct ltp '' @ show_word engine @ '' ltpclo'' \<in> set (ion_lines c ''bprc'')
   \<and> (\<exists>seg. lines_from (''a span '' @ show_word engine @ '' '') (ion_lines c ''ltprc'')
       = {span_command engine seg (''udplso '' @ host @ '':'' @ show_word port)})"

text \<open>ION receives as \<open>engine\<close> at \<open>port\<close>: its only LTP induct and the only port it listens on.\<close>

definition ion_listens :: "'y network_configuration \<Rightarrow> u64 \<Rightarrow> u16 \<Rightarrow> bool" where
  "ion_listens c engine port \<longleftrightarrow>
     lines_from ''a induct ltp '' (ion_lines c ''bprc'') = {''a induct ltp '' @ show_word engine @ '' ltpcli''}
   \<and> lines_from ''s '' (ion_lines c ''ltprc'') = {''s '' @ apostrophes (''udplsi 0.0.0.0:'' @ show_word port)}"

text \<open>
  Hardy sends what is for \<open>node\<close> to \<open>engine\<close> at \<open>host\<close> and \<open>port\<close>: its span list has one item for the engine,
  which has this address and this node, and the node is in no other item.
\<close>

definition span_item :: "u64 \<Rightarrow> string \<Rightarrow> u16 \<Rightarrow> u32 \<Rightarrow> u64 \<Rightarrow> string list" where
  "span_item engine host port seg node =
     [''    - engine-id: '' @ show_word engine,
      ''      address: '' @ dquote (host @ '':'' @ show_word port),
      ''      max-segment-size: '' @ show_word seg,
      ''      framing: none'',
      ''      node-ids:'',
      ''        - '' @ dquote (''ipn:'' @ show_word node @ ''.0'')]"

definition hardy_directs ::
  "('y \<Rightarrow> string option) \<Rightarrow> 'y network_configuration \<Rightarrow> u64 \<Rightarrow> u64 \<Rightarrow> string \<Rightarrow> u16 \<Rightarrow> bool" where
  "hardy_directs as_str c node engine host port \<longleftrightarrow>
     (\<exists>pre seg post. cla_lines as_str c = pre @ span_item engine host port seg node @ post
        \<and> ''    - engine-id: '' @ show_word engine \<notin> set (pre @ post)
        \<and> ''        - '' @ dquote (''ipn:'' @ show_word node @ ''.0'') \<notin> set (pre @ post))"

definition hardy_listens ::
  "('y \<Rightarrow> string option) \<Rightarrow> 'y network_configuration \<Rightarrow> u64 \<Rightarrow> u16 \<Rightarrow> bool" where
  "hardy_listens as_str c engine port \<longleftrightarrow>
     lines_from ''  bind: '' (cla_lines as_str c) = {''  bind: '' @ dquote (''0.0.0.0:'' @ show_word port)}
   \<and> lines_from ''  engine-id: '' (cla_lines as_str c) = {''  engine-id: '' @ show_word engine}"

section \<open>When the files say it\<close>

text \<open>
  The conditions, of which validation checks that the neighbours are different from each other and
  nothing else: the texts that are copied into the files hold no end of line; the remote engines are
  different from each other and from the node itself; all LTP links share one local engine and, over
  UDP, one local port (which the generators assume); no static route leads to a neighbour.
\<close>

fun one_local_end :: "u64 \<Rightarrow> u16 \<Rightarrow> convergence_layer_link \<Rightarrow> bool" where
  "one_local_end engine port (LtpUdp _ e _ _ _ p _ _) \<longleftrightarrow> e = engine \<and> p = port"
| "one_local_end engine port (Kiss _ _ _ e _ _) \<longleftrightarrow> e = engine"
| "one_local_end engine port _ \<longleftrightarrow> True"

definition ltp_ready :: "'y network_configuration \<Rightarrow> bool" where
  "ltp_ready c \<longleftrightarrow> plain_texts c
   \<and> distinct (map nb_node_number (nc_neighbors c))
   \<and> distinct (List.map_filter remote_engine (all_links (nc_neighbors c)))
   \<and> nd_node_number (nc_local_node c) \<notin> set (List.map_filter remote_engine (all_links (nc_neighbors c)))
   \<and> (\<forall>l \<in> set (all_links (nc_neighbors c)). \<forall>l' \<in> set (all_links (nc_neighbors c)). case l of
        LtpUdp _ engine _ _ _ port _ _ \<Rightarrow> one_local_end engine port l' | _ \<Rightarrow> True)
   \<and> (rc_strategy (nc_routing c) = Static \<longrightarrow>
        (\<forall>r \<in> set (rc_static_routes (nc_routing c)). sr_destination_node r \<notin> nb_node_number ` set (nc_neighbors c)))"

text \<open>For Hardy, in addition: its services can be numbered, and the gRPC address is one line.\<close>

definition hardy_ready :: "('y \<Rightarrow> string option) \<Rightarrow> 'y network_configuration \<Rightarrow> bool" where
  "hardy_ready as_str c \<longleftrightarrow> ltp_ready c \<and> hardy_serves c
     \<and> no_eol (option_str as_str c ''grpc_address'' default_grpc_address)"

lemma map_filter_inj:
  "distinct (List.map_filter f xs) \<Longrightarrow> x \<in> set xs \<Longrightarrow> y \<in> set xs \<Longrightarrow> f x = Some a \<Longrightarrow> f y = Some a \<Longrightarrow> x = y"
proof (induction xs)
  case (Cons z zs)
  have step: "List.map_filter f (z # zs) = (case f z of None \<Rightarrow> List.map_filter f zs | Some b \<Rightarrow> b # List.map_filter f zs)"
    by (simp add: List.map_filter_def split: option.split)
  then have "distinct (List.map_filter f zs)" and "f z = Some a \<Longrightarrow> a \<notin> set (List.map_filter f zs)"
    using Cons.prems(1) by (auto split: option.splits)
  then show ?case using Cons unfolding in_map_filter by auto
qed simp

lemma ltp_readyD:
  assumes "ltp_ready c"
  shows "plain_texts c"
    and "n \<in> set (nc_neighbors c) \<Longrightarrow> m \<in> set (nc_neighbors c) \<Longrightarrow> nb_node_number n = nb_node_number m \<Longrightarrow> n = m"
    and "l \<in> set (all_links (nc_neighbors c)) \<Longrightarrow> l' \<in> set (all_links (nc_neighbors c)) \<Longrightarrow>
      remote_engine l = Some e \<Longrightarrow> remote_engine l' = Some e \<Longrightarrow> l = l'"
    and "l \<in> set (all_links (nc_neighbors c)) \<Longrightarrow> remote_engine l \<noteq> Some (nd_node_number (nc_local_node c))"
    and "LtpUdp i engine re h rp port mtu sr \<in> set (all_links (nc_neighbors c)) \<Longrightarrow>
      l' \<in> set (all_links (nc_neighbors c)) \<Longrightarrow> one_local_end engine port l'"
  using assms unfolding ltp_ready_def in_map_filter
  by (blast, metis distinct_map inj_on_contraD, meson map_filter_inj, blast, fastforce)

section \<open>ION's scripts\<close>

lemma ion_lines_of:
  assumes "ltp_ready c"
  shows "ion_lines c ''ipnrc'' = ipnrc_lines c" "ion_lines c ''ltprc'' = ltprc_lines c"
    "ion_lines c ''bprc'' = bprc_lines c"
  using ltp_readyD(1) [OF assms]
  by (simp_all add: ion_lines_def file_lines_def generate_ion_config_def generate_ipnrc_def generate_ltprc_def
      generate_bprc_def str_lines_plain bprc_plain ltprc_plain ipnrc_plain)

lemma in_ipnrc_plan: "line \<in> set (ipnrc_plan m) \<Longrightarrow>
  \<exists>k ks. nb_links m = k # ks \<and> line = ''a plan '' @ show_word (nb_node_number m) @ '' '' @ link_to_duct_expression k"
  by (cases "nb_links m") (simp_all add: ipnrc_plan_def)

lemma ipnrc_line_cases:
  assumes "line \<in> set (ipnrc_lines c)"
  shows "(\<exists>m \<in> set (nc_neighbors c). line \<in> set (ipnrc_plan m))
    \<or> (rc_strategy (nc_routing c) = Static \<and> line \<in> static_plan ` set (rc_static_routes (nc_routing c)))
    \<or> line = [] \<or> (\<exists>rest. line = ''## '' @ rest)"
  using assms
  by (simp add: ipnrc_lines_def write_routing_config_def split: routing_strategy.splits) (elim disjE; simp)+

lemma only_plan:
  assumes "ltp_ready c" and n: "n \<in> set (nc_neighbors c)" "nb_links n = l # ls"
  shows "lines_from (''a plan '' @ show_word (nb_node_number n) @ '' '') (ipnrc_lines c)
    = {''a plan '' @ show_word (nb_node_number n) @ '' '' @ link_to_duct_expression l}"
proof (rule lines_from_only)
  show "''a plan '' @ show_word (nb_node_number n) @ '' '' @ link_to_duct_expression l \<in> set (ipnrc_lines c)"
    using n unfolding ipnrc_lines_def set_append set_concat set_map by (force simp: ipnrc_plan_def)
next
  fix line
  assume line: "line \<in> set (ipnrc_lines c)" and p: "prefix (''a plan '' @ show_word (nb_node_number n) @ '' '') line"
  have static: "sr_destination_node r \<noteq> nb_node_number n"
    if "rc_strategy (nc_routing c) = Static" "r \<in> set (rc_static_routes (nc_routing c))" for r
    using assms(1) that n(1) by (auto simp: ltp_ready_def)
  have "\<not> prefix (''a plan '' @ show_word (nb_node_number n) @ '' '') (static_plan r)"
    if "rc_strategy (nc_routing c) = Static" "r \<in> set (rc_static_routes (nc_routing c))" for r
    using static [OF that] by (simp add: static_plan_def)
  with p have "\<not> (rc_strategy (nc_routing c) = Static \<and> line \<in> static_plan ` set (rc_static_routes (nc_routing c)))"
    by blast
  moreover from p have "\<not> (line = [] \<or> (\<exists>rest. line = ''## '' @ rest))" by auto
  ultimately obtain m where m: "m \<in> set (nc_neighbors c)" "line \<in> set (ipnrc_plan m)"
    using ipnrc_line_cases [OF line] by blast
  from in_ipnrc_plan [OF m(2)] obtain k ks where k: "nb_links m = k # ks"
    "line = ''a plan '' @ show_word (nb_node_number m) @ '' '' @ link_to_duct_expression k" by blast
  with p have "nb_node_number n = nb_node_number m" by simp
  then have "n = m" by (rule ltp_readyD(2) [OF assms(1) n(1) m(1)])
  with k n(2) show "line = ''a plan '' @ show_word (nb_node_number n) @ '' '' @ link_to_duct_expression l" by simp
qed simp

lemma prefix_span [simp]:
  "prefix (''a span '' @ show_word e @ '' '') (span_command e' seg lso) \<longleftrightarrow> e = e'"
  by (simp add: span_command_def)

lemmas prefix_span_chars [simp] = prefix_span [simplified]

lemma in_ltprc_span: "line \<in> set (ltprc_span l) \<Longrightarrow>
  \<exists>e seg lso. remote_engine l = Some e \<and> line = span_command e seg lso"
  by (cases l) auto

lemma only_span:
  assumes "ltp_ready c" and "LtpUdp i le re host rp lp mtu sr \<in> set (all_links (nc_neighbors c))"
  shows "lines_from (''a span '' @ show_word re @ '' '') (ltprc_lines c)
    = {span_command re (unwrap_or default_max_segment_size mtu) (''udplso '' @ host @ '':'' @ show_word rp)}"
proof (rule lines_from_only)
  let ?l = "LtpUdp i le re host rp lp mtu sr"
  show "span_command re (unwrap_or default_max_segment_size mtu) (''udplso '' @ host @ '':'' @ show_word rp)
      \<in> set (ltprc_lines c)"
    using assms(2) unfolding ltprc_lines_def Let_def set_append set_concat set_map by force
  fix line
  assume line: "line \<in> set (ltprc_lines c)" and p: "prefix (''a span '' @ show_word re @ '' '') line"
  have own: "nd_node_number (nc_local_node c) \<noteq> re" using ltp_readyD(4) [OF assms] by auto
  with p have "\<And>seg lso. line \<noteq> span_command (nd_node_number (nc_local_node c)) seg lso" by auto
  with line p obtain k where k: "k \<in> set (all_links (nc_neighbors c))" "line \<in> set (ltprc_span k)"
    by (auto simp: ltprc_lines_def Let_def)
  from in_ltprc_span [OF k(2)] p have "remote_engine k = Some re" by auto
  then have "k = ?l" by (intro ltp_readyD(3) [OF assms(1) k(1) assms(2)]) simp_all
  with k(2) show "line = span_command re (unwrap_or default_max_segment_size mtu)
      (''udplso '' @ host @ '':'' @ show_word rp)" by simp
qed simp

lemma only_listener:
  "lines_from ''s '' (ltprc_lines c) = {''s '' @ apostrophes (''udplsi 0.0.0.0:'' @ show_word (find_local_ltp_port c))}"
proof (rule lines_from_only)
  fix line
  assume "line \<in> set (ltprc_lines c)" and "prefix ''s '' line"
  then show "line = ''s '' @ apostrophes (''udplsi 0.0.0.0:'' @ show_word (find_local_ltp_port c))"
    by (auto simp: ltprc_lines_def Let_def span_command_def dest!: in_ltprc_span)
qed (simp_all add: ltprc_lines_def Let_def)

lemma first_port:
  assumes "LtpUdp i le re host rp lp mtu sr \<in> set ls" and "\<forall>l \<in> set ls. one_local_end le lp l"
  shows "first_ltp_port ls = lp"
  using assms by (induction ls rule: first_ltp_port.induct) auto

lemma bprc_line_cases:
  assumes "line \<in> set (bprc_lines c)"
  shows "(\<exists>l \<in> set (all_links (nc_neighbors c)). line \<in> set (bprc_link_entries l))
    \<or> line = [] \<or> line = ''1'' \<or> line = ''s'' \<or> (\<exists>rest. line = ''## '' @ rest) \<or> (\<exists>rest. line = ''a scheme '' @ rest)
    \<or> (\<exists>rest. line = ''a endpoint '' @ rest) \<or> (\<exists>rest. line = ''a protocol '' @ rest)"
proof -
  have "\<exists>rest. callsign_endpoint eid = ''a endpoint '' @ rest" for eid by (cases eid) simp_all
  moreover have "\<exists>rest. protocol_command p = ''a protocol '' @ rest" for p by (simp add: protocol_command_def)
  ultimately show ?thesis using assms
    by (auto simp: bprc_lines_def Let_def split: option.splits)
qed

lemma only_induct:
  assumes "ltp_ready c" and "LtpUdp i le re host rp lp mtu sr \<in> set (all_links (nc_neighbors c))"
  shows "lines_from ''a induct ltp '' (bprc_lines c) = {''a induct ltp '' @ show_word le @ '' ltpcli''}"
proof (rule lines_from_only)
  show "''a induct ltp '' @ show_word le @ '' ltpcli'' \<in> set (bprc_lines c)"
    using assms(2) unfolding bprc_lines_def Let_def set_append set_concat set_map by force
  fix line
  assume "line \<in> set (bprc_lines c)" and p: "prefix ''a induct ltp '' line"
  from bprc_line_cases [OF this(1)] p obtain l where l: "l \<in> set (all_links (nc_neighbors c))"
    "line \<in> set (bprc_link_entries l)" by auto
  have "one_local_end le lp l" by (rule ltp_readyD(5) [OF assms l(1)])
  with l(2) p show "line = ''a induct ltp '' @ show_word le @ '' ltpcli''" by (cases l) auto
qed simp

lemma ion_directs_neighbor:
  assumes "ltp_ready c" and "n \<in> set (nc_neighbors c)" and "nb_links n = LtpUdp i le re host rp lp mtu sr # ls"
  shows "ion_directs c (nb_node_number n) re host rp"
proof -
  have mem: "LtpUdp i le re host rp lp mtu sr \<in> set (all_links (nc_neighbors c))"
    using assms(2,3) unfolding in_all_links by force
  moreover have "''a outduct ltp '' @ show_word re @ '' ltpclo'' \<in> set (bprc_lines c)"
    using mem unfolding bprc_lines_def Let_def set_append set_concat set_map by force
  ultimately show ?thesis
    using only_plan [OF assms] only_span [OF assms(1) mem]
    unfolding ion_directs_def ion_lines_of [OF assms(1)] by auto
qed

lemma ion_listens_as:
  assumes "ltp_ready c" and "LtpUdp i le re host rp lp mtu sr \<in> set (all_links (nc_neighbors c))"
  shows "ion_listens c le lp"
proof -
  have "find_local_ltp_port c = lp"
    using first_port [OF assms(2)] ltp_readyD(5) [OF assms] by (simp add: find_local_ltp_port_def)
  with only_induct [OF assms] only_listener [of c] show ?thesis
    by (simp add: ion_listens_def ion_lines_of [OF assms(1)])
qed

section \<open>Hardy's file\<close>

lemma in_ltp_links: "(n, l) \<in> set (ltp_links ns) \<longleftrightarrow> n \<in> set ns \<and> l \<in> set (nb_links n) \<and> is_ltp_udp l"
  by (auto simp: ltp_links_def)

lemma ltp_link_in_all: "(n, l) \<in> set (ltp_links ns) \<Longrightarrow> l \<in> set (all_links ns)"
  unfolding in_ltp_links in_all_links by blast

lemma ltp_cla_no_eol:
  assumes "hardy_ready as_str c"
  shows "list_all no_eol (ltp_cla_lines as_str c le lp)"
proof -
  have "list_all no_eol (ltp_span_lines nl)" if "nl \<in> set (ltp_links (nc_neighbors c))" for nl
  proof -
    obtain n l where nl: "nl = (n, l)" by (cases nl)
    with that have "l \<in> set (all_links (nc_neighbors c))" using ltp_link_in_all by blast
    with assms have "plain_link l"
      using ltp_readyD(1) by (auto simp: hardy_ready_def plain_texts_def list_all_iff)
    then show ?thesis unfolding nl by (cases l) (simp_all add: dquote_def)
  qed
  then have "list_all no_eol (concat (map ltp_span_lines (ltp_links (nc_neighbors c))))"
    unfolding list_all_concat_map by blast
  then show ?thesis using assms by (simp add: ltp_cla_lines_def hardy_ready_def dquote_def)
qed

lemma cla_lines_of:
  assumes r: "hardy_ready as_str c" and "LtpUdp i le re host rp lp mtu sr \<in> set (all_links (nc_neighbors c))"
  shows "cla_lines as_str c = ltp_cla_lines as_str c le lp"
proof -
  let ?l = "LtpUdp i le re host rp lp mtu sr"
  have ready: "ltp_ready c" and serves: "hardy_serves c" using r by (simp_all add: hardy_ready_def)
  obtain n where "(n, ?l) \<in> set (ltp_links (nc_neighbors c))"
    using assms(2) unfolding in_ltp_links in_all_links by auto
  then obtain m k rest where ls: "ltp_links (nc_neighbors c) = (m, k) # rest"
    by (cases "ltp_links (nc_neighbors c)") auto
  then have k: "k \<in> set (all_links (nc_neighbors c))" "is_ltp_udp k"
    using in_ltp_links [of m k "nc_neighbors c"] ltp_link_in_all [of m k] by simp_all
  have "one_local_end le lp k" by (rule ltp_readyD(5) [OF ready assms(2) k(1)])
  with k(2) have "generate_ltp_cla_yaml as_str c = Some (render (ltp_cla_lines as_str c le lp))"
    by (cases k) (simp_all add: generate_ltp_cla_yaml_def ls)
  moreover obtain g where "generate_hardy_config as_str c = Some g"
    "gc_files g ''ltp-cla.yaml'' = generate_ltp_cla_yaml as_str c"
    using hardy_generated [OF serves] by metis
  ultimately show ?thesis
    by (simp add: cla_lines_def file_lines_def str_lines_plain [OF ltp_cla_no_eol [OF r]])
qed

text \<open>Two lines of the file, and what makes them the same.\<close>

definition engine_line :: "u64 \<Rightarrow> string" where
  "engine_line e = ''    - engine-id: '' @ show_word e"

definition node_line :: "u64 \<Rightarrow> string" where
  "node_line n = ''        - '' @ dquote (''ipn:'' @ show_word n @ ''.0'')"

lemma node_line_inj: "node_line n = node_line m \<longleftrightarrow> n = m"
  by (auto simp: node_line_def dquote_def split_at_first)

lemma engine_line_in_span:
  "engine_line e \<in> set (ltp_span_lines (n, l)) \<Longrightarrow> remote_engine l = Some e"
  by (cases l) (auto simp: engine_line_def)

lemma node_line_in_span:
  "node_line e \<in> set (ltp_span_lines (n, l)) \<Longrightarrow> nb_node_number n = e"
  using node_line_inj [of e "nb_node_number n"] by (cases l) (auto simp: node_line_def)

lemma ltp_links_append: "ltp_links (ms @ ns) = ltp_links ms @ ltp_links ns"
  by (simp add: ltp_links_def)

lemma sole_link: "nb_links n = l # ls \<Longrightarrow> is_ltp_udp l \<Longrightarrow> \<forall>l \<in> set ls. \<not> is_ltp_udp l \<Longrightarrow> ltp_links [n] = [(n, l)]"
  by (auto simp: ltp_links_def filter_empty_conv)

lemma map_filter_append: "List.map_filter f (xs @ ys) = List.map_filter f xs @ List.map_filter f ys"
  by (simp add: List.map_filter_def)

text \<open>Around the item of a neighbour there is no other item for its engine or its node.\<close>

lemma other_items:
  assumes "distinct (List.map_filter remote_engine (all_links (ms @ n # ns)))"
    and "distinct (map nb_node_number (ms @ n # ns))"
    and "l \<in> set (nb_links n)" and "remote_engine l = Some e"
    and "line \<in> set (concat (map ltp_span_lines (ltp_links ms @ ltp_links ns)))"
  shows "line \<noteq> engine_line e" and "line \<noteq> node_line (nb_node_number n)"
proof -
  obtain m k where mk: "(m, k) \<in> set (ltp_links ms @ ltp_links ns)" and line: "line \<in> set (ltp_span_lines (m, k))"
    using assms(5) by auto
  then have m: "m \<in> set (ms @ ns)" and k: "k \<in> set (all_links (ms @ ns))"
    by (auto simp: in_ltp_links in_all_links)
  have "e \<in> set (List.map_filter remote_engine (nb_links n))" using assms(3,4) by (force simp: in_map_filter)
  then have "e \<notin> set (List.map_filter remote_engine (all_links (ms @ ns)))"
    using assms(1) by (auto simp: all_links_def map_filter_append)
  with k have "remote_engine k \<noteq> Some e" by (force simp: in_map_filter)
  with line show "line \<noteq> engine_line e" using engine_line_in_span by blast
  have "nb_node_number m \<noteq> nb_node_number n" using assms(2) m by (auto simp: image_iff)
  with line show "line \<noteq> node_line (nb_node_number n)" using node_line_in_span by blast
qed

lemma hardy_directs_neighbor:
  assumes r: "hardy_ready as_str c" and n: "n \<in> set (nc_neighbors c)"
    and l: "nb_links n = LtpUdp i le re host rp lp mtu sr # ls" "\<forall>l \<in> set ls. \<not> is_ltp_udp l"
  shows "hardy_directs as_str c (nb_node_number n) re host rp"
proof -
  let ?l = "LtpUdp i le re host rp lp mtu sr"
  let ?item = "span_item re host rp (unwrap_or 1400 mtu) (nb_node_number n)"
  have ready: "ltp_ready c" using r by (simp add: hardy_ready_def)
  have mem: "?l \<in> set (all_links (nc_neighbors c))" using n l(1) unfolding in_all_links by force
  obtain ms ns where split: "nc_neighbors c = ms @ n # ns" using split_list [OF n] by blast
  have links: "ltp_links (nc_neighbors c) = ltp_links ms @ [(n, ?l)] @ ltp_links ns"
    using sole_link [OF l(1) _ l(2)] ltp_links_append [of ms "[n] @ ns"] ltp_links_append [of "[n]" ns] split by simp
  obtain front where front: "ltp_cla_lines as_str c le lp
      = front @ concat (map ltp_span_lines (ltp_links (nc_neighbors c)))"
    and clean: "engine_line re \<notin> set front" "node_line (nb_node_number n) \<notin> set front"
    by (rule that [where front = "take 14 (ltp_cla_lines as_str c le lp)"])
      (simp_all add: ltp_cla_lines_def engine_line_def node_line_def)
  let ?pre = "front @ concat (map ltp_span_lines (ltp_links ms))" and ?post = "concat (map ltp_span_lines (ltp_links ns))"
  have "ltp_span_lines (n, ?l) = ?item" by (simp add: span_item_def)
  then have "cla_lines as_str c = ?pre @ ?item @ ?post"
    unfolding cla_lines_of [OF r mem] front links by simp
  moreover have "engine_line re \<notin> set (?pre @ ?post)" "node_line (nb_node_number n) \<notin> set (?pre @ ?post)"
    using other_items [of ms n ns ?l re] ready split clean l(1) by (auto simp: ltp_ready_def)
  ultimately show ?thesis unfolding hardy_directs_def engine_line_def node_line_def by blast
qed

lemma hardy_listens_as:
  assumes "hardy_ready as_str c" and "LtpUdp i le re host rp lp mtu sr \<in> set (all_links (nc_neighbors c))"
  shows "hardy_listens as_str c le lp"
proof -
  have items: "\<not> prefix ''  bind: '' line \<and> \<not> prefix ''  engine-id: '' line"
    if "line \<in> set (concat (map ltp_span_lines nls))" for line and nls :: "(neighbor \<times> convergence_layer_link) list"
  proof -
    obtain n l where "line \<in> set (ltp_span_lines (n, l))" using \<open>line \<in> _\<close> by auto
    then show ?thesis by (cases l) auto
  qed
  show ?thesis
    unfolding hardy_listens_def cla_lines_of [OF assms]
  proof (intro conjI lines_from_only)
    fix line
    assume line: "line \<in> set (ltp_cla_lines as_str c le lp)"
    show "line = ''  bind: '' @ dquote (''0.0.0.0:'' @ show_word lp)" if "prefix ''  bind: '' line"
      using line that items unfolding ltp_cla_lines_def set_append Un_iff by auto
    show "line = ''  engine-id: '' @ show_word le" if "prefix ''  engine-id: '' line"
      using line that items unfolding ltp_cla_lines_def set_append Un_iff by auto
  qed (simp_all add: ltp_cla_lines_def)
qed

section \<open>The contract of a node, and a pair of nodes\<close>

locale ltp_node =
  fixes ready :: "'y network_configuration \<Rightarrow> bool"
    and directs :: "'y network_configuration \<Rightarrow> u64 \<Rightarrow> u64 \<Rightarrow> string \<Rightarrow> u16 \<Rightarrow> bool"
    and listens :: "'y network_configuration \<Rightarrow> u64 \<Rightarrow> u16 \<Rightarrow> bool"
  assumes directs_neighbor: "ready c \<Longrightarrow> n \<in> set (nc_neighbors c) \<Longrightarrow>
      nb_links n = LtpUdp i le re host rp lp mtu sr # ls \<Longrightarrow> \<forall>l \<in> set ls. \<not> is_ltp_udp l \<Longrightarrow>
      directs c (nb_node_number n) re host rp"
    and listens_as: "ready c \<Longrightarrow> LtpUdp i le re host rp lp mtu sr \<in> set (all_links (nc_neighbors c)) \<Longrightarrow>
      listens c le lp"

text \<open>
  A neighbour entry whose first link, and only LTP link, joins these two ends.
\<close>

fun sole_ltp_link :: "convergence_layer_link list \<Rightarrow> (u64 \<times> u16 \<times> u64 \<times> string \<times> u16) option" where
  "sole_ltp_link (LtpUdp _ le re h rp lp _ _ # ls) =
     (if list_ex is_ltp_udp ls then None else Some (le, lp, re, h, rp))"
| "sole_ltp_link _ = None"

definition ltp_entry ::
  "'y network_configuration \<Rightarrow> u64 \<Rightarrow> u64 \<Rightarrow> u16 \<Rightarrow> u64 \<Rightarrow> string \<Rightarrow> u16 \<Rightarrow> bool" where
  "ltp_entry c node local_engine local_port engine host port \<longleftrightarrow>
     (\<exists>n \<in> set (nc_neighbors c). nb_node_number n = node
        \<and> sole_ltp_link (nb_links n) = Some (local_engine, local_port, engine, host, port))"

lemma sole_ltp_link_Some:
  "sole_ltp_link ks = Some (le, lp, re, h, rp) \<Longrightarrow>
   \<exists>i mtu sr ls. ks = LtpUdp i le re h rp lp mtu sr # ls \<and> (\<forall>l \<in> set ls. \<not> is_ltp_udp l)"
  by (cases ks rule: sole_ltp_link.cases) (auto simp: list_ex_iff split: if_splits)

locale ltp_pair =
  a: ltp_node ready_a directs_a listens_a + b: ltp_node ready_b directs_b listens_b
  for ready_a :: "'y network_configuration \<Rightarrow> bool" and ready_b :: "'z network_configuration \<Rightarrow> bool"
    and directs_a directs_b listens_a listens_b
begin

lemma one_way:
  assumes "ready_a ca" "ready_b cb"
    and "ltp_entry ca node_b ea pa eb host_b pb" and "ltp_entry cb node_a eb pb ea host_a pa"
  shows "directs_a ca node_b eb host_b pb \<and> listens_b cb eb pb"
proof
  obtain n i mtu sr ls where "n \<in> set (nc_neighbors ca)" "nb_node_number n = node_b"
    "nb_links n = LtpUdp i ea eb host_b pb pa mtu sr # ls" "\<forall>l \<in> set ls. \<not> is_ltp_udp l"
    using assms(3) by (auto simp: ltp_entry_def dest!: sole_ltp_link_Some)
  with a.directs_neighbor [OF assms(1)] show "directs_a ca node_b eb host_b pb" by blast
  have "\<exists>i mtu sr. LtpUdp i eb ea host_a pa pb mtu sr \<in> set (all_links (nc_neighbors cb))"
    using assms(4) sole_ltp_link_Some unfolding ltp_entry_def in_all_links by (metis list.set_intros(1))
  with b.listens_as [OF assms(2)] show "listens_b cb eb pb" by blast
qed

end

locale ltp_network = ltp_pair + mirrored: ltp_pair ready_b ready_a directs_b directs_a listens_b listens_a
begin

lemma both_ways:
  assumes "ready_a ca" "ready_b cb"
    and "ltp_entry ca node_b ea pa eb host_b pb" and "ltp_entry cb node_a eb pb ea host_a pa"
  shows "(directs_a ca node_b eb host_b pb \<and> listens_b cb eb pb)
    \<and> (directs_b cb node_a ea host_a pa \<and> listens_a ca ea pa)"
  using one_way [OF assms] mirrored.one_way [OF assms(2,1,4,3)] by blast

end

text \<open>Both backends are such nodes, so any two of them are such a pair.\<close>

interpretation ion_node: ltp_node ltp_ready ion_directs ion_listens
  by unfold_locales (simp_all add: ion_directs_neighbor ion_listens_as)

interpretation hardy_node: ltp_node "hardy_ready as_str" "hardy_directs as_str" "hardy_listens as_str" for as_str
  by unfold_locales (simp_all add: hardy_directs_neighbor hardy_listens_as)

interpretation ion_hardy: ltp_network ltp_ready "hardy_ready as_str" ion_directs "hardy_directs as_str"
    ion_listens "hardy_listens as_str" for as_str
  by unfold_locales

interpretation ion_ion: ltp_network ltp_ready ltp_ready ion_directs ion_directs ion_listens ion_listens
  by unfold_locales

section \<open>An ION node and a Hardy node\<close>

text \<open>
  C7: in the generated files of an ION node and a Hardy node that are each other's neighbour over one
  LTP link, with engines and ports the same in both configurations, the ends meet. ION's only plan for the Hardy node
  leads to Hardy's engine and its only span to that engine to the host given for Hardy and the very port that
  \<open>ltp-cla.yaml\<close> binds, as the engine it names; the only span item of \<open>ltp-cla.yaml\<close> for the ION node and its
  engine has the address of ION and the very port of ION's only listener, and ION's only LTP induct is that engine.
  The two configurations must satisfy conditions that validation does not check, \<open>ltp_ready\<close> and
  \<open>hardy_ready\<close>: host names, device names, the callsign endpoint and the gRPC address without line ends;
  neighbours with different node numbers; remote engines different from each other and from the
  node's own number; one local engine and one local port for all LTP links of a node; no static route
  to a neighbour; and fewer than about four billion services.
\<close>

theorem ion_hardy_link_agrees:
  assumes "ltp_ready ci" and "hardy_ready as_str ch"
    and "ltp_entry ci hardy_node ion_engine ion_port hardy_engine hardy_host hardy_port"
    and "ltp_entry ch ion_node hardy_engine hardy_port ion_engine ion_host ion_port"
  shows
    "lines_from (''a plan '' @ show_word hardy_node @ '' '') (ion_lines ci ''ipnrc'')
       = {''a plan '' @ show_word hardy_node @ '' ltp/'' @ show_word hardy_engine}
     \<and> ''a outduct ltp '' @ show_word hardy_engine @ '' ltpclo'' \<in> set (ion_lines ci ''bprc'')
     \<and> (\<exists>seg. lines_from (''a span '' @ show_word hardy_engine @ '' '') (ion_lines ci ''ltprc'')
          = {span_command hardy_engine seg (''udplso '' @ hardy_host @ '':'' @ show_word hardy_port)})
     \<and> lines_from ''  bind: '' (cla_lines as_str ch) = {''  bind: '' @ dquote (''0.0.0.0:'' @ show_word hardy_port)}
     \<and> lines_from ''  engine-id: '' (cla_lines as_str ch) = {''  engine-id: '' @ show_word hardy_engine}
     \<and> (\<exists>pre seg post. cla_lines as_str ch = pre @ span_item ion_engine ion_host ion_port seg ion_node @ post
          \<and> ''    - engine-id: '' @ show_word ion_engine \<notin> set (pre @ post)
          \<and> ''        - '' @ dquote (''ipn:'' @ show_word ion_node @ ''.0'') \<notin> set (pre @ post))
     \<and> lines_from ''a induct ltp '' (ion_lines ci ''bprc'') = {''a induct ltp '' @ show_word ion_engine @ '' ltpcli''}
     \<and> lines_from ''s '' (ion_lines ci ''ltprc'') = {''s '' @ apostrophes (''udplsi 0.0.0.0:'' @ show_word ion_port)}"
  using ion_hardy.both_ways [OF assms]
  unfolding ion_directs_def hardy_listens_def hardy_directs_def ion_listens_def by (simp only: conj_assoc)

text \<open>
  The configurations of the interoperability examples, \<open>examples/interop_20k.rs\<close>; the owlt of 0.001
  seconds is the nearest double, \<open>1152921504606847 * 2 ^ -60\<close>.
\<close>

definition interop_contacts :: contact_plan where
  "interop_contacts =
     \<lparr>cp_contacts =
        [\<lparr>ct_source_node = 10, ct_dest_node = 20, ct_start_time = 0, ct_end_time = 86400,
          ct_rate_bps = 10000000, ct_confidence = F64_finite 1 0\<rparr>,
         \<lparr>ct_source_node = 20, ct_dest_node = 10, ct_start_time = 0, ct_end_time = 86400,
          ct_rate_bps = 10000000, ct_confidence = F64_finite 1 0\<rparr>],
      cp_ranges =
        [\<lparr>rg_source_node = 10, rg_dest_node = 20, rg_owlt_secs = F64_finite 1152921504606847 (-60)\<rparr>,
         \<lparr>rg_source_node = 20, rg_dest_node = 10, rg_owlt_secs = F64_finite 1152921504606847 (-60)\<rparr>]\<rparr>"

definition interop_ion_config :: "storage_config option \<Rightarrow> 'y network_configuration" where
  "interop_ion_config storage =
     \<lparr>nc_version = ''1.0'', nc_backend = ''ion-dtn'',
      nc_local_node = \<lparr>nd_node_number = 10, nd_endpoint_id = Some (Ipn 10 0), nd_callsign_eid = None,
        nd_name = ''ION Node'', nd_services = [\<lparr>sd_service_number = 1, sd_description = Some ''delivery''\<rparr>]\<rparr>,
      nc_neighbors =
        [\<lparr>nb_node_number = 20, nb_name = Some ''Hardy Node'',
          nb_links = [LtpUdp ''ltp-to-hardy'' 10 20 ''127.0.0.1'' 1113 2113 (Some 1400) None],
          nb_rate_limit_bps = None\<rparr>],
      nc_contact_plan = interop_contacts,
      nc_routing = \<lparr>rc_strategy = Cgr, rc_static_routes = []\<rparr>,
      nc_security = Some \<lparr>sec_enabled = False\<rparr>, nc_storage = storage, nc_backend_options = Map.empty\<rparr>"

definition interop_hardy_config :: "'y network_configuration" where
  "interop_hardy_config =
     \<lparr>nc_version = ''1.0'', nc_backend = ''hardy'',
      nc_local_node = \<lparr>nd_node_number = 20, nd_endpoint_id = Some (Ipn 20 0), nd_callsign_eid = None,
        nd_name = ''Hardy Node'', nd_services = [\<lparr>sd_service_number = 1, sd_description = Some ''delivery''\<rparr>]\<rparr>,
      nc_neighbors =
        [\<lparr>nb_node_number = 10, nb_name = Some ''ION Node'',
          nb_links = [LtpUdp ''ltp-to-ion'' 20 10 ''127.0.0.1'' 2113 1113 (Some 1400) None],
          nb_rate_limit_bps = None\<rparr>],
      nc_contact_plan = interop_contacts,
      nc_routing = \<lparr>rc_strategy = Cgr, rc_static_routes = []\<rparr>,
      nc_security = Some \<lparr>sec_enabled = False\<rparr>, nc_storage = None, nc_backend_options = Map.empty\<rparr>"

lemma interop_configs_ready:
  "ltp_ready (interop_ion_config st)" "hardy_ready as_str interop_hardy_config"
  by (simp_all add: ltp_ready_def hardy_ready_def hardy_serves_def interop_ion_config_def plain_texts_def
      interop_hardy_config_def all_links_def List.map_filter_def option_str_def default_grpc_address_def)

lemma interop_configs_valid:
  "validate (interop_ion_config st) = Inr ()" "validate interop_hardy_config = Inr ()"
  unfolding validate_ok_iff
  by (simp_all add: well_formed_def known_node_def interop_ion_config_def interop_hardy_config_def
      interop_contacts_def)

text \<open>Validation accepts them, and they mirror each other.\<close>

theorem ion_hardy_link_agrees_witness:
  "(\<exists>seg. lines_from (''a span '' @ show_word (20 :: u64) @ '' '')
         (ion_lines (interop_ion_config None :: string network_configuration) ''ltprc'')
       = {span_command 20 seg (''udplso '' @ ''127.0.0.1'' @ '':'' @ show_word (1113 :: u16))})
   \<and> lines_from ''  bind: '' (cla_lines Some interop_hardy_config) = {''  bind: '' @ dquote (''0.0.0.0:'' @ show_word (1113 :: u16))}"
proof -
  have entries: "ltp_entry (interop_ion_config None :: string network_configuration) 20 10 2113 20 ''127.0.0.1'' 1113"
    "ltp_entry (interop_hardy_config :: string network_configuration) 10 20 1113 10 ''127.0.0.1'' 2113"
    by (simp_all add: ltp_entry_def interop_ion_config_def interop_hardy_config_def)
  from ion_hardy_link_agrees [OF interop_configs_ready(1) [of None] interop_configs_ready(2) [of Some] entries]
  show ?thesis by blast
qed

section \<open>Two ION nodes over TCP\<close>

lemma address_split:
  assumes "h @ '':'' @ d = h' @ '':'' @ d'" and "CHR '':'' \<notin> set d" and "CHR '':'' \<notin> set d'"
  shows "h = h'"
  using assms by (auto simp: append_eq_append_conv2 append_eq_Cons_conv Cons_eq_append_conv)

lemma tcp_induct_line:
  assumes "''a induct tcp '' @ rest \<in> set (bprc_link_entries l)"
  shows "\<exists>i h rp lp k. l = TcpCl i h rp lp k \<and> rest = h @ '':'' @ show_word (unwrap_or 4556 lp) @ '' tcpcli''"
  using assms by (cases l) auto

lemma tcp_inducts:
  "lines_from ''a induct tcp '' (bprc_lines c) =
     {''a induct tcp '' @ host @ '':'' @ show_word (unwrap_or 4556 local_port) @ '' tcpcli''
        | host local_port. \<exists>i rp k. TcpCl i host rp local_port k \<in> set (all_links (nc_neighbors c))}"
  (is "?l = ?r")
proof
  show "?l \<subseteq> ?r"
  proof
    fix line
    assume "line \<in> ?l"
    then obtain rest where line: "line \<in> set (bprc_lines c)" and p: "line = ''a induct tcp '' @ rest"
      by (auto simp: lines_from_def prefix_def)
    from bprc_line_cases [OF line] p obtain l where "l \<in> set (all_links (nc_neighbors c))"
      "''a induct tcp '' @ rest \<in> set (bprc_link_entries l)" by auto
    with tcp_induct_line p show "line \<in> ?r" by blast
  qed
  show "?r \<subseteq> ?l"
  proof
    fix line
    assume "line \<in> ?r"
    then obtain host lp i rp k where line: "line = ''a induct tcp '' @ host @ '':'' @ show_word (unwrap_or 4556 lp) @ '' tcpcli''"
      and mem: "TcpCl i host rp lp k \<in> set (all_links (nc_neighbors c))" by blast
    have "line \<in> set (bprc_link_entries (TcpCl i host rp lp k))" by (simp add: line)
    with mem have "line \<in> set (bprc_lines c)"
      unfolding bprc_lines_def Let_def set_append set_concat set_map by blast
    then show "line \<in> ?l" by (simp add: lines_from_def line)
  qed
qed

text \<open>
  C32: the TCP inducts of a generated bpadmin script are exactly these: for each TCP link one, at the
  host of the neighbour on the other end, on the local port of the link (4556 when it has none). So
  two ION nodes do not meet over TCP: the script of A dials B at B's host, and the script of B opens
  no induct at that host, on any port, unless some neighbour of B has the same host name.
\<close>

theorem ion_tcp_induct_at_neighbor:
  assumes "TcpCl i host_b port_b lp k \<in> set (all_links (nc_neighbors ca))"
    and "\<forall>l \<in> set (all_links (nc_neighbors cb)). \<forall>j rp q k. l \<noteq> TcpCl j host_b rp q k"
  shows "lines_from ''a induct tcp '' (bprc_lines cb) =
      {''a induct tcp '' @ host @ '':'' @ show_word (unwrap_or 4556 local_port) @ '' tcpcli''
         | host local_port. \<exists>i rp k. TcpCl i host rp local_port k \<in> set (all_links (nc_neighbors cb))}
    \<and> ''a outduct tcp '' @ host_b @ '':'' @ show_word port_b @ '' tcpclo'' \<in> set (bprc_lines ca)
    \<and> ''a induct tcp '' @ host_b @ '':'' @ show_word (p :: u16) @ '' tcpcli'' \<notin> set (bprc_lines cb)"
proof (intro conjI)
  show inducts: "lines_from ''a induct tcp '' (bprc_lines cb) =
      {''a induct tcp '' @ host @ '':'' @ show_word (unwrap_or 4556 local_port) @ '' tcpcli''
         | host local_port. \<exists>i rp k. TcpCl i host rp local_port k \<in> set (all_links (nc_neighbors cb))}"
    by (rule tcp_inducts)
  have "''a outduct tcp '' @ host_b @ '':'' @ show_word port_b @ '' tcpclo''
      \<in> set (bprc_link_entries (TcpCl i host_b port_b lp k))" by simp
  with assms(1) show "''a outduct tcp '' @ host_b @ '':'' @ show_word port_b @ '' tcpclo'' \<in> set (bprc_lines ca)"
    unfolding bprc_lines_def Let_def set_append set_concat set_map by blast
  show "''a induct tcp '' @ host_b @ '':'' @ show_word p @ '' tcpcli'' \<notin> set (bprc_lines cb)"
  proof
    assume "''a induct tcp '' @ host_b @ '':'' @ show_word p @ '' tcpcli'' \<in> set (bprc_lines cb)"
    then have "''a induct tcp '' @ host_b @ '':'' @ show_word p @ '' tcpcli'' \<in> lines_from ''a induct tcp '' (bprc_lines cb)"
      by (simp add: lines_from_def)
    then obtain host q i rp k where mem: "TcpCl i host rp q k \<in> set (all_links (nc_neighbors cb))"
      and eq: "host_b @ '':'' @ show_word p @ '' tcpcli'' = host @ '':'' @ show_word (unwrap_or 4556 q) @ '' tcpcli''"
      unfolding inducts by auto
    from eq have "host_b = host" by (rule address_split) simp_all
    with mem assms(2) show False by blast
  qed
qed

text \<open>Two stations that name each other by their hosts.\<close>

definition tcp_station :: "u64 \<Rightarrow> u64 \<Rightarrow> string \<Rightarrow> string network_configuration" where
  "tcp_station node peer peer_host = ground_config\<lparr>
     nc_local_node := \<lparr>nd_node_number = node, nd_endpoint_id = None, nd_callsign_eid = None,
        nd_name = ''station'', nd_services = []\<rparr>,
     nc_neighbors := [\<lparr>nb_node_number = peer, nb_name = None,
          nb_links = [TcpCl ''t'' peer_host 4556 None None], nb_rate_limit_bps = None\<rparr>],
     nc_contact_plan := \<lparr>cp_contacts = [], cp_ranges = []\<rparr>,
     nc_routing := \<lparr>rc_strategy = Cgr, rc_static_routes = []\<rparr>\<rparr>"

theorem ion_tcp_induct_at_neighbor_witness:
  "validate (tcp_station 1 2 ''10.0.0.2'') = Inr () \<and> validate (tcp_station 2 1 ''10.0.0.1'') = Inr ()
   \<and> ''a outduct tcp 10.0.0.2:4556 tcpclo'' \<in> set (bprc_lines (tcp_station 1 2 ''10.0.0.2''))
   \<and> ''a induct tcp 10.0.0.2:4556 tcpcli'' \<notin> set (bprc_lines (tcp_station 2 1 ''10.0.0.1''))"
proof -
  have "show_word (4556 :: u16) = ''4556''" by (simp add: show_word_def show_nat.simps digit_char_def)
  moreover have "validate (tcp_station 1 2 ''10.0.0.2'') = Inr ()" "validate (tcp_station 2 1 ''10.0.0.1'') = Inr ()"
    unfolding validate_ok_iff by (simp_all add: well_formed_def known_node_def tcp_station_def)
  ultimately show ?thesis
    using ion_tcp_induct_at_neighbor [of "''t''" "''10.0.0.2''" 4556 None None "tcp_station 1 2 ''10.0.0.2''"
        "tcp_station 2 1 ''10.0.0.1''" 4556]
    by (simp add: tcp_station_def)
qed

end
