(* ===== verification/Demo_Effects.thy ===== *)
theory Demo_Effects
  imports Config_Generator Ion_Lifecycle Ion_Telemetry
begin

text \<open>
  How the example programs of \<open>src/radiant-dtn-abstraction/examples\<close> act: beyond the effects of the
  library they start processes that go on running, kill them, read logs, and talk to Hardy over
  gRPC. A program ends normally, by \<open>process::exit\<close>, or by the panic of an \<open>unwrap\<close>, \<open>expect\<close> or
  \<open>assert!\<close>. Headings and progress messages are left out; the lines that state an outcome are kept.
\<close>

section \<open>Effects and the environment\<close>

text \<open>A process that is left running; its output goes to \<open>/dev/null\<close> or to a log file.\<close>

record child_command =
  cc_program :: string
  cc_args :: "string list"
  cc_env :: "(string \<times> string) list"
  cc_stdin :: stdin_source
  cc_dir :: "string option"
  cc_log :: "string option"

text \<open>The messages of Hardy's application service that the programs send and understand.\<close>

type_synonym u8 = "8 word"

datatype app_to_bpa =
    Register_request u32
  | Send_request string "u8 list" u64

datatype bpa_to_app =
    Registered string
  | Sent string
  | Bpa_status string
  | Received_payload "u8 list"
  | Other_message string

datatype demo_effect =
    Sys effect
  | Remove_dir_all string
  | Status_of command
  | Create_file string
  | Write_bytes string "u8 list"
  | Spawn_child child_command
  | Kill_child u32
  | Read_text string
  | Read_bytes string
  | List_files string
  | Grpc_connect string
  | Grpc_open
  | Grpc_send u64 app_to_bpa
  | Grpc_read
  | Say string

type_synonym demo_trace = "demo_effect list"

text \<open>
  The answers. \<open>de_as_str\<close> is the accessor of YAML values, \<open>de_manifest_dir\<close> the package directory at
  compile time, \<open>de_debug\<close> the debug text of a message, \<open>de_logs\<close> whether warnings are written. A spawned process is known by its process identifier. \<open>de_files\<close> lists the regular files
  of a directory. \<open>de_message\<close> is the next message of the stream, \<open>None\<close> at its end; a message whose
  \<open>msg\<close> is absent is an \<open>Other_message\<close>. \<open>de_in_time\<close> is the number of reads that complete before a
  time limit that starts now.
\<close>

record 'y demo_env =
  de_as_str :: "'y \<Rightarrow> string option"
  de_manifest_dir :: string
  de_debug :: "bpa_to_app \<Rightarrow> string"
  de_logs :: bool
  de_os :: os
  de_iter :: "(string \<rightharpoonup> string) \<Rightarrow> (string \<times> string) list"
  de_create :: "demo_trace \<Rightarrow> string \<Rightarrow> string + unit"
  de_write_bytes :: "demo_trace \<Rightarrow> string \<Rightarrow> u8 list \<Rightarrow> string + unit"
  de_spawn :: "demo_trace \<Rightarrow> child_command \<Rightarrow> string + u32"
  de_read_text :: "demo_trace \<Rightarrow> string \<Rightarrow> string + string"
  de_read_bytes :: "demo_trace \<Rightarrow> string \<Rightarrow> string + u8 list"
  de_files :: "demo_trace \<Rightarrow> string \<Rightarrow> string + string list"
  de_connect :: "demo_trace \<Rightarrow> string \<Rightarrow> string + unit"
  de_open :: "demo_trace \<Rightarrow> string + unit"
  de_send :: "demo_trace \<Rightarrow> u64 \<Rightarrow> app_to_bpa \<Rightarrow> string + unit"
  de_message :: "demo_trace \<Rightarrow> string + bpa_to_app option"
  de_in_time :: "demo_trace \<Rightarrow> nat \<Rightarrow> nat"

section \<open>Actions\<close>

datatype demo_end = Panicked | Exited int

type_synonym 'a demo = "(demo_end, demo_trace, 'a) action"

definition ask :: "demo_effect \<Rightarrow> (demo_trace \<Rightarrow> 'a) \<Rightarrow> ('e, demo_trace, 'a) action" where
  "ask eff answer tr = (Inr (answer tr), tr @ [eff])"

definition say :: "string \<Rightarrow> ('e, demo_trace, unit) action" where
  "say s = ask (Say s) (\<lambda>_. ())"

definition say_lines :: "string list \<Rightarrow> ('e, demo_trace, unit) action" where
  "say_lines = act_each say"

text \<open>\<open>unwrap\<close> and \<open>expect\<close>.\<close>

definition must :: "('f + 'a) demo \<Rightarrow> 'a demo" where
  "must m = act_bind m (act_lift (\<lambda>_. Panicked))"

text \<open>The effects of the library among those of the program, and an action of the library.\<close>

fun sys_effect :: "demo_effect \<Rightarrow> effect option" where
  "sys_effect (Sys e) = Some e"
| "sys_effect _ = None"

definition sys_effects :: "demo_trace \<Rightarrow> effect list" where
  "sys_effects tr = List.map_filter sys_effect tr"

definition on_sys :: "('e, effect list, 'a) action \<Rightarrow> ('e, demo_trace, 'a) action" where
  "on_sys m tr =
     (case m (sys_effects tr) of
        (r, es) \<Rightarrow> (r, tr @ map Sys (drop (length (sys_effects tr)) es)))"

definition pause_sys :: "nat \<Rightarrow> ('e, demo_trace, unit) action" where
  "pause_sys millis = ask (Sys (Sleep_millis millis)) (\<lambda>_. ())"

definition sleep_secs :: "nat \<Rightarrow> ('e, demo_trace, unit) action" where
  "sleep_secs n = pause_sys (1000 * n)"

text \<open>\<open>let _ = Command::new("killm")...status()\<close> or \<open>...output()\<close>, the answer thrown away.\<close>

definition killm :: "stdin_source \<Rightarrow> command" where
  "killm stdin = \<lparr>cmd_program = ''killm'', cmd_args = [], cmd_stdin = stdin, cmd_dir = None\<rparr>"

definition killm_status :: "('e, demo_trace, unit) action" where
  "killm_status = ask (Status_of (killm Stdin_null)) (\<lambda>_. ())"

definition killm_output :: "stdin_source \<Rightarrow> ('e, demo_trace, unit) action" where
  "killm_output stdin = ask (Sys (Output (killm stdin))) (\<lambda>_. ())"

definition remove_work_dir :: "string \<Rightarrow> ('e, demo_trace, unit) action" where
  "remove_work_dir dir = ask (Remove_dir_all dir) (\<lambda>_. ())"

definition create_dir :: "'y demo_env \<Rightarrow> string \<Rightarrow> unit demo" where
  "create_dir env dir = must (ask (Sys (Create_dir_all dir)) (\<lambda>tr. os_create_dir_all (de_os env) (sys_effects tr) dir))"

definition kill_child :: "u32 \<Rightarrow> ('e, demo_trace, unit) action" where
  "kill_child pid = ask (Kill_child pid) (\<lambda>_. ())"

definition spawn_child :: "'y demo_env \<Rightarrow> child_command \<Rightarrow> u32 demo" where
  "spawn_child env c = must (ask (Spawn_child c) (\<lambda>tr. de_spawn env tr c))"

definition create_file :: "'y demo_env \<Rightarrow> string \<Rightarrow> unit demo" where
  "create_file env path = must (ask (Create_file path) (\<lambda>tr. de_create env tr path))"

text \<open>\<open>read_to_string(...).unwrap_or_default()\<close>.\<close>

definition read_log :: "'y demo_env \<Rightarrow> string \<Rightarrow> ('e, demo_trace, string) action" where
  "read_log env path = act_bind (ask (Read_text path) (\<lambda>tr. de_read_text env tr path))
     (\<lambda>r. act_return (case r of Inl _ \<Rightarrow> [] | Inr text \<Rightarrow> text))"

text \<open>The lifecycle manager: \<open>start(...).await.expect(...)\<close>, and \<open>let _ = ion.stop().await\<close>.\<close>

definition start_ion :: "'y demo_env \<Rightarrow> ion_lifecycle \<Rightarrow> string \<Rightarrow> ion_lifecycle demo" where
  "start_ion env ion config_dir = on_sys (\<lambda>es.
     case ion_start (de_os env) config_dir (ion, es) of
       (Inl e, (_, es')) \<Rightarrow> (Inl Panicked, es')
     | (Inr _, (ion', es')) \<Rightarrow> (Inr ion', es'))"

definition stop_ion :: "'y demo_env \<Rightarrow> ion_lifecycle \<Rightarrow> ('e, demo_trace, unit) action" where
  "stop_ion env ion = on_sys (\<lambda>es. case ion_stop (de_os env) (ion, es) of (_, (_, es')) \<Rightarrow> (Inr (), es'))"

definition health_of :: "'y demo_env \<Rightarrow> ion_lifecycle \<Rightarrow> health_status demo" where
  "health_of env ion = on_sys (\<lambda>es.
     case ion_health (de_os env) (ion, es) of
       (Inl e, (_, es')) \<Rightarrow> (Inl Panicked, es')
     | (Inr h, (_, es')) \<Rightarrow> (Inr h, es'))"

definition write_file :: "'y demo_env \<Rightarrow> string \<Rightarrow> string \<Rightarrow> unit demo" where
  "write_file env path text = must (ask (Sys (Write_file path text))
     (\<lambda>tr. os_write_file (de_os env) (sys_effects tr) path text))"

definition write_bytes :: "'y demo_env \<Rightarrow> string \<Rightarrow> u8 list \<Rightarrow> ('e, demo_trace, string + unit) action" where
  "write_bytes env path bytes = ask (Write_bytes path bytes) (\<lambda>tr. de_write_bytes env tr path bytes)"

text \<open>The regular files of a directory: \<open>read_dir(...).unwrap()\<close> and the two filters after it.\<close>

definition list_files :: "'y demo_env \<Rightarrow> string \<Rightarrow> string list demo" where
  "list_files env dir = must (ask (List_files dir) (\<lambda>tr. de_files env tr dir))"

definition run_program :: "'y demo_env \<Rightarrow> command \<Rightarrow> ('e, demo_trace, string + process_output) action" where
  "run_program env c = ask (Sys (Output c)) (\<lambda>tr. os_output (de_os env) (sys_effects tr) c)"

definition write_generated :: "'y demo_env \<Rightarrow> string \<Rightarrow> generated_config \<Rightarrow> unit demo" where
  "write_generated env dir generated =
     on_sys (write_files (de_os env) (de_iter env) (\<lambda>_. Panicked) (\<lambda>_ _. Panicked) dir generated)"

section \<open>What is left running\<close>

text \<open>The processes a run has started and not killed, oldest first, given what spawning answers.\<close>

fun left_running :: "'y demo_env \<Rightarrow> demo_trace \<Rightarrow> u32 list" where
  "left_running env [] = []"
| "left_running env (e # rev_tr) =
     (let before = left_running env rev_tr
      in case e of
           Spawn_child c \<Rightarrow> (case de_spawn env (rev rev_tr) c of Inr pid \<Rightarrow> before @ [pid] | Inl _ \<Rightarrow> before)
         | Kill_child pid \<Rightarrow> filter (\<lambda>p. p \<noteq> pid) before
         | _ \<Rightarrow> before)"

definition orphans :: "'y demo_env \<Rightarrow> demo_trace \<Rightarrow> u32 list" where
  "orphans env tr = left_running env (rev tr)"

lemma orphans_simps [simp]:
  "orphans env [] = []"
  "orphans env (tr @ [e]) = (case e of
       Spawn_child c \<Rightarrow> (case de_spawn env tr c of Inr pid \<Rightarrow> orphans env tr @ [pid] | Inl _ \<Rightarrow> orphans env tr)
     | Kill_child pid \<Rightarrow> filter (\<lambda>p. p \<noteq> pid) (orphans env tr)
     | _ \<Rightarrow> orphans env tr)"
  by (simp add: orphans_def, cases e) (simp_all add: orphans_def Let_def split: sum.split)

lemma orphans_spawned: "pid \<in> set (orphans env tr) \<Longrightarrow> Kill_child pid \<notin> set es \<Longrightarrow> pid \<in> set (orphans env (tr @ es))"
proof (induction es arbitrary: tr)
  case (Cons e es)
  have "pid \<in> set (orphans env (tr @ [e]))"
    using Cons.prems by (cases e) (auto split: sum.split)
  with Cons.IH [of "tr @ [e]"] Cons.prems show ?case by simp
qed simp

section \<open>What an action emits\<close>

definition emits :: "(demo_effect \<Rightarrow> bool) \<Rightarrow> ('e, demo_trace, 'a) action \<Rightarrow> bool" where
  "emits P m \<longleftrightarrow> (\<forall>tr. \<exists>es. list_all P es \<and> snd (m tr) = tr @ es)"

lemma emitsE:
  assumes "emits P m" and "m tr = (r, tr')"
  obtains es where "list_all P es" "tr' = tr @ es"
  using assms unfolding emits_def by (metis snd_conv)

lemma emits_ask: "P e \<Longrightarrow> emits P (ask e f)"
  by (simp add: emits_def ask_def)

lemma emits_on_sys: "(\<And>e. P (Sys e)) \<Longrightarrow> emits P (on_sys m)"
proof -
  assume "\<And>e. P (Sys e)"
  then have "list_all P (map Sys es)" for es by (simp add: list_all_iff)
  then show ?thesis by (auto simp: emits_def on_sys_def split: prod.split)
qed

lemma emits_basic: "emits P (act_return a)" "emits P (act_fail e)" "emits P (act_lift f r)"
  by (simp_all add: emits_def act_lift_def)

lemma emits_map_err: "emits P m \<Longrightarrow> emits P (act_map_err f m)"
  by (simp add: emits_def act_map_err_run)

lemma emits_result: "emits P m \<Longrightarrow> emits P (act_result m)"
  by (simp add: emits_def act_result_run)

lemma emits_bind:
  assumes "emits P m" and "\<And>a. emits P (f a)"
  shows "emits P (act_bind m f)"
  unfolding emits_def
proof
  fix tr
  obtain r tr1 where m: "m tr = (r, tr1)" by fastforce
  with assms(1) obtain es where es: "list_all P es" "tr1 = tr @ es" by (rule emitsE)
  show "\<exists>es. list_all P es \<and> snd (act_bind m f tr) = tr @ es"
  proof (cases r)
    case (Inr a)
    obtain es' where "list_all P es'" "snd (f a tr1) = tr1 @ es'"
      using assms(2) [of a] unfolding emits_def by blast
    with es m Inr show ?thesis by (intro exI [of _ "es @ es'"]) (simp add: act_bind_def)
  qed (use es m in \<open>auto simp: act_bind_def\<close>)
qed

lemma emits_then: "emits P m \<Longrightarrow> emits P k \<Longrightarrow> emits P (act_then m k)"
  unfolding act_then_def by (rule emits_bind)

lemma emits_must: "emits P m \<Longrightarrow> emits P (must m)"
  unfolding must_def by (erule emits_bind) (rule emits_basic)

lemma emits_if: "(b \<Longrightarrow> emits P m) \<Longrightarrow> (\<not> b \<Longrightarrow> emits P k) \<Longrightarrow> emits P (if b then m else k)"
  by simp

lemma emits_sum: "(\<And>e. emits P (f e)) \<Longrightarrow> (\<And>a. emits P (g a)) \<Longrightarrow> emits P (case r of Inl e \<Rightarrow> f e | Inr a \<Rightarrow> g a)"
  by (simp split: sum.split)

lemma emits_option: "emits P m \<Longrightarrow> (\<And>a. emits P (f a)) \<Longrightarrow> emits P (case r of None \<Rightarrow> m | Some a \<Rightarrow> f a)"
  by (simp split: option.split)

lemma emits_each: "(\<And>x. emits P (f x)) \<Longrightarrow> emits P (act_each f xs)"
  by (induction xs) (simp_all add: emits_basic emits_then)

lemmas emits_struct = emits_sum emits_option emits_each emits_must emits_bind emits_then emits_map_err emits_result emits_basic emits_if

lemma emits_steps:
  "P (Say s) \<Longrightarrow> emits P (say s)"
  "(\<And>e. P (Sys e)) \<Longrightarrow> emits P (sleep_secs n)" "(\<And>e. P (Sys e)) \<Longrightarrow> emits P (pause_sys n)"
  "P (Status_of (killm Stdin_null)) \<Longrightarrow> emits P killm_status"
  "(\<And>e. P (Sys e)) \<Longrightarrow> emits P (killm_output i)"
  "P (Remove_dir_all d) \<Longrightarrow> emits P (remove_work_dir d)"
  "(\<And>e. P (Sys e)) \<Longrightarrow> emits P (start_ion env ion d)" "(\<And>e. P (Sys e)) \<Longrightarrow> emits P (stop_ion env ion)"
  "(\<And>e. P (Sys e)) \<Longrightarrow> emits P (health_of env ion)" "(\<And>e. P (Sys e)) \<Longrightarrow> emits P (write_generated env d g)"
  "(\<And>e. P (Sys e)) \<Longrightarrow> emits P (create_dir env d)" "P (Create_file d) \<Longrightarrow> emits P (create_file env d)"
  "P (Read_text d) \<Longrightarrow> emits P (read_log env d)" "(\<And>e. P (Sys e)) \<Longrightarrow> emits P (write_file env d t)"
  "P (List_files d) \<Longrightarrow> emits P (list_files env d)" "P (Write_bytes d b) \<Longrightarrow> emits P (write_bytes env d b)"
  "(\<And>e. P (Sys e)) \<Longrightarrow> emits P (run_program env c)"
  unfolding say_def sleep_secs_def pause_sys_def killm_status_def killm_output_def remove_work_dir_def
    start_ion_def stop_ion_def health_of_def write_generated_def create_dir_def create_file_def read_log_def
    write_file_def list_files_def write_bytes_def run_program_def
  by (intro emits_struct emits_on_sys emits_ask; assumption)+

lemma emits_say_lines: "(\<And>s. P (Say s)) \<Longrightarrow> emits P (say_lines ls)"
  unfolding say_lines_def by (intro emits_each emits_steps)

lemma emits_spawn_kill:
  "P (Spawn_child c) \<Longrightarrow> emits P (spawn_child env c)" "P (Kill_child pid) \<Longrightarrow> emits P (kill_child pid)"
  unfolding spawn_child_def kill_child_def by (intro emits_must emits_ask; assumption)+

lemmas emits_rules = emits_struct emits_steps emits_say_lines emits_spawn_kill

text \<open>Everything that is neither a spawn nor a kill.\<close>

fun calm_effect :: "demo_effect \<Rightarrow> bool" where
  "calm_effect (Spawn_child _) = False"
| "calm_effect (Kill_child _) = False"
| "calm_effect _ = True"

lemma orphans_calm_list: "list_all calm_effect es \<Longrightarrow> orphans env (tr @ es) = orphans env tr"
proof (induction es arbitrary: tr)
  case (Cons e es)
  have "orphans env (tr @ [e]) = orphans env tr" using Cons.prems by (cases e) simp_all
  with Cons.IH [of "tr @ [e]"] Cons.prems show ?case by (simp del: orphans_simps)
qed simp

abbreviation calm :: "('e, demo_trace, 'a) action \<Rightarrow> bool" where
  "calm \<equiv> emits calm_effect"

lemma calm_steps [intro, simp]:
  "calm (say s)" "calm (sleep_secs n)" "calm (pause_sys n)" "calm killm_status" "calm (killm_output i)"
  "calm (remove_work_dir d)" "calm (start_ion env ion d)" "calm (stop_ion env ion)" "calm (health_of env ion)"
  "calm (write_generated env d g)" "calm (create_dir env d)" "calm (create_file env d)" "calm (read_log env d)"
  "calm (write_file env d t)" "calm (list_files env d)" "calm (write_bytes env d b)" "calm (run_program env c)"
  by (rule emits_steps, simp)+

section \<open>How an action ends\<close>

text \<open>An action that does not end the program in a given way.\<close>

definition avoids :: "(demo_end \<Rightarrow> bool) \<Rightarrow> 'a demo \<Rightarrow> bool" where
  "avoids P m \<longleftrightarrow> errors_satisfy (\<lambda>e. \<not> P e) m"

fun is_exit :: "demo_end \<Rightarrow> bool" where
  "is_exit (Exited _) = True"
| "is_exit Panicked = False"

abbreviation no_exit :: "'a demo \<Rightarrow> bool" where "no_exit \<equiv> avoids is_exit"
abbreviation no_panic :: "'a demo \<Rightarrow> bool" where "no_panic \<equiv> avoids (\<lambda>e. e = Panicked)"

lemma avoids_ask: "avoids P (ask e f)"
  by (simp add: avoids_def errors_satisfy_def ask_def)

lemma avoids_basic: "avoids P (act_return a)" "avoids P (act_result m)"
  by (simp_all add: avoids_def)

lemma avoids_fail: "avoids P (act_fail e) \<longleftrightarrow> \<not> P e"
  by (simp add: avoids_def)

lemma avoids_bind: "avoids P m \<Longrightarrow> (\<And>a. avoids P (f a)) \<Longrightarrow> avoids P (act_bind m f)"
  unfolding avoids_def by (rule errors_satisfy_bind)

lemma avoids_then: "avoids P m \<Longrightarrow> avoids P k \<Longrightarrow> avoids P (act_then m k)"
  unfolding avoids_def by (rule errors_satisfy_then)

lemma avoids_each: "(\<And>x. avoids P (f x)) \<Longrightarrow> avoids P (act_each f xs)"
  unfolding avoids_def by (rule errors_satisfy_each)

lemma avoids_sum: "(\<And>e. avoids P (f e)) \<Longrightarrow> (\<And>a. avoids P (g a)) \<Longrightarrow> avoids P (case r of Inl e \<Rightarrow> f e | Inr a \<Rightarrow> g a)"
  by (simp split: sum.split)

lemma avoidsD: "avoids P m \<Longrightarrow> m tr = (Inl e, tr') \<Longrightarrow> \<not> P e"
  unfolding avoids_def by (rule errors_satisfyD)

lemma no_exit_must: "no_exit m \<Longrightarrow> no_exit (must m)"
  unfolding must_def by (erule avoids_bind) (auto simp: avoids_def)

lemma avoids_on_sys: "errors_satisfy (\<lambda>e. \<not> P e) m \<Longrightarrow> avoids P (on_sys m)"
  unfolding avoids_def errors_satisfy_def on_sys_def by (auto split: prod.splits)

lemmas avoids_rules = no_exit_must avoids_each avoids_sum avoids_bind avoids_then avoids_ask avoids_basic

lemma no_exit_write_generated: "no_exit (write_generated env d g)"
proof -
  have "errors_satisfy (\<lambda>e. \<not> is_exit e)
      (write_files (de_os env) (de_iter env) (\<lambda>_. Panicked) (\<lambda>_ _. Panicked) d g)"
    unfolding write_files_def write_one_def Let_def case_prod_unfold
    by (intro errors_satisfy_bind errors_satisfy_then errors_satisfy_each
        errors_satisfy_perform errors_satisfy_lift) simp_all
  then show ?thesis unfolding write_generated_def by (rule avoids_on_sys)
qed

lemma avoids_steps [intro, simp]:
  "avoids P (say s)" "avoids P (sleep_secs n)" "avoids P (pause_sys n)" "avoids P killm_status"
  "avoids P (killm_output i)" "avoids P (remove_work_dir d)" "avoids P (stop_ion env ion)" "avoids P (read_log env d)"
  "avoids P (kill_child pid)"
  unfolding say_def sleep_secs_def pause_sys_def killm_status_def killm_output_def remove_work_dir_def
    stop_ion_def read_log_def kill_child_def
  by ((intro avoids_rules)?; (intro avoids_on_sys; simp add: errors_satisfy_def split: prod.split)?)+

lemma avoids_say_lines [intro, simp]: "avoids P (say_lines ls)"
  unfolding say_lines_def by (intro avoids_each avoids_steps)

lemma no_exit_steps [intro, simp]:
  "no_exit (start_ion env ion d)" "no_exit (health_of env ion)" "no_exit (write_generated env d g)"
  "no_exit (create_dir env d)" "no_exit (create_file env d)" "no_exit (write_file env d t)"
  "no_exit (list_files env d)" "no_exit (spawn_child env c)"
proof -
  show "no_exit (start_ion env ion d)" "no_exit (health_of env ion)"
    unfolding start_ion_def health_of_def
    by (intro avoids_on_sys; auto simp: errors_satisfy_def split: prod.splits sum.splits)+
  show "no_exit (write_generated env d g)" by (rule no_exit_write_generated)
  show "no_exit (create_dir env d)" "no_exit (create_file env d)" "no_exit (write_file env d t)"
    "no_exit (list_files env d)" "no_exit (spawn_child env c)"
    unfolding create_dir_def create_file_def write_file_def list_files_def spawn_child_def
    by (intro avoids_rules)+
qed

section \<open>Taking down what was started\<close>

text \<open>
  \<open>tidy env A m Q\<close>: started with no processes running but those of \<open>A\<close>, \<open>m\<close> leaves none but those of \<open>Q a\<close>
  running when it returns \<open>a\<close>, and none at all when it exits; a panic may leave anything.
\<close>

definition tidy :: "'y demo_env \<Rightarrow> u32 set \<Rightarrow> 'a demo \<Rightarrow> ('a \<Rightarrow> u32 set) \<Rightarrow> bool" where
  "tidy env A m Q \<longleftrightarrow>
     (\<forall>tr. set (orphans env tr) \<subseteq> A \<longrightarrow>
        (case m tr of
           (Inr a, tr') \<Rightarrow> set (orphans env tr') \<subseteq> Q a
         | (Inl Panicked, _) \<Rightarrow> True
         | (Inl (Exited _), tr') \<Rightarrow> orphans env tr' = []))"

lemma tidyD:
  assumes "tidy env A m Q" and "set (orphans env tr) \<subseteq> A" and "m tr = (r, tr')"
  shows "case r of Inr a \<Rightarrow> set (orphans env tr') \<subseteq> Q a | Inl Panicked \<Rightarrow> True | Inl (Exited _) \<Rightarrow> orphans env tr' = []"
  using assms(1) [unfolded tidy_def, rule_format, OF assms(2)] assms(3) by simp

lemma tidyI:
  assumes "\<And>tr r tr'. set (orphans env tr) \<subseteq> A \<Longrightarrow> m tr = (r, tr') \<Longrightarrow>
     (case r of Inr a \<Rightarrow> set (orphans env tr') \<subseteq> Q a | Inl Panicked \<Rightarrow> True | Inl (Exited _) \<Rightarrow> orphans env tr' = [])"
  shows "tidy env A m Q"
  unfolding tidy_def
proof (intro allI impI)
  fix tr
  assume "set (orphans env tr) \<subseteq> A"
  from assms [OF this, of "fst (m tr)" "snd (m tr)"]
  show "case m tr of (Inr a, tr') \<Rightarrow> set (orphans env tr') \<subseteq> Q a | (Inl Panicked, _) \<Rightarrow> True
      | (Inl (Exited _), tr') \<Rightarrow> orphans env tr' = []"
    by (simp add: case_prod_unfold)
qed

lemma tidy_bind:
  assumes "tidy env A m Q" and "\<And>a. tidy env (Q a) (f a) R"
  shows "tidy env A (act_bind m f) R"
proof (rule tidyI)
  fix tr r tr'
  assume tr: "set (orphans env tr) \<subseteq> A" and "act_bind m f tr = (r, tr')"
  from this(2) show "case r of Inr a \<Rightarrow> set (orphans env tr') \<subseteq> R a | Inl Panicked \<Rightarrow> True
      | Inl (Exited _) \<Rightarrow> orphans env tr' = []"
  proof (cases rule: act_bind_cases)
    case (err e)
    with tidyD [OF assms(1) tr err(1)] show ?thesis by simp
  next
    case (ok a tr1)
    from tidyD [OF assms(1) tr ok(1)] have "set (orphans env tr1) \<subseteq> Q a" by simp
    from tidyD [OF assms(2) this ok(2)] show ?thesis .
  qed
qed

lemma tidy_then: "tidy env A m (\<lambda>_. B) \<Longrightarrow> tidy env B k R \<Longrightarrow> tidy env A (act_then m k) R"
  unfolding act_then_def by (rule tidy_bind)

lemma tidy_return: "A \<subseteq> Q a \<Longrightarrow> tidy env A (act_return a) Q"
  by (auto simp: tidy_def)

lemma tidy_panic: "tidy env A (act_fail Panicked) Q"
  by (simp add: tidy_def)

lemma tidy_exit: "tidy env {} (act_fail (Exited n)) Q"
  by (simp add: tidy_def)

lemma tidy_conseq:
  assumes "tidy env A m Q" and "B \<subseteq> A" and "\<And>a. Q a \<subseteq> R a"
  shows "tidy env B m R"
proof (rule tidyI)
  fix tr r tr'
  assume "set (orphans env tr) \<subseteq> B" and m: "m tr = (r, tr')"
  with assms(2) have "set (orphans env tr) \<subseteq> A" by blast
  from tidyD [OF assms(1) this m] assms(3)
  show "case r of Inr a \<Rightarrow> set (orphans env tr') \<subseteq> R a | Inl Panicked \<Rightarrow> True | Inl (Exited _) \<Rightarrow> orphans env tr' = []"
    by (auto split: sum.splits demo_end.splits)
qed

lemma tidy_if:
  "(b \<Longrightarrow> tidy env A m Q) \<Longrightarrow> (\<not> b \<Longrightarrow> tidy env A k Q) \<Longrightarrow> tidy env A (if b then m else k) Q"
  by simp

lemma tidy_sum:
  "(\<And>e. tidy env A (f e) Q) \<Longrightarrow> (\<And>a. tidy env A (g a) Q) \<Longrightarrow>
   tidy env A (case r of Inl e \<Rightarrow> f e | Inr a \<Rightarrow> g a) Q"
  by (simp split: sum.split)

lemma tidy_calm:
  assumes "calm m" and "no_exit m"
  shows "tidy env A m (\<lambda>_. A)"
proof (rule tidyI)
  fix tr r tr'
  assume tr: "set (orphans env tr) \<subseteq> A" and m: "m tr = (r, tr')"
  from assms(1) m obtain es where "list_all calm_effect es" "tr' = tr @ es" by (rule emitsE)
  with tr have "set (orphans env tr') \<subseteq> A" by (simp add: orphans_calm_list)
  moreover have "r \<noteq> Inl (Exited n)" for n
    using assms(2) m by (force simp: avoids_def dest: errors_satisfyD)
  ultimately show "case r of Inr a \<Rightarrow> set (orphans env tr') \<subseteq> A | Inl Panicked \<Rightarrow> True
      | Inl (Exited _) \<Rightarrow> orphans env tr' = []"
    by (simp split: sum.split demo_end.split)
qed

lemma tidy_spawn: "tidy env A (spawn_child env c) (\<lambda>pid. insert pid A)"
proof (rule tidyI)
  fix tr r tr'
  assume "set (orphans env tr) \<subseteq> A" and "spawn_child env c tr = (r, tr')"
  then show "case r of Inr pid \<Rightarrow> set (orphans env tr') \<subseteq> insert pid A | Inl Panicked \<Rightarrow> True
      | Inl (Exited _) \<Rightarrow> orphans env tr' = []"
    by (cases "de_spawn env tr c") (auto simp: spawn_child_def must_def ask_def act_bind_def act_lift_def)
qed

lemma tidy_kill: "tidy env A (kill_child pid) (\<lambda>_. A - {pid})"
  by (auto simp: tidy_def kill_child_def ask_def)

lemma tidy_kill_last: "A \<subseteq> insert pid B \<Longrightarrow> tidy env A (kill_child pid) (\<lambda>_. B)"
  by (rule tidy_conseq [OF tidy_kill subset_refl]) auto

text \<open>Steps that start and kill nothing; \<open>tidy_calm\<close> applies to what is built from them.\<close>

lemma tidy_steps:
  "tidy env A (say s) (\<lambda>_. A)" "tidy env A (sleep_secs n) (\<lambda>_. A)" "tidy env A (pause_sys n) (\<lambda>_. A)"
  "tidy env A killm_status (\<lambda>_. A)" "tidy env A (killm_output i) (\<lambda>_. A)" "tidy env A (remove_work_dir d) (\<lambda>_. A)"
  "tidy env A (start_ion env ion d) (\<lambda>_. A)" "tidy env A (stop_ion env ion) (\<lambda>_. A)"
  "tidy env A (health_of env ion) (\<lambda>_. A)" "tidy env A (write_generated env d g) (\<lambda>_. A)"
  "tidy env A (create_dir env d) (\<lambda>_. A)" "tidy env A (create_file env d) (\<lambda>_. A)"
  "tidy env A (read_log env d) (\<lambda>_. A)" "tidy env A (write_file env d t) (\<lambda>_. A)"
  "tidy env A (list_files env d) (\<lambda>_. A)"
  by (rule tidy_calm; simp)+

lemma tidy_say_lines: "tidy env A (say_lines ls) (\<lambda>_. A)"
  by (simp add: tidy_calm emits_say_lines)

lemma tidy_asks:
  "tidy env A (must (run_program env c)) (\<lambda>_. A)" "tidy env A (must (write_bytes env d b)) (\<lambda>_. A)"
  by (rule tidy_calm; simp add: emits_must run_program_def write_bytes_def avoids_rules emits_ask)+

section \<open>What a panic leaves\<close>

fun kills :: "demo_effect \<Rightarrow> bool" where
  "kills (Kill_child _) = True"
| "kills _ = False"

definition kills_last :: "'a demo \<Rightarrow> bool" where
  "kills_last m \<longleftrightarrow> (\<forall>tr tr'. m tr = (Inl Panicked, tr') \<longrightarrow> (\<exists>es. list_all (\<lambda>e. \<not> kills e) es \<and> tr' = tr @ es))"

lemma kills_last_emits: "emits (\<lambda>e. \<not> kills e) m \<Longrightarrow> kills_last m"
  unfolding kills_last_def by (metis emitsE)

lemma kills_last_no_panic: "no_panic m \<Longrightarrow> kills_last m"
  by (auto simp: kills_last_def avoids_def errors_satisfy_def)

lemma kills_last_bind:
  assumes "emits (\<lambda>e. \<not> kills e) m" and "\<And>a. kills_last (f a)"
  shows "kills_last (act_bind m f)"
  unfolding kills_last_def
proof (intro allI impI)
  fix tr tr'
  assume "act_bind m f tr = (Inl Panicked, tr')"
  then show "\<exists>es. list_all (\<lambda>e. \<not> kills e) es \<and> tr' = tr @ es"
  proof (cases rule: act_bind_cases)
    case (err e)
    with assms(1) show ?thesis by (metis emitsE)
  next
    case (ok a tr1)
    with assms(1) obtain es where "list_all (\<lambda>e. \<not> kills e) es" "tr1 = tr @ es" by (metis emitsE)
    moreover from ok(2) assms(2) obtain es' where "list_all (\<lambda>e. \<not> kills e) es'" "tr' = tr1 @ es'"
      unfolding kills_last_def by blast
    ultimately show ?thesis by (intro exI [of _ "es @ es'"]) simp
  qed
qed

lemma kills_last_then: "emits (\<lambda>e. \<not> kills e) m \<Longrightarrow> kills_last k \<Longrightarrow> kills_last (act_then m k)"
  unfolding act_then_def by (rule kills_last_bind)

lemma kills_last_if: "(b \<Longrightarrow> kills_last m) \<Longrightarrow> (\<not> b \<Longrightarrow> kills_last k) \<Longrightarrow> kills_last (if b then m else k)"
  by simp

lemma kills_last_sum:
  "(\<And>e. kills_last (f e)) \<Longrightarrow> (\<And>a. kills_last (g a)) \<Longrightarrow> kills_last (case r of Inl e \<Rightarrow> f e | Inr a \<Rightarrow> g a)"
  by (simp split: sum.split)

end
