(* ===== verification/Bundle_Client.thy ===== *)
theory Bundle_Client
  imports Demo_Effects
begin

text \<open>
  The clients of Hardy's application service in the example programs: \<open>hardy_send_bundle\<close>, in the
  two versions of \<open>interop_hardy_to_ion.rs\<close> and \<open>interop_bidirectional.rs\<close>, and \<open>send_ping\<close> of
  \<open>ping_f4jxq.rs\<close>. All register as service 1, send one bundle, and read the answers from one stream. The
  lemmas say what is sent and when, exactly when a bundle counts as accepted, and what the ping
  makes of the answers it reads.
\<close>

section \<open>Registering and sending\<close>

text \<open>What the programs say on each error, in the order of the calls.\<close>

record client_texts =
  tx_connect :: string
  tx_open :: string
  tx_register :: string
  tx_register_stream :: string
  tx_register_closed :: string
  tx_register_other :: string
  tx_send :: string
  tx_send_stream :: string
  tx_send_closed :: string
  tx_send_other :: string

type_synonym 'a client = "(string, demo_trace, 'a) action"

text \<open>A read of the stream, with \<open>map_err\<close>, \<open>?\<close> and \<open>ok_or\<close>.\<close>

definition read_message :: "'y demo_env \<Rightarrow> string \<Rightarrow> string \<Rightarrow> bpa_to_app client" where
  "read_message env stream_text closed_text =
     act_bind (ask Grpc_read (de_message env)) (\<lambda>r.
     act_bind (act_lift (\<lambda>e. stream_text @ e) r) (\<lambda>m.
     case m of None \<Rightarrow> act_fail closed_text | Some msg \<Rightarrow> act_return msg))"

definition register_app :: "'y demo_env \<Rightarrow> client_texts \<Rightarrow> string \<Rightarrow> unit client" where
  "register_app env tx grpc_endpoint =
     act_bind (ask (Grpc_connect grpc_endpoint) (\<lambda>tr. de_connect env tr grpc_endpoint)) (\<lambda>r.
     act_then (act_lift (\<lambda>e. tx_connect tx @ e) r)
    (act_bind (ask Grpc_open (de_open env)) (\<lambda>r.
     act_then (act_lift (\<lambda>e. tx_open tx @ e) r)
    (act_bind (ask (Grpc_send 1 (Register_request 1)) (\<lambda>tr. de_send env tr 1 (Register_request 1))) (\<lambda>r.
     act_then (act_lift (\<lambda>e. tx_register tx @ e) r)
    (act_bind (read_message env (tx_register_stream tx) (tx_register_closed tx)) (\<lambda>reg_msg.
     case reg_msg of
       Registered _ \<Rightarrow> act_return ()
     | Bpa_status _ \<Rightarrow> act_fail (''Registration failed: '' @ de_debug env reg_msg)
     | _ \<Rightarrow> act_fail (tx_register_other tx @ de_debug env reg_msg))))))))"

text \<open>Sending one bundle and reading the answer to it.\<close>

definition send_app ::
  "'y demo_env \<Rightarrow> client_texts \<Rightarrow> string \<Rightarrow> u8 list \<Rightarrow> u64 \<Rightarrow> bpa_to_app client" where
  "send_app env tx destination payload lifetime =
     (let msg = Send_request destination payload lifetime
      in act_bind (ask (Grpc_send 2 msg) (\<lambda>tr. de_send env tr 2 msg)) (\<lambda>r.
         act_then (act_lift (\<lambda>e. tx_send tx @ e) r)
           (read_message env (tx_send_stream tx) (tx_send_closed tx))))"

definition send_bundle ::
  "'y demo_env \<Rightarrow> client_texts \<Rightarrow> string \<Rightarrow> string \<Rightarrow> u8 list \<Rightarrow> string client" where
  "send_bundle env tx grpc_endpoint destination payload =
     act_then (register_app env tx grpc_endpoint)
    (act_bind (send_app env tx destination payload 3600000) (\<lambda>send_msg.
     case send_msg of
       Sent bundle_id \<Rightarrow> act_return bundle_id
     | Bpa_status _ \<Rightarrow> act_fail (''Send failed: '' @ de_debug env send_msg)
     | _ \<Rightarrow> act_fail (tx_send_other tx @ de_debug env send_msg)))"

definition one_way_texts :: client_texts where
  "one_way_texts = \<lparr>tx_connect = ''Failed to connect to Hardy BPA Application service: '',
     tx_open = ''Failed to open Application stream: '', tx_register = ''Failed to send register: '',
     tx_register_stream = ''Stream error waiting for register response: '',
     tx_register_closed = ''Stream closed before register response'',
     tx_register_other = ''Unexpected register response: '', tx_send = ''Failed to send bundle: '',
     tx_send_stream = ''Stream error waiting for send response: '',
     tx_send_closed = ''Stream closed before send response'', tx_send_other = ''Unexpected send response: ''\<rparr>"

definition bidirectional_texts :: client_texts where
  "bidirectional_texts = \<lparr>tx_connect = ''gRPC connect failed: '',
     tx_open = ''Register stream failed: '', tx_register = ''Send register: '',
     tx_register_stream = ''Stream error: '', tx_register_closed = ''Stream closed'',
     tx_register_other = ''Unexpected: '', tx_send = ''Send bundle: '',
     tx_send_stream = ''Stream error: '', tx_send_closed = ''Stream closed'', tx_send_other = ''Unexpected: ''\<rparr>"

definition hardy_send_bundle :: "'y demo_env \<Rightarrow> string \<Rightarrow> string \<Rightarrow> u8 list \<Rightarrow> string client" where
  "hardy_send_bundle env = send_bundle env one_way_texts"

definition hardy_send_bundle_bidirectional ::
  "'y demo_env \<Rightarrow> string \<Rightarrow> string \<Rightarrow> u8 list \<Rightarrow> string client" where
  "hardy_send_bundle_bidirectional env = send_bundle env bidirectional_texts"

section \<open>The ping\<close>

text \<open>The loop under the time limit: \<open>n\<close> reads complete before the limit passes.\<close>

fun await_echo :: "'y demo_env \<Rightarrow> nat \<Rightarrow> u8 list option client" where
  "await_echo env 0 = act_return None"
| "await_echo env (Suc n) =
     act_bind (ask Grpc_read (de_message env)) (\<lambda>r.
     case r of
       Inr (Some msg) \<Rightarrow>
         (case msg of Received_payload payload \<Rightarrow> act_return (Some payload) | _ \<Rightarrow> await_echo env n)
     | Inr None \<Rightarrow> act_return None
     | Inl e \<Rightarrow> act_fail (''Stream error: '' @ e))"

definition ping_texts :: client_texts where
  "ping_texts = \<lparr>tx_connect = ''gRPC connect failed: '',
     tx_open = ''Stream open failed: '', tx_register = ''Send register: '',
     tx_register_stream = ''Stream error: '', tx_register_closed = ''BPA closed stream (registration rejected)'',
     tx_register_other = ''Unexpected: '', tx_send = ''Send bundle: '',
     tx_send_stream = ''Stream error: '', tx_send_closed = ''Stream closed after send'', tx_send_other = []\<rparr>"

text \<open>\<open>match send_msg.msg\<close> has no arm for the unexpected: it goes on to wait.\<close>

definition send_ping :: "'y demo_env \<Rightarrow> string \<Rightarrow> string \<Rightarrow> u8 list \<Rightarrow> u8 list option client" where
  "send_ping env grpc_endpoint destination payload =
     act_then (register_app env ping_texts grpc_endpoint)
    (act_bind (send_app env ping_texts destination payload 300000) (\<lambda>send_msg.
     case send_msg of
       Bpa_status _ \<Rightarrow> act_fail (''Send failed: '' @ de_debug env send_msg)
     | _ \<Rightarrow> (\<lambda>tr. await_echo env (de_in_time env tr 15000) tr)))"

section \<open>The conversation\<close>

abbreviation register_step :: demo_effect where
  "register_step \<equiv> Grpc_send 1 (Register_request 1)"

abbreviation send_step :: "string \<Rightarrow> u8 list \<Rightarrow> u64 \<Rightarrow> demo_effect" where
  "send_step destination payload lifetime \<equiv> Grpc_send 2 (Send_request destination payload lifetime)"

definition registration :: "string \<Rightarrow> demo_trace" where
  "registration ep = [Grpc_connect ep, Grpc_open, register_step, Grpc_read]"

definition submission :: "string \<Rightarrow> u8 list \<Rightarrow> u64 \<Rightarrow> demo_trace" where
  "submission destination payload lifetime = [send_step destination payload lifetime, Grpc_read]"

text \<open>What the service must answer for the registration, and for the bundle, to go through.\<close>

definition registers :: "'y demo_env \<Rightarrow> demo_trace \<Rightarrow> string \<Rightarrow> bool" where
  "registers env tr ep \<longleftrightarrow>
     de_connect env tr ep = Inr ()
   \<and> de_open env (tr @ [Grpc_connect ep]) = Inr ()
   \<and> de_send env (tr @ [Grpc_connect ep, Grpc_open]) 1 (Register_request 1) = Inr ()
   \<and> (\<exists>eid. de_message env (tr @ [Grpc_connect ep, Grpc_open, register_step]) = Inr (Some (Registered eid)))"

definition answers_send :: "'y demo_env \<Rightarrow> demo_trace \<Rightarrow> string \<Rightarrow> u8 list \<Rightarrow> u64 \<Rightarrow> bpa_to_app \<Rightarrow> bool" where
  "answers_send env tr destination payload lifetime msg \<longleftrightarrow>
     de_send env tr 2 (Send_request destination payload lifetime) = Inr ()
   \<and> de_message env (tr @ [send_step destination payload lifetime]) = Inr (Some msg)"

lemma read_message_run:
  "read_message env s c tr = (case de_message env tr of Inl e \<Rightarrow> Inl (s @ e)
     | Inr None \<Rightarrow> Inl c | Inr (Some m) \<Rightarrow> Inr m, tr @ [Grpc_read])"
  by (auto simp: read_message_def act_bind_def ask_def act_lift_def split: sum.split option.split)

text \<open>Registration goes through or fails; until it has gone through, nothing but the request is sent.\<close>

lemma register_app_run:
  "registers env tr ep \<Longrightarrow> register_app env tx ep tr = (Inr (), tr @ registration ep)"
  by (auto simp: registers_def register_app_def registration_def act_bind_def act_then_def ask_def
      act_lift_def read_message_run)

lemma register_app_fails:
  "\<not> registers env tr ep \<Longrightarrow> \<exists>e us. register_app env tx ep tr = (Inl e, tr @ us) \<and> prefix us (registration ep)"
  by (auto simp: registers_def register_app_def registration_def act_bind_def act_then_def ask_def
      act_lift_def read_message_run split: sum.split option.split bpa_to_app.split)

lemma send_app_run:
  "answers_send env tr dest payload life msg \<Longrightarrow>
   send_app env tx dest payload life tr = (Inr msg, tr @ submission dest payload life)"
  by (simp add: answers_send_def send_app_def submission_def act_bind_def act_then_def ask_def
      act_lift_def read_message_run Let_def)

lemma send_app_fails:
  "\<nexists>msg. answers_send env tr dest payload life msg \<Longrightarrow>
   \<exists>e us. send_app env tx dest payload life tr = (Inl e, tr @ us) \<and> prefix us (submission dest payload life)"
  by (auto simp: answers_send_def send_app_def submission_def act_bind_def act_then_def ask_def
      act_lift_def read_message_run Let_def split: sum.split option.split)

text \<open>
  C27: a bundle is reported as accepted exactly when the service accepted it: the connection and the
  stream open, the registration is answered by a registration, and only then the bundle is sent
  and its answer names the bundle. Every other course ends in an error, having sent no more than a
  part of that exchange, and nothing beyond the registration unless that was answered.
\<close>

theorem send_bundle_accepted:
  "(send_bundle env tx ep dest payload tr = (Inr bundle_id, tr') \<longleftrightarrow>
      registers env tr ep \<and> answers_send env (tr @ registration ep) dest payload 3600000 (Sent bundle_id)
      \<and> tr' = tr @ registration ep @ submission dest payload 3600000)
   \<and> (\<exists>us. snd (send_bundle env tx ep dest payload tr) = tr @ us
        \<and> prefix us (registration ep @ (if registers env tr ep then submission dest payload 3600000 else [])))"
proof (cases "registers env tr ep")
  case False
  from register_app_fails [OF this, of tx] obtain e us
    where f: "register_app env tx ep tr = (Inl e, tr @ us)" "prefix us (registration ep)" by blast
  with False show ?thesis by (auto simp: send_bundle_def act_then_err)
next
  case True
  let ?tr = "tr @ registration ep"
  have run: "send_bundle env tx ep dest payload tr = act_bind (send_app env tx dest payload 3600000) (\<lambda>send_msg.
     case send_msg of Sent bundle_id \<Rightarrow> act_return bundle_id
     | Bpa_status _ \<Rightarrow> act_fail (''Send failed: '' @ de_debug env send_msg)
     | _ \<Rightarrow> act_fail (tx_send_other tx @ de_debug env send_msg)) ?tr"
    unfolding send_bundle_def by (rule act_then_ok) (rule register_app_run [OF True])
  show ?thesis
  proof (cases "\<exists>msg. answers_send env ?tr dest payload 3600000 msg")
    case False
    from send_app_fails [OF this, of tx] obtain e us
      where "send_app env tx dest payload 3600000 ?tr = (Inl e, ?tr @ us)"
        "prefix us (submission dest payload 3600000)" by blast
    with False True show ?thesis by (auto simp: run act_bind_err)
  next
    case answered: True
    then obtain msg where msg: "answers_send env ?tr dest payload 3600000 msg" by blast
    then have only: "answers_send env ?tr dest payload 3600000 m \<longleftrightarrow> m = msg" for m
      by (auto simp: answers_send_def)
    show ?thesis using True
      by (auto simp: run act_bind_def send_app_run [OF msg] only split: bpa_to_app.split)
  qed
qed

section \<open>The echo\<close>

text \<open>A read that brings a message other than a payload, and one that brings the payload.\<close>

definition reads_other :: "'y demo_env \<Rightarrow> demo_trace \<Rightarrow> bool" where
  "reads_other env tr \<longleftrightarrow>
     (case de_message env tr of Inr (Some (Received_payload _)) \<Rightarrow> False | Inr (Some _) \<Rightarrow> True | _ \<Rightarrow> False)"

lemma await_echo_other:
  "reads_other env tr \<Longrightarrow> await_echo env (Suc n) tr = await_echo env n (tr @ [Grpc_read])"
  by (auto simp: reads_other_def act_bind_def ask_def split: sum.splits option.splits bpa_to_app.splits)

lemma await_echo_payload:
  "de_message env tr = Inr (Some (Received_payload p)) \<Longrightarrow>
   await_echo env (Suc n) tr = (Inr (Some p), tr @ [Grpc_read])"
  by (simp add: act_bind_def ask_def)

lemma await_echo_end:
  "\<not> reads_other env tr \<Longrightarrow> \<nexists>p. de_message env tr = Inr (Some (Received_payload p)) \<Longrightarrow>
   \<exists>r. await_echo env (Suc n) tr = (r, tr @ [Grpc_read]) \<and> (\<forall>p. r \<noteq> Inr (Some p))"
  by (auto simp: reads_other_def act_bind_def ask_def split: sum.splits option.splits bpa_to_app.splits)

lemma await_echo_quiet:
  "\<forall>j < n. reads_other env (tr @ replicate j Grpc_read) \<Longrightarrow>
   await_echo env n tr = (Inr None, tr @ replicate n Grpc_read)"
proof (induction n arbitrary: tr)
  case 0
  then show ?case by simp
next
  case (Suc n)
  have "reads_other env tr" using Suc.prems [rule_format, of 0] by simp
  moreover have "\<forall>j < n. reads_other env ((tr @ [Grpc_read]) @ replicate j Grpc_read)"
    using Suc.prems [rule_format, of "Suc _"] by simp
  ultimately show ?case using Suc.IH by (simp add: await_echo_other del: await_echo.simps)
qed

lemma await_echo_iff:
  "await_echo env n tr = (Inr (Some p), tr') \<longleftrightarrow>
     (\<exists>k < n. (\<forall>j < k. reads_other env (tr @ replicate j Grpc_read))
        \<and> de_message env (tr @ replicate k Grpc_read) = Inr (Some (Received_payload p))
        \<and> tr' = tr @ replicate (Suc k) Grpc_read)" (is "_ \<longleftrightarrow> (\<exists>k < n. ?ok tr k)")
proof (induction n arbitrary: tr)
  case 0
  then show ?case by simp
next
  case (Suc n)
  consider (other) "reads_other env tr"
    | (payload) q where "de_message env tr = Inr (Some (Received_payload q))"
    | (over) "\<not> reads_other env tr" "\<nexists>p. de_message env tr = Inr (Some (Received_payload p))" by blast
  then show ?case
  proof cases
    case other
    then have none: "\<not> ?ok tr 0" by (auto simp: reads_other_def)
    have shift: "?ok tr (Suc k) \<longleftrightarrow> ?ok (tr @ [Grpc_read]) k" for k
      using other by (auto simp: less_Suc_eq_0_disj)
    have "(\<exists>k < Suc n. ?ok tr k) \<longleftrightarrow> ?ok tr 0 \<or> (\<exists>k < n. ?ok tr (Suc k))" by (rule Ex_less_Suc2)
    also have "\<dots> \<longleftrightarrow> (\<exists>k < n. ?ok (tr @ [Grpc_read]) k)" using none shift by blast
    finally show ?thesis unfolding await_echo_other [OF other] Suc.IH by blast
  next
    case payload
    then have no: "\<not> reads_other env tr" by (simp add: reads_other_def)
    have "?ok tr k \<longleftrightarrow> k = 0 \<and> p = q \<and> tr' = tr @ [Grpc_read]" for k
      using no payload by (cases k) auto
    then show ?thesis unfolding await_echo_payload [OF payload] by auto
  next
    case over
    have "\<not> ?ok tr k" for k using over by (cases k) auto
    with await_echo_end [OF over, of n] show ?thesis by auto
  qed
qed

lemma send_ping_run:
  assumes "registers env tr ep" and "answers_send env (tr @ registration ep) dest payload 300000 msg"
    and "\<forall>s. msg \<noteq> Bpa_status s" and "t = tr @ registration ep @ submission dest payload 300000"
  shows "send_ping env ep dest payload tr = await_echo env (de_in_time env t 15000) t"
  using assms(3)
  by (cases msg) (simp_all add: assms(4) send_ping_def act_then_def act_bind_def register_app_run [OF assms(1)]
      send_app_run [OF assms(2)])

lemma send_ping_refused:
  assumes "\<not> (registers env tr ep
    \<and> (\<exists>msg. answers_send env (tr @ registration ep) dest payload 300000 msg \<and> (\<forall>s. msg \<noteq> Bpa_status s)))"
  shows "\<exists>e. fst (send_ping env ep dest payload tr) = Inl e"
proof (cases "registers env tr ep")
  case False
  from register_app_fails [OF this, of ping_texts] show ?thesis
    by (auto simp: send_ping_def act_then_def act_bind_def)
next
  case True
  have reg: "register_app env ping_texts ep tr = (Inr (), tr @ registration ep)" by (rule register_app_run [OF True])
  show ?thesis
  proof (cases "\<exists>msg. answers_send env (tr @ registration ep) dest payload 300000 msg")
    case False
    from send_app_fails [OF this, of ping_texts] show ?thesis
      by (auto simp: send_ping_def act_then_def act_bind_def reg)
  next
    case answered: True
    then obtain msg where msg: "answers_send env (tr @ registration ep) dest payload 300000 msg" by blast
    with assms True obtain s where "msg = Bpa_status s" by blast
    with send_app_run [OF msg, of ping_texts] show ?thesis
      by (simp add: send_ping_def act_then_def act_bind_def reg)
  qed
qed

text \<open>
  C28: the ping reports an echo exactly when, after a registration and a submission that the service
  answered otherwise than by a status, one of the reads within fifteen seconds brings a payload
  and those before it brought other messages; it reports the first such payload.
\<close>

theorem ping_reports_first_payload:
  "send_ping env ep dest payload tr = (Inr (Some p), tr') \<longleftrightarrow>
     registers env tr ep
   \<and> (\<exists>msg. answers_send env (tr @ registration ep) dest payload 300000 msg \<and> (\<forall>s. msg \<noteq> Bpa_status s))
   \<and> (let t = tr @ registration ep @ submission dest payload 300000
      in \<exists>k < de_in_time env t 15000. (\<forall>j < k. reads_other env (t @ replicate j Grpc_read))
           \<and> de_message env (t @ replicate k Grpc_read) = Inr (Some (Received_payload p))
           \<and> tr' = t @ replicate (Suc k) Grpc_read)" (is "?l \<longleftrightarrow> ?r1 \<and> ?r2 \<and> ?r3")
proof (cases "?r1 \<and> ?r2")
  case True
  then obtain msg where "answers_send env (tr @ registration ep) dest payload 300000 msg" "\<forall>s. msg \<noteq> Bpa_status s"
    by blast
  from send_ping_run [OF _ this refl] True show ?thesis by (simp only: await_echo_iff Let_def simp_thms)
next
  case False
  from send_ping_refused [OF this] have "\<not> ?l" by fastforce
  with False show ?thesis by blast
qed

text \<open>
  C31: an echo that overtakes the answer to the submission is lost: the ping reads it in the place of
  that answer, throws it away, and reports that there was no response although it received one.
\<close>

theorem ping_loses_early_echo:
  assumes "registers env tr ep"
    and "answers_send env (tr @ registration ep) dest payload 300000 (Received_payload payload)"
    and "t = tr @ registration ep @ submission dest payload 300000"
    and "\<forall>j < de_in_time env t 15000. reads_other env (t @ replicate j Grpc_read)"
  shows "send_ping env ep dest payload tr = (Inr None, t @ replicate (de_in_time env t 15000) Grpc_read)"
proof -
  from send_ping_run [OF assms(1,2) _ assms(3)] await_echo_quiet [OF assms(4)] show ?thesis by simp
qed

text \<open>A service that registers, echoes at once, acknowledges, and then is silent.\<close>

definition echo_env :: "unit demo_env" where
  "echo_env = \<lparr>de_as_str = (\<lambda>_. None), de_manifest_dir = ''/src'', de_debug = (\<lambda>_. []), de_logs = False, de_os = quiet_os,
     de_iter = (\<lambda>_. []), de_create = (\<lambda>_ _. Inr ()), de_write_bytes = (\<lambda>_ _ _. Inr ()), de_spawn = (\<lambda>_ _. Inr 1),
     de_read_text = (\<lambda>_ _. Inr []), de_read_bytes = (\<lambda>_ _. Inr []), de_files = (\<lambda>_ _. Inr []),
     de_connect = (\<lambda>_ _. Inr ()), de_open = (\<lambda>_. Inr ()), de_send = (\<lambda>_ _ _. Inr ()),
     de_message = (\<lambda>tr. if length tr = 3 then Inr (Some (Registered ''ipn:10.1''))
                        else if length tr = 5 then Inr (Some (Received_payload [1, 2, 3]))
                        else Inr (Some (Sent ''b1''))),
     de_in_time = (\<lambda>_ _. 1)\<rparr>"

theorem ping_loses_early_echo_witness:
  "fst (send_ping echo_env ''http://[::1]:50051'' ''ipn:1.7'' [1, 2, 3] []) = Inr None"
proof -
  have "registers echo_env [] ''http://[::1]:50051''" by (simp add: registers_def echo_env_def)
  moreover have "answers_send echo_env ([] @ registration ''http://[::1]:50051'') ''ipn:1.7'' [1, 2, 3] 300000 (Received_payload [1, 2, 3])"
    by (simp add: answers_send_def echo_env_def registration_def)
  ultimately show ?thesis
    by (subst ping_loses_early_echo [OF _ _ refl])
      (simp_all add: reads_other_def echo_env_def registration_def submission_def)
qed

text \<open>A service that registers, acknowledges, and echoes after one more message.\<close>

definition late_echo_env :: "unit demo_env" where
  "late_echo_env = echo_env\<lparr>de_in_time := (\<lambda>_ _. 2),
     de_message := (\<lambda>tr. Inr (Some (if length tr = 3 then Registered ''ipn:10.1''
        else if length tr = 7 then Received_payload [1, 2, 3] else Sent ''b1'')))\<rparr>"

theorem ping_reports_first_payload_witness:
  "\<exists>tr. send_ping late_echo_env ''http://[::1]:50051'' ''ipn:1.7'' [1, 2, 3] [] = (Inr (Some [1, 2, 3]), tr)"
proof -
  define t where "t = [] @ registration ''http://[::1]:50051'' @ submission ''ipn:1.7'' [1, 2, 3] 300000"
  have "registers late_echo_env [] ''http://[::1]:50051''" by (simp add: registers_def late_echo_env_def echo_env_def)
  moreover have "answers_send late_echo_env ([] @ registration ''http://[::1]:50051'') ''ipn:1.7'' [1, 2, 3] 300000 (Sent ''b1'')"
    by (simp add: answers_send_def late_echo_env_def echo_env_def registration_def)
  moreover have "1 < de_in_time late_echo_env t 15000" "reads_other late_echo_env (t @ replicate 0 Grpc_read)"
    "de_message late_echo_env (t @ replicate 1 Grpc_read) = Inr (Some (Received_payload [1, 2, 3]))"
    by (simp_all add: late_echo_env_def reads_other_def t_def registration_def submission_def)
  ultimately show ?thesis
    unfolding ping_reports_first_payload Let_def t_def [symmetric]
    by (intro exI [of _ "t @ replicate (Suc 1) Grpc_read"] conjI exI [of _ "1 :: nat"] exI [of _ "Sent ''b1''"]) auto
qed

section \<open>The clients start and kill nothing\<close>

text \<open>The messages of a client, and nothing else.\<close>

fun is_grpc :: "demo_effect \<Rightarrow> bool" where
  "is_grpc (Grpc_connect _) = True"
| "is_grpc Grpc_open = True"
| "is_grpc (Grpc_send _ _) = True"
| "is_grpc Grpc_read = True"
| "is_grpc _ = False"

lemma emits_mono: "emits P m \<Longrightarrow> (\<And>e. P e \<Longrightarrow> Q e) \<Longrightarrow> emits Q m"
  unfolding emits_def by (metis list.pred_mono_strong)

lemma grpc_read_message: "emits is_grpc (read_message env s c)"
  unfolding read_message_def
  by (intro emits_struct emits_ask) (simp_all add: emits_struct split: option.split)

lemma grpc_register_app: "emits is_grpc (register_app env tx ep)"
  unfolding register_app_def
  by (intro emits_struct grpc_read_message emits_ask) (simp_all add: emits_struct split: bpa_to_app.split)

lemma grpc_send_app: "emits is_grpc (send_app env tx dest payload life)"
  unfolding send_app_def Let_def by (intro emits_struct grpc_read_message emits_ask) simp_all

lemma grpc_send_bundle: "emits is_grpc (send_bundle env tx ep dest payload)"
  unfolding send_bundle_def
  by (intro emits_struct grpc_register_app grpc_send_app) (simp add: emits_struct split: bpa_to_app.split)

lemma grpc_await_echo: "emits is_grpc (await_echo env n)"
proof (induction n)
  case (Suc n)
  then show ?case
    unfolding await_echo.simps
    by (intro emits_struct emits_ask) (simp_all add: emits_struct split: sum.split option.split bpa_to_app.split)
qed (simp add: emits_def)

lemma grpc_send_ping: "emits is_grpc (send_ping env ep dest payload)"
proof -
  have "emits is_grpc (\<lambda>tr. await_echo env (de_in_time env tr 15000) tr)"
    using grpc_await_echo by (auto simp: emits_def)
  then show ?thesis
    unfolding send_ping_def
    by (intro emits_struct grpc_register_app grpc_send_app) (simp add: emits_struct split: bpa_to_app.split)
qed

lemma emits_clients:
  assumes "\<And>e. is_grpc e \<Longrightarrow> P e"
  shows "emits P (hardy_send_bundle env ep dest payload)" "emits P (hardy_send_bundle_bidirectional env ep dest payload)"
    "emits P (send_ping env ep dest payload)"
  unfolding hardy_send_bundle_def hardy_send_bundle_bidirectional_def
  by (rule emits_mono [OF _ assms], rule grpc_send_bundle grpc_send_ping, assumption)+

lemma calm_grpc: "is_grpc e \<Longrightarrow> calm_effect e"
  by (cases e) simp_all

lemma tidy_result: "calm m \<Longrightarrow> tidy env A (act_result m) (\<lambda>_. A)"
  by (simp add: tidy_calm emits_result avoids_basic)

lemma tidy_clients:
  "tidy env A (act_result (hardy_send_bundle env ep dest payload)) (\<lambda>_. A)"
  "tidy env A (act_result (hardy_send_bundle_bidirectional env ep dest payload)) (\<lambda>_. A)"
  "tidy env A (act_result (send_ping env ep dest payload)) (\<lambda>_. A)"
  by (rule tidy_result, rule emits_clients, erule calm_grpc)+

end
