(* ===== verification/Interop_Programs.thy ===== *)
theory Interop_Programs
  imports Ltp_Interop Bundle_Client
begin

text \<open>
  The example programs \<open>interop_20k.rs\<close>, \<open>interop_hardy_to_ion.rs\<close> and \<open>ping_f4jxq.rs\<close>: they generate
  the files of both backends, start the engines, move a bundle between them, judge what arrived,
  and take everything down. \<open>Interop_Bidirectional\<close> holds the fourth program, \<open>Demo_Cleanup\<close> the
  lemmas on what a run leaves behind.
\<close>

section \<open>What the programs share\<close>

definition interop_dir :: string where "interop_dir = ''/tmp/radiant-interop''"
definition ping_dir :: string where "ping_dir = ''/tmp/radiant-ping-f4jxq''"

definition hardy_bpa_bin :: "'y demo_env \<Rightarrow> string" where
  "hardy_bpa_bin env = de_manifest_dir env @ ''/../hardy/target/debug/hardy-bpa-server''"

definition hardy_ltp_bin :: "'y demo_env \<Rightarrow> string" where
  "hardy_ltp_bin env = de_manifest_dir env @ ''/../hardy-ltp-cla/target/debug/hardy-ltp-server''"

definition hardy_tcpcl_bin :: "'y demo_env \<Rightarrow> string" where
  "hardy_tcpcl_bin env = de_manifest_dir env @ ''/../hardy/target/debug/hardy-tcpclv4-server''"

definition bpa_command :: "'y demo_env \<Rightarrow> stdin_source \<Rightarrow> string \<Rightarrow> string option \<Rightarrow> child_command" where
  "bpa_command env stdin config_file log =
     \<lparr>cc_program = hardy_bpa_bin env, cc_args = [''-c'', config_file], cc_env = [], cc_stdin = stdin,
      cc_dir = None, cc_log = log\<rparr>"

definition ltp_command :: "'y demo_env \<Rightarrow> string \<Rightarrow> string \<Rightarrow> child_command" where
  "ltp_command env config_file log =
     \<lparr>cc_program = hardy_ltp_bin env, cc_args = [config_file],
      cc_env = [(''RUST_LOG'', ''hardy_ltp_cla=trace,hardy_ltp_server=info,hardy_ltp_grpc=info'')],
      cc_stdin = Stdin_null, cc_dir = None, cc_log = Some log\<rparr>"

definition receiver_command :: "string \<Rightarrow> string \<Rightarrow> child_command" where
  "receiver_command count recv_dir =
     \<lparr>cc_program = ''bprecvfile'', cc_args = [''ipn:10.1'', count], cc_env = [], cc_stdin = Stdin_null,
      cc_dir = Some recv_dir, cc_log = None\<rparr>"

definition bpsendfile_command :: "string \<Rightarrow> string \<Rightarrow> string \<Rightarrow> command" where
  "bpsendfile_command source_eid dest_eid payload_path =
     \<lparr>cmd_program = ''bpsendfile'', cmd_args = [source_eid, dest_eid, payload_path],
      cmd_stdin = Stdin_default, cmd_dir = None\<rparr>"

text \<open>Generation may panic; see \<open>Hardy_Config\<close>.\<close>

definition hardy_or_panic :: "'y demo_env \<Rightarrow> 'y network_configuration \<Rightarrow> generated_config demo" where
  "hardy_or_panic env c =
     (case generate_hardy_config (de_as_str env) c of None \<Rightarrow> act_fail Panicked | Some g \<Rightarrow> act_return g)"

definition counting_payload :: "nat \<Rightarrow> u8 list" where
  "counting_payload count = map (\<lambda>i. word_of_nat (i mod 256)) [0 ..< count]"

definition stored_under :: "string \<Rightarrow> storage_config option" where
  "stored_under path = Some \<lparr>st_path = path, st_max_bytes = Some 104857600\<rparr>"

definition show_bool :: "bool \<Rightarrow> string" where
  "show_bool b = (if b then ''true'' else ''false'')"

text \<open>U+2192, U+2713 and U+2717.\<close>

definition right_arrow :: string where "right_arrow = [CHR 0xE2, CHR 0x86, CHR 0x92]"
definition check_mark :: string where "check_mark = [CHR 0xE2, CHR 0x9C, CHR 0x93]"
definition cross_mark :: string where "cross_mark = [CHR 0xE2, CHR 0x9C, CHR 0x97]"

section \<open>ION to Hardy: \<open>interop_20k.rs\<close>\<close>

definition ion_config_20k :: "'y network_configuration" where
  "ion_config_20k = interop_ion_config (stored_under (interop_dir @ ''/ion''))"

definition hardy_config_20k :: "'y network_configuration" where
  "hardy_config_20k = interop_hardy_config"

text \<open>The running engines: Hardy's agent, its LTP server, ION.\<close>

type_synonym engines = "u32 \<times> u32 \<times> ion_lifecycle"

definition interop_20k_setup :: "'y demo_env \<Rightarrow> engines demo" where
  "interop_20k_setup env =
     (let ion_dir = path_join interop_dir ''ion'';
          hardy_dir = path_join interop_dir ''hardy/config'';
          ltp_log = path_join interop_dir ''ltp-cla.log''
      in act_then (remove_work_dir interop_dir)
        (act_then (killm_output Stdin_default)
        (act_bind (hardy_or_panic env hardy_config_20k) (\<lambda>hardy_generated.
         act_then (write_generated env ion_dir (generate_ion_config (ion_config_20k :: 'y network_configuration)))
        (act_then (write_generated env hardy_dir hardy_generated)
        (act_bind (spawn_child env (bpa_command env Stdin_default (path_join hardy_dir ''hardy.yaml'') None)) (\<lambda>bpa_child.
         act_then (sleep_secs 2)
        (act_then (create_file env ltp_log)
        (act_bind (spawn_child env (ltp_command env (path_join hardy_dir ''ltp-cla.yaml'') ltp_log)) (\<lambda>ltp_child.
         act_then (sleep_secs 2)
        (act_then killm_status
        (act_then (pause_sys 500)
        (act_bind (start_ion env (new_ion_lifecycle None) ion_dir) (\<lambda>ion.
         act_then (sleep_secs 2)
           (act_return (bpa_child, ltp_child, ion))))))))))))))))"

definition interop_20k_transfer :: "'y demo_env \<Rightarrow> engines \<Rightarrow> bool demo" where
  "interop_20k_transfer env = (\<lambda>(bpa_child, ltp_child, ion).
     let payload_dir = path_join interop_dir ''payloads'';
         payload_path = path_join payload_dir ''1mb.dat''
     in act_bind (health_of env ion) (\<lambda>health.
        act_then (create_dir env payload_dir)
       (act_then (must (write_bytes env payload_path (counting_payload 1048576)))
       (act_bind (must (run_program env (bpsendfile_command ''ipn:10.1'' ''ipn:20.1'' payload_path))) (\<lambda>send_result.
        if \<not> po_success send_result then act_fail Panicked
        else act_then (sleep_secs 10)
       (act_bind (read_log env (path_join interop_dir ''ltp-cla.log'')) (\<lambda>log.
        let delivered = contains_str log ''bundle dispatched to BPA''
        in act_then (if delivered
                     then act_then (say ''=== SUCCESS ==='')
                       (say (''  '' @ trim (case filter (\<lambda>l. contains_str l ''bundle dispatched'') (str_lines log) of
                               [] \<Rightarrow> [] | l # _ \<Rightarrow> l)))
                     else act_then (say ''=== FAILED ==='') (say (''  LTP CLA log:'' @ LF # log)))
           (act_return delivered))))))))"

definition stop_engines :: "'y demo_env \<Rightarrow> engines \<Rightarrow> unit demo" where
  "stop_engines env = (\<lambda>(bpa_child, ltp_child, ion).
     act_then (stop_ion env ion)
    (act_then (kill_child ltp_child)
    (act_then (kill_child bpa_child)
              (killm_output Stdin_null))))"

definition interop_20k_main :: "'y demo_env \<Rightarrow> unit demo" where
  "interop_20k_main env =
     act_bind (interop_20k_setup env) (\<lambda>engines.
     act_bind (interop_20k_transfer env engines) (\<lambda>delivered.
     act_then (stop_engines env engines)
       (if delivered then act_return () else act_fail (Exited 1))))"

section \<open>Hardy to ION: \<open>interop_hardy_to_ion.rs\<close>\<close>

definition ion_config_to_ion :: "'y network_configuration" where
  "ion_config_to_ion = interop_ion_config None"

definition hardy_config_to_ion :: "'y network_configuration" where
  "hardy_config_to_ion = interop_hardy_config"

text \<open>\<open>main\<close> up to the start of ION; \<open>TestInfra::setup\<close> does the same in its own directory.\<close>

definition hardy_first_setup ::
  "'y demo_env \<Rightarrow> string \<Rightarrow> 'y network_configuration \<Rightarrow> 'y network_configuration \<Rightarrow> nat \<Rightarrow> engines demo" where
  "hardy_first_setup env work_dir hardy_cfg ion_cfg settle_secs =
     (let ion_dir = path_join work_dir ''ion'';
          hardy_dir = path_join work_dir ''hardy/config'';
          ltp_log = path_join work_dir ''ltp-cla.log''
      in act_then (remove_work_dir work_dir)
        (act_then killm_status
        (act_bind (hardy_or_panic env hardy_cfg) (\<lambda>hardy_generated.
         act_then (write_generated env hardy_dir hardy_generated)
        (act_then (write_generated env ion_dir (generate_ion_config ion_cfg))
        (act_bind (spawn_child env (bpa_command env Stdin_null (path_join hardy_dir ''hardy.yaml'') None)) (\<lambda>bpa_child.
         act_then (sleep_secs 2)
        (act_then (create_file env ltp_log)
        (act_bind (spawn_child env (ltp_command env (path_join hardy_dir ''ltp-cla.yaml'') ltp_log)) (\<lambda>ltp_child.
         act_then (sleep_secs 2)
        (act_then killm_status
        (act_then (pause_sys 500)
        (act_bind (start_ion env (new_ion_lifecycle None) ion_dir) (\<lambda>ion.
         act_then (sleep_secs settle_secs)
           (act_return (bpa_child, ltp_child, ion))))))))))))))))"

definition to_ion_setup :: "'y demo_env \<Rightarrow> engines demo" where
  "to_ion_setup env = hardy_first_setup env interop_dir hardy_config_to_ion ion_config_to_ion 2"

text \<open>The end of the program, after an error of the client and after the verdict.\<close>

definition to_ion_teardown :: "'y demo_env \<Rightarrow> engines \<Rightarrow> u32 \<Rightarrow> unit demo" where
  "to_ion_teardown env engines recv_child =
     act_then (kill_child recv_child) (stop_engines env engines)"

text \<open>What was received is compared with what was sent, and the comparison is only printed.\<close>

definition indented :: "string list \<Rightarrow> string list" where
  "indented = map (\<lambda>l. ''    '' @ l)"

definition to_ion_verdict :: "'y demo_env \<Rightarrow> u8 list \<Rightarrow> string list \<Rightarrow> string \<Rightarrow> unit demo" where
  "to_ion_verdict env payload received_files log =
     (let has_export = contains_str log ''created export session''
      in case received_files of
           received_path # _ \<Rightarrow>
             act_bind (must (ask (Read_bytes received_path) (\<lambda>tr. de_read_bytes env tr received_path))) (\<lambda>received_data.
             say_lines ([''=== SUCCESS ==='',
                ''  Received file: '' @ received_path @ '' ('' @ show_nat (length received_data) @ '' bytes)'',
                ''  Payload matches: '' @ show_bool (received_data = payload)]
              @ (if has_export then [''  LTP export session created (Hardy'' @ right_arrow @ ''ION path confirmed)''] else [])))
         | [] \<Rightarrow> say_lines (''=== PARTIAL ===''
             # (if has_export
                then [''  LTP CLA created export session (bundle left Hardy)'',
                      ''  But bprecvfile didn'' @ [CHR 39] @ ''t capture it (may need more time or ION config)'']
                else [''  No export session in LTP CLA log'', ''  Bundle may not have been routed to the LTP CLA''])
             @ [''  LTP CLA log (last 10 lines):''] @ indented (rev (take 10 (rev (str_lines log))))))"

definition to_ion_transfer :: "'y demo_env \<Rightarrow> engines \<Rightarrow> unit demo" where
  "to_ion_transfer env engines =
     (let recv_dir = path_join interop_dir ''received''; payload = counting_payload 20480
      in act_then (create_dir env recv_dir)
        (act_bind (spawn_child env (receiver_command ''1'' recv_dir)) (\<lambda>recv_child.
         act_then (sleep_secs 1)
        (act_bind (act_result (hardy_send_bundle env ''http://[::1]:50051'' ''ipn:10.1'' payload)) (\<lambda>sent.
         case sent of
           Inl e \<Rightarrow> act_then (say (''  ERROR: '' @ e))
             (act_then (to_ion_teardown env engines recv_child) (act_fail (Exited 1)))
         | Inr bundle_id \<Rightarrow>
             act_then (sleep_secs 10)
            (act_bind (list_files env recv_dir) (\<lambda>received_files.
             act_bind (read_log env (path_join interop_dir ''ltp-cla.log'')) (\<lambda>log.
             act_then (to_ion_verdict env payload received_files log)
            (act_then (to_ion_teardown env engines recv_child)
              (if received_files = [] then act_fail (Exited 1) else act_return ()))))))))))"

definition interop_to_ion_main :: "'y demo_env \<Rightarrow> unit demo" where
  "interop_to_ion_main env = act_bind (to_ion_setup env) (to_ion_transfer env)"

section \<open>The ping: \<open>ping_f4jxq.rs\<close>\<close>

definition ping_bpa_yaml :: string where
  "ping_bpa_yaml = render
     [''admin-endpoints:'', ''  - '' @ dquote ''dtn://g4dpz/'', ''  - '' @ dquote ''ipn:10.0'', [],
      ''node-ids:'', ''  - '' @ dquote ''dtn://g4dpz/'', ''  - '' @ dquote ''ipn:10.0'', [],
      ''grpc:'', ''  address: '' @ dquote ''[::1]:50051'',
      ''  services: ['' @ dquote ''application'' @ '', '' @ dquote ''cla'' @ '', '' @ dquote ''service'' @ '']'', [],
      ''built-in-services:'', ''  echo: [7, '' @ dquote ''echo'' @ '']'']"

definition ping_tcpcl_yaml :: string where
  "ping_tcpcl_yaml = render
     [''bpa-address: '' @ dquote ''http://[::1]:50051'', ''cla-name: '' @ dquote ''tcpclv4-to-f4jxq'',
      ''address: '' @ dquote ''0.0.0.0:14556'', ''segment-mru: 16384'', ''transfer-mru: 562949953421312'',
      ''peers:'', ''  - '' @ dquote ''44.27.131.233:4556'']"

definition tcpcl_command :: "'y demo_env \<Rightarrow> string \<Rightarrow> string \<Rightarrow> child_command" where
  "tcpcl_command env config_file log =
     \<lparr>cc_program = hardy_tcpcl_bin env, cc_args = [''-c'', config_file], cc_env = [(''RUST_LOG'', ''info'')],
      cc_stdin = Stdin_null, cc_dir = None, cc_log = Some log\<rparr>"

definition ping_payload :: "u8 list" where
  "ping_payload = map (\<lambda>c. word_of_nat (code_of c)) ''RADIANT G4DPZ ping - 73 de Dave''"

definition ping_verdict :: "string + u8 list option \<Rightarrow> unit demo" where
  "ping_verdict result = say_lines
     (case result of
        Inr (Some response) \<Rightarrow>
          [''=== ECHO RESPONSE RECEIVED ==='', ''  From: ipn:1.7'',
           ''  Sent: '' @ show_nat (length ping_payload) @ '' bytes'',
           ''  Received: '' @ show_nat (length response) @ '' bytes'',
           ''  Data integrity: '' @ (if response = ping_payload then ''MATCH '' @ check_mark else ''MISMATCH '' @ cross_mark)]
      | Inr None \<Rightarrow> [''=== NO RESPONSE (timeout) ==='', ''  Bundle sent OK but no echo within 15s.'']
      | Inl e \<Rightarrow> [''=== ERROR: '' @ e @ '' ===''])"

definition ping_main :: "'y demo_env \<Rightarrow> unit demo" where
  "ping_main env =
     (let bpa_config_path = path_join ping_dir ''hardy.yaml''; bpa_log = path_join ping_dir ''bpa.log'';
          tcpcl_config_path = path_join ping_dir ''tcpclv4.yaml''; tcpcl_log = path_join ping_dir ''tcpclv4.log''
      in act_then (remove_work_dir ping_dir)
        (act_then (create_dir env ping_dir)
        (act_then (write_file env bpa_config_path ping_bpa_yaml)
        (act_then (write_file env tcpcl_config_path ping_tcpcl_yaml)
        (act_then (create_file env bpa_log)
        (act_bind (spawn_child env (bpa_command env Stdin_null bpa_config_path (Some bpa_log))) (\<lambda>bpa_child.
         act_then (sleep_secs 5)
        (act_bind (read_log env bpa_log) (\<lambda>bpa_log_content.
         if \<not> contains_str bpa_log_content ''Started successfully''
         then act_then (say_lines (''  ERROR: BPA failed to start:'' # indented (str_lines bpa_log_content)))
           (kill_child bpa_child)
         else act_then (create_file env tcpcl_log)
        (act_bind (spawn_child env (tcpcl_command env tcpcl_config_path tcpcl_log)) (\<lambda>tcpcl_child.
         act_then (sleep_secs 8)
        (act_bind (read_log env tcpcl_log) (\<lambda>tcpcl_log_content.
         act_then (say_lines (if contains_str tcpcl_log_content ''Connected to configured peer''
           then [''  Connected to F4JXQ!'']
           else ''  WARNING: No peer connection confirmed'' # indented (take 10 (str_lines tcpcl_log_content))))
        (act_bind (act_result (send_ping env ''http://[::1]:50051'' ''ipn:1.7'' ping_payload)) (\<lambda>result.
         act_then (ping_verdict result)
        (act_then (kill_child tcpcl_child)
                  (kill_child bpa_child)))))))))))))))))"

end
