(* ===== verification/Interop_Bidirectional.thy ===== *)
theory Interop_Bidirectional
  imports Interop_Programs Ion_Adapter
begin

text \<open>
  The example program \<open>interop_bidirectional.rs\<close>: three transfers in both directions, a burst, and the
  telemetry of both engines in between. \<open>tokio::join!\<close> polls its first future first, and
  \<open>ion_send_bundle\<close> does not suspend before its command has been spawned, so its effects precede
  those of \<open>hardy_send_bundle\<close>; both run to their end. The elapsed time is not printed.
\<close>

section \<open>Sending and counting\<close>

definition bidirectional_dir :: string where "bidirectional_dir = ''/tmp/radiant-interop-bidir''"

definition bidirectional_log :: string where "bidirectional_log = path_join bidirectional_dir ''ltp-cla.log''"

definition bidirectional_ion_config :: "'y network_configuration" where
  "bidirectional_ion_config = interop_ion_config (stored_under (bidirectional_dir @ ''/ion''))"

definition bidirectional_hardy_config :: "'y network_configuration" where
  "bidirectional_hardy_config = interop_hardy_config"

definition ion_send_bundle :: "'y demo_env \<Rightarrow> string \<Rightarrow> string \<Rightarrow> u8 list \<Rightarrow> string \<Rightarrow> unit client" where
  "ion_send_bundle env source_eid dest_eid payload label =
     (let payload_dir = path_join bidirectional_dir ''payloads'';
          payload_path = path_join payload_dir (label @ ''.dat'')
      in act_bind (ask (Sys (Create_dir_all payload_dir))
           (\<lambda>tr. os_create_dir_all (de_os env) (sys_effects tr) payload_dir)) (\<lambda>r.
         act_then (act_lift (\<lambda>e. ''mkdir payloads: '' @ e) r)
        (act_bind (write_bytes env payload_path payload) (\<lambda>r.
         act_then (act_lift (\<lambda>e. ''write payload: '' @ e) r)
        (act_bind (run_program env (bpsendfile_command source_eid dest_eid payload_path)) (\<lambda>r.
         act_bind (act_lift (\<lambda>e. ''bpsendfile exec: '' @ e) r) (\<lambda>output.
         if po_success output then act_return ()
         else act_fail (''bpsendfile failed: '' @ po_stderr output))))))))"

text \<open>\<open>make_payload\<close>: the index truncated to a byte, plus the seed, wrapping.\<close>

definition make_payload :: "nat \<Rightarrow> u8 \<Rightarrow> u8 list" where
  "make_payload n seed = map (\<lambda>i. word_of_nat i + seed) [0 ..< n]"

text \<open>\<open>s.matches(pat).count()\<close> for a pattern that is not empty.\<close>

fun count_str :: "string \<Rightarrow> string \<Rightarrow> nat" where
  "count_str pat [] = 0"
| "count_str pat (c # cs) =
     (if prefix pat (c # cs) then Suc (count_str pat (drop (length pat - 1) cs)) else count_str pat cs)"

definition dispatched :: string where "dispatched = ''bundle dispatched to BPA''"

section \<open>Telemetry\<close>

definition ion_stats_lines :: "bundle_statistics \<Rightarrow> string" where
  "ion_stats_lines stats =
     ''    sourced='' @ show_word (bs_sourced stats) @ '' forwarded='' @ show_word (bs_forwarded stats)
       @ '' delivered='' @ show_word (bs_delivered stats) @ '' expired='' @ show_word (bs_expired stats)
       @ '' queued='' @ show_word (bs_queued stats)"

definition ion_link_line :: "link_state \<Rightarrow> string" where
  "ion_link_line link =
     ''    link '' @ ls_link_id link @ '' (node '' @ show_word (ls_neighbor_node link) @ ''): active='' @ show_bool (ls_active link)
       @ '' tx='' @ show_word (ls_bytes_sent link) @ '' rx='' @ show_word (ls_bytes_received link)"

definition ltp_log_line :: "string \<Rightarrow> string" where
  "ltp_log_line log =
     ''    bundles_dispatched_to_bpa='' @ show_nat (count_str dispatched log)
       @ '' export_sessions='' @ show_nat (count_str ''created export session'' log)
       @ '' import_sessions='' @ show_nat (count_str ''import session'' log)"

text \<open>The ION collectors return no error; they may panic.\<close>

definition collected :: "(abstraction_error, effect list, 'a option) action \<Rightarrow> 'a demo" where
  "collected m = act_bind (act_result (on_sys m)) (\<lambda>r.
     case r of Inr (Some a) \<Rightarrow> act_return a | _ \<Rightarrow> act_fail Panicked)"

definition collect_telemetry :: "'y demo_env \<Rightarrow> unit demo" where
  "collect_telemetry env =
     (let ion_telem = new_ion_telemetry None
      in act_bind (collected (ion_collect_stats (de_logs env) (de_os env) ion_telem)) (\<lambda>stats.
         act_then (say ''  ION stats:'')
        (act_then (say (ion_stats_lines stats))
        (act_bind (collected (ion_link_states (de_logs env) (de_os env) ion_telem)) (\<lambda>links.
         act_then (say_lines (map ion_link_line links))
        (act_bind (ask (Read_text bidirectional_log) (\<lambda>tr. de_read_text env tr bidirectional_log)) (\<lambda>r.
         case r of
           Inr log \<Rightarrow> act_then (say ''  Hardy LTP CLA stats (from log):'') (say (ltp_log_line log))
         | Inl _ \<Rightarrow> act_return ())))))))"

section \<open>The infrastructure and the scenarios\<close>

definition test_infra_setup :: "'y demo_env \<Rightarrow> engines demo" where
  "test_infra_setup env =
     hardy_first_setup env bidirectional_dir bidirectional_hardy_config bidirectional_ion_config 8"

definition test_infra_teardown :: "'y demo_env \<Rightarrow> engines \<Rightarrow> unit demo" where
  "test_infra_teardown env = stop_engines env"

definition to_hardy :: string where "to_hardy = ''    ION'' @ right_arrow @ ''Hardy''"
definition to_ion :: string where "to_ion = ''    Hardy'' @ right_arrow @ ''ION''"

definition test_bidirectional_concurrent :: "'y demo_env \<Rightarrow> nat \<Rightarrow> string \<Rightarrow> (bool \<times> bool) demo" where
  "test_bidirectional_concurrent env payload_size label =
     (let ion_payload = make_payload payload_size 0xAA;
          hardy_payload = make_payload payload_size 0xBB;
          recv_dir = path_join bidirectional_dir (''received_'' @ label)
      in act_then (create_dir env recv_dir)
        (act_bind (spawn_child env (receiver_command ''1'' recv_dir)) (\<lambda>recv_child.
         act_then (pause_sys 500)
        (act_bind (act_result (ion_send_bundle env ''ipn:10.1'' ''ipn:20.1'' ion_payload (''ion2hardy_'' @ label))) (\<lambda>ion_result.
         act_bind (act_result (hardy_send_bundle_bidirectional env ''http://[::1]:50051'' ''ipn:10.1'' hardy_payload)) (\<lambda>hardy_result.
         act_then (say_lines
           [to_hardy @ '': '' @ (case ion_result of Inr _ \<Rightarrow> ''sent OK'' | Inl e \<Rightarrow> ''FAILED ('' @ e @ '')''),
            to_ion @ '': '' @ (case hardy_result of Inr i \<Rightarrow> ''sent OK (bundle_id='' @ i @ '')''
                                                   | Inl e \<Rightarrow> ''FAILED ('' @ e @ '')'')])
        (act_then (sleep_secs 8)
        (act_bind (read_log env bidirectional_log) (\<lambda>ltp_log.
         act_bind (list_files env recv_dir) (\<lambda>received_files.
         let ion_to_hardy_ok = \<not> isl ion_result \<and> contains_str ltp_log dispatched;
             hardy_to_ion_ok = \<not> isl hardy_result \<and> received_files \<noteq> []
         in act_then (kill_child recv_child)
           (act_then (say_lines [to_hardy @ '' delivered: '' @ show_bool ion_to_hardy_ok,
                                 to_ion @ '' delivered: '' @ show_bool hardy_to_ion_ok])
             (act_return (ion_to_hardy_ok, hardy_to_ion_ok)))))))))))))"

text \<open>The loops of the burst: the number of bundles that were sent.\<close>

fun count_sent :: "(nat \<Rightarrow> 'a client) \<Rightarrow> nat list \<Rightarrow> nat \<Rightarrow> nat demo" where
  "count_sent send [] n = act_return n"
| "count_sent send (i # is) n =
     act_bind (act_result (send i)) (\<lambda>r. count_sent send is (if isl r then n else n + 1))"

definition test_stress_burst :: "'y demo_env \<Rightarrow> nat \<Rightarrow> nat \<Rightarrow> (nat \<times> nat) demo" where
  "test_stress_burst env bundle_count payload_size =
     (let recv_dir = path_join bidirectional_dir ''received_stress'';
          send_ion = (\<lambda>i. ion_send_bundle env ''ipn:10.1'' ''ipn:20.1'' (make_payload payload_size (word_of_nat i))
            (''stress_ion_'' @ show_nat i));
          send_hardy = (\<lambda>i. hardy_send_bundle_bidirectional env ''http://[::1]:50051'' ''ipn:10.1''
            (make_payload payload_size (word_of_nat i + 128)))
      in act_then (remove_work_dir recv_dir)
        (act_then (create_dir env recv_dir)
        (act_bind (spawn_child env (receiver_command (show_nat bundle_count) recv_dir)) (\<lambda>recv_child.
         act_then (pause_sys 500)
        (act_bind (count_sent send_ion [0 ..< bundle_count] 0) (\<lambda>ion_sent.
         act_then (say (to_hardy @ '': '' @ show_nat ion_sent @ ''/'' @ show_nat bundle_count @ '' sent''))
        (act_bind (count_sent send_hardy [0 ..< bundle_count] 0) (\<lambda>hardy_sent.
         act_then (say (to_ion @ '': '' @ show_nat hardy_sent @ ''/'' @ show_nat bundle_count @ '' sent''))
        (act_then (sleep_secs 15)
        (act_bind (read_log env bidirectional_log) (\<lambda>ltp_log.
         act_bind (list_files env recv_dir) (\<lambda>received_files.
         act_then (kill_child recv_child)
           (act_return (count_str dispatched ltp_log, length received_files))))))))))))))"

fun run_transfers :: "'y demo_env \<Rightarrow> (nat \<times> string) list \<Rightarrow> bool \<Rightarrow> bool demo" where
  "run_transfers env [] all_passed = act_return all_passed"
| "run_transfers env ((payload_size, label) # rest) all_passed =
     act_bind (test_bidirectional_concurrent env payload_size label) (\<lambda>(i2h, h2i).
     run_transfers env rest (if \<not> i2h \<or> \<not> h2i then False else all_passed))"

definition transfer_sizes :: "(nat \<times> string) list" where
  "transfer_sizes = [(1024, ''1KB''), (20480, ''20KB''), (102400, ''100KB'')]"

definition burst_and_summary :: "'y demo_env \<Rightarrow> engines \<Rightarrow> bool \<Rightarrow> unit demo" where
  "burst_and_summary env infra all_passed =
     act_then (collect_telemetry env)
    (act_bind (test_stress_burst env 5 20480) (\<lambda>(i2h_count, h2i_count).
     act_then (collect_telemetry env)
    (act_then (test_infra_teardown env infra)
       (if all_passed \<and> \<not> (i2h_count = 0 \<and> h2i_count = 0)
        then say (''  All scenarios PASSED '' @ check_mark)
        else act_then (say (''  Some scenarios FAILED '' @ cross_mark)) (act_fail (Exited 1))))))"

definition interop_bidirectional_main :: "'y demo_env \<Rightarrow> unit demo" where
  "interop_bidirectional_main env =
     act_bind (test_infra_setup env) (\<lambda>infra.
     act_bind (run_transfers env transfer_sizes True) (burst_and_summary env infra))"

section \<open>The count never falls\<close>

lemma count_str_short: "length s < length pat \<Longrightarrow> count_str pat s = 0"
  by (induction s) (auto dest: prefix_length_le)

lemma count_str_append: "pat \<noteq> [] \<Longrightarrow> count_str pat s \<le> count_str pat (s @ t)"
proof (induction pat s rule: count_str.induct)
  case (2 pat c cs)
  show ?case
  proof (cases "prefix pat (c # cs)")
    case True
    then have "length pat - 1 \<le> length cs" using prefix_length_le [OF True] by simp
    then have "drop (length pat - 1) (cs @ t) = drop (length pat - 1) cs @ t" by simp
    moreover have "prefix pat (c # cs @ t)" using True by (metis append_Cons prefix_prefix)
    ultimately show ?thesis using 2 True by simp
  next
    case False
    have "count_str pat cs = 0" if "prefix pat (c # cs @ t)"
    proof (rule count_str_short)
      from that False have "\<not> length pat \<le> length (c # cs)"
        by (metis append_Cons prefix_length_prefix prefixI)
      then show "length cs < length pat" by simp
    qed
    with False 2 show ?thesis by auto
  qed
qed simp

lemma count_str_pos: "pat \<noteq> [] \<Longrightarrow> contains_str s pat \<Longrightarrow> 0 < count_str pat s"
proof (induction s)
  case (Cons c cs)
  then show ?case by (auto simp: contains_iff_sublist sublist_Cons_right)
qed (simp add: contains_iff_sublist)

section \<open>What the burst can decide\<close>

text \<open>
  The log is only appended to, except when it is created or the work directory is removed.
\<close>

fun resets_log :: "demo_effect \<Rightarrow> bool" where
  "resets_log (Create_file path) = (path = bidirectional_log)"
| "resets_log (Remove_dir_all dir) = (dir = bidirectional_dir)"
| "resets_log _ = False"

definition log_grows :: "'y demo_env \<Rightarrow> bool" where
  "log_grows env \<longleftrightarrow>
     (\<forall>tr e log. de_read_text env tr bidirectional_log = Inr log \<and> \<not> resets_log e \<longrightarrow>
        (\<exists>new. de_read_text env (tr @ [e]) bidirectional_log = Inr (log @ new)))"

abbreviation keeps_log :: "('e, demo_trace, 'a) action \<Rightarrow> bool" where
  "keeps_log \<equiv> emits (\<lambda>e. \<not> resets_log e)"

lemma log_grows_list:
  "log_grows env \<Longrightarrow> list_all (\<lambda>e. \<not> resets_log e) es \<Longrightarrow> de_read_text env tr bidirectional_log = Inr log \<Longrightarrow>
   \<exists>new. de_read_text env (tr @ es) bidirectional_log = Inr (log @ new)"
proof (induction es arbitrary: tr log)
  case (Cons e es)
  then obtain new where new: "de_read_text env (tr @ [e]) bidirectional_log = Inr (log @ new)"
    unfolding log_grows_def by (metis list.pred_inject(2))
  from Cons.IH [OF Cons.prems(1) _ new] Cons.prems(2) show ?case by auto
qed simp

definition log_shows :: "'y demo_env \<Rightarrow> demo_trace \<Rightarrow> bool" where
  "log_shows env tr \<longleftrightarrow> (\<exists>log. de_read_text env tr bidirectional_log = Inr log \<and> contains_str log dispatched)"

lemma log_shows_keeps:
  assumes "log_grows env" and "keeps_log m" and "m tr = (r, tr')" and "log_shows env tr"
  shows "log_shows env tr'"
proof -
  from assms(2,3) obtain es where es: "list_all (\<lambda>e. \<not> resets_log e) es" "tr' = tr @ es" by (rule emitsE)
  from assms(4) obtain log where log: "de_read_text env tr bidirectional_log = Inr log" "contains_str log dispatched"
    unfolding log_shows_def by blast
  from log_grows_list [OF assms(1) es(1) log(1)] obtain new
    where "de_read_text env tr' bidirectional_log = Inr (log @ new)" using es(2) by blast
  moreover have "contains_str (log @ new) dispatched"
    using log(2) unfolding contains_iff_sublist by (rule sublist_order.order_trans [OF _ sublist_append_rightI])
  ultimately show ?thesis unfolding log_shows_def by blast
qed

lemma emits_collected: "(\<And>e. P (Sys e)) \<Longrightarrow> emits P (collected m)"
  unfolding collected_def by (intro emits_rules emits_on_sys)

lemma emits_bidirectional:
  assumes "\<And>e. P (Sys e)" and "\<And>s. P (Say s)" and "\<And>path. P (Read_text path)" and "\<And>path b. P (Write_bytes path b)"
  shows "emits P (ion_send_bundle env s d p l)" "emits P (collect_telemetry env)"
proof -
  show "emits P (ion_send_bundle env s d p l)"
    unfolding ion_send_bundle_def Let_def by (intro emits_rules emits_ask assms)
  show "emits P (collect_telemetry env)"
    unfolding collect_telemetry_def Let_def by (intro emits_rules emits_ask emits_collected assms)
qed

lemma emits_count_sent: "(\<And>i. emits P (send i)) \<Longrightarrow> emits P (count_sent send is n)"
  by (induction "is" arbitrary: n) (auto intro!: emits_struct)

lemma avoids_count_sent: "avoids P (count_sent send is n)"
  by (induction "is" arbitrary: n) (auto intro!: avoids_rules)

lemma keeps_grpc: "is_grpc e \<Longrightarrow> \<not> resets_log e"
  by (cases e) simp_all

lemmas keeps_calls = emits_bidirectional [where P = "\<lambda>e. \<not> resets_log e", simplified]
  emits_clients [where P = "\<lambda>e. \<not> resets_log e", OF keeps_grpc]

lemma no_exit_collected: "no_exit (collected m)"
  unfolding collected_def by (intro avoids_bind avoids_basic) (simp add: avoids_basic avoids_fail split: sum.split option.split)

lemma no_exit_telemetry: "no_exit (collect_telemetry env)"
  unfolding collect_telemetry_def Let_def
  by (intro avoids_bind avoids_then avoids_ask avoids_sum avoids_basic avoids_steps avoids_say_lines no_exit_collected)

text \<open>\<open>ensures I m Q\<close>: from a history with \<open>I\<close>, \<open>m\<close> does not exit, and \<open>Q\<close> holds if it returns.\<close>

definition ensures :: "(demo_trace \<Rightarrow> bool) \<Rightarrow> 'a demo \<Rightarrow> ('a \<Rightarrow> demo_trace \<Rightarrow> bool) \<Rightarrow> bool" where
  "ensures I m Q \<longleftrightarrow>
     (\<forall>tr r tr'. I tr \<longrightarrow> m tr = (r, tr') \<longrightarrow> (case r of Inr a \<Rightarrow> Q a tr' | Inl e \<Rightarrow> \<not> is_exit e))"

lemma ensuresD: "ensures I m Q \<Longrightarrow> I tr \<Longrightarrow> m tr = (Inr a, tr') \<Longrightarrow> Q a tr'"
  unfolding ensures_def by fastforce

lemma ensures_bind:
  assumes "ensures I m Q" and "\<And>a. ensures (Q a) (f a) R"
  shows "ensures I (act_bind m f) R"
  unfolding ensures_def
proof (intro allI impI)
  fix tr r tr'
  assume "I tr" "act_bind m f tr = (r, tr')"
  from this(2) this(1) show "case r of Inr a \<Rightarrow> R a tr' | Inl e \<Rightarrow> \<not> is_exit e"
  proof (cases rule: act_bind_cases)
    case (err e)
    with assms(1) \<open>I tr\<close> show ?thesis unfolding ensures_def by fastforce
  next
    case (ok a tr1)
    from ensuresD [OF assms(1) \<open>I tr\<close> ok(1)] ok(2) assms(2) [of a] show ?thesis
      unfolding ensures_def by blast
  qed
qed

lemma ensures_then: "ensures I m (\<lambda>_. J) \<Longrightarrow> ensures J k R \<Longrightarrow> ensures I (act_then m k) R"
  unfolding act_then_def by (rule ensures_bind)

lemma ensures_return: "(\<And>tr. I tr \<Longrightarrow> Q a tr) \<Longrightarrow> ensures I (act_return a) Q"
  by (simp add: ensures_def)

lemma ensures_conseq: "ensures I m Q \<Longrightarrow> (\<And>a tr. Q a tr \<Longrightarrow> R a tr) \<Longrightarrow> ensures I m R"
  by (auto simp: ensures_def split: sum.splits)

text \<open>What does not depend on the history, and what only an emptied log could change.\<close>

lemma ensures_const: "no_exit m \<Longrightarrow> ensures (\<lambda>_. C) m (\<lambda>_ _. C)"
  by (auto simp: ensures_def avoids_def errors_satisfy_def split: sum.splits)

lemma ensures_keeps:
  assumes "log_grows env" and "keeps_log m" and "no_exit m"
  shows "ensures (\<lambda>tr. C \<longrightarrow> log_shows env tr) m (\<lambda>_ tr. C \<longrightarrow> log_shows env tr)"
  using log_shows_keeps [OF assms(1,2)] avoidsD [OF assms(3)]
  by (auto simp: ensures_def split: sum.splits)

text \<open>Reading the log: the marker is seen exactly when the log shows it, and then goes on showing it.\<close>

lemma ensures_read_log:
  assumes "log_grows env"
  shows "ensures (\<lambda>_. True) (read_log env bidirectional_log)
    (\<lambda>log tr. contains_str log dispatched \<longrightarrow> log_shows env tr)"
proof -
  have "log_shows env (tr @ [Read_text bidirectional_log])"
    if "de_read_text env tr bidirectional_log = Inr log" "contains_str log dispatched" for tr log
  proof (rule log_shows_keeps [OF assms])
    show "keeps_log (ask (Read_text bidirectional_log) (\<lambda>_. ()))" by (rule emits_ask) simp
    show "ask (Read_text bidirectional_log) (\<lambda>_. ()) tr = (Inr (), tr @ [Read_text bidirectional_log])"
      by (simp add: ask_def)
    show "log_shows env tr" using that by (auto simp: log_shows_def)
  qed
  then show ?thesis
    by (auto simp: ensures_def read_log_def act_bind_def ask_def contains_iff_sublist dispatched_def split: sum.splits)
qed

lemma ensures_read_shown:
  "ensures (log_shows env) (read_log env bidirectional_log) (\<lambda>log _. contains_str log dispatched)"
  by (auto simp: ensures_def read_log_def act_bind_def ask_def log_shows_def split: sum.splits)

section \<open>The verdict\<close>

lemmas ensures_any = ensures_const [where C = True]

lemma ensures_transfer:
  assumes "log_grows env"
  shows "ensures (\<lambda>_. True) (test_bidirectional_concurrent env n label) (\<lambda>(i2h, _) tr. i2h \<longrightarrow> log_shows env tr)"
  unfolding test_bidirectional_concurrent_def Let_def
  by (rule ensures_then, rule ensures_any, simp, rule ensures_bind, rule ensures_any, simp,
      rule ensures_then, rule ensures_any, simp, rule ensures_bind, rule ensures_any, rule avoids_basic,
      rule ensures_bind, rule ensures_any, rule avoids_basic, (rule ensures_then, rule ensures_any, simp)+,
      rule ensures_bind, rule ensures_read_log, rule assms,
      (rule ensures_then ensures_bind, rule ensures_keeps, rule assms, rule emits_rules, simp, simp)+)
    (rule ensures_return, simp)

lemma ensures_transfers:
  assumes "log_grows env"
  shows "ensures (\<lambda>tr. passed \<longrightarrow> known \<longrightarrow> log_shows env tr) (run_transfers env xs passed)
    (\<lambda>ok tr. ok \<longrightarrow> known \<or> xs \<noteq> [] \<longrightarrow> log_shows env tr)"
proof (induction xs arbitrary: passed known)
  case Nil
  show ?case unfolding run_transfers.simps by (rule ensures_return) simp
next
  case (Cons x xs)
  obtain n label where x: "x = (n, label)" by fastforce
  have first: "ensures (\<lambda>tr. passed \<longrightarrow> known \<longrightarrow> log_shows env tr) (test_bidirectional_concurrent env n label)
      (\<lambda>(i2h, _) tr. i2h \<longrightarrow> log_shows env tr)"
    using ensures_transfer [OF assms] by (simp add: ensures_def)
  have "ensures (\<lambda>tr. i2h \<longrightarrow> log_shows env tr) (run_transfers env xs (if \<not> i2h \<or> \<not> h2i then False else passed))
      (\<lambda>ok tr. ok \<longrightarrow> log_shows env tr)" for i2h h2i
  proof -
    have "ensures (\<lambda>tr. (if \<not> i2h \<or> \<not> h2i then False else passed) \<longrightarrow> True \<longrightarrow> log_shows env tr)
        (run_transfers env xs (if \<not> i2h \<or> \<not> h2i then False else passed)) (\<lambda>ok tr. ok \<longrightarrow> True \<or> xs \<noteq> [] \<longrightarrow> log_shows env tr)"
      by (rule Cons.IH)
    then show ?thesis by (auto simp: ensures_def split: if_splits)
  qed
  then show ?case
    unfolding x run_transfers.simps by (auto intro!: ensures_bind [OF first] split: prod.split)
qed

lemma ensures_shown:
  assumes "log_grows env" and "keeps_log m" and "no_exit m"
  shows "ensures (log_shows env) m (\<lambda>_. log_shows env)"
  using ensures_keeps [OF assms, of True] by simp

lemma ensures_burst:
  assumes "log_grows env"
  shows "ensures (log_shows env) (test_stress_burst env n len) (\<lambda>(i2h, _) _. 0 < i2h)"
  unfolding test_stress_burst_def Let_def
  by ((rule ensures_then ensures_bind, rule ensures_shown, rule assms,
        rule emits_steps(1,2,3,6,11) emits_spawn_kill(1) emits_count_sent, simp add: bidirectional_dir_def path_join_def keeps_calls,
        simp add: avoids_count_sent)+,
      rule ensures_bind, rule ensures_read_shown, rule ensures_bind, rule ensures_const, simp,
      (rule ensures_then, rule ensures_const, simp)+, rule ensures_return)
    (simp add: count_str_pos dispatched_def)

lemma no_exit_stop_engines: "no_exit (stop_engines env engines)"
  unfolding stop_engines_def case_prod_unfold by (intro avoids_rules avoids_steps)

text \<open>
  C30: the burst decides nothing: once the transfers have passed, the run no longer fails for any
  number of bundles that the burst sends or delivers, because the deliveries of the burst are counted in
  the log of the whole run, which shows those of the transfers.
\<close>

theorem burst_decides_nothing:
  assumes "log_grows env" and "run_transfers env transfer_sizes True tr = (Inr True, tr1)"
  shows "fst (burst_and_summary env infra True tr1) \<noteq> Inl (Exited n)"
proof -
  have shown: "log_shows env tr1"
    using ensuresD [OF ensures_transfers [OF assms(1), where known = False] _ assms(2)]
    by (simp add: transfer_sizes_def)
  have burst: "ensures (log_shows env) (test_stress_burst env 5 20480) (\<lambda>(i2h, _) _. 0 < i2h)"
    by (rule ensures_burst [OF assms(1)])
  have rest: "ensures (\<lambda>_. 0 < i2h) (act_then (collect_telemetry env)
      (act_then (test_infra_teardown env infra)
       (if True \<and> \<not> (i2h = 0 \<and> h2i = 0)
        then say (''  All scenarios PASSED '' @ check_mark)
        else act_then (say (''  Some scenarios FAILED '' @ cross_mark)) (act_fail (Exited 1)))))
      (\<lambda>_ _. True)" for i2h h2i :: nat
  proof (cases "0 < i2h")
    case True
    then have "no_exit (act_then (collect_telemetry env)
      (act_then (test_infra_teardown env infra)
       (if True \<and> \<not> (i2h = 0 \<and> h2i = 0)
        then say (''  All scenarios PASSED '' @ check_mark)
        else act_then (say (''  Some scenarios FAILED '' @ cross_mark)) (act_fail (Exited 1)))))"
      by (simp add: avoids_then no_exit_telemetry no_exit_stop_engines test_infra_teardown_def)
    then show ?thesis by (simp add: ensures_def avoids_def errors_satisfy_def split: sum.split)
  qed (simp add: ensures_def)
  have "ensures (log_shows env) (burst_and_summary env infra True) (\<lambda>_ _. True)"
    unfolding burst_and_summary_def
    by (rule ensures_then, rule ensures_shown, rule assms, rule keeps_calls, rule no_exit_telemetry,
        rule ensures_bind, rule burst) (use rest in \<open>auto split: prod.split\<close>)
  with shown show ?thesis by (cases "burst_and_summary env infra True tr1") (auto simp: ensures_def split: sum.splits)
qed

text \<open>A system on which everything works: files are kept, programs run, Hardy accepts and dispatches.\<close>

definition working_env :: "unit demo_env" where
  "working_env = echo_env\<lparr>de_os := disk_os, de_iter := sorted_iteration,
     de_read_text := (\<lambda>_ _. Inr dispatched), de_files := (\<lambda>_ _. Inr [''testfile1'']),
     de_message := (\<lambda>tr. Inr (Some (if last tr = register_step then Registered ''ipn:20.1'' else Sent ''b1'')))\<rparr>"

lemma working_client: "fst (hardy_send_bundle_bidirectional working_env ep dest payload tr) = Inr ''b1''"
proof -
  have "registers working_env tr ep" by (simp add: registers_def working_env_def echo_env_def)
  moreover have "answers_send working_env (tr @ registration ep) dest payload 3600000 (Sent ''b1'')"
    by (simp add: answers_send_def working_env_def echo_env_def)
  ultimately show ?thesis
    by (simp add: hardy_send_bundle_bidirectional_def send_bundle_def act_then_def act_bind_def register_app_run send_app_run)
qed

lemma working_ion_send: "fst (ion_send_bundle working_env s d payload label tr) = Inr ()"
  by (simp add: ion_send_bundle_def write_bytes_def run_program_def ask_def act_bind_def act_then_def act_lift_def
      working_env_def echo_env_def disk_os_def quiet_os_def quiet_output_def po_success_def Let_def)

lemma working_say_lines: "say_lines ls tr = (Inr (), tr @ map Say ls)"
  by (induction ls arbitrary: tr) (simp_all add: say_lines_def act_then_def act_bind_def say_def ask_def)

lemma working_transfer: "fst (test_bidirectional_concurrent working_env n label tr) = Inr (True, True)"
proof -
  have answers: "de_files working_env t d = Inr [''testfile1'']" "de_read_text working_env t p = Inr dispatched"
    "os_create_dir_all (de_os working_env) es d = Inr ()" "de_spawn working_env t c = Inr 1" for t d p c es
    by (simp_all add: working_env_def echo_env_def disk_os_def quiet_os_def)
  show ?thesis
    by (simp add: test_bidirectional_concurrent_def Let_def act_then_def act_bind_def create_dir_def must_def ask_def
        act_lift_def spawn_child_def pause_sys_def sleep_secs_def act_result_run read_log_def list_files_def kill_child_def working_say_lines
        answers working_client working_ion_send contains_iff_sublist)
qed

lemma working_transfers: "\<exists>tr'. run_transfers working_env xs True tr = (Inr True, tr')"
proof (induction xs arbitrary: tr)
  case (Cons x xs)
  obtain n label where "x = (n, label)" by fastforce
  moreover obtain t where "test_bidirectional_concurrent working_env n label tr = (Inr (True, True), t)"
    using working_transfer [of n label tr] by (cases "test_bidirectional_concurrent working_env n label tr") auto
  ultimately show ?case using Cons.IH [of t] by (simp add: act_bind_def)
qed simp

lemma working_log: "log_grows working_env"
  by (simp add: log_grows_def working_env_def)

theorem burst_decides_nothing_witness:
  "\<exists>t. run_transfers working_env transfer_sizes True [] = (Inr True, t)
     \<and> fst (burst_and_summary working_env (1, 2, new_ion_lifecycle None) True t) \<noteq> Inl (Exited 1)"
  using working_transfers [of transfer_sizes "[]"] burst_decides_nothing [OF working_log] by blast

end
