(* ===== verification/Demo_Cleanup.thy ===== *)
theory Demo_Cleanup
  imports Interop_Bidirectional
begin

text \<open>
  What the example programs leave behind: a run that does not panic has killed every process it
  started, and a run that panics, but for the receivers of \<open>interop_bidirectional.rs\<close>, has killed none.
\<close>

section \<open>Runs that do not panic\<close>

lemma tidy_hardy_or_panic: "tidy env A (hardy_or_panic env c) (\<lambda>_. A)"
  by (simp add: hardy_or_panic_def tidy_panic tidy_return split: option.split)

lemmas tidy_rules = tidy_then tidy_bind tidy_steps tidy_say_lines tidy_asks tidy_spawn tidy_kill tidy_hardy_or_panic tidy_clients

lemma tidy_stop_engines:
  "A \<subseteq> {bpa_child, ltp_child} \<Longrightarrow> tidy env A (stop_engines env (bpa_child, ltp_child, ion)) (\<lambda>_. {})"
  unfolding stop_engines_def prod.case by (rule tidy_conseq, (rule tidy_rules)+) auto

lemma tidy_20k_setup: "tidy env {} (interop_20k_setup env) (\<lambda>(bpa_child, ltp_child, ion). {bpa_child, ltp_child})"
  unfolding interop_20k_setup_def Let_def by ((rule tidy_rules)+, rule tidy_return) auto

lemma tidy_hardy_first:
  "tidy env {} (hardy_first_setup env dir h i n) (\<lambda>(bpa_child, ltp_child, ion). {bpa_child, ltp_child})"
  unfolding hardy_first_setup_def Let_def by ((rule tidy_rules)+, rule tidy_return) auto

lemma tidy_20k_transfer: "tidy env A (interop_20k_transfer env engines) (\<lambda>_. A)"
  unfolding interop_20k_transfer_def Let_def case_prod_unfold
  by (rule tidy_if tidy_rules tidy_panic | rule tidy_return, simp)+

lemma tidy_20k: "tidy env {} (interop_20k_main env) (\<lambda>_. {})"
  unfolding interop_20k_main_def
  by (rule tidy_bind [OF tidy_20k_setup], rule tidy_bind [OF tidy_20k_transfer], rule tidy_then)
    (auto intro!: tidy_stop_engines tidy_return tidy_exit)

lemma tidy_to_ion_teardown:
  "A \<subseteq> {bpa_child, ltp_child, recv_child} \<Longrightarrow>
   tidy env A (to_ion_teardown env (bpa_child, ltp_child, ion) recv_child) (\<lambda>_. {})"
  unfolding to_ion_teardown_def by (rule tidy_then, rule tidy_kill) (rule tidy_stop_engines, auto)

lemma tidy_to_ion_verdict: "tidy env A (to_ion_verdict env payload files log) (\<lambda>_. A)"
proof (cases files)
  case Nil
  show ?thesis unfolding to_ion_verdict_def Let_def Nil list.case by (rule tidy_rules)+
next
  case (Cons f fs)
  have "tidy env A (must (ask (Read_bytes f) (\<lambda>tr. de_read_bytes env tr f))) (\<lambda>_. A)"
    by (intro tidy_calm emits_must emits_ask avoids_rules) simp
  then show ?thesis unfolding to_ion_verdict_def Let_def Cons list.case
    by (rule tidy_bind) (rule tidy_rules)+
qed

lemma tidy_to_ion_transfer: "tidy env {bpa_child, ltp_child} (to_ion_transfer env (bpa_child, ltp_child, ion)) (\<lambda>_. {})"
  unfolding to_ion_transfer_def Let_def
  by (rule tidy_to_ion_verdict tidy_exit tidy_sum tidy_if tidy_rules
    | rule tidy_to_ion_teardown, auto | rule tidy_return, simp)+

lemma tidy_to_ion: "tidy env {} (interop_to_ion_main env) (\<lambda>_. {})"
  unfolding interop_to_ion_main_def to_ion_setup_def
  by (rule tidy_bind [OF tidy_hardy_first]) (auto intro: tidy_to_ion_transfer)

lemma calm_ping_verdict: "emits P (ping_verdict r)" if "\<And>s. P (Say s)"
  unfolding ping_verdict_def by (intro emits_say_lines that)

lemma avoids_ping_verdict: "avoids P (ping_verdict r)"
  by (simp add: ping_verdict_def)

lemma tidy_ping_verdict: "tidy env A (ping_verdict r) (\<lambda>_. A)"
  by (simp add: tidy_calm calm_ping_verdict avoids_ping_verdict)

lemma tidy_ping: "tidy env {} (ping_main env) (\<lambda>_. {})"
  unfolding ping_main_def Let_def
  by (rule tidy_ping_verdict tidy_if tidy_rules | rule tidy_kill_last, auto)+

lemma calm_bidirectional: "calm (ion_send_bundle env s d p l)" "calm (collect_telemetry env)"
  by (rule emits_bidirectional; simp)+

lemma tidy_bidirectional_calls:
  "tidy env A (collect_telemetry env) (\<lambda>_. A)" "tidy env A (act_result (ion_send_bundle env s d p l)) (\<lambda>_. A)"
  by (simp_all add: tidy_calm tidy_result calm_bidirectional no_exit_telemetry)

lemma tidy_transfer: "tidy env A (test_bidirectional_concurrent env n label) (\<lambda>_. A)"
  unfolding test_bidirectional_concurrent_def Let_def
  by (rule tidy_bidirectional_calls tidy_rules | rule tidy_return, auto)+

lemma tidy_transfers: "tidy env A (run_transfers env xs passed) (\<lambda>_. A)"
proof (induction xs arbitrary: passed)
  case Nil
  show ?case unfolding run_transfers.simps by (rule tidy_return) simp
next
  case (Cons x xs)
  obtain n label where x: "x = (n, label)" by fastforce
  show ?case unfolding x run_transfers.simps
    by (rule tidy_bind [OF tidy_transfer]) (auto simp: Cons.IH split: prod.split)
qed

lemma tidy_count_sent: "(\<And>i. calm (send i)) \<Longrightarrow> tidy env A (count_sent send is n) (\<lambda>_. A)"
  by (intro tidy_calm emits_count_sent avoids_count_sent)

lemma calm_clients: "calm (hardy_send_bundle_bidirectional env ep d p)"
  by (rule emits_clients, erule calm_grpc)

lemma tidy_burst: "tidy env A (test_stress_burst env n len) (\<lambda>_. A)"
  unfolding test_stress_burst_def Let_def
  by (rule tidy_rules | rule tidy_count_sent, rule calm_bidirectional calm_clients | rule tidy_return, auto)+

lemma tidy_bidirectional: "tidy env {} (interop_bidirectional_main env) (\<lambda>_. {})"
proof -
  have "tidy env {bpa_child, ltp_child} (burst_and_summary env (bpa_child, ltp_child, ion) passed) (\<lambda>_. {})"
    for bpa_child ltp_child ion passed
    unfolding burst_and_summary_def test_infra_teardown_def
    by (rule tidy_then, rule tidy_bidirectional_calls, rule tidy_bind, rule tidy_burst)
      (auto intro!: tidy_then [OF tidy_bidirectional_calls(1)] tidy_then [OF tidy_stop_engines]
        tidy_then [OF tidy_steps(1)] tidy_exit tidy_steps(1))
  then show ?thesis
    unfolding interop_bidirectional_main_def test_infra_setup_def
    by (auto intro!: tidy_bind [OF tidy_hardy_first] tidy_bind [OF tidy_transfers])
qed

text \<open>
  C9: the example programs clean up: a run of any of the four that does not end in a panic, whether it
  succeeds, fails, or gives up early, leaves none of the processes it started running (each
  has been killed after it was started), whatever the system, ION and Hardy answer.
\<close>

theorem programs_clean_up:
  assumes "main \<in> {interop_20k_main, interop_to_ion_main, interop_bidirectional_main, ping_main}"
    and "main env [] = (r, tr)" and "r \<noteq> Inl Panicked"
  shows "orphans env tr = []"
proof -
  have "tidy env {} (main env) (\<lambda>_. {})"
    using assms(1) tidy_20k tidy_to_ion tidy_bidirectional tidy_ping by blast
  from tidyD [OF this _ assms(2)] assms(3) show ?thesis by (simp split: sum.splits demo_end.splits)
qed

lemmas ping_run_simps = ping_main_def Let_def act_then_def act_bind_def remove_work_dir_def create_dir_def
  write_file_def create_file_def spawn_child_def must_def ask_def act_lift_def sleep_secs_def pause_sys_def
  read_log_def say_def kill_child_def working_say_lines

theorem programs_clean_up_witness:
  "\<exists>tr. ping_main echo_env [] = (Inr (), tr) \<and> orphans echo_env tr = []"
proof -
  have run: "fst (ping_main echo_env []) = Inr ()"
    by (simp add: ping_run_simps echo_env_def quiet_os_def contains_str_simps)
  then obtain tr where tr: "ping_main echo_env [] = (Inr (), tr)" by (cases "ping_main echo_env []") auto
  from programs_clean_up [of ping_main echo_env "Inr ()" tr] tr show ?thesis by simp
qed

section \<open>Runs that panic\<close>

lemma spares_hardy_or_panic: "emits P (hardy_or_panic env c)"
  unfolding hardy_or_panic_def by (intro emits_option emits_basic)

abbreviation spares :: "('e, demo_trace, 'a) action \<Rightarrow> bool" where
  "spares \<equiv> emits (\<lambda>e. \<not> kills e)"

lemma spares_setups: "spares (interop_20k_setup env)" "spares (hardy_first_setup env dir h i n)"
  unfolding interop_20k_setup_def hardy_first_setup_def Let_def
  by (intro emits_rules spares_hardy_or_panic; simp)+

lemma no_panic_stop_engines: "no_panic (stop_engines env engines)"
  unfolding stop_engines_def case_prod_unfold by (intro avoids_rules avoids_steps)

lemma no_panic_exit: "no_panic (act_fail (Exited n))" "no_panic (act_return u)"
  by (simp_all add: avoids_fail avoids_basic)

lemma spares_grpc: "is_grpc e \<Longrightarrow> \<not> kills e"
  by (cases e) simp_all

lemmas spares_clients = emits_clients [where P = "\<lambda>e. \<not> kills e", OF spares_grpc]

lemma kills_last_20k: "kills_last (interop_20k_main env)"
proof -
  have transfer: "spares (interop_20k_transfer env engines)" for engines
    unfolding interop_20k_transfer_def Let_def case_prod_unfold by (intro emits_rules; simp)
  have "no_panic (act_then (stop_engines env engines) (if ok then act_return () else act_fail (Exited 1)))" for engines ok
    by (intro avoids_then no_panic_stop_engines) (simp add: no_panic_exit)
  then show ?thesis
    unfolding interop_20k_main_def
    by (intro kills_last_bind spares_setups transfer kills_last_no_panic)
qed

lemma kills_last_to_ion: "kills_last (interop_to_ion_main env)"
proof -
  have down: "kills_last (act_then (to_ion_teardown env engines recv) m)" if "no_panic m" for engines recv and m :: "unit demo"
    unfolding to_ion_teardown_def
    by (intro kills_last_no_panic avoids_then no_panic_stop_engines avoids_steps that)
  have verdict: "spares (to_ion_verdict env payload files log)" for payload files log
    unfolding to_ion_verdict_def Let_def by (cases files; simp only: list.case; intro emits_rules emits_ask; simp)
  have "kills_last (to_ion_transfer env engines)" for engines
    unfolding to_ion_transfer_def Let_def
    by (rule down kills_last_then kills_last_bind kills_last_sum verdict emits_result spares_clients
      | (rule emits_rules, simp) | simp add: no_panic_exit)+
  then show ?thesis unfolding interop_to_ion_main_def to_ion_setup_def by (intro kills_last_bind spares_setups)
qed

lemma kills_last_ping: "kills_last (ping_main env)"
proof -
  have down: "kills_last (act_then (kill_child p) (kill_child q))" "kills_last (kill_child p)" for p q
    by (intro kills_last_no_panic avoids_then avoids_steps)+
  show ?thesis
    unfolding ping_main_def Let_def
    by (intro kills_last_then kills_last_bind kills_last_if emits_rules calm_ping_verdict spares_clients down; simp)
qed

text \<open>
  C29: in the three programs \<open>interop_20k\<close>, \<open>interop_hardy_to_ion\<close> and \<open>ping_f4jxq\<close> a panic takes nothing down: a run
  that ends in a panic, be it that ION did not start or that \<open>bpsendfile\<close> refused the payload, has
  killed nothing, and every process it started is left running. (The fourth program,
  \<open>interop_bidirectional\<close>, kills the receiver of its first transfer before the second one, so it is not claimed for it.)
\<close>

theorem panic_leaves_everything:
  assumes "main \<in> {interop_20k_main, interop_to_ion_main, ping_main}"
    and "main env [] = (Inl Panicked, tr)"
  shows "(\<forall>pid. Kill_child pid \<notin> set tr)
    \<and> (\<forall>us c pid. prefix (us @ [Spawn_child c]) tr \<and> de_spawn env us c = Inr pid \<longrightarrow> pid \<in> set (orphans env tr))"
proof -
  have "kills_last (main env)" using assms(1) kills_last_20k kills_last_to_ion kills_last_ping by blast
  then have "list_all (\<lambda>e. \<not> kills e) tr" using assms(2) unfolding kills_last_def by fastforce
  then have none: "Kill_child pid \<notin> set tr" for pid by (auto simp: list_all_iff)
  have "pid \<in> set (orphans env tr)" if "tr = (us @ [Spawn_child c]) @ vs" "de_spawn env us c = Inr pid" for us c pid vs
    unfolding that(1) by (rule orphans_spawned) (use none [of pid] that in auto)
  with none show ?thesis by (auto simp: prefix_def)
qed

text \<open>The log of the second process cannot be created.\<close>

definition full_disk_env :: "unit demo_env" where
  "full_disk_env = echo_env\<lparr>de_create := (\<lambda>_ path. if path = path_join ping_dir ''bpa.log'' then Inr () else Inl ''full''),
     de_read_text := (\<lambda>_ _. Inr ''Started successfully''), de_spawn := (\<lambda>_ _. Inr 7)\<rparr>"

theorem panic_leaves_everything_witness:
  "\<exists>tr. ping_main full_disk_env [] = (Inl Panicked, tr) \<and> 7 \<in> set (orphans full_disk_env tr)"
proof -
  define us where "us = snd (act_then (remove_work_dir ping_dir) (act_then (create_dir full_disk_env ping_dir)
      (act_then (write_file full_disk_env (path_join ping_dir ''hardy.yaml'') ping_bpa_yaml)
      (act_then (write_file full_disk_env (path_join ping_dir ''tcpclv4.yaml'') ping_tcpcl_yaml)
      (create_file full_disk_env (path_join ping_dir ''bpa.log''))))) [])"
  define c where "c = bpa_command full_disk_env Stdin_null (path_join ping_dir ''hardy.yaml'') (Some (path_join ping_dir ''bpa.log''))"
  obtain vs where run: "ping_main full_disk_env [] = (Inl Panicked, us @ Spawn_child c # vs)"
    unfolding us_def c_def
    by (simp add: ping_run_simps full_disk_env_def echo_env_def quiet_os_def contains_str_simps path_join_def ping_dir_def)
  have "prefix (us @ [Spawn_child c]) (us @ Spawn_child c # vs)" by (simp add: prefix_def)
  moreover have "de_spawn full_disk_env us c = Inr 7" by (simp add: full_disk_env_def)
  ultimately show ?thesis using panic_leaves_everything [of ping_main full_disk_env] run by blast
qed

end
