(* ===== verification/Interop_Liveness.thy ===== *)
theory Interop_Liveness
  imports Demo_Cleanup
begin

text \<open>
  \<open>interop_20k.rs\<close> completes its end: on a system where files can be written, programs run and the
  directory lists what was written, and with a Hardy that logs the bundle it was sent, the run
  deploys ION's scripts, runs them, sends the bundle after that, and returns.
\<close>

section \<open>Actions that always return\<close>

definition completes :: "(demo_trace \<Rightarrow> bool) \<Rightarrow> 'a demo \<Rightarrow> ('a \<Rightarrow> demo_trace \<Rightarrow> bool) \<Rightarrow> bool" where
  "completes I m Q \<longleftrightarrow> (\<forall>tr. I tr \<longrightarrow> (\<exists>a tr'. m tr = (Inr a, tr') \<and> Q a tr'))"

lemma completes_bind:
  assumes "completes I m Q" and "\<And>a. completes (Q a) (f a) R"
  shows "completes I (act_bind m f) R"
  unfolding completes_def
proof (intro allI impI)
  fix tr
  assume "I tr"
  with assms(1) obtain a tr1 where "m tr = (Inr a, tr1)" "Q a tr1" unfolding completes_def by blast
  with assms(2) [of a] show "\<exists>b tr'. act_bind m f tr = (Inr b, tr') \<and> R b tr'"
    by (simp add: completes_def act_bind_def)
qed

lemma completes_then: "completes I m (\<lambda>_. J) \<Longrightarrow> completes J k R \<Longrightarrow> completes I (act_then m k) R"
  unfolding act_then_def by (rule completes_bind)

lemma completes_return: "(\<And>tr. I tr \<Longrightarrow> Q a tr) \<Longrightarrow> completes I (act_return a) Q"
  by (simp add: completes_def)

lemma completes_assume: "(C \<Longrightarrow> completes I m Q) \<Longrightarrow> completes (\<lambda>tr. C \<and> I tr) m Q"
  by (auto simp: completes_def)

text \<open>\<open>runs P m\<close>: from any history \<open>m\<close> returns, and appends effects of \<open>P\<close> only.\<close>

definition runs :: "(demo_effect \<Rightarrow> bool) \<Rightarrow> 'a demo \<Rightarrow> bool" where
  "runs P m \<longleftrightarrow> (\<forall>tr. \<exists>a es. m tr = (Inr a, tr @ es) \<and> list_all P es)"

definition kept_by :: "(demo_effect \<Rightarrow> bool) \<Rightarrow> (demo_trace \<Rightarrow> bool) \<Rightarrow> bool" where
  "kept_by P I \<longleftrightarrow> (\<forall>tr es. I tr \<longrightarrow> list_all P es \<longrightarrow> I (tr @ es))"

lemma completes_runs: "kept_by P I \<Longrightarrow> runs P m \<Longrightarrow> completes I m (\<lambda>_. I)"
  unfolding completes_def runs_def kept_by_def by metis

lemma runs_ask: "P e \<Longrightarrow> runs P (ask e f)"
  by (simp add: runs_def ask_def)

lemma runs_must: "P e \<Longrightarrow> (\<And>tr. \<exists>a. f tr = Inr a) \<Longrightarrow> runs P (must (ask e f))"
  unfolding runs_def
proof
  fix tr
  assume "P e" and "\<And>tr. \<exists>a. f tr = Inr a"
  then obtain a where "f tr = Inr a" by blast
  with \<open>P e\<close> show "\<exists>a es. must (ask e f) tr = (Inr a, tr @ es) \<and> list_all P es"
    by (simp add: must_def ask_def act_bind_def act_lift_def)
qed

section \<open>A system on which the program works\<close>

definition ion_dir_20k :: string where "ion_dir_20k = path_join interop_dir ''ion''"

definition send_20k :: command where
  "send_20k = bpsendfile_command ''ipn:10.1'' ''ipn:20.1'' (path_join (path_join interop_dir ''payloads'') ''1mb.dat'')"

definition demo_works :: "'y demo_env \<Rightarrow> bool" where
  "demo_works env \<longleftrightarrow>
     writes_work (de_os env) \<and> map_iteration (de_iter env) \<and> admin_scripts_run (de_os env)
   \<and> directory_lists_written (de_os env) ion_dir_20k
   \<and> (\<forall>tr c. \<exists>p. os_output (de_os env) tr c = Inr p \<and> po_success p)
   \<and> (\<forall>tr path. de_create env tr path = Inr ())
   \<and> (\<forall>tr path b. de_write_bytes env tr path b = Inr ())
   \<and> (\<forall>tr c. \<exists>pid. de_spawn env tr c = Inr pid)"

text \<open>Once the bundle has been sent, the log of Hardy's LTP server shows that it was dispatched.\<close>

definition hardy_logs_dispatch :: "'y demo_env \<Rightarrow> bool" where
  "hardy_logs_dispatch env \<longleftrightarrow>
     (\<forall>tr. Sys (Output send_20k) \<in> set tr \<longrightarrow>
        (\<exists>log. de_read_text env tr (path_join interop_dir ''ltp-cla.log'') = Inr log
           \<and> contains_str log ''bundle dispatched to BPA''))"

text \<open>An effect that writes no file of ION's directory.\<close>

definition spares_ion :: "demo_effect \<Rightarrow> bool" where
  "spares_ion e \<longleftrightarrow> (\<forall>p s n. e = Sys (Write_file p s) \<longrightarrow> entry_name n \<longrightarrow> p \<noteq> path_join ion_dir_20k n)"

lemma spares_ion_simps [simp]:
  "spares_ion (Sys (Output c))" "spares_ion (Sys (Sleep_millis n))" "spares_ion (Sys (Create_dir_all d))"
  "spares_ion (Remove_dir_all d)" "spares_ion (Status_of c)" "spares_ion (Create_file p)" "spares_ion (Write_bytes p b)"
  "spares_ion (Spawn_child cc)" "spares_ion (Kill_child pid)" "spares_ion (Read_text p)" "spares_ion (Say s)"
  by (simp_all add: spares_ion_def)

lemma works_steps:
  assumes "demo_works env"
  shows "runs spares_ion (say s)" "runs spares_ion (sleep_secs n)" "runs spares_ion (pause_sys n)"
    "runs spares_ion killm_status" "runs spares_ion (killm_output i)" "runs spares_ion (remove_work_dir d)"
    "runs spares_ion (create_dir env d)" "runs spares_ion (create_file env d)"
    "runs spares_ion (spawn_child env c)" "runs spares_ion (kill_child pid)"
    "runs spares_ion (must (write_bytes env d b))"
  using assms unfolding demo_works_def writes_work_def say_def sleep_secs_def pause_sys_def killm_status_def killm_output_def
    remove_work_dir_def create_dir_def create_file_def spawn_child_def kill_child_def write_bytes_def
  by (auto intro!: runs_ask runs_must)

lemma on_sys_run: "m (sys_effects tr) = (r, sys_effects tr @ es) \<Longrightarrow> on_sys m tr = (r, tr @ map Sys es)"
  by (simp add: on_sys_def)

lemma sys_effects_append [simp]: "sys_effects (tr @ us) = sys_effects tr @ sys_effects us"
  by (simp add: sys_effects_def List.map_filter_def)

lemma sys_effects_map [simp]: "sys_effects (map Sys es) = es"
  by (induction es) (simp_all add: sys_effects_def List.map_filter_def)

lemma works_commands:
  assumes "demo_works env"
  shows "runs spares_ion (stop_ion env ion)" "runs spares_ion (health_of env ion)"
proof -
  have out: "\<exists>p. os_output (de_os env) tr c = Inr p \<and> po_success p" for tr c using assms by (simp add: demo_works_def)
  show "runs spares_ion (stop_ion env ion)" unfolding runs_def
  proof
    fix tr
    let ?c = "plain_command (ion_bin_path (il_bin_dir ion) ''ionstop'') []"
    obtain p where "os_output (de_os env) (sys_effects tr) ?c = Inr p" "po_success p" using out by blast
    then have "stop_ion env ion tr = (Inr (), tr @ map Sys [Output ?c])"
      unfolding stop_ion_def
      by (intro on_sys_run) (simp add: ion_stop_def ion_stop_tools_def act_on_snd_def act_bind_def run_output_run act_lift_def)
    then show "\<exists>a es. stop_ion env ion tr = (Inr a, tr @ es) \<and> list_all spares_ion es"
      by (auto intro!: exI)
  qed
  show "runs spares_ion (health_of env ion)" unfolding runs_def
  proof
    fix tr
    let ?c = "plain_command (ion_bin_path (il_bin_dir ion) ''bplist'') []"
    obtain p where "os_output (de_os env) (sys_effects tr) ?c = Inr p" "po_success p" using out by blast
    then have "health_of env ion tr = (Inr (health_message True ''ION BP agent is running''), tr @ map Sys [Output ?c])"
      unfolding health_of_def
      by (intro on_sys_run) (simp add: ion_health_def ion_health_tools_def act_on_snd_def act_bind_def run_output_run)
    then show "\<exists>a es. health_of env ion tr = (Inr a, tr @ es) \<and> list_all spares_ion es"
      by (auto intro!: exI)
  qed
qed

section \<open>The files on the way\<close>

definition fresh_20k :: "demo_trace \<Rightarrow> bool" where
  "fresh_20k tr \<longleftrightarrow> (\<forall>n. entry_name n \<longrightarrow> written (sys_effects tr) (path_join ion_dir_20k n) = None)"

definition deployed_20k :: "'y network_configuration \<Rightarrow> demo_trace \<Rightarrow> bool" where
  "deployed_20k c tr \<longleftrightarrow> (\<forall>n. entry_name n \<longrightarrow>
     written (sys_effects tr) (path_join ion_dir_20k n) = gc_files (generate_ion_config c) n)"

text \<open>The admin tools have been run on the scripts.\<close>

definition scripts_20k :: "'y network_configuration \<Rightarrow> demo_effect list" where
  "scripts_20k c = map Sys (ion_script_runs (new_ion_lifecycle None\<lparr>il_config_dir := Some ion_dir_20k\<rparr>) ion_dir_20k c)"

definition started_20k :: "'y network_configuration \<Rightarrow> demo_trace \<Rightarrow> bool" where
  "started_20k c tr \<longleftrightarrow> deployed_20k c tr \<and> sublist (scripts_20k c) tr"

definition sent_20k :: "'y network_configuration \<Rightarrow> demo_trace \<Rightarrow> bool" where
  "sent_20k c tr \<longleftrightarrow> (\<exists>us vs. tr = us @ [Sys (Output send_20k)] @ vs \<and> started_20k c us) \<and> deployed_20k c tr"

lemma written_spared:
  assumes "list_all spares_ion es" and "entry_name n"
  shows "written (sys_effects es) (path_join ion_dir_20k n) = None"
  using assms(1)
proof (induction es)
  case (Cons e es)
  have ih: "written (sys_effects es) (path_join ion_dir_20k n) = None" using Cons by simp
  show ?case
  proof (cases e)
    case (Sys x)
    with Cons.prems assms(2) have "written [x] (path_join ion_dir_20k n) = None"
      by (cases x) (auto simp: spares_ion_def)
    moreover have "sys_effects (e # es) = [x] @ sys_effects es"
      using Sys by (simp add: sys_effects_def List.map_filter_def)
    ultimately show ?thesis using ih by (simp only: written_append) simp
  qed (use ih in \<open>simp_all add: sys_effects_def List.map_filter_def\<close>)
qed (simp add: sys_effects_def List.map_filter_def)

lemma kept_20k: "kept_by spares_ion fresh_20k" "kept_by spares_ion (deployed_20k c)"
  "kept_by spares_ion (started_20k c)" "kept_by spares_ion (sent_20k c)"
proof -
  show "kept_by spares_ion fresh_20k" and deployed: "kept_by spares_ion (deployed_20k c)"
    by (auto simp: kept_by_def fresh_20k_def deployed_20k_def written_append written_spared)
  show "kept_by spares_ion (started_20k c)"
    using deployed by (auto simp: kept_by_def started_20k_def intro: sublist_order.order_trans)
  show "kept_by spares_ion (sent_20k c)"
    using deployed unfolding kept_by_def sent_20k_def by (metis append.assoc)
qed

lemma write_generated_run:
  assumes "demo_works env"
  shows "write_generated env d g tr = (Inr (), tr @ map Sys (write_effects d (de_iter env (gc_files g))))"
  unfolding write_generated_def
  by (rule on_sys_run) (simp add: write_files_ok assms [unfolded demo_works_def])

lemma completes_deploy:
  fixes c :: "'y network_configuration"
  assumes "demo_works env"
  shows "completes fresh_20k (write_generated env ion_dir_20k (generate_ion_config c)) (\<lambda>_. deployed_20k c)"
  unfolding completes_def
proof (intro allI impI)
  fix tr
  assume fresh: "fresh_20k tr"
  have d: "ion_dir_20k \<noteq> []" by (simp add: ion_dir_20k_def path_join_def interop_dir_def)
  have works: "writes_work (de_os env)" "map_iteration (de_iter env)" using assms by (simp_all add: demo_works_def)
  have "deployed_20k c (tr @ map Sys (write_effects ion_dir_20k (de_iter env (gc_files (generate_ion_config c)))))"
    unfolding deployed_20k_def sys_effects_append sys_effects_map
    using fresh unfolding fresh_20k_def by (blast intro: ion_deployed_content [OF works d entry_name_plain])
  then show "\<exists>a tr'. write_generated env ion_dir_20k (generate_ion_config c) tr = (Inr a, tr') \<and> deployed_20k c tr'"
    by (simp add: write_generated_run [OF assms])
qed

lemma completes_start:
  fixes c :: "'y network_configuration"
  assumes "demo_works env"
  shows "completes (deployed_20k c) (start_ion env (new_ion_lifecycle None) ion_dir_20k) (\<lambda>_. started_20k c)"
  unfolding completes_def
proof (intro allI impI)
  fix tr
  assume dep: "deployed_20k c tr"
  let ?lc = "new_ion_lifecycle None\<lparr>il_config_dir := Some ion_dir_20k\<rparr>"
  let ?runs = "ion_script_runs ?lc ion_dir_20k c"
  have works: "directory_lists_written (de_os env) ion_dir_20k" "admin_scripts_run (de_os env)"
    using assms by (simp_all add: demo_works_def)
  have "written (sys_effects tr) (path_join ion_dir_20k n) \<noteq> None \<longleftrightarrow> n \<in> set (ion_file_names c)" if "entry_name n" for n
    using dep that unfolding deployed_20k_def by (simp only: ion_files_value)
  from ion_start_tools_finds [OF works this]
  have run: "start_ion env (new_ion_lifecycle None) ion_dir_20k tr
      = (Inr ?lc, tr @ map Sys (four_listings ion_dir_20k @ ?runs))"
    unfolding start_ion_def by (intro on_sys_run) (simp add: ion_start_run)
  have "list_all spares_ion (map Sys (four_listings ion_dir_20k @ ?runs))"
    by (simp add: four_listings_def ion_script_runs_def spares_ion_def)
  with dep kept_20k(2) have "deployed_20k c (tr @ map Sys (four_listings ion_dir_20k @ ?runs))"
    unfolding kept_by_def by blast
  moreover have "sublist (scripts_20k c) (tr @ map Sys (four_listings ion_dir_20k @ ?runs))"
    unfolding scripts_20k_def by (simp add: sublist_order.order_trans [OF _ sublist_append_leftI])
  ultimately show "\<exists>a tr'. start_ion env (new_ion_lifecycle None) ion_dir_20k tr = (Inr a, tr') \<and> started_20k c tr'"
    unfolding run started_20k_def by blast
qed

lemma hardy_paths:
  assumes "k \<in> {''hardy.yaml'', ''static_routes.yaml'', ''ltp-cla.yaml''}" and "entry_name n"
  shows "path_join (path_join interop_dir ''hardy/config'') k \<noteq> path_join ion_dir_20k n"
proof -
  have hd: "hd n \<noteq> CHR ''/''" "n \<noteq> []" using assms(2) by (cases n; auto simp: entry_name_def)+
  then have "path_join ion_dir_20k n = ''/tmp/radiant-interop/ion/'' @ n"
    by (simp add: path_join_def ion_dir_20k_def interop_dir_def)
  moreover have "\<exists>m. path_join (path_join interop_dir ''hardy/config'') k = ''/tmp/radiant-interop/hardy/config/'' @ m"
    using assms(1) by (auto simp: path_join_def interop_dir_def)
  ultimately show ?thesis by auto
qed

lemma hardy_spares_ion:
  assumes "generate_hardy_config as_str (hardy_config_20k :: 'y network_configuration) = Some g" and "map_iteration iter"
  shows "list_all spares_ion (map Sys (write_effects (path_join interop_dir ''hardy/config'') (iter (gc_files g))))"
proof -
  have serves: "hardy_serves (hardy_config_20k :: 'y network_configuration)"
    using interop_configs_ready(2) [of as_str] by (simp add: hardy_ready_def hardy_config_20k_def)
  obtain ls where names: "dom (gc_files g) \<subseteq> {''hardy.yaml'', ''static_routes.yaml'', ''ltp-cla.yaml''}"
    using hardy_generated [OF serves, of as_str] assms(1) by (metis option.inject)
  then have "finite (dom (gc_files g))" by (rule finite_subset) simp
  with assms(2) have entries: "(k, v) \<in> set (iter (gc_files g)) \<Longrightarrow> k \<in> dom (gc_files g)" for k v
    unfolding map_iteration_def by blast
  have "spares_ion (Sys (Write_file (path_join (path_join interop_dir ''hardy/config'') k) v))"
    if "(k, v) \<in> set (iter (gc_files g))" for k v
    using hardy_paths [OF subsetD [OF names entries [OF that]]] unfolding spares_ion_def by blast
  then have "\<forall>e \<in> set (write_effects (path_join interop_dir ''hardy/config'') (iter (gc_files g))). spares_ion (Sys e)"
    unfolding write_effects_def by auto
  then show ?thesis by (simp add: list_all_iff)
qed

lemma completes_hardy_generated:
  assumes "kept_by spares_ion I"
  shows "completes I (hardy_or_panic env (hardy_config_20k :: 'y network_configuration))
    (\<lambda>g tr. generate_hardy_config (de_as_str env) (hardy_config_20k :: 'y network_configuration) = Some g \<and> I tr)"
proof -
  have "hardy_serves (hardy_config_20k :: 'y network_configuration)"
    using interop_configs_ready(2) [of "de_as_str env"] by (simp add: hardy_ready_def hardy_config_20k_def)
  then obtain g where "generate_hardy_config (de_as_str env) (hardy_config_20k :: 'y network_configuration) = Some g"
    using hardy_generated by blast
  then show ?thesis by (simp add: hardy_or_panic_def completes_def)
qed

lemma completes_write_hardy:
  assumes "demo_works env" and "kept_by spares_ion I"
    and "generate_hardy_config (de_as_str env) (hardy_config_20k :: 'y network_configuration) = Some g"
  shows "completes I (write_generated env (path_join interop_dir ''hardy/config'') g) (\<lambda>_. I)"
proof -
  have "map_iteration (de_iter env)" using assms(1) by (simp add: demo_works_def)
  from hardy_spares_ion [OF assms(3) this]
  have "runs spares_ion (write_generated env (path_join interop_dir ''hardy/config'') g)"
    unfolding runs_def by (auto simp: write_generated_run [OF assms(1)])
  then show ?thesis by (rule completes_runs [OF assms(2)])
qed

section \<open>The run\<close>

lemma completes_20k_setup:
  fixes env :: "'y demo_env"
  assumes "demo_works env"
  shows "completes fresh_20k (interop_20k_setup env) (\<lambda>_. started_20k (ion_config_20k :: 'y network_configuration))"
proof -
  note walk = completes_runs [OF kept_20k(1)] completes_runs [OF kept_20k(2)] completes_runs [OF kept_20k(3)]
  show ?thesis
    unfolding interop_20k_setup_def Let_def ion_dir_20k_def [symmetric]
    by (rule completes_then, rule walk, rule works_steps [OF assms], rule completes_then, rule walk,
        rule works_steps [OF assms], rule completes_bind, rule completes_hardy_generated [OF kept_20k(1)],
        rule completes_assume, rule completes_then, rule completes_deploy [OF assms], rule completes_then,
        rule completes_write_hardy [OF assms kept_20k(2)], assumption,
        (rule completes_then completes_bind, rule walk, rule works_steps [OF assms])+,
        rule completes_bind, rule completes_start [OF assms],
        rule completes_then, rule walk, rule works_steps [OF assms], rule completes_return)
qed

lemma completes_send:
  assumes "demo_works env"
  shows "completes (started_20k c) (must (run_program env send_20k)) (\<lambda>p tr. po_success p \<and> sent_20k c tr)"
  unfolding completes_def
proof (intro allI impI)
  fix tr
  assume st: "started_20k c tr"
  obtain p where p: "os_output (de_os env) (sys_effects tr) send_20k = Inr p" "po_success p"
    using assms unfolding demo_works_def by blast
  have "started_20k c (tr @ [Sys (Output send_20k)])"
    using kept_20k(3) [of c] st unfolding kept_by_def by simp
  then have "sent_20k c (tr @ [Sys (Output send_20k)])"
    using st unfolding sent_20k_def started_20k_def by (metis append.right_neutral)
  then show "\<exists>a tr'. must (run_program env send_20k) tr = (Inr a, tr') \<and> po_success a \<and> sent_20k c tr'"
    using p by (simp add: must_def run_program_def ask_def act_bind_def act_lift_def)
qed

lemma completes_log:
  assumes "hardy_logs_dispatch env"
  shows "completes (sent_20k c) (read_log env (path_join interop_dir ''ltp-cla.log''))
    (\<lambda>log tr. contains_str log ''bundle dispatched to BPA'' \<and> sent_20k c tr)"
  unfolding completes_def
proof (intro allI impI)
  fix tr
  let ?p = "path_join interop_dir ''ltp-cla.log''"
  assume st: "sent_20k c tr"
  then have "Sys (Output send_20k) \<in> set tr" by (auto simp: sent_20k_def)
  with assms obtain log where "de_read_text env tr ?p = Inr log" "contains_str log ''bundle dispatched to BPA''"
    unfolding hardy_logs_dispatch_def by blast
  moreover have "sent_20k c (tr @ [Read_text ?p])" using kept_20k(4) [of c] st unfolding kept_by_def by simp
  ultimately show "\<exists>a tr'. read_log env ?p tr = (Inr a, tr') \<and> contains_str a ''bundle dispatched to BPA'' \<and> sent_20k c tr'"
    by (simp add: read_log_def ask_def act_bind_def)
qed

lemma completes_20k_transfer:
  assumes "demo_works env" and "hardy_logs_dispatch env"
  shows "completes (started_20k c) (interop_20k_transfer env (bpa, ltp, ion)) (\<lambda>delivered tr. delivered \<and> sent_20k c tr)"
proof -
  note steps = works_steps [OF assms(1)] works_commands [OF assms(1)]
  note walk = completes_runs [OF kept_20k(3)] completes_runs [OF kept_20k(4)]
  have verdict: "completes (sent_20k c) (act_then (say ''=== SUCCESS ==='') (say line)) (\<lambda>_. sent_20k c)" for line
    by (rule completes_then, rule walk, rule steps, rule walk, rule steps)
  show ?thesis
    unfolding interop_20k_transfer_def Let_def prod.case send_20k_def [symmetric]
    by (rule completes_bind, rule walk, rule steps, (rule completes_then, rule walk, rule steps)+,
        rule completes_bind, rule completes_send [OF assms(1)], rule completes_assume, simp only: not_True_eq_False if_False,
        rule completes_then, rule walk, rule steps, rule completes_bind, rule completes_log [OF assms(2)],
        rule completes_assume, simp only: if_True, rule completes_then, rule verdict, rule completes_return, simp)
qed

lemma completes_stop_engines:
  assumes "demo_works env" and "kept_by spares_ion I"
  shows "completes I (stop_engines env engines) (\<lambda>_. I)"
  unfolding stop_engines_def case_prod_unfold
  by (rule completes_then, rule completes_runs [OF assms(2)], rule works_commands [OF assms(1)],
      (rule completes_then, rule completes_runs [OF assms(2)], rule works_steps [OF assms(1)])+,
      rule completes_runs [OF assms(2)], rule works_steps [OF assms(1)])

text \<open>
  C8: the demonstration runs to its end: where files can be written, programs can be run and a
  directory lists what was written, and with a Hardy that logs the dispatch of the bundle it was sent, the
  program returns; the generated scripts of ION are on disk, the four admin tools have been run on
  them before the bundle was sent, and no process is left.
\<close>

theorem interop_20k_succeeds:
  fixes env :: "'y demo_env"
  assumes "demo_works env" and "hardy_logs_dispatch env"
  shows "\<exists>us vs. interop_20k_main env [] = (Inr (), us @ [Sys (Output send_20k)] @ vs)
     \<and> (\<forall>n. entry_name n \<longrightarrow> written (sys_effects us) (path_join ion_dir_20k n)
          = gc_files (generate_ion_config (ion_config_20k :: 'y network_configuration)) n)
     \<and> sublist (scripts_20k (ion_config_20k :: 'y network_configuration)) us
     \<and> orphans env (us @ [Sys (Output send_20k)] @ vs) = []"
proof -
  let ?c = "ion_config_20k :: 'y network_configuration"
  have "completes fresh_20k (interop_20k_main env) (\<lambda>_. sent_20k ?c)"
    unfolding interop_20k_main_def
    by (rule completes_bind, rule completes_20k_setup [OF assms(1)], case_tac a, simp only:,
        rule completes_bind, rule completes_20k_transfer [OF assms], rule completes_assume, simp only: if_True,
        rule completes_then, rule completes_stop_engines [OF assms(1) kept_20k(4)], rule completes_return)
  moreover have "fresh_20k []" by (simp add: fresh_20k_def sys_effects_def List.map_filter_def)
  ultimately obtain tr where tr: "interop_20k_main env [] = (Inr (), tr)" "sent_20k ?c tr"
    unfolding completes_def by fastforce
  moreover have "orphans env tr = []" using tidyD [OF tidy_20k _ tr(1)] by simp
  ultimately show ?thesis unfolding sent_20k_def started_20k_def deployed_20k_def by blast
qed

lemma working_env_works: "demo_works working_env" "hardy_logs_dispatch working_env"
proof -
  have "ion_dir_20k \<noteq> []" "last ion_dir_20k \<noteq> CHR ''/''" by (simp_all add: ion_dir_20k_def path_join_def interop_dir_def)
  note dir = disk_os_lists [OF this]
  show "demo_works working_env"
    using dir disk_os_works sorted_iteration_ok
    by (simp add: demo_works_def working_env_def echo_env_def)
      (simp add: disk_os_def quiet_os_def quiet_output_def po_success_def)
  show "hardy_logs_dispatch working_env"
    by (simp add: hardy_logs_dispatch_def working_env_def dispatched_def contains_iff_sublist)
qed

theorem interop_20k_succeeds_witness: "fst (interop_20k_main working_env []) = Inr ()"
  using interop_20k_succeeds [OF working_env_works] by force

end
