(* ===== verification/Test_Generators.thy ===== *)
theory Test_Generators
  imports Dtn_Model
begin

text \<open>
  The input generators of the property tests, \<open>tests/model_generators.rs\<close>: each is the predicate
  that holds of exactly the values the generator can produce. A text generated from a regular
  expression is a text that fits a pattern, a sequence of character classes with their counts.
\<close>

section \<open>Patterns\<close>

type_synonym pattern = "((char \<Rightarrow> bool) \<times> nat \<times> nat) list"

fun fits :: "pattern \<Rightarrow> string \<Rightarrow> bool" where
  "fits [] s \<longleftrightarrow> s = []"
| "fits ((p, lo, hi) # ps) s \<longleftrightarrow>
     (\<exists>k \<in> set [lo..<Suc hi]. k \<le> length s \<and> list_all p (take k s) \<and> fits ps (drop k s))"

definition lit :: "string \<Rightarrow> pattern" where
  "lit s = map (\<lambda>c. ((=) c, 1, 1)) s"

definition is_az09 :: "char \<Rightarrow> bool" where
  "is_az09 c \<longleftrightarrow> is_ascii_lower c \<or> is_ascii_digit c"

definition is_space :: "char \<Rightarrow> bool" where
  "is_space c \<longleftrightarrow> c = CHR '' ''"

declare fits.simps [simp del]

lemma fits_chars: "fits ps s \<Longrightarrow> c \<in> set s \<Longrightarrow> \<exists>q \<in> set ps. fst q c"
proof (induction ps s rule: fits.induct)
  case (1 s)
  then show ?case by (simp add: fits.simps)
next
  case (2 p lo hi ps s)
  then obtain k where k: "list_all p (take k s)" "fits ps (drop k s)" "k \<in> set [lo..<Suc hi]"
    by (auto simp: fits.simps)
  have "c \<in> set (take k s) \<or> c \<in> set (drop k s)"
    using 2(3) by (metis Un_iff append_take_drop_id set_append)
  then show ?case
  proof
    assume "c \<in> set (take k s)"
    with k(1) show ?thesis by (auto simp: list_all_iff)
  next
    assume "c \<in> set (drop k s)"
    with 2(1) [OF k(3) k(2)] show ?thesis by auto
  qed
qed

lemma fits_no_char: "fits ps s \<Longrightarrow> \<forall>q \<in> set ps. \<not> fst q c \<Longrightarrow> c \<notin> set s"
  using fits_chars by blast

lemma lit_chars [simp]: "(\<forall>q \<in> set (lit t). \<not> fst q c) \<longleftrightarrow> c \<notin> set t"
  by (auto simp: lit_def)

lemma class_chars [simp]:
  "\<not> is_ascii_lower CHR '' ''" "\<not> is_ascii_upper CHR '' ''" "\<not> is_ascii_digit CHR '' ''"
  "\<not> is_az09 CHR '' ''" "\<not> is_ascii_alphabetic CHR '' ''" "\<not> is_ascii_alphanumeric CHR '' ''"
  "\<not> is_ascii_lower LF" "\<not> is_ascii_upper LF" "\<not> is_ascii_digit LF"
  "\<not> is_az09 LF" "\<not> is_ascii_alphabetic LF" "\<not> is_ascii_alphanumeric LF" "\<not> is_space LF"
  by (simp_all add: is_az09_def is_ascii_lower_def is_ascii_upper_def is_ascii_digit_def code_of_def
      is_ascii_alphabetic_def is_ascii_alphanumeric_def is_space_def)

section \<open>Nodes\<close>

definition arb_node_number :: "u64 \<Rightarrow> bool" where
  "arb_node_number n \<longleftrightarrow> 1 \<le> n \<and> n \<le> 1000"

definition arb_service_number :: "u64 \<Rightarrow> bool" where
  "arb_service_number n \<longleftrightarrow> n \<le> 100"

fun arb_endpoint_id :: "endpoint_id \<Rightarrow> bool" where
  "arb_endpoint_id (Ipn n s) \<longleftrightarrow> arb_node_number n \<and> arb_service_number s"
| "arb_endpoint_id (Dtn authority path) \<longleftrightarrow>
     fits ([(is_ascii_lower, 1, 1), (is_az09, 1, 5)] @ lit ''-'' @ [(is_ascii_digit, 1, 2)]) authority
     \<and> fits [(is_ascii_lower, 2, 6)] path"

text \<open>An optional value: absent, or from the generator.\<close>

definition option_of :: "('a \<Rightarrow> bool) \<Rightarrow> 'a option \<Rightarrow> bool" where
  "option_of p x \<longleftrightarrow> (case x of None \<Rightarrow> True | Some v \<Rightarrow> p v)"

text \<open>A list whose length is in the range, each element from the generator.\<close>

definition vec_of :: "('a \<Rightarrow> bool) \<Rightarrow> nat \<Rightarrow> nat \<Rightarrow> 'a list \<Rightarrow> bool" where
  "vec_of p lo hi xs \<longleftrightarrow> lo \<le> length xs \<and> length xs \<le> hi \<and> list_all p xs"

definition arb_service_demux :: "service_demux \<Rightarrow> bool" where
  "arb_service_demux s \<longleftrightarrow>
     arb_service_number (sd_service_number s)
     \<and> option_of (fits [(\<lambda>c. is_ascii_lower c \<or> is_space c, 3, 20)]) (sd_description s)"

definition arb_node_definition :: "node_definition \<Rightarrow> bool" where
  "arb_node_definition n \<longleftrightarrow>
     arb_node_number (nd_node_number n)
     \<and> option_of arb_endpoint_id (nd_endpoint_id n)
     \<and> option_of arb_endpoint_id (nd_callsign_eid n)
     \<and> fits [(is_ascii_alphabetic, 1, 1), (\<lambda>c. is_ascii_alphanumeric c \<or> is_space c, 2, 20)] (nd_name n)
     \<and> vec_of arb_service_demux 0 3 (nd_services n)"

section \<open>Links and neighbours\<close>

definition link_id_pattern :: pattern where
  "link_id_pattern = [(is_ascii_lower, 3, 8)] @ lit ''-'' @ [(is_ascii_digit, 1, 3)]"

definition host_pattern :: pattern where
  "host_pattern = lit ''192.168.'' @ [(is_ascii_digit, 1, 3)] @ lit ''.'' @ [(is_ascii_digit, 1, 3)]"

definition device_pattern :: pattern where
  "device_pattern = lit ''/dev/tty'' @ [(is_ascii_upper, 3, 3), (is_ascii_digit, 1, 1)]"

definition arb_port :: "u16 \<Rightarrow> bool" where
  "arb_port p \<longleftrightarrow> 1024 \<le> p \<and> p \<le> 65000"

fun arb_ltp_udp_link :: "convergence_layer_link \<Rightarrow> bool" where
  "arb_ltp_udp_link (LtpUdp ident local_engine_id remote_engine_id remote_host remote_port local_port mtu segment_rate)
     \<longleftrightarrow> fits link_id_pattern ident \<and> arb_node_number local_engine_id \<and> arb_node_number remote_engine_id
       \<and> fits host_pattern remote_host \<and> arb_port remote_port \<and> arb_port local_port
       \<and> option_of (\<lambda>m. 512 \<le> m \<and> m \<le> 9000) mtu \<and> option_of (\<lambda>r. 1 \<le> r \<and> r \<le> 1000) segment_rate"
| "arb_ltp_udp_link _ \<longleftrightarrow> False"

fun arb_tcpcl_link :: "convergence_layer_link \<Rightarrow> bool" where
  "arb_tcpcl_link (TcpCl ident remote_host remote_port local_port keepalive_interval_secs) \<longleftrightarrow>
     fits link_id_pattern ident \<and> fits host_pattern remote_host \<and> arb_port remote_port
     \<and> option_of arb_port local_port \<and> option_of (\<lambda>k. 10 \<le> k \<and> k \<le> 300) keepalive_interval_secs"
| "arb_tcpcl_link _ \<longleftrightarrow> False"

fun arb_kiss_link :: "convergence_layer_link \<Rightarrow> bool" where
  "arb_kiss_link (Kiss ident tnc_device baud_rate local_engine_id remote_engine_id frame_size) \<longleftrightarrow>
     fits link_id_pattern ident \<and> fits device_pattern tnc_device \<and> baud_rate \<in> {1200, 9600, 19200}
     \<and> arb_node_number local_engine_id \<and> arb_node_number remote_engine_id
     \<and> option_of (\<lambda>f. 64 \<le> f \<and> f \<le> 512) frame_size"
| "arb_kiss_link _ \<longleftrightarrow> False"

fun arb_udp_link :: "convergence_layer_link \<Rightarrow> bool" where
  "arb_udp_link (Udp ident remote_host remote_port local_port) \<longleftrightarrow>
     fits link_id_pattern ident \<and> fits host_pattern remote_host \<and> arb_port remote_port
     \<and> option_of arb_port local_port"
| "arb_udp_link _ \<longleftrightarrow> False"

definition arb_convergence_layer_link :: "convergence_layer_link \<Rightarrow> bool" where
  "arb_convergence_layer_link l \<longleftrightarrow>
     arb_ltp_udp_link l \<or> arb_tcpcl_link l \<or> arb_kiss_link l \<or> arb_udp_link l"

definition arb_neighbor :: "neighbor \<Rightarrow> bool" where
  "arb_neighbor n \<longleftrightarrow>
     arb_node_number (nb_node_number n)
     \<and> option_of (fits [(is_ascii_alphabetic, 1, 1), (\<lambda>c. is_ascii_alphanumeric c \<or> is_space c, 2, 15)])
         (nb_name n)
     \<and> vec_of arb_convergence_layer_link 1 3 (nb_links n)
     \<and> option_of (\<lambda>r. 1000 \<le> r \<and> r \<le> 1000000000) (nb_rate_limit_bps n)"

section \<open>Contact plan\<close>

text \<open>A floating point number in the closed interval from 0 to \<open>hi\<close>.\<close>

fun f64_up_to :: "nat \<Rightarrow> f64 \<Rightarrow> bool" where
  "f64_up_to hi (F64_finite m e) \<longleftrightarrow>
     0 \<le> m \<and> m * 2 ^ nat e \<le> int hi * 2 ^ nat (- e)"
| "f64_up_to hi _ \<longleftrightarrow> False"

text \<open>The end time is the start time plus a duration from 1 to 86400 seconds.\<close>

definition arb_contact :: "contact \<Rightarrow> bool" where
  "arb_contact t \<longleftrightarrow>
     arb_node_number (ct_source_node t) \<and> arb_node_number (ct_dest_node t)
     \<and> 0 \<le> sint (ct_start_time t) \<and> sint (ct_start_time t) \<le> 1700000000
     \<and> 1 \<le> sint (ct_end_time t) - sint (ct_start_time t)
     \<and> sint (ct_end_time t) - sint (ct_start_time t) \<le> 86400
     \<and> 1 \<le> ct_rate_bps t \<and> ct_rate_bps t \<le> 1000000000
     \<and> f64_up_to 1 (ct_confidence t)"

definition arb_range :: "range \<Rightarrow> bool" where
  "arb_range r \<longleftrightarrow>
     arb_node_number (rg_source_node r) \<and> arb_node_number (rg_dest_node r)
     \<and> f64_up_to 10 (rg_owlt_secs r)"

definition arb_contact_plan :: "contact_plan \<Rightarrow> bool" where
  "arb_contact_plan p \<longleftrightarrow>
     vec_of arb_contact 0 10 (cp_contacts p) \<and> vec_of arb_range 0 5 (cp_ranges p)"

section \<open>Routing, storage, the whole configuration\<close>

definition arb_routing_strategy :: "routing_strategy \<Rightarrow> bool" where
  "arb_routing_strategy s \<longleftrightarrow> s \<in> {Cgr, Static, Default}"

definition arb_static_route :: "static_route \<Rightarrow> bool" where
  "arb_static_route r \<longleftrightarrow>
     arb_node_number (sr_destination_node r) \<and> arb_node_number (sr_next_hop_node r)"

definition arb_routing_config :: "routing_config \<Rightarrow> bool" where
  "arb_routing_config r \<longleftrightarrow>
     arb_routing_strategy (rc_strategy r) \<and> vec_of arb_static_route 0 5 (rc_static_routes r)"

definition arb_security_config :: "security_config \<Rightarrow> bool" where
  "arb_security_config s \<longleftrightarrow> sec_enabled s \<in> {True, False}"

definition arb_storage_config :: "storage_config \<Rightarrow> bool" where
  "arb_storage_config s \<longleftrightarrow>
     fits (lit ''/'' @ [(is_ascii_lower, 3, 8)] @ lit ''/'' @ [(is_ascii_lower, 3, 8)]) (st_path s)
     \<and> option_of (\<lambda>b. 1024 \<le> b \<and> b \<le> 10000000000) (st_max_bytes s)"

definition arb_network_configuration :: "'y network_configuration \<Rightarrow> bool" where
  "arb_network_configuration c \<longleftrightarrow>
     nc_version c = ''1.0'' \<and> nc_backend c = ''ion-dtn''
     \<and> arb_node_definition (nc_local_node c)
     \<and> vec_of arb_neighbor 0 5 (nc_neighbors c)
     \<and> arb_contact_plan (nc_contact_plan c)
     \<and> arb_routing_config (nc_routing c)
     \<and> option_of arb_security_config (nc_security c)
     \<and> option_of arb_storage_config (nc_storage c)
     \<and> nc_backend_options c = Map.empty"

section \<open>What the generated texts do not contain\<close>

text \<open>The texts that a link puts into the generated files.\<close>

fun duct_text :: "convergence_layer_link \<Rightarrow> string" where
  "duct_text (LtpUdp _ _ _ remote_host _ _ _ _) = remote_host"
| "duct_text (TcpCl _ remote_host _ _ _) = remote_host"
| "duct_text (Kiss _ tnc_device _ _ _ _) = tnc_device"
| "duct_text (Udp _ remote_host _ _) = remote_host"

fun endpoint_text :: "endpoint_id \<Rightarrow> string" where
  "endpoint_text (Ipn _ _) = []"
| "endpoint_text (Dtn authority path) = authority @ path"

lemma patterns_no_space:
  "fits host_pattern s \<Longrightarrow> CHR '' '' \<notin> set s" "fits device_pattern s \<Longrightarrow> CHR '' '' \<notin> set s"
  by (erule fits_no_char; simp add: host_pattern_def device_pattern_def lit_def)+

lemma patterns_no_LF:
  "fits host_pattern s \<Longrightarrow> LF \<notin> set s" "fits device_pattern s \<Longrightarrow> LF \<notin> set s"
  by (erule fits_no_char; simp add: host_pattern_def device_pattern_def lit_def)+

lemma arb_link_text:
  assumes "arb_convergence_layer_link l"
  shows "CHR '' '' \<notin> set (duct_text l)" "LF \<notin> set (duct_text l)"
  using assms by (cases l; auto simp: arb_convergence_layer_link_def patterns_no_space patterns_no_LF)+

lemma arb_endpoint_text:
  assumes "arb_endpoint_id e"
  shows "CHR '' '' \<notin> set (endpoint_text e)" "LF \<notin> set (endpoint_text e)"
  using assms fits_no_char [where c = "CHR '' ''"] fits_no_char [where c = LF]
  by (cases e; auto simp: lit_def)+

lemma arb_configuration_texts:
  assumes "arb_network_configuration c"
  shows "l \<in> set (all_links (nc_neighbors c)) \<Longrightarrow> CHR '' '' \<notin> set (duct_text l) \<and> LF \<notin> set (duct_text l)"
    and "nd_callsign_eid (nc_local_node c) = Some e \<Longrightarrow>
      CHR '' '' \<notin> set (endpoint_text e) \<and> LF \<notin> set (endpoint_text e)"
proof -
  show "l \<in> set (all_links (nc_neighbors c)) \<Longrightarrow> CHR '' '' \<notin> set (duct_text l) \<and> LF \<notin> set (duct_text l)"
    using assms arb_link_text
    by (auto simp: arb_network_configuration_def in_all_links vec_of_def arb_neighbor_def list_all_iff)
  show "nd_callsign_eid (nc_local_node c) = Some e \<Longrightarrow>
      CHR '' '' \<notin> set (endpoint_text e) \<and> LF \<notin> set (endpoint_text e)"
    using assms arb_endpoint_text [of e]
    by (simp add: arb_network_configuration_def arb_node_definition_def option_of_def)
qed

section \<open>Searching a rendered file\<close>

lemma sublist_across:
  assumes "y \<notin> set pat" "pat \<noteq> []"
  shows "sublist pat (l @ y # r) \<longleftrightarrow> sublist pat l \<or> sublist pat r"
proof -
  have "sublist pat (y # r) \<longleftrightarrow> sublist pat r"
    using assms by (cases pat) (auto simp: sublist_Cons_right)
  moreover have "sublist pat l" if "suffix xs l" "prefix ys (y # r)" "pat = xs @ ys" for xs ys
  proof -
    have "ys = []" using that assms(1) by (cases ys) auto
    with that show ?thesis by (simp add: suffix_imp_sublist)
  qed
  ultimately show ?thesis by (auto simp: sublist_append)
qed

lemma contains_across:
  "y \<notin> set pat \<Longrightarrow> pat \<noteq> [] \<Longrightarrow>
   contains_str (l @ y # r) pat \<longleftrightarrow> contains_str l pat \<or> contains_str r pat"
  by (simp add: contains_iff_sublist sublist_across)

lemma contains_render:
  assumes "LF \<notin> set pat" "pat \<noteq> []"
  shows "contains_str (render ls) pat \<longleftrightarrow> (\<exists>l \<in> set ls. contains_str l pat)"
  using assms by (induction ls) (auto simp: contains_iff_sublist sublist_across)

lemma contains_trans: "contains_str s p \<Longrightarrow> contains_str p q \<Longrightarrow> contains_str s q"
  using sublist_order.order_trans by (auto simp: contains_iff_sublist)

lemma contains_prefix: "contains_str (p @ s) p"
  by (simp add: contains_iff_sublist prefix_imp_sublist)

lemma contains_line: "l @ r \<in> set ls \<Longrightarrow> contains_str (render ls) l"
proof (induction ls)
  case (Cons k ks)
  then show ?case
    by (auto simp: contains_iff_sublist sublist_append prefix_imp_sublist sublist_Cons_right)
qed simp

section \<open>What the unit tests look for in a file\<close>

text \<open>Every pattern occurs in the text.\<close>

definition contains_all :: "string \<Rightarrow> string list \<Rightarrow> bool" where
  "contains_all content patterns \<longleftrightarrow> list_all (contains_str content) patterns"

text \<open>The first pattern occurs before the second; both must occur.\<close>

definition found_before :: "string \<Rightarrow> string \<Rightarrow> string \<Rightarrow> bool" where
  "found_before content pat1 pat2 \<longleftrightarrow>
     (case (find_sub pat1 content, find_sub pat2 content) of
        (Some pos1, Some pos2) \<Rightarrow> pos1 < pos2
      | _ \<Rightarrow> False)"

text \<open>
  A pattern without a line feed is looked for line by line, first at the start of the lines; this is
  what the tests evaluate.
\<close>

definition in_lines :: "string list \<Rightarrow> string \<Rightarrow> bool" where
  "in_lines ls p \<longleftrightarrow> LF \<notin> set p \<and> p \<noteq> []
     \<and> (if list_ex (\<lambda>l. prefix p (trim_start l)) ls then True else list_ex (\<lambda>l. contains_str l p) ls)"

lemma contains_trim_start: "prefix p (trim_start l) \<Longrightarrow> contains_str l p"
proof -
  assume "prefix p (trim_start l)"
  moreover have "suffix (trim_start l) l" by (simp add: trim_start_def suffix_dropWhile)
  ultimately show ?thesis
    by (meson contains_iff_sublist prefix_imp_sublist suffix_imp_sublist sublist_order.order_trans)
qed

lemma in_lines_contains: "in_lines ls p \<Longrightarrow> contains_str (render ls) p"
  using contains_trim_start by (auto simp: in_lines_def contains_render list_ex_iff split: if_splits)

lemma contains_all_render: "list_all (in_lines ls) pats \<Longrightarrow> contains_all (render ls) pats"
  using in_lines_contains by (auto simp: contains_all_def list_all_iff)

definition absent_from_lines :: "string list \<Rightarrow> string \<Rightarrow> bool" where
  "absent_from_lines ls p \<longleftrightarrow> LF \<notin> set p \<and> p \<noteq> [] \<and> \<not> list_ex (\<lambda>l. contains_str l p) ls"

lemma not_in_lines: "list_all (absent_from_lines ls) ps \<Longrightarrow> list_all (\<lambda>p. \<not> contains_str (render ls) p) ps"
  by (auto simp: list_all_iff absent_from_lines_def contains_render list_ex_iff)

text \<open>The tests that drop comments search the lower-case text of the other lines.\<close>

lemma lower_LF [simp]: "lower_char LF = LF"
  by (simp add: lower_char_def is_ascii_upper_def code_of_def)

lemma contains_joined:
  assumes "LF \<notin> set pat" "pat \<noteq> []"
  shows "contains_str (to_lowercase (join [LF] ls)) pat \<longleftrightarrow> (\<exists>l \<in> set ls. contains_str (to_lowercase l) pat)"
proof (induction "[LF]" ls rule: join.induct)
  case 1
  then show ?case using assms(2) by (simp add: to_lowercase_def contains_str_simps)
next
  case (2 x)
  then show ?case by simp
next
  case (3 x y ys)
  have "to_lowercase (join [LF] (x # y # ys)) = to_lowercase x @ LF # to_lowercase (join [LF] (y # ys))"
    by (simp add: to_lowercase_def)
  then show ?case using 3 by (simp add: contains_across [OF assms])
qed

lemma kept_lines_contain:
  assumes "list_all clean_line ls" "LF \<notin> set p" "p \<noteq> []"
  shows "contains_str (to_lowercase (join [LF] (filter keep (str_lines (render ls))))) p
    \<longleftrightarrow> list_ex (\<lambda>l. keep l \<and> contains_str (to_lowercase l) p) ls"
  using assms by (auto simp: str_lines_render contains_joined list_ex_iff)

section \<open>A generated configuration\<close>

text \<open>A configuration the generator can produce: one UDP neighbour, a station identifier, a service.\<close>

definition generated_sample :: "string option \<Rightarrow> string network_configuration" where
  "generated_sample desc =
     \<lparr>nc_version = ''1.0'', nc_backend = ''ion-dtn'',
      nc_local_node = \<lparr>nd_node_number = 10, nd_endpoint_id = None,
        nd_callsign_eid = Some (Dtn ''w1a-1'' ''gs''), nd_name = ''gnd'',
        nd_services = [\<lparr>sd_service_number = 42, sd_description = desc\<rparr>]\<rparr>,
      nc_neighbors = [\<lparr>nb_node_number = 20, nb_name = None,
        nb_links = [Udp ''udp-1'' ''192.168.1.2'' 4556 None], nb_rate_limit_bps = None\<rparr>],
      nc_contact_plan = \<lparr>cp_contacts = [\<lparr>ct_source_node = 10, ct_dest_node = 20, ct_start_time = 0,
          ct_end_time = 60, ct_rate_bps = 9600, ct_confidence = default_confidence\<rparr>], cp_ranges = []\<rparr>,
      nc_routing = \<lparr>rc_strategy = Cgr, rc_static_routes = []\<rparr>,
      nc_security = None, nc_storage = None, nc_backend_options = Map.empty\<rparr>"

lemma fits_step:
  "k \<in> set [lo..<Suc hi] \<Longrightarrow> k \<le> length s \<Longrightarrow> list_all p (take k s) \<Longrightarrow> fits ps (drop k s) \<Longrightarrow>
   fits ((p, lo, hi) # ps) s"
  by (auto simp: fits.simps)

lemma sample_texts:
  "fits ([(is_ascii_lower, 1, 1), (is_az09, 1, 5)] @ lit ''-'' @ [(is_ascii_digit, 1, 2)]) ''w1a-1''"
  "fits [(is_ascii_lower, 2, 6)] ''gs''"
  "fits [(is_ascii_alphabetic, 1, 1), (\<lambda>c. is_ascii_alphanumeric c \<or> is_space c, 2, 20)] ''gnd''"
  "fits link_id_pattern ''udp-1''" "fits host_pattern ''192.168.1.2''"
  by code_simp+

lemma generated_sample_arb:
  assumes "option_of (fits [(\<lambda>c. is_ascii_lower c \<or> is_space c, 3, 20)]) desc"
  shows "arb_network_configuration (generated_sample desc)"
  using assms sample_texts
  by (simp add: arb_network_configuration_def generated_sample_def arb_node_definition_def vec_of_def
      option_of_def arb_node_number_def arb_service_demux_def arb_service_number_def arb_neighbor_def
      arb_convergence_layer_link_def arb_port_def arb_contact_plan_def arb_contact_def default_confidence_def
      arb_routing_config_def arb_routing_strategy_def)

end
