(* ===== verification/Unit_Tests_Ion.thy ===== *)
theory Unit_Tests_Ion
  imports Ion_Config Ion_Lifecycle Ion_Telemetry Test_Generators
begin

text \<open>
  The unit tests of ION's modules (\<open>adapter/ion/lifecycle.rs\<close>, \<open>hot_reconfig.rs\<close>, \<open>config_gen.rs\<close>,
  \<open>telemetry.rs\<close>): each test function is a boolean, a failed unwrap making it false, and one lemma
  per module shows that the model passes them. The generated scripts of the sample configuration are
  evaluated once; the tests look at the resulting lines.
\<close>

section \<open>Lifecycle\<close>

definition test_parse_ion_version_standard :: bool where
  "test_parse_ion_version_standard \<longleftrightarrow>
     parse_ion_version (''ION OPEN SOURCE 4.1.2'' @ [LF] @ '': '' @ [LF]) = Some ''ION 4.1.2''"

definition test_parse_ion_version_hyphenated :: bool where
  "test_parse_ion_version_hyphenated \<longleftrightarrow>
     parse_ion_version (''ION-OPEN-SOURCE-4.1.2s'' @ [LF]) = Some ''ION 4.1.2s''"

definition test_parse_ion_version_with_prefix :: bool where
  "test_parse_ion_version_with_prefix \<longleftrightarrow>
     parse_ion_version ('': ION OPEN SOURCE 4.1.2'' @ [LF]) = Some ''ION 4.1.2''"

definition test_parse_ion_version_no_match :: bool where
  "test_parse_ion_version_no_match \<longleftrightarrow> parse_ion_version (''some random output'' @ [LF]) = None"

definition test_extract_version_number :: bool where
  "test_extract_version_number \<longleftrightarrow>
     ion_extract_version ''version 4.1.2 released'' = Some ''4.1.2''
     \<and> ion_extract_version ''v3.7.4s'' = Some ''3.7.4s''
     \<and> ion_extract_version ''no version here'' = None"

definition test_ion_lifecycle_new_with_bin_dir :: bool where
  "test_ion_lifecycle_new_with_bin_dir \<longleftrightarrow>
     (let lc = new_ion_lifecycle (Some ''/opt/ion/bin'')
      in ion_bin_path (il_bin_dir lc) ''ionadmin'' = ''/opt/ion/bin/ionadmin''
         \<and> ion_bin_path (il_bin_dir lc) ''bpadmin'' = ''/opt/ion/bin/bpadmin'')"

definition test_ion_lifecycle_new_without_bin_dir :: bool where
  "test_ion_lifecycle_new_without_bin_dir \<longleftrightarrow>
     (let lc = new_ion_lifecycle None in ion_bin_path (il_bin_dir lc) ''ionadmin'' = ''ionadmin'')"

text \<open>The directory of the test does not exist: the system refuses to list it.\<close>

definition test_find_config_file_missing_dir :: "os \<Rightarrow> bool" where
  "test_find_config_file_missing_dir os \<longleftrightarrow>
     (case fst (find_config_file os ''/nonexistent/path'' ''ionrc'' []) of
        Inr _ \<Rightarrow> False
      | Inl err \<Rightarrow> ae_category err = LifecycleError
          \<and> contains_str (ae_message err) ''Cannot read config directory'')"

definition test_health_returns_not_running_when_no_ion :: "os \<Rightarrow> bool" where
  "test_health_returns_not_running_when_no_ion os \<longleftrightarrow>
     (case fst (ion_health os (new_ion_lifecycle None, [])) of
        Inl _ \<Rightarrow> False
      | Inr health \<Rightarrow> \<not> hs_running health \<or> hs_message health \<noteq> None)"

definition ion_lifecycle_tests :: "bool list" where
  "ion_lifecycle_tests =
     [test_parse_ion_version_standard, test_parse_ion_version_hyphenated, test_parse_ion_version_with_prefix,
      test_parse_ion_version_no_match, test_extract_version_number, test_ion_lifecycle_new_with_bin_dir,
      test_ion_lifecycle_new_without_bin_dir]"

lemma ion_lifecycle_tests_hold: "list_all (\<lambda>test. test) ion_lifecycle_tests"
  by code_simp

lemma ion_lifecycle_os_tests_hold:
  "os_read_dir os [] ''/nonexistent/path'' = Inl e \<Longrightarrow> test_find_config_file_missing_dir os"
  "test_health_returns_not_running_when_no_ion os"
proof -
  show "os_read_dir os [] ''/nonexistent/path'' = Inl e \<Longrightarrow> test_find_config_file_missing_dir os"
    by (simp add: test_find_config_file_missing_dir_def find_config_file_def act_bind_def perform_def
        act_lift_def map_err_def ion_lifecycle_error_def contains_str_simps)
  show "test_health_returns_not_running_when_no_ion os"
    by (simp add: test_health_returns_not_running_when_no_ion_def ion_health_def act_on_snd_def
        ion_health_tools_def run_output_def act_bind_def perform_def act_return_def health_message_def
        check_rfxclock_def split: sum.split)
qed

section \<open>Hot reconfiguration\<close>

definition test_ion_capabilities_hot_reconfig_all :: bool where
  "test_ion_capabilities_hot_reconfig_all \<longleftrightarrow>
     (let hot = cap_hot_reconfig ion_capabilities
      in hc_add_contact hot \<and> hc_remove_contact hot \<and> hc_add_neighbor hot \<and> hc_remove_neighbor hot
         \<and> hc_enable_link hot \<and> hc_disable_link hot)"

definition test_ion_capabilities_convergence_layers :: bool where
  "test_ion_capabilities_convergence_layers \<longleftrightarrow>
     list_all (\<lambda>cl. cl \<in> set (cap_convergence_layers ion_capabilities)) [Type_LtpUdp, Type_Kiss, Type_TcpCl, Type_Udp]"

definition test_ion_capabilities_routing :: bool where
  "test_ion_capabilities_routing \<longleftrightarrow>
     list_all (\<lambda>s. s \<in> set (cap_routing_strategies ion_capabilities)) [Cgr, Static, Default]"

definition test_ion_capabilities_no_security :: bool where
  "test_ion_capabilities_no_security \<longleftrightarrow>
     \<not> sc_bpsec_bib (cap_security ion_capabilities) \<and> \<not> sc_bpsec_bcb (cap_security ion_capabilities)"

definition test_extract_engine_id_ltp_udp :: bool where
  "test_extract_engine_id_ltp_udp \<longleftrightarrow>
     extract_engine_id (LtpUdp ''ltp-to-orbiter'' 10 20 ''192.168.1.20'' 1113 2113 None None) = Some 20"

definition test_extract_engine_id_kiss :: bool where
  "test_extract_engine_id_kiss \<longleftrightarrow>
     extract_engine_id (Kiss ''kiss-tnc'' ''/dev/ttyUSB0'' 9600 10 20 None) = Some 20"

definition test_extract_engine_id_tcpcl_returns_none :: bool where
  "test_extract_engine_id_tcpcl_returns_none \<longleftrightarrow>
     extract_engine_id (TcpCl ''tcp-link'' ''192.168.1.30'' 4556 None None) = None"

definition test_extract_engine_id_udp_returns_none :: bool where
  "test_extract_engine_id_udp_returns_none \<longleftrightarrow>
     extract_engine_id (Udp ''udp-link'' ''192.168.1.30'' 5000 None) = None"

definition test_ion_hot_reconfig_new_with_bin_dir :: bool where
  "test_ion_hot_reconfig_new_with_bin_dir \<longleftrightarrow>
     (let reconfig = \<lparr>ihr_bin_dir = Some ''/opt/ion/bin''\<rparr>
      in ion_bin_path (ihr_bin_dir reconfig) ''ionadmin'' = ''/opt/ion/bin/ionadmin''
         \<and> ion_bin_path (ihr_bin_dir reconfig) ''bpadmin'' = ''/opt/ion/bin/bpadmin'')"

definition test_ion_hot_reconfig_new_without_bin_dir :: bool where
  "test_ion_hot_reconfig_new_without_bin_dir \<longleftrightarrow>
     (let reconfig = \<lparr>ihr_bin_dir = None\<rparr> in ion_bin_path (ihr_bin_dir reconfig) ''ionadmin'' = ''ionadmin'')"

definition ion_reconfig_tests :: "bool list" where
  "ion_reconfig_tests =
     [test_ion_capabilities_hot_reconfig_all, test_ion_capabilities_convergence_layers,
      test_ion_capabilities_routing, test_ion_capabilities_no_security, test_extract_engine_id_ltp_udp,
      test_extract_engine_id_kiss, test_extract_engine_id_tcpcl_returns_none,
      test_extract_engine_id_udp_returns_none, test_ion_hot_reconfig_new_with_bin_dir,
      test_ion_hot_reconfig_new_without_bin_dir]"

lemma ion_reconfig_tests_hold: "list_all (\<lambda>test. test) ion_reconfig_tests"
  by code_simp

section \<open>The generated scripts\<close>

text \<open>The literals 0.95 and 1.3 are the nearest binary fractions.\<close>

definition ion_sample_config :: "unit network_configuration" where
  "ion_sample_config =
     \<lparr>nc_version = ''1.0'', nc_backend = ''ion-dtn'',
      nc_local_node = \<lparr>nd_node_number = 10, nd_endpoint_id = Some (Ipn 10 0),
        nd_callsign_eid = Some (Dtn ''g4dpz-1'' ''gs''), nd_name = ''G4DPZ Ground Station'',
        nd_services = [\<lparr>sd_service_number = 1, sd_description = Some ''Bundle delivery''\<rparr>,
                       \<lparr>sd_service_number = 2047, sd_description = Some ''Echo''\<rparr>]\<rparr>,
      nc_neighbors = [\<lparr>nb_node_number = 20, nb_name = Some ''Lunar Orbiter'',
        nb_links = [LtpUdp ''ltp-to-orbiter'' 10 20 ''192.168.1.20'' 1113 2113 (Some 1360) None],
        nb_rate_limit_bps = None\<rparr>],
      nc_contact_plan =
        \<lparr>cp_contacts = [\<lparr>ct_source_node = 10, ct_dest_node = 20, ct_start_time = 1700000000,
           ct_end_time = 1700003600, ct_rate_bps = 9600, ct_confidence = F64_finite 4278419646001971 (-52)\<rparr>],
         cp_ranges = [\<lparr>rg_source_node = 10, rg_dest_node = 20, rg_owlt_secs = F64_finite 5854679515581645 (-52)\<rparr>]\<rparr>,
      nc_routing = \<lparr>rc_strategy = Cgr, rc_static_routes = []\<rparr>,
      nc_security = Some \<lparr>sec_enabled = False\<rparr>,
      nc_storage = Some \<lparr>st_path = ''/var/radiant/bundles'', st_max_bytes = Some 1073741824\<rparr>,
      nc_backend_options = Map.empty\<rparr>"

lemma ion_sample_ionrc:
  "ionrc_lines ion_sample_config =
     [''## File: ionadmin configuration for node 10'',
      ''## Generated by radiant-dtn-abstraction (ION adapter)'',
      ''## Amateur radio compliant: no BPSec directives'', [],
      ''1 10 '' @ apostrophes [], [], ''s'', [],
      ''## Contacts'', ''a contact +0 +86400 10 10 100000'',
      ''a contact +1700000000 +1700003600 10 20 9600'', [],
      ''## Ranges'', ''a range +0 +86400 10 10 0'', ''a range +0 +86400 10 20 2'', [],
      ''## Production/consumption rates'', ''m production 1000000'', ''m consumption 1000000'', []]"
  by (simp add: ionrc_lines_def ion_sample_config_def Let_def write_contact_commands_def
      write_range_commands_def contact_command_def range_command_def apostrophes_def owlt_of_def
      dyadic_ceil_def i64_max_def i64_min_def default_production_rate_def default_consumption_rate_def text_eval)

definition test_ionrc_contains_initialization :: bool where
  "test_ionrc_contains_initialization \<longleftrightarrow>
     contains_all (generate_ionrc ion_sample_config) [''1 10 '' @ apostrophes [], [LF] @ ''s'' @ [LF]]"

definition test_ionrc_contains_contacts :: bool where
  "test_ionrc_contains_contacts \<longleftrightarrow>
     contains_all (generate_ionrc ion_sample_config) [''a contact +1700000000 +1700003600 10 20 9600'']"

definition test_ionrc_contains_ranges :: bool where
  "test_ionrc_contains_ranges \<longleftrightarrow>
     contains_all (generate_ionrc ion_sample_config) [''a range +0 +86400 10 20 2'']"

definition test_ionrc_contains_production_consumption :: bool where
  "test_ionrc_contains_production_consumption \<longleftrightarrow>
     contains_all (generate_ionrc ion_sample_config) [''m production 1000000'', ''m consumption 1000000'']"

definition test_ionrc_contains_self_contact :: bool where
  "test_ionrc_contains_self_contact \<longleftrightarrow>
     contains_all (generate_ionrc ion_sample_config) [''a contact +0 +86400 10 10 100000'']"

definition test_ionrc_self_contact_appears_before_user_contacts :: bool where
  "test_ionrc_self_contact_appears_before_user_contacts \<longleftrightarrow>
     found_before (generate_ionrc ion_sample_config) ''a contact +0 +86400 10 10 100000''
       ''a contact +1700000000 +1700003600 10 20 9600''"

definition test_ionrc_contains_self_range :: bool where
  "test_ionrc_contains_self_range \<longleftrightarrow>
     contains_all (generate_ionrc ion_sample_config) [''a range +0 +86400 10 10 0'']"

definition test_ionrc_self_range_appears_before_user_ranges :: bool where
  "test_ionrc_self_range_appears_before_user_ranges \<longleftrightarrow>
     found_before (generate_ionrc ion_sample_config) ''a range +0 +86400 10 10 0'' ''a range +0 +86400 10 20 2''"

definition test_ionrc_self_entries_present_with_empty_contact_plan :: bool where
  "test_ionrc_self_entries_present_with_empty_contact_plan \<longleftrightarrow>
     contains_all (generate_ionrc (ion_sample_config\<lparr>nc_contact_plan := \<lparr>cp_contacts = [], cp_ranges = []\<rparr>\<rparr>))
       [''a contact +0 +86400 10 10 100000'', ''a range +0 +86400 10 10 0'']"

lemma ionrc_tests_hold:
  "test_ionrc_contains_initialization" "test_ionrc_contains_contacts" "test_ionrc_contains_ranges"
  "test_ionrc_contains_production_consumption" "test_ionrc_contains_self_contact"
  "test_ionrc_self_contact_appears_before_user_contacts" "test_ionrc_contains_self_range"
  "test_ionrc_self_range_appears_before_user_ranges"
  "test_ionrc_self_entries_present_with_empty_contact_plan"
proof -
  note sample = generate_ionrc_def ion_sample_ionrc
  have start: "contains_str (generate_ionrc ion_sample_config) ([LF] @ ''s'' @ [LF])"
    unfolding sample by code_simp
  have "contains_str (generate_ionrc ion_sample_config) (''1 10 '' @ apostrophes [])"
    unfolding sample by (rule in_lines_contains) code_simp
  with start show "test_ionrc_contains_initialization"
    by (simp add: test_ionrc_contains_initialization_def contains_all_def)
  show "test_ionrc_contains_contacts" "test_ionrc_contains_ranges"
    "test_ionrc_contains_production_consumption" "test_ionrc_contains_self_contact"
    "test_ionrc_contains_self_range"
    unfolding test_ionrc_contains_contacts_def test_ionrc_contains_ranges_def
      test_ionrc_contains_production_consumption_def test_ionrc_contains_self_contact_def
      test_ionrc_contains_self_range_def sample
    by (rule contains_all_render, code_simp)+
  show "test_ionrc_self_contact_appears_before_user_contacts" "test_ionrc_self_range_appears_before_user_ranges"
    unfolding test_ionrc_self_contact_appears_before_user_contacts_def
      test_ionrc_self_range_appears_before_user_ranges_def sample
    by code_simp+
  show "test_ionrc_self_entries_present_with_empty_contact_plan"
    unfolding test_ionrc_self_entries_present_with_empty_contact_plan_def generate_ionrc_def
    by (rule contains_all_render, simp add: ionrc_lines_def ion_sample_config_def Let_def
        write_contact_commands_def write_range_commands_def in_lines_def text_eval)
qed

text \<open>The bpadmin script.\<close>

definition test_bprc_contains_endpoints :: bool where
  "test_bprc_contains_endpoints \<longleftrightarrow>
     contains_all (generate_bprc ion_sample_config)
       [''a endpoint ipn:10.0 x'', ''a endpoint ipn:10.1 x'', ''a endpoint ipn:10.2047 x'']"

definition test_bprc_contains_callsign_eid :: bool where
  "test_bprc_contains_callsign_eid \<longleftrightarrow>
     contains_all (generate_bprc ion_sample_config) [''a endpoint dtn://g4dpz-1/gs x'']"

definition test_bprc_contains_ltp_protocol :: bool where
  "test_bprc_contains_ltp_protocol \<longleftrightarrow>
     contains_all (generate_bprc ion_sample_config) [''a protocol ltp 1400 100'']"

definition test_bprc_contains_induct_outduct :: bool where
  "test_bprc_contains_induct_outduct \<longleftrightarrow>
     contains_all (generate_bprc ion_sample_config) [''a induct ltp 10 ltpcli'', ''a outduct ltp 20 ltpclo'']"

definition test_bprc_no_bpsec_directives :: bool where
  "test_bprc_no_bpsec_directives \<longleftrightarrow>
     (let bprc = generate_bprc ion_sample_config;
          non_comment = to_lowercase (join [LF] (filter (\<lambda>l. \<not> starts_with ''##'' l) (str_lines bprc)))
      in list_all (\<lambda>d. \<not> contains_str bprc d) [''a bpsource'', ''a bibrule'', ''a bcbrule'', ''a bib'', ''a bcb'']
         \<and> \<not> contains_str non_comment ''encrypt'' \<and> \<not> contains_str non_comment ''hmac'')"

text \<open>The ltpadmin and ipnadmin scripts.\<close>

definition test_ltprc_contains_initialization :: bool where
  "test_ltprc_contains_initialization \<longleftrightarrow> contains_all (generate_ltprc ion_sample_config) [''1 32'']"

definition test_ltprc_contains_span :: bool where
  "test_ltprc_contains_span \<longleftrightarrow>
     contains_all (generate_ltprc ion_sample_config) [''a span 20'', apostrophes ''udplso 192.168.1.20:1113'']"

definition test_ltprc_contains_start :: bool where
  "test_ltprc_contains_start \<longleftrightarrow>
     contains_all (generate_ltprc ion_sample_config) [''s '' @ apostrophes ''udplsi 0.0.0.0:2113'']"

definition test_ltprc_contains_loopback_span :: bool where
  "test_ltprc_contains_loopback_span \<longleftrightarrow>
     contains_all (generate_ltprc ion_sample_config)
       [''a span 10 32 32 1400 100000 1 '' @ apostrophes ''udplso 127.0.0.1:2113'']"

definition test_ltprc_loopback_span_appears_before_neighbor_spans :: bool where
  "test_ltprc_loopback_span_appears_before_neighbor_spans \<longleftrightarrow>
     found_before (generate_ltprc ion_sample_config) ''a span 10'' ''a span 20''"

definition test_ipnrc_contains_plan :: bool where
  "test_ipnrc_contains_plan \<longleftrightarrow> contains_all (generate_ipnrc ion_sample_config) [''a plan 20 ltp/20'']"

definition test_cgr_routing_no_explicit_plans_from_static :: bool where
  "test_cgr_routing_no_explicit_plans_from_static \<longleftrightarrow>
     contains_all (generate_ipnrc ion_sample_config) [''Contact Graph Routing'']"

definition test_static_routing_generates_plans :: bool where
  "test_static_routing_generates_plans \<longleftrightarrow>
     contains_all (generate_ipnrc (ion_sample_config\<lparr>nc_routing := \<lparr>rc_strategy = Static,
         rc_static_routes = [\<lparr>sr_destination_node = 20, sr_next_hop_node = 15\<rparr>]\<rparr>\<rparr>))
       [''Static routes'', ''a plan 20 ltp/15'']"

definition test_generate_ion_config_produces_all_files :: bool where
  "test_generate_ion_config_produces_all_files \<longleftrightarrow>
     list_all (\<lambda>f. gc_files (generate_ion_config ion_sample_config) f \<noteq> None)
       [''node10.ionrc'', ''node10.bprc'', ''node10.ltprc'', ''node10.ipnrc'']"

definition test_kiss_link_generates_ltp_entries :: bool where
  "test_kiss_link_generates_ltp_entries \<longleftrightarrow>
     (let config = ion_sample_config\<lparr>nc_neighbors := [\<lparr>nb_node_number = 30, nb_name = Some ''KISS TNC Peer'',
            nb_links = [Kiss ''kiss-tnc'' ''/dev/ttyUSB0'' 9600 10 30 (Some 256)], nb_rate_limit_bps = None\<rparr>]\<rparr>
      in contains_all (generate_bprc config)
           [''a protocol ltp 1400 100'', ''a induct ltp 10 ltpcli'', ''a outduct ltp 30 ltpclo'']
         \<and> contains_all (generate_ltprc config) [''a span 30'', apostrophes ''kisslo /dev/ttyUSB0'']
         \<and> contains_all (generate_ipnrc config) [''a plan 30 ltp/30''])"

definition test_tcp_link_generates_tcp_entries :: bool where
  "test_tcp_link_generates_tcp_entries \<longleftrightarrow>
     (let config = ion_sample_config\<lparr>nc_neighbors := [\<lparr>nb_node_number = 40, nb_name = Some ''TCP Peer'',
            nb_links = [TcpCl ''tcp-link'' ''10.0.0.40'' 4556 (Some 4557) (Some 30)], nb_rate_limit_bps = None\<rparr>]\<rparr>
      in contains_all (generate_bprc config)
           [''a protocol tcp'', ''a induct tcp 10.0.0.40:4557 tcpcli'', ''a outduct tcp 10.0.0.40:4556 tcpclo'']
         \<and> contains_all (generate_ipnrc config) [''a plan 40 tcp/10.0.0.40:4556''])"

lemmas script_eval =
  ion_sample_config_def Let_def bprc_lines_def ltprc_lines_def ipnrc_lines_def collect_protocols_def
  protocol_command_def apostrophes_def span_command_def find_local_ltp_port_def write_routing_config_def
  static_plan_def ipnrc_plan_def default_ltp_payload_size_def default_ltp_overhead_def
  default_ltp_max_sessions_def default_max_export_sessions_def default_max_import_sessions_def
  default_max_segment_size_def default_block_size_def default_aggregation_time_limit_def text_eval

lemma ion_sample_bprc:
  "bprc_lines ion_sample_config =
     [''## File: bpadmin configuration for node 10'',
      ''## Generated by radiant-dtn-abstraction (ION adapter)'',
      ''## Amateur radio compliant: no BPSec directives'', [], ''1'', [],
      ''a scheme ipn '' @ apostrophes ''ipnfw'' @ '' '' @ apostrophes ''ipnadminep'', [],
      ''## Endpoints'', ''a endpoint ipn:10.0 x'', ''a endpoint ipn:10.1 x'', ''a endpoint ipn:10.2047 x'', [],
      ''## Callsign EID (amateur radio station identification)'', ''a endpoint dtn://g4dpz-1/gs x'', [],
      ''## Protocols'', ''a protocol ltp 1400 100'', [],
      ''## Inducts and Outducts'', ''a induct ltp 10 ltpcli'', ''a outduct ltp 20 ltpclo'', [], ''s'']"
  by (simp add: script_eval)

lemma ion_sample_ltprc:
  "ltprc_lines ion_sample_config =
     [''## File: ltpadmin configuration for node 10'',
      ''## Generated by radiant-dtn-abstraction (ION adapter)'', [], ''1 32'', [], ''## LTP Spans'',
      ''a span 10 32 32 1400 100000 1 '' @ apostrophes ''udplso 127.0.0.1:2113'',
      ''a span 20 32 32 1360 100000 1 '' @ apostrophes ''udplso 192.168.1.20:1113'', [],
      ''s '' @ apostrophes ''udplsi 0.0.0.0:2113'']"
  by (simp add: script_eval)

lemma ion_sample_ipnrc:
  "ipnrc_lines ion_sample_config =
     [''## File: ipnadmin configuration for node 10'',
      ''## Generated by radiant-dtn-abstraction (ION adapter)'', [],
      ''## Routing: Contact Graph Routing (CGR)'', [], ''## Forwarding plans'', ''a plan 20 ltp/20'']"
  by (simp add: script_eval)

lemma bprc_tests_hold:
  "test_bprc_contains_endpoints" "test_bprc_contains_callsign_eid" "test_bprc_contains_ltp_protocol"
  "test_bprc_contains_induct_outduct"
  unfolding test_bprc_contains_endpoints_def test_bprc_contains_callsign_eid_def
    test_bprc_contains_ltp_protocol_def test_bprc_contains_induct_outduct_def generate_bprc_def ion_sample_bprc
  by (rule contains_all_render, code_simp)+

lemma ltprc_tests_hold:
  "test_ltprc_contains_initialization" "test_ltprc_contains_span" "test_ltprc_contains_start"
  "test_ltprc_contains_loopback_span"
  unfolding test_ltprc_contains_initialization_def test_ltprc_contains_span_def test_ltprc_contains_start_def
    test_ltprc_contains_loopback_span_def generate_ltprc_def ion_sample_ltprc
  by (rule contains_all_render, code_simp)+

lemma ltprc_order_test_holds: "test_ltprc_loopback_span_appears_before_neighbor_spans"
  unfolding test_ltprc_loopback_span_appears_before_neighbor_spans_def generate_ltprc_def ion_sample_ltprc
  by code_simp

lemma ipnrc_tests_hold: "test_ipnrc_contains_plan" "test_cgr_routing_no_explicit_plans_from_static"
  unfolding test_ipnrc_contains_plan_def test_cgr_routing_no_explicit_plans_from_static_def
    generate_ipnrc_def ion_sample_ipnrc
  by (rule contains_all_render, code_simp)+

lemma static_routing_test_holds: "test_static_routing_generates_plans"
  unfolding test_static_routing_generates_plans_def generate_ipnrc_def
  by (rule contains_all_render) (simp add: script_eval in_lines_def)

lemma ion_files_test_holds: "test_generate_ion_config_produces_all_files"
  by (simp add: test_generate_ion_config_produces_all_files_def generate_ion_config_def ion_file_def
      ion_sample_config_def text_eval)

lemma kiss_test_holds: "test_kiss_link_generates_ltp_entries"
  unfolding test_kiss_link_generates_ltp_entries_def Let_def generate_bprc_def generate_ltprc_def generate_ipnrc_def
  by (intro conjI; rule contains_all_render; simp add: script_eval in_lines_def)

lemma tcp_test_holds: "test_tcp_link_generates_tcp_entries"
  unfolding test_tcp_link_generates_tcp_entries_def Let_def generate_bprc_def generate_ipnrc_def
  by (intro conjI; rule contains_all_render; simp add: script_eval in_lines_def)

lemma bpsec_test_holds: "test_bprc_no_bpsec_directives"
proof -
  have "list_all (\<lambda>d. \<not> contains_str (generate_bprc ion_sample_config) d)
      [''a bpsource'', ''a bibrule'', ''a bcbrule'', ''a bib'', ''a bcb'']"
    unfolding generate_bprc_def ion_sample_bprc by (rule not_in_lines) code_simp
  moreover have "list_all clean_line (bprc_lines ion_sample_config)"
    unfolding ion_sample_bprc by code_simp
  moreover have "\<not> list_ex (\<lambda>l. \<not> starts_with ''##'' l \<and> contains_str (to_lowercase l) ''encrypt'')
        (bprc_lines ion_sample_config)"
    "\<not> list_ex (\<lambda>l. \<not> starts_with ''##'' l \<and> contains_str (to_lowercase l) ''hmac'') (bprc_lines ion_sample_config)"
    unfolding ion_sample_bprc by (simp_all add: across_numbers starts_with_def apostrophes_def)
  ultimately show ?thesis
    unfolding test_bprc_no_bpsec_directives_def Let_def generate_bprc_def by (simp add: kept_lines_contain)
qed

section \<open>Telemetry\<close>

text \<open>
  A parser that panics returns \<open>None\<close>, which fails the test. The argument \<open>logs\<close> says whether
  warnings are enabled.
\<close>

definition all_four_stats :: "u64 \<Rightarrow> u64 \<Rightarrow> u64 \<Rightarrow> u64 \<Rightarrow> bundle_statistics option \<Rightarrow> bool" where
  "all_four_stats a b d e r \<longleftrightarrow>
     (case r of None \<Rightarrow> False
      | Some stats \<Rightarrow> bs_sourced stats = a \<and> bs_forwarded stats = b \<and> bs_delivered stats = d \<and> bs_expired stats = e)"

definition test_parse_bpstats_colon_format :: "bool \<Rightarrow> bool" where
  "test_parse_bpstats_colon_format logs \<longleftrightarrow>
     all_four_stats 42 38 35 2 (parse_bpstats_output logs
       (render [''sourced: 42'', ''forwarded: 38'', ''delivered: 35'', ''expired: 2'']))"

definition test_parse_bpstats_equals_format :: "bool \<Rightarrow> bool" where
  "test_parse_bpstats_equals_format logs \<longleftrightarrow>
     all_four_stats 100 90 85 5 (parse_bpstats_output logs
       ''bundles_sourced=100 bundles_forwarded=90 bundles_delivered=85 bundles_expired=5'')"

definition test_parse_bpstats_prefixed_colon_format :: "bool \<Rightarrow> bool" where
  "test_parse_bpstats_prefixed_colon_format logs \<longleftrightarrow>
     all_four_stats 10 8 7 1 (parse_bpstats_output logs
       (render [''bundles sourced: 10'', ''bundles forwarded: 8'', ''bundles delivered: 7'', ''bundles expired: 1'']))"

definition test_parse_bpstats_empty_output :: "bool \<Rightarrow> bool" where
  "test_parse_bpstats_empty_output logs \<longleftrightarrow> all_four_stats 0 0 0 0 (parse_bpstats_output logs [])"

definition test_parse_bpstats_garbage_returns_zeros :: "bool \<Rightarrow> bool" where
  "test_parse_bpstats_garbage_returns_zeros logs \<longleftrightarrow>
     all_four_stats 0 0 0 0 (parse_bpstats_output logs
       (render [''this is not parseable telemetry data'', ''random noise'']))"

definition test_parse_bplist_count_with_bundles :: bool where
  "test_parse_bplist_count_with_bundles \<longleftrightarrow>
     parse_bplist_count (render [''Bundle list:'', ''---'', ''ipn:10.1 -> ipn:20.1 (1700000042)'',
       ''ipn:10.1 -> ipn:20.2 (1700000043)'', ''ipn:30.1 -> ipn:10.1 (1700000044)'']) = 3"

definition test_parse_bplist_count_empty :: bool where
  "test_parse_bplist_count_empty \<longleftrightarrow> parse_bplist_count [] = 0"

definition test_parse_bplist_count_no_bundles_message :: bool where
  "test_parse_bplist_count_no_bundles_message \<longleftrightarrow> parse_bplist_count (render [''No bundles in database.'']) = 0"

definition test_parse_bplist_count_with_header_and_separator :: bool where
  "test_parse_bplist_count_with_header_and_separator \<longleftrightarrow>
     parse_bplist_count (render [''# Bundle database contents'', ''---'', ''ipn:10.1 -> ipn:20.1'',
       ''ipn:10.1 -> ipn:20.2'']) = 2"

definition test_parse_ltpinfo_span_format :: "bool \<Rightarrow> bool" where
  "test_parse_ltpinfo_span_format logs \<longleftrightarrow>
     parse_ltpinfo_output logs (render [''span 20: active, bytes_sent=1024, bytes_rcvd=512'',
         ''span 30: inactive, bytes_sent=0, bytes_rcvd=0''])
       = Some [\<lparr>ls_neighbor_node = 20, ls_link_id = ''ltp-span-20'', ls_active = True,
                ls_bytes_sent = 1024, ls_bytes_received = 512\<rparr>,
               \<lparr>ls_neighbor_node = 30, ls_link_id = ''ltp-span-30'', ls_active = False,
                ls_bytes_sent = 0, ls_bytes_received = 0\<rparr>]"

definition test_parse_ltpinfo_engine_format :: "bool \<Rightarrow> bool" where
  "test_parse_ltpinfo_engine_format logs \<longleftrightarrow>
     (case parse_ltpinfo_output logs (render [''engine 20 active bytes_sent: 2048 bytes_received: 1024'']) of
        Some [link] \<Rightarrow> ls_neighbor_node link = 20 \<and> ls_active link \<and> ls_bytes_sent link = 2048
          \<and> ls_bytes_received link = 1024
      | _ \<Rightarrow> False)"

definition test_parse_ltpinfo_empty :: "bool \<Rightarrow> bool" where
  "test_parse_ltpinfo_empty logs \<longleftrightarrow> parse_ltpinfo_output logs [] = Some []"

definition test_parse_ltpinfo_garbage_returns_empty :: "bool \<Rightarrow> bool" where
  "test_parse_ltpinfo_garbage_returns_empty logs \<longleftrightarrow>
     parse_ltpinfo_output logs (render [''some unrecognized format'', ''not ltp data'']) = Some []"

definition test_normalize_stat_key :: bool where
  "test_normalize_stat_key \<longleftrightarrow>
     map normalize_stat_key [''bundles_sourced'', ''bundles forwarded'', ''bundle_delivered'', ''expired'', ''Bundles_Sourced'']
       = [''sourced'', ''forwarded'', ''delivered'', ''expired'', ''sourced'']"

definition test_extract_span_engine_id :: bool where
  "test_extract_span_engine_id \<longleftrightarrow>
     extract_span_engine_id ''span 20: active'' = Some 20
     \<and> extract_span_engine_id ''engine 30 running'' = Some 30
     \<and> extract_span_engine_id ''peer 15, bytes=100'' = Some 15
     \<and> extract_span_engine_id ''20 active 1024 512'' = Some 20
     \<and> extract_span_engine_id ''not a span line'' = None"

definition test_extract_counter :: bool where
  "test_extract_counter \<longleftrightarrow>
     extract_counter ''bytes_sent=1024, bytes_rcvd=512'' [''bytes_sent''] = Some 1024
     \<and> extract_counter ''bytes_rcvd=512'' [''bytes_rcvd''] = Some 512
     \<and> extract_counter ''bytes sent: 2048'' [''bytes sent''] = Some 2048
     \<and> extract_counter ''no match here'' [''bytes_sent''] = None"

definition test_parse_leading_number :: bool where
  "test_parse_leading_number \<longleftrightarrow>
     parse_leading_number ''1024,'' = Some 1024 \<and> parse_leading_number ''  512 bytes'' = Some 512
     \<and> parse_leading_number ''abc'' = None \<and> parse_leading_number [] = None"

definition test_apply_stat_value_recognized_keys :: bool where
  "test_apply_stat_value_recognized_keys \<longleftrightarrow>
     (let (s1, b1) = apply_stat_value zero_stats ''sourced'' 10;
          (s2, b2) = apply_stat_value s1 ''fwd'' 8;
          (s3, b3) = apply_stat_value s2 ''delivered'' 7;
          (s4, b4) = apply_stat_value s3 ''exp'' 1;
          (s5, b5) = apply_stat_value s4 ''queued'' 3
      in b1 \<and> b2 \<and> b3 \<and> b4 \<and> b5
         \<and> s5 = \<lparr>bs_sourced = 10, bs_forwarded = 8, bs_delivered = 7, bs_expired = 1, bs_queued = 3\<rparr>)"

definition test_apply_stat_value_unrecognized_key :: bool where
  "test_apply_stat_value_unrecognized_key \<longleftrightarrow>
     (let (stats, known) = apply_stat_value zero_stats ''unknown_counter'' 99
      in \<not> known \<and> bs_sourced stats = 0)"

definition test_is_bplist_header_line :: bool where
  "test_is_bplist_header_line \<longleftrightarrow>
     list_all is_bplist_header_line [''Bundle list:'', ''---'', ''==='', ''# header comment'', ''No bundles in database.'']
     \<and> \<not> is_bplist_header_line ''ipn:10.1 -> ipn:20.1''"

definition test_ion_telemetry_new_with_bin_dir :: bool where
  "test_ion_telemetry_new_with_bin_dir \<longleftrightarrow>
     (let telem = new_ion_telemetry (Some ''/opt/ion/bin'')
      in map (ion_bin_path (it_bin_dir telem)) [''bpstats'', ''bplist'', ''ltpinfo'']
           = [''/opt/ion/bin/bpstats'', ''/opt/ion/bin/bplist'', ''/opt/ion/bin/ltpinfo''])"

definition test_ion_telemetry_new_without_bin_dir :: bool where
  "test_ion_telemetry_new_without_bin_dir \<longleftrightarrow>
     (let telem = new_ion_telemetry None
      in map (ion_bin_path (it_bin_dir telem)) [''bpstats'', ''ltpinfo''] = [''bpstats'', ''ltpinfo''])"

lemmas bpstats_eval =
  parse_bpstats_output_def scan_bpstats_def bpstats_line_def bpstats_token_def parse_colon_separated_def
  parse_equals_separated_def parse_separated_def normalize_stat_key_def apply_parsed_def
  apply_stat_value_def stat_names all_four_stats_def zero_stats_def text_eval

lemma bpstats_tests_hold:
  "test_parse_bpstats_colon_format logs" "test_parse_bpstats_equals_format logs"
  "test_parse_bpstats_prefixed_colon_format logs" "test_parse_bpstats_empty_output logs"
  by (simp_all add: test_parse_bpstats_colon_format_def test_parse_bpstats_equals_format_def
      test_parse_bpstats_prefixed_colon_format_def test_parse_bpstats_empty_output_def bpstats_eval)

lemma ascii_render: "list_all (list_all is_ascii) ls \<Longrightarrow> list_all is_ascii (render ls)"
  by (induction ls) (simp_all add: is_ascii_def code_of_def)

lemma bpstats_garbage_test_holds: "test_parse_bpstats_garbage_returns_zeros logs"
proof -
  let ?text = "render [''this is not parseable telemetry data'', ''random noise'']"
  have "scan_bpstats ?text = (zero_stats, False)"
    by (simp add: scan_bpstats_def bpstats_line_def bpstats_token_def parse_colon_separated_def
        parse_equals_separated_def parse_separated_def text_eval)
  moreover have "list_all is_ascii ?text" by (rule ascii_render) (simp add: is_ascii_def code_of_def)
  ultimately show ?thesis
    by (simp add: test_parse_bpstats_garbage_returns_zeros_def parse_bpstats_output_def
        warn_preview_ascii all_four_stats_def zero_stats_def del: render_simps)
qed

lemma bplist_tests_hold:
  "test_parse_bplist_count_with_bundles" "test_parse_bplist_count_empty"
  "test_parse_bplist_count_no_bundles_message" "test_parse_bplist_count_with_header_and_separator"
  by code_simp+

lemmas ltpinfo_eval =
  ltpinfo_links_def List.map_filter_def parse_ltp_span_line_def extract_span_engine_id_def
  prefixed_engine_id_def leading_engine_id_def extract_counter_def counter_for_key_def number_after_def
  parse_leading_number_def sent_keys_def received_keys_def says_active_def text_eval

lemma ltpinfo_tests_hold:
  "test_parse_ltpinfo_span_format logs" "test_parse_ltpinfo_engine_format logs" "test_parse_ltpinfo_empty logs"
  by (simp_all add: test_parse_ltpinfo_span_format_def test_parse_ltpinfo_engine_format_def
      test_parse_ltpinfo_empty_def parse_ltpinfo_output_def ltpinfo_eval)

lemma ltpinfo_garbage_test_holds: "test_parse_ltpinfo_garbage_returns_empty logs"
proof -
  let ?text = "render [''some unrecognized format'', ''not ltp data'']"
  have "ltpinfo_links ?text = []" by (simp add: ltpinfo_eval)
  moreover have "list_all is_ascii ?text" by (rule ascii_render) (simp add: is_ascii_def code_of_def)
  ultimately show ?thesis
    by (simp add: test_parse_ltpinfo_garbage_returns_empty_def parse_ltpinfo_output_def warn_preview_ascii
        del: render_simps)
qed

lemma ion_parsing_tests_hold:
  "test_parse_leading_number" "test_extract_counter" "test_extract_span_engine_id"
  by (simp_all add: test_parse_leading_number_def test_extract_counter_def test_extract_span_engine_id_def
      ltpinfo_eval)

lemma ion_telemetry_tests_hold:
  "test_normalize_stat_key" "test_is_bplist_header_line" "test_ion_telemetry_new_with_bin_dir"
  "test_ion_telemetry_new_without_bin_dir" "test_apply_stat_value_unrecognized_key"
  "test_apply_stat_value_recognized_keys"
  by code_simp+

end
