(* ===== verification/Hardy_Property_Test.thy ===== *)
theory Hardy_Property_Test
  imports Test_Generators Hardy_Config
begin

text \<open>
  The last check of property 9 of \<open>tests/property_tests.rs\<close>: no file generated for Hardy holds a
  security directive outside its comments. The check is a predicate of the configuration. It holds
  for every input of the generator whose service descriptions avoid a few words, and it fails for
  one that does not: a description becomes a key of hardy.yaml. (The rest of the property reads the
  file with the YAML library and is not modelled.)
\<close>

section \<open>The check\<close>

definition forbidden_directives :: "string list" where
  "forbidden_directives =
     [''bpsec:'', ''bpsec_policy:'', ''encryption:'', ''encrypt:'',
      ''hmac:'', ''integrity_block:'', ''confidentiality_block:'',
      ''a bpsource'', ''a bibrule'', ''a bcbrule'']"

definition non_comment :: "string \<Rightarrow> string" where
  "non_comment content =
     to_lowercase (join [LF] (filter (\<lambda>l. \<not> starts_with ''#'' (trim_start l)) (str_lines content)))"

definition hardy_files_without_directives ::
  "('y \<Rightarrow> string option) \<Rightarrow> 'y network_configuration \<Rightarrow> bool" where
  "hardy_files_without_directives as_str c \<longleftrightarrow>
     (case generate_hardy_config as_str c of
        None \<Rightarrow> False
      | Some generated \<Rightarrow>
          gc_files generated ''hardy.yaml'' \<noteq> None
          \<and> (\<forall>content \<in> ran (gc_files generated). \<forall>directive \<in> set forbidden_directives.
               \<not> contains_str (non_comment content) directive))"

section \<open>From a file to its lines\<close>

lemma lower_sublist: "contains_str s t \<Longrightarrow> contains_str (to_lowercase s) (to_lowercase t)"
  by (auto simp: contains_iff_sublist sublist_def to_lowercase_append) blast

lemma lines_acc_sublist: "l \<in> set (lines_acc acc s) \<Longrightarrow> sublist l (rev acc @ s)"
proof (induction acc s rule: lines_acc.induct)
  case (1 acc)
  then show ?case by (auto split: if_splits)
next
  case (2 acc c cs)
  have cr: "sublist (strip_cr t) (t @ r)" for t r
  proof -
    have "prefix (strip_cr t) t" by (auto simp: strip_cr_def prefixeq_butlast)
    then have "prefix (strip_cr t) (t @ r)" by (rule prefix_prefix)
    then show ?thesis by (rule prefix_imp_sublist)
  qed
  show ?case
  proof (cases "c = LF")
    case True
    from 2(3) True have "l = strip_cr (rev acc) \<or> l \<in> set (lines_acc [] cs)" by simp
    then show ?thesis
    proof
      assume "l \<in> set (lines_acc [] cs)"
      with 2(1) [OF True] have "sublist l cs" by simp
      then show ?thesis by (simp add: sublist_append sublist_Cons_right)
    qed (simp add: cr)
  next
    case False
    with 2(2) [OF False] 2(3) show ?thesis by simp
  qed
qed

lemma non_comment_contains:
  assumes "contains_str (non_comment (render ls)) d" "LF \<notin> set d" "d \<noteq> []"
  shows "\<exists>l \<in> set ls. contains_str (to_lowercase l) d"
proof -
  have lower: "to_lowercase (render ls) = render (map to_lowercase ls)" for ls
    by (induction ls) (simp_all add: to_lowercase_append to_lowercase_literal to_lowercase_def)
  from assms obtain l where l: "l \<in> set (str_lines (render ls))" "contains_str (to_lowercase l) d"
    by (auto simp: non_comment_def contains_joined)
  then have "contains_str (render ls) l"
    using lines_acc_sublist [of l "[]"] by (simp add: str_lines_def contains_iff_sublist)
  then have "contains_str (to_lowercase (render ls)) d"
    using lower_sublist l(2) contains_trans by blast
  then show ?thesis using assms(2,3) by (simp add: lower contains_render)
qed

section \<open>Lines without a directive\<close>

text \<open>Every forbidden directive contains one of these; no line but those of the services does.\<close>

definition kernels :: "string list" where
  "kernels = [''sec:'', ''icy:'', ''ption:'', ''ypt:'', ''mac:'', ''ock:'', ''a bp'', ''a bib'', ''a bc'']"

definition harmless :: "string \<Rightarrow> bool" where
  "harmless l \<longleftrightarrow> list_all (\<lambda>k. \<not> contains_str (to_lowercase l) k) kernels"

lemma kernel_of_directive: "d \<in> set forbidden_directives \<Longrightarrow> \<exists>k \<in> set kernels. contains_str d k"
  by (auto simp: forbidden_directives_def kernels_def contains_str_simps)

lemma harmless_no_directive:
  "harmless l \<Longrightarrow> d \<in> set forbidden_directives \<Longrightarrow> \<not> contains_str (to_lowercase l) d"
  using kernel_of_directive contains_trans unfolding harmless_def list_all_iff by meson

text \<open>Texts that hold neither a colon nor a space.\<close>

definition plain_text :: "string \<Rightarrow> bool" where
  "plain_text s \<longleftrightarrow> CHR '':'' \<notin> set s \<and> CHR '' '' \<notin> set s"

lemma lower_char_eq:
  assumes "code_of d < 65"
  shows "lower_char c = d \<longleftrightarrow> c = d"
proof (cases "is_ascii_upper c")
  case True
  then have "97 \<le> code_of (lower_char c)"
    by (simp add: lower_char_def is_ascii_upper_def code_of_char_of)
  moreover have "65 \<le> code_of c" using True by (simp add: is_ascii_upper_def)
  ultimately show ?thesis using assms by auto
qed (simp add: lower_char_def)

lemma in_lower: "code_of d < 65 \<Longrightarrow> d \<in> set (to_lowercase s) \<longleftrightarrow> d \<in> set s"
  by (induction s) (auto simp: to_lowercase_def lower_char_eq eq_commute [of d])

lemma colon_space_code: "code_of CHR '':'' < 65" "code_of CHR '' '' < 65"
  by (simp_all add: code_of_def)

lemma skip_plain:
  assumes "plain_text s" "CHR '':'' \<in> set k \<or> CHR '' '' \<in> set k"
  shows "\<not> contains_str (to_lowercase s) k"
    and "y \<notin> set k \<Longrightarrow> contains_str (to_lowercase s @ y # t) k \<longleftrightarrow> contains_str t k"
proof -
  show no: "\<not> contains_str (to_lowercase s) k"
    using assms in_lower [OF colon_space_code(1), of s] in_lower [OF colon_space_code(2), of s]
      set_mono_sublist [of k "to_lowercase s"]
    by (auto simp: contains_iff_sublist plain_text_def)
  have "k \<noteq> []" using assms(2) by auto
  with no show "y \<notin> set k \<Longrightarrow> contains_str (to_lowercase s @ y # t) k \<longleftrightarrow> contains_str t k"
    by (simp add: contains_across)
qed

lemma skip_without:
  "x \<notin> set s \<Longrightarrow> contains_str (s @ t) (x # xs) = contains_str t (x # xs)"
  by (induction s) (simp_all add: contains_str_simps)

lemma lower_numbers [simp]: "to_lowercase (show_nat n) = show_nat n" "to_lowercase (show_word w) = show_word w"
  by (simp_all add: to_lowercase_digits show_nat_digits show_word_digits)

text \<open>A host name of the generator: digits and dots.\<close>

definition host_text :: "string \<Rightarrow> bool" where
  "host_text s \<longleftrightarrow> list_all (\<lambda>c. is_ascii_digit c \<or> c = CHR ''.'') s"

lemma host_text_lower:
  assumes "host_text s"
  shows "to_lowercase s = s"
proof -
  have "lower_char c = c" if "is_ascii_digit c \<or> c = CHR ''.''" for c
    using that by (auto simp: lower_char_literal char_tests)
  with assms show ?thesis by (induction s) (simp_all add: to_lowercase_literal host_text_def)
qed

lemma skip_host:
  "host_text s \<Longrightarrow> \<not> is_ascii_digit x \<Longrightarrow> x \<noteq> CHR ''.'' \<Longrightarrow>
   contains_str (s @ t) (x # xs) = contains_str t (x # xs)"
  by (rule skip_without) (auto simp: host_text_def list_all_iff)

lemmas harmless_eval =
  harmless_def kernels_def to_lowercase_append to_lowercase_literal lower_char_literal char_tests
  contains_str_simps contains_str_digits [OF show_word_digits] contains_str_digits [OF show_nat_digits]
  contains_str_digits [OF show_word_digits, where r = "[]", simplified]
  contains_str_digits [OF show_nat_digits, where r = "[]", simplified]
  skip_plain host_text_lower skip_host skip_host [where t = "[]", simplified]

lemma storage_harmless:
  "(\<And>st. nc_storage c = Some st \<Longrightarrow> plain_text (st_path st)) \<Longrightarrow> list_all harmless (storage_lines c)"
  by (cases "nc_storage c") (simp_all add: storage_lines_def dquote_def harmless_eval)

lemma node_ids_harmless:
  "(\<And>e. nd_callsign_eid n = Some e \<Longrightarrow> plain_text (endpoint_text e)) \<Longrightarrow>
   list_all harmless (node_ids_lines n)"
proof -
  assume e: "\<And>e. nd_callsign_eid n = Some e \<Longrightarrow> plain_text (endpoint_text e)"
  have "harmless (''  - '' @ dquote (''dtn://'' @ a @ ''/'' @ p))" "harmless (''  - '' @ dquote (''dtn://'' @ a @ ''/''))"
    if "plain_text (a @ p)" for a p
  proof -
    from that have "plain_text a" "plain_text p" by (simp_all add: plain_text_def)
    then show "harmless (''  - '' @ dquote (''dtn://'' @ a @ ''/'' @ p))" "harmless (''  - '' @ dquote (''dtn://'' @ a @ ''/''))"
      by (simp_all add: dquote_def harmless_eval)
  qed
  moreover have "harmless (''  - '' @ dquote (''dtn://node'' @ show_word (nd_node_number n) @ ''/''))"
    by (simp add: dquote_def harmless_eval)
  ultimately have "harmless (''  - '' @ dquote (dtn_node_id n))"
    using e by (auto simp: dtn_node_id_def split: option.split endpoint_id.split)
  then show ?thesis by (simp add: node_ids_lines_def) (simp add: dquote_def harmless_eval)
qed

lemma option_str_default: "nc_backend_options c = Map.empty \<Longrightarrow> option_str as_str c key fallback = fallback"
  by (simp add: option_str_def)

lemma fixed_lines_harmless:
  assumes "nc_backend_options c = Map.empty"
  shows "list_all harmless (log_level_lines as_str c)" "list_all harmless (grpc_lines as_str c)"
    "list_all harmless rfc9171_lines" "list_all harmless (static_routes_lines r)"
    "list_all harmless (concat (map route_lines rs))"
proof -
  show "list_all harmless (log_level_lines as_str c)"
    by (simp add: log_level_lines_def option_str_default [OF assms] harmless_eval)
  show "list_all harmless (grpc_lines as_str c)"
    by (simp add: grpc_lines_def option_str_default [OF assms] default_grpc_address_def dquote_def harmless_eval)
  show "list_all harmless rfc9171_lines" by (simp add: rfc9171_lines_def harmless_eval)
  show "list_all harmless (static_routes_lines r)"
    by (simp add: static_routes_lines_def dquote_def harmless_eval)
  show "list_all harmless (concat (map route_lines rs))"
    by (induction rs) (simp_all add: route_lines_def dquote_def harmless_eval)
qed

text \<open>The texts of a link of the generator.\<close>

fun link_plain :: "convergence_layer_link \<Rightarrow> bool" where
  "link_plain (LtpUdp i _ _ remote_host _ _ _ _) \<longleftrightarrow> plain_text i \<and> host_text remote_host"
| "link_plain (TcpCl i remote_host _ _ _) \<longleftrightarrow> plain_text i \<and> host_text remote_host"
| "link_plain (Kiss i tnc_device _ _ _ _) \<longleftrightarrow> plain_text i \<and> plain_text tnc_device \<and> prefix ''/'' tnc_device"
| "link_plain (Udp i remote_host _ _) \<longleftrightarrow> plain_text i \<and> host_text remote_host"

lemma cla_entry_harmless: "link_plain l \<Longrightarrow> list_all harmless (cla_entry_lines (i, l))"
  by (cases l) (simp_all add: dquote_def harmless_eval)

lemma device_harmless:
  assumes "plain_text d" "prefix ''/'' d" "plain_text i"
  shows "harmless (''# - KISS link '' @ dquote i @ '' via '' @ d)"
proof -
  obtain r where "d = CHR ''/'' # r" and "plain_text r"
    using assms by (cases d) (auto simp: plain_text_def)
  with assms(3) show ?thesis by (simp add: dquote_def harmless_eval)
qed

lemma cla_note_harmless: "link_plain l \<Longrightarrow> list_all harmless (external_cla_note l)"
  using device_harmless by (cases l) (auto simp: dquote_def harmless_eval)

lemma ltp_span_harmless: "link_plain l \<Longrightarrow> list_all harmless (ltp_span_lines (n, l))"
  by (cases l) (simp_all add: dquote_def harmless_eval)

section \<open>The service table\<close>

lemma fresh_key_form:
  "fresh_key used original counter key = Some k \<Longrightarrow> k = key \<or> (\<exists>j. k = original @ ''-'' @ show_nat j)"
proof (induction used original counter key rule: fresh_key.induct)
  case (1 used original counter key)
  from "1.prems" have "fresh_key used original counter key = Some k" .
  then show ?case using "1.IH" by (subst (asm) fresh_key.simps) (auto split: if_splits)
qed

text \<open>A key is the normalised description, perhaps with numbers appended.\<close>

lemma service_key_form:
  assumes "service_key used svc = Some k"
  shows "k = base_key svc \<or> (\<exists>p ds. k = base_key svc @ p @ ds \<and> ds \<noteq> [] \<and> list_all is_ascii_digit ds
    \<and> list_all (\<lambda>c. is_ascii_digit c \<or> c = CHR ''-'') p)"
proof -
  have num: "list_all (\<lambda>c. is_ascii_digit c \<or> c = CHR ''-'') (show_word w)" for w :: u64
    using show_word_digits [of w] by (simp add: list_all_iff)
  consider "k = base_key svc" | "k = base_key svc @ ''-'' @ show_word (sd_service_number svc)"
    | j where "k = base_key svc @ ''-'' @ show_nat j"
    | j where "k = base_key svc @ (''-'' @ show_word (sd_service_number svc) @ ''-'') @ show_nat j"
    using assms fresh_key_form by (fastforce simp: service_key_def Let_def split: if_splits)
  then show ?thesis
  proof cases
    case 2
    then show ?thesis using show_word_digits
      by (intro disjI2) (rule exI [of _ "''-''"], rule exI [of _ "show_word (sd_service_number svc)"], simp)
  next
    case (3 j)
    then show ?thesis using show_nat_digits
      by (intro disjI2) (rule exI [of _ "''-''"], rule exI [of _ "show_nat j"], simp)
  next
    case (4 j)
    then show ?thesis using show_nat_digits num
      by (intro disjI2) (rule exI [of _ "''-'' @ show_word (sd_service_number svc) @ ''-''"],
          rule exI [of _ "show_nat j"], simp)
  qed simp
qed

lemma collect_services_from:
  "collect_services used nums svcs = Some es \<Longrightarrow> (k, n, d) \<in> set es \<Longrightarrow>
   \<exists>svc \<in> set svcs. \<exists>u. service_key u svc = Some k \<and> d = service_description svc"
proof (induction svcs arbitrary: used nums es)
  case (Cons svc svcs)
  show ?case
  proof (cases "sd_service_number svc \<in> nums")
    case True
    with Cons show ?thesis by auto
  next
    case False
    with Cons.prems(1) obtain k' fs where "service_key used svc = Some k'"
      and fs: "collect_services (insert k' used) (insert (sd_service_number svc) nums) svcs = Some fs"
      and "es = (k', sd_service_number svc, service_description svc) # fs"
      by (auto split: option.splits)
    with Cons.prems(2) Cons.IH [OF fs] show ?thesis by auto
  qed
qed simp

text \<open>A description of the generator that avoids the words of the directives.\<close>

definition harmless_words :: "string \<Rightarrow> bool" where
  "harmless_words d \<longleftrightarrow> list_all (\<lambda>w. \<not> contains_str d w)
     [''bpsec'', ''encrypt'', ''hmac'', ''a bpsource'', ''a bibrule'', ''a bcbrule'']"

definition described :: "string \<Rightarrow> bool" where
  "described d \<longleftrightarrow> list_all (\<lambda>c. is_ascii_lower c \<or> c = CHR '' '') d \<and> harmless_words d"

definition key_char :: "char \<Rightarrow> bool" where
  "key_char c \<longleftrightarrow> is_ascii_lower c \<or> is_ascii_digit c \<or> c = CHR ''-''"

lemma lower_not_upper: "is_ascii_lower c \<or> is_ascii_digit c \<Longrightarrow> \<not> is_ascii_upper c"
  by (auto simp: is_ascii_lower_def is_ascii_upper_def is_ascii_digit_def)

lemma to_lowercase_unchanged: "(\<And>c. c \<in> set s \<Longrightarrow> \<not> is_ascii_upper c) \<Longrightarrow> to_lowercase s = s"
  by (induction s) (auto simp: to_lowercase_def lower_char_def)

lemma described_lower:
  assumes "described d"
  shows "to_lowercase d = d"
proof (rule to_lowercase_unchanged)
  fix c assume "c \<in> set d"
  with assms have "is_ascii_lower c \<or> c = CHR '' ''" by (simp add: described_def list_all_iff)
  then show "\<not> is_ascii_upper c" using lower_not_upper by (auto simp: char_tests)
qed

lemma described_base:
  assumes "described (service_description svc)"
  shows "base_key svc = map (\<lambda>c. if c = CHR '' '' then CHR ''-'' else c) (service_description svc)"
    and "list_all key_char (base_key svc)"
proof -
  show base: "base_key svc = map (\<lambda>c. if c = CHR '' '' then CHR ''-'' else c) (service_description svc)"
    using described_lower [OF assms] by (simp add: base_key_def replace_chars_def)
  show "list_all key_char (base_key svc)"
    using assms unfolding base by (auto simp: described_def list_all_iff key_char_def)
qed

lemma suffix_before_colon:
  assumes "CHR '':'' \<notin> set s" "contains_str (s @ '':'') (w @ '':'')"
  shows "suffix w s"
  using assms
proof (induction s)
  case Nil
  then show ?case by (cases w) (auto simp: contains_str_simps prefix_Cons)
next
  case (Cons c s)
  show ?case
  proof (cases "prefix (w @ '':'') (c # s @ '':'')")
    case True
    then obtain r where "(w @ '':'') @ r = c # s @ '':''" by (metis prefixE)
    with Cons.prems(1) have "r = []" by (cases r rule: rev_cases) (auto simp: append_eq_Cons_conv)
    with \<open>(w @ '':'') @ r = c # s @ '':''\<close> have "w = c # s" by (cases w) auto
    then show ?thesis by simp
  next
    case False
    with Cons show ?thesis by (simp add: contains_str_simps suffix_Cons)
  qed
qed

lemma suffix_of_description:
  assumes "suffix w (map (\<lambda>c. if c = CHR '' '' then CHR ''-'' else c) d)" "CHR ''-'' \<notin> set w"
  shows "contains_str d w"
proof -
  obtain u v where d: "d = u @ v" and w: "w = map (\<lambda>c. if c = CHR '' '' then CHR ''-'' else c) v"
    using assms(1) by (auto simp: suffix_def map_eq_append_conv)
  have "w = v" using assms(2) unfolding w by (induction v) (auto split: if_splits)
  then show ?thesis by (simp add: contains_iff_sublist d)
qed

text \<open>The key of an emitted service, and what it ends with.\<close>

lemma service_key_chars:
  assumes "service_key u svc = Some k" "described (service_description svc)"
  shows "list_all key_char k"
    and "suffix w k \<Longrightarrow> w \<noteq> [] \<Longrightarrow> \<not> is_ascii_digit (last w) \<Longrightarrow> CHR ''-'' \<notin> set w \<Longrightarrow>
      contains_str (service_description svc) w"
proof -
  note base = described_base [OF assms(2)]
  from service_key_form [OF assms(1)] base(2) show "list_all key_char k"
    by (auto simp: list_all_iff key_char_def)
  show "contains_str (service_description svc) w"
    if w: "suffix w k" "w \<noteq> []" "\<not> is_ascii_digit (last w)" "CHR ''-'' \<notin> set w"
  proof -
    from w(1,2) have "last k = last w" by (auto simp: suffix_def)
    with w(3) service_key_form [OF assms(1)] have "k = base_key svc"
      by (metis last_appendR append_is_Nil_conv last_in_set list_all_iff)
    with w(1,4) show ?thesis unfolding base(1) using suffix_of_description by blast
  qed
qed

lemma key_char_others: "\<not> key_char CHR '':''" "\<not> key_char CHR '' ''" "\<not> key_char CHR ''_''"
  by (simp_all add: key_char_def is_ascii_lower_def is_ascii_digit_def code_of_def)

lemma key_lower: "list_all key_char k \<Longrightarrow> to_lowercase k = k"
proof (rule to_lowercase_unchanged)
  fix c assume "list_all key_char k" "c \<in> set k"
  then have "key_char c" by (simp add: list_all_iff)
  then show "\<not> is_ascii_upper c" using lower_not_upper by (auto simp: key_char_def char_tests)
qed

lemma service_line_lower:
  assumes "list_all key_char k" "described d"
  shows "to_lowercase (service_line (k, n, d)) = service_line (k, n, d)"
  by (simp add: service_line_def dquote_def to_lowercase_append to_lowercase_literal lower_char_literal
      char_tests key_lower [OF assms(1)] described_lower [OF assms(2)])

lemma service_key_directive:
  assumes key: "service_key u svc = Some k" and d: "described (service_description svc)"
    and w: "w \<in> {''bpsec'', ''bpsec_policy'', ''encryption'', ''encrypt'', ''hmac'',
      ''integrity_block'', ''confidentiality_block''}"
  shows "\<not> contains_str (service_line (k, n, service_description svc)) (w @ '':'')"
proof
  let ?d = "service_description svc"
  note chars = service_key_chars(1) [OF key d]
  have no: "CHR '':'' \<notin> set k" "CHR '':'' \<notin> set ?d" "CHR ''_'' \<notin> set ?d"
    using chars d key_char_others by (auto simp: list_all_iff described_def key_char_def)
  have line: "service_line (k, n, ?d) = ((''  '' @ k) @ '':'') @ CHR '' '' # ''['' @ show_word n @ '', '' @ dquote ?d @ '']''"
    by (simp add: service_line_def)
  have tail: "\<not> contains_str (''['' @ show_word n @ '', '' @ dquote ?d @ '']'') (w @ '':'')"
  proof
    assume "contains_str (''['' @ show_word n @ '', '' @ dquote ?d @ '']'') (w @ '':'')"
    then have "CHR '':'' \<in> set (''['' @ show_word n @ '', '' @ dquote ?d @ '']'')"
      using set_mono_sublist by (fastforce simp: contains_iff_sublist)
    with no(2) show False using show_word_digits [of n]
      by (auto simp: dquote_def list_all_iff char_tests)
  qed
  assume "contains_str (service_line (k, n, ?d)) (w @ '':'')"
  moreover have "CHR '' '' \<notin> set (w @ '':'')" using w by auto
  ultimately have "contains_str ((''  '' @ k) @ '':'') (w @ '':'')"
    using tail unfolding line by (subst (asm) contains_across) auto
  then have "suffix w (''  '' @ k)" using no(1) by (intro suffix_before_colon) auto
  then have "suffix w k" using w by (auto simp: suffix_Cons)
  moreover have "w \<noteq> []" "\<not> is_ascii_digit (last w)" "CHR ''-'' \<notin> set w" using w by (auto simp: char_tests)
  ultimately have c: "contains_str ?d w" by (rule service_key_chars(2) [OF key d])
  have "CHR ''_'' \<notin> set w" using c no(3) set_mono_sublist by (auto simp: contains_iff_sublist)
  with w have "contains_str w ''bpsec'' \<or> contains_str w ''encrypt'' \<or> contains_str w ''hmac''"
    by (auto simp: contains_str_simps)
  with contains_trans [OF c] d show False by (auto simp: described_def harmless_words_def)
qed

lemma service_line_bpsec:
  assumes key: "service_key u svc = Some k" and d: "described (service_description svc)"
    and w: "w \<in> {''a bpsource'', ''a bibrule'', ''a bcbrule''}"
  shows "\<not> contains_str (service_line (k, n, service_description svc)) w"
proof -
  let ?d = "service_description svc"
  have k: "CHR '' '' \<notin> set k"
    using service_key_chars(1) [OF key d] key_char_others by (auto simp: list_all_iff)
  have line: "service_line (k, n, ?d) = (''  '' @ k) @ CHR '':'' # '' ['' @ show_word n @ '', '' @ [CHR 0x22] @ ?d @ CHR 0x22 # '']''"
    by (simp add: service_line_def dquote_def)
  have key_part: "\<not> contains_str k w"
    using k w set_mono_sublist by (fastforce simp: contains_iff_sublist)
  have desc: "\<not> contains_str ?d w" using w d by (auto simp: described_def harmless_words_def)
  have "\<not> contains_str (?d @ CHR 0x22 # '']'') w"
    using w desc by (subst contains_across) (auto simp: contains_str_simps)
  then show ?thesis using w key_part unfolding line
    by (subst contains_across) (auto simp: contains_str_simps contains_str_digits [OF show_word_digits] char_tests)
qed

lemma service_line_harmless:
  assumes "service_key u svc = Some k" "described (service_description svc)" "w \<in> set forbidden_directives"
  shows "\<not> contains_str (to_lowercase (service_line (k, n, service_description svc))) w"
proof -
  let ?words = "{''bpsec'', ''bpsec_policy'', ''encryption'', ''encrypt'', ''hmac'',
      ''integrity_block'', ''confidentiality_block''}"
  have lower: "to_lowercase (service_line (k, n, service_description svc)) = service_line (k, n, service_description svc)"
    by (rule service_line_lower [OF service_key_chars(1) [OF assms(1,2)] assms(2)])
  have "w \<in> (\<lambda>v. v @ '':'') ` ?words \<or> w \<in> {''a bpsource'', ''a bibrule'', ''a bcbrule''}"
    using assms(3) by (simp add: forbidden_directives_def)
  then show ?thesis
  proof
    assume "w \<in> (\<lambda>v. v @ '':'') ` ?words"
    then obtain v where "v \<in> ?words" "w = v @ '':''" by (rule imageE)
    then show ?thesis unfolding lower using service_key_directive [OF assms(1,2)] by blast
  next
    assume "w \<in> {''a bpsource'', ''a bibrule'', ''a bcbrule''}"
    then show ?thesis unfolding lower by (rule service_line_bpsec [OF assms(1,2)])
  qed
qed

section \<open>The files of a generated configuration\<close>

lemma fits_plain:
  "fits ps s \<Longrightarrow> \<forall>q \<in> set ps. \<not> fst q CHR '':'' \<and> \<not> fst q CHR '' '' \<Longrightarrow> plain_text s"
  using fits_no_char unfolding plain_text_def by blast

lemma pattern_texts:
  "fits link_id_pattern s \<Longrightarrow> plain_text s" "fits device_pattern s \<Longrightarrow> plain_text s \<and> prefix ''/'' s"
  "fits host_pattern s \<Longrightarrow> host_text s"
proof -
  have colon: "\<not> is_ascii_lower CHR '':''" "\<not> is_ascii_upper CHR '':''" "\<not> is_ascii_digit CHR '':''"
    by (simp_all add: is_ascii_lower_def is_ascii_upper_def is_ascii_digit_def code_of_def)
  show "fits link_id_pattern s \<Longrightarrow> plain_text s"
    by (erule fits_plain) (simp add: link_id_pattern_def lit_def colon)
  have "plain_text s" if "fits device_pattern s"
    using that by (rule fits_plain) (simp add: device_pattern_def lit_def colon)
  moreover have "prefix ''/'' s" if "fits device_pattern s"
    using that by (cases s) (auto simp: device_pattern_def lit_def fits.simps)
  ultimately show "fits device_pattern s \<Longrightarrow> plain_text s \<and> prefix ''/'' s" by blast
  show "fits host_pattern s \<Longrightarrow> host_text s"
    by (auto simp: host_text_def list_all_iff host_pattern_def lit_def char_tests dest!: fits_chars)
qed

lemma arb_texts:
  assumes "arb_network_configuration c"
  shows "l \<in> set (all_links (nc_neighbors c)) \<Longrightarrow> link_plain l"
    and "nd_callsign_eid (nc_local_node c) = Some e \<Longrightarrow> plain_text (endpoint_text e)"
    and "nc_storage c = Some st \<Longrightarrow> plain_text (st_path st)"
    and "svc \<in> set (nd_services (nc_local_node c)) \<Longrightarrow> sd_description svc = Some d \<Longrightarrow>
      list_all (\<lambda>ch. is_ascii_lower ch \<or> ch = CHR '' '') d"
proof -
  have colon: "\<not> is_ascii_lower CHR '':''" "\<not> is_ascii_digit CHR '':''" "\<not> is_az09 CHR '':''"
    by (simp_all add: is_az09_def is_ascii_lower_def is_ascii_digit_def code_of_def)
  have "link_plain l" if "arb_convergence_layer_link l" for l
    using that pattern_texts by (cases l) (auto simp: arb_convergence_layer_link_def)
  then show "l \<in> set (all_links (nc_neighbors c)) \<Longrightarrow> link_plain l"
    using assms
    by (auto simp: arb_network_configuration_def in_all_links vec_of_def arb_neighbor_def list_all_iff)
  have "plain_text (endpoint_text e)" if "arb_endpoint_id e" for e
    using that colon fits_no_char [where c = "CHR '' ''"] fits_no_char [where c = "CHR '':''"]
    by (cases e) (auto simp: lit_def plain_text_def)
  then show "nd_callsign_eid (nc_local_node c) = Some e \<Longrightarrow> plain_text (endpoint_text e)"
    using assms by (simp add: arb_network_configuration_def arb_node_definition_def option_of_def)
  show "nc_storage c = Some st \<Longrightarrow> plain_text (st_path st)"
    using assms colon fits_no_char [where c = "CHR '' ''"] fits_no_char [where c = "CHR '':''"]
    by (auto simp: arb_network_configuration_def option_of_def arb_storage_config_def plain_text_def lit_def)
  assume "svc \<in> set (nd_services (nc_local_node c))" "sd_description svc = Some d"
  then have "fits [(\<lambda>ch. is_ascii_lower ch \<or> is_space ch, 3, 20)] d"
    using assms
    by (force simp: arb_network_configuration_def arb_node_definition_def vec_of_def list_all_iff
        arb_service_demux_def option_of_def)
  then show "list_all (\<lambda>ch. is_ascii_lower ch \<or> ch = CHR '' '') d"
    using fits_chars by (fastforce simp: list_all_iff is_space_def)
qed

definition avoids_directive_words :: "'y network_configuration \<Rightarrow> bool" where
  "avoids_directive_words c \<longleftrightarrow>
     list_all (\<lambda>svc. option_of harmless_words (sd_description svc)) (nd_services (nc_local_node c))"

lemma arb_described:
  assumes "arb_network_configuration c" "avoids_directive_words c" "svc \<in> set (nd_services (nc_local_node c))"
  shows "described (service_description svc)"
proof (cases "sd_description svc")
  case None
  have "harmless_words ''service''" by (simp add: harmless_words_def contains_str_simps)
  with None show ?thesis by (simp add: described_def service_description_def is_ascii_lower_def code_of_def)
next
  case (Some d)
  with assms(2,3) have "harmless_words d" by (auto simp: avoids_directive_words_def list_all_iff option_of_def)
  with Some arb_texts(4) [OF assms(1,3) Some] show ?thesis
    by (simp add: described_def service_description_def)
qed

lemma ltp_links_in: "(n, l) \<in> set (ltp_links ns) \<Longrightarrow> l \<in> set (all_links ns)"
  by (auto simp: ltp_links_def all_links_def)

lemma in_enumerate_from: "(i, x) \<in> set (enumerate_from n xs) \<Longrightarrow> x \<in> set xs"
  by (induction n xs rule: enumerate_from.induct) auto

lemma clas_harmless:
  assumes "\<And>l. l \<in> set (all_links ns) \<Longrightarrow> link_plain l"
  shows "list_all harmless (clas_lines ns)"
proof -
  have "list_all harmless [[], ''clas:'', ''# NOTE: LTP/UDP/KISS convergence layers require the separate'',
      ''# hardy-ltp-cla binary. Configure it independently.'']"
    by (simp add: harmless_eval)
  moreover have "list_all harmless (concat (map cla_entry_lines (enumerate_from 0 (filter is_tcpcl (all_links ns)))))"
    using cla_entry_harmless assms by (fastforce simp: list_all_iff dest: in_enumerate_from)
  moreover have "list_all harmless (concat (map external_cla_note (all_links ns)))"
    using cla_note_harmless assms by (fastforce simp: list_all_iff)
  ultimately show ?thesis by (simp add: clas_lines_def Let_def)
qed

lemma hardy_lines_harmless:
  assumes c: "arb_network_configuration c" "avoids_directive_words c" and ls: "hardy_lines as_str c = Some ls"
    and w: "w \<in> set forbidden_directives" and l: "l \<in> set ls"
  shows "\<not> contains_str (to_lowercase l) w"
proof -
  have options: "nc_backend_options c = Map.empty" using c(1) by (simp add: arb_network_configuration_def)
  obtain es where es: "collect_services {''echo''} {7} (nd_services (nc_local_node c)) = Some es"
    and lines: "ls = [''# Hardy BPA server configuration'',
          ''# Generated by radiant-dtn-abstraction (Hardy adapter)'',
          ''# Amateur radio compliant: no BPSec/encryption'', []]
         @ log_level_lines as_str c @ node_ids_lines (nc_local_node c) @ grpc_lines as_str c
         @ storage_lines c @ rfc9171_lines
         @ ([''built-in-services:'', ''  echo: [7, '' @ dquote ''echo'' @ '']''] @ map service_line es @ [[]])
         @ static_routes_lines (nc_routing c) @ clas_lines (nc_neighbors c)"
    using ls unfolding hardy_lines_def built_in_services_lines_def by blast
  let ?head = "[''# Hardy BPA server configuration'',
          ''# Generated by radiant-dtn-abstraction (Hardy adapter)'',
          ''# Amateur radio compliant: no BPSec/encryption'', []]"
  let ?echo = "[''built-in-services:'', ''  echo: [7, '' @ dquote ''echo'' @ '']'']"
  have head: "list_all harmless ?head" "list_all harmless ?echo" "list_all harmless [[]]"
    by (simp_all add: dquote_def harmless_eval)
  have "list_all harmless (clas_lines (nc_neighbors c))"
    by (rule clas_harmless [OF arb_texts(1) [OF c(1)]])
  moreover have "list_all harmless (node_ids_lines (nc_local_node c))"
    by (rule node_ids_harmless [OF arb_texts(2) [OF c(1)]])
  moreover have "list_all harmless (storage_lines c)" by (rule storage_harmless [OF arb_texts(3) [OF c(1)]])
  ultimately have "list_all harmless (?head @ log_level_lines as_str c @ node_ids_lines (nc_local_node c)
      @ grpc_lines as_str c @ storage_lines c @ rfc9171_lines @ ?echo @ [[]]
      @ static_routes_lines (nc_routing c) @ clas_lines (nc_neighbors c))"
    using head fixed_lines_harmless(1,2) [OF options, of as_str] fixed_lines_harmless(3) [OF options]
      fixed_lines_harmless(4) [OF options, of "nc_routing c"]
    by (simp only: list_all_append simp_thms)
  moreover have "l \<in> set (?head @ log_level_lines as_str c @ node_ids_lines (nc_local_node c)
      @ grpc_lines as_str c @ storage_lines c @ rfc9171_lines @ ?echo @ [[]]
      @ static_routes_lines (nc_routing c) @ clas_lines (nc_neighbors c)) \<union> set (map service_line es)"
    using l unfolding lines set_append by blast
  ultimately have "harmless l \<or> l \<in> set (map service_line es)" unfolding list_all_iff by blast
  then show ?thesis
  proof
    assume "harmless l"
    then show ?thesis using harmless_no_directive w by blast
  next
    assume "l \<in> set (map service_line es)"
    then obtain k n d where e: "(k, n, d) \<in> set es" "l = service_line (k, n, d)" by auto
    from collect_services_from [OF es e(1)] obtain svc u where "svc \<in> set (nd_services (nc_local_node c))"
      "service_key u svc = Some k" "d = service_description svc" by blast
    then show ?thesis using service_line_harmless arb_described [OF c] w unfolding e(2) by blast
  qed
qed

lemma rendered_without_directives:
  assumes "\<And>l. l \<in> set ls \<Longrightarrow> \<not> contains_str (to_lowercase l) w" "w \<in> set forbidden_directives"
  shows "\<not> contains_str (non_comment (render ls)) w"
proof -
  have "LF \<notin> set w" "w \<noteq> []" using assms(2) by (auto simp: forbidden_directives_def)
  with assms(1) non_comment_contains show ?thesis by blast
qed

lemma harmless_file:
  "list_all harmless ls \<Longrightarrow> w \<in> set forbidden_directives \<Longrightarrow> \<not> contains_str (non_comment (render ls)) w"
  using harmless_no_directive by (intro rendered_without_directives) (auto simp: list_all_iff)

lemma ltp_cla_harmless:
  assumes c: "arb_network_configuration c"
  shows "list_all harmless (ltp_cla_lines as_str c engine port)"
proof -
  have options: "nc_backend_options c = Map.empty" using c by (simp add: arb_network_configuration_def)
  have "list_all harmless (concat (map ltp_span_lines (ltp_links (nc_neighbors c))))"
    using ltp_span_harmless arb_texts(1) [OF c] by (fastforce simp: list_all_iff dest: ltp_links_in)
  then show ?thesis
    by (simp add: ltp_cla_lines_def option_str_default [OF options] default_grpc_address_def)
      (simp add: dquote_def harmless_eval)
qed

lemma directives_absent:
  assumes c: "arb_network_configuration c" "avoids_directive_words c"
  shows "hardy_files_without_directives as_str c"
proof -
  have options: "nc_backend_options c = Map.empty" using c(1) by (simp add: arb_network_configuration_def)
  have "hardy_serves c"
    using c(1) by (simp add: arb_network_configuration_def arb_node_definition_def vec_of_def hardy_serves_def)
  then obtain ls g where ls: "hardy_lines as_str c = Some ls" and g: "generate_hardy_config as_str c = Some g"
    and yaml: "gc_files g ''hardy.yaml'' = Some (render ls)"
    and routes: "gc_files g ''static_routes.yaml'' =
           (if rc_strategy (nc_routing c) = Static \<and> rc_static_routes (nc_routing c) \<noteq> []
            then Some (generate_static_routes_yaml c) else None)"
    and cla: "gc_files g ''ltp-cla.yaml'' = generate_ltp_cla_yaml as_str c"
    and dom: "dom (gc_files g) \<subseteq> {''hardy.yaml'', ''static_routes.yaml'', ''ltp-cla.yaml''}"
    by (rule hardy_generated)
  have "\<not> contains_str (non_comment content) w"
    if content: "gc_files g f = Some content" and w: "w \<in> set forbidden_directives" for f content w
  proof -
    have "f \<in> {''hardy.yaml'', ''static_routes.yaml'', ''ltp-cla.yaml''}" using content dom by blast
    then consider "f = ''hardy.yaml''" | "f = ''static_routes.yaml''" | "f = ''ltp-cla.yaml''" by blast
    then show ?thesis
    proof cases
      case 1
      with content yaml have "content = render ls" by simp
      then show ?thesis using rendered_without_directives [OF hardy_lines_harmless [OF c ls w] w] by simp
    next
      case 2
      with content routes have "content = generate_static_routes_yaml c" by (simp split: if_splits)
      moreover have "list_all harmless [''# Hardy static routes'', ''# Generated by radiant-dtn-abstraction'', [], ''routes:'']"
        by (simp add: harmless_eval)
      ultimately have "list_all harmless ([''# Hardy static routes'', ''# Generated by radiant-dtn-abstraction'', [], ''routes:'']
          @ concat (map route_lines (rc_static_routes (nc_routing c))))"
        using fixed_lines_harmless(5) [OF options] by (simp only: list_all_append simp_thms)
      from harmless_file [OF this w] show ?thesis
        unfolding \<open>content = generate_static_routes_yaml c\<close> generate_static_routes_yaml_def .
    next
      case 3
      with content cla obtain engine port where "content = render (ltp_cla_lines as_str c engine port)"
        by (auto simp: generate_ltp_cla_yaml_def split: list.splits convergence_layer_link.splits)
      then show ?thesis using harmless_file [OF ltp_cla_harmless [OF c(1)] w] by simp
    qed
  qed
  with g yaml show ?thesis by (auto simp: hardy_files_without_directives_def ran_def)
qed

lemma line_in_render:
  assumes "clean_line l"
  shows "l \<in> set (str_lines (render (us @ l # vs)))"
proof -
  have after: "l \<in> set (str_lines (render (l # vs)))"
    using str_lines_Cons [OF assms] by simp
  show ?thesis
  proof (cases us rule: rev_cases)
    case (snoc ws w)
    then have "render (us @ l # vs) = (render ws @ w) @ LF # render (l # vs)" by simp
    then obtain ks where "str_lines (render (us @ l # vs)) = ks @ str_lines (render (l # vs))"
      using lines_acc_split [of "[]" "render ws @ w"] unfolding str_lines_def by metis
    with after show ?thesis by simp
  qed (use after in simp)
qed

lemma hmac_line_generated:
  "hardy_lines as_str (generated_sample (Some ''hmac'')) = Some ls \<Longrightarrow>
   ''  hmac: [42, '' @ dquote ''hmac'' @ '']'' \<in> set ls"
proof -
  have "collect_services {''echo''} {7} [\<lparr>sd_service_number = 42, sd_description = Some ''hmac''\<rparr>]
      = Some [(''hmac'', 42, ''hmac'')]"
    by code_simp
  then have "built_in_services_lines (nc_local_node (generated_sample (Some ''hmac''))) =
      Some [''built-in-services:'', ''  echo: [7, '' @ dquote ''echo'' @ '']'', service_line (''hmac'', 42, ''hmac''), []]"
    by (simp add: built_in_services_lines_def generated_sample_def)
  moreover have "service_line (''hmac'', 42, ''hmac'') = ''  hmac: [42, '' @ dquote ''hmac'' @ '']''"
    unfolding service_line_def prod.case by code_simp
  ultimately show "hardy_lines as_str (generated_sample (Some ''hmac'')) = Some ls \<Longrightarrow> ?thesis"
    unfolding hardy_lines_def by auto
qed

text \<open>
  C40: the compliance check of the property test passes for every input of its generator whose
  service descriptions avoid six words, with the main file, the routes file and the LTP file all
  present or not; but it is not a property of all its inputs. A node with a service described as
  hmac is generated, is valid, and fails the check, because the description becomes a key of
  hardy.yaml.
\<close>

theorem hardy_compliance_check:
  "(arb_network_configuration c \<and> avoids_directive_words c \<longrightarrow> hardy_files_without_directives as_str c)
   \<and> arb_network_configuration (generated_sample (Some ''hmac''))
   \<and> validate (generated_sample (Some ''hmac'')) = Inr ()
   \<and> \<not> hardy_files_without_directives Some (generated_sample (Some ''hmac''))"
proof (intro conjI impI)
  let ?c = "generated_sample (Some ''hmac'')"
  show "hardy_files_without_directives as_str c"
    if "arb_network_configuration c \<and> avoids_directive_words c"
    using that directives_absent by blast
  show arb: "arb_network_configuration ?c"
    by (rule generated_sample_arb, unfold option_of_def option.case) code_simp
  show "validate ?c = Inr ()"
    unfolding validate_ok_iff by (simp add: well_formed_def known_node_def generated_sample_def)
  have "hardy_serves ?c" by (simp add: hardy_serves_def generated_sample_def)
  then obtain ls g where ls: "hardy_lines Some ?c = Some ls" and g: "generate_hardy_config Some ?c = Some g"
    and yaml: "gc_files g ''hardy.yaml'' = Some (render ls)"
    by (rule hardy_generated)
  let ?line = "''  hmac: [42, '' @ dquote ''hmac'' @ '']''"
  obtain us vs where "ls = us @ ?line # vs" using split_list [OF hmac_line_generated [OF ls]] by blast
  moreover have "clean_line ?line" by (simp add: clean_line_def dquote_def)
  ultimately have "?line \<in> set (str_lines (render ls))"
    using line_in_render by blast
  moreover have "\<not> starts_with ''#'' (trim_start ?line)" by (simp add: dquote_def text_eval)
  moreover have "contains_str (to_lowercase ?line) ''hmac:''" by (simp add: dquote_def harmless_eval)
  ultimately have "contains_str (non_comment (render ls)) ''hmac:''"
    by (auto simp: non_comment_def contains_joined)
  moreover have "''hmac:'' \<in> set forbidden_directives" by (simp add: forbidden_directives_def)
  ultimately show "\<not> hardy_files_without_directives Some ?c"
    using g yaml by (auto simp: hardy_files_without_directives_def ran_def)
qed

text \<open>A node with a beacon service passes.\<close>

theorem hardy_compliance_check_witness:
  "hardy_files_without_directives Some (generated_sample (Some ''beacon''))"
proof -
  have "arb_network_configuration (generated_sample (Some ''beacon''))"
    by (rule generated_sample_arb, unfold option_of_def option.case) code_simp
  moreover have "avoids_directive_words (generated_sample (Some ''beacon''))"
    by (simp add: avoids_directive_words_def generated_sample_def option_of_def harmless_words_def
        contains_str_simps)
  ultimately show ?thesis
    using hardy_compliance_check [of "generated_sample (Some ''beacon'')" Some] by blast
qed

end
