(* ===== verification/Unit_Tests_Hardy.thy ===== *)
theory Unit_Tests_Hardy
  imports Hardy_Config Hardy_Lifecycle Hardy_Reconfig Hardy_Telemetry
    Hardy_Property_Test
begin

text \<open>
  The unit tests of Hardy's modules (\<open>adapter/hardy/lifecycle.rs\<close>, \<open>hot_reconfig.rs\<close>,
  \<open>config_gen.rs\<close>, \<open>telemetry.rs\<close>): each test function is a boolean, a failed unwrap making it
  false, and the lemmas show that the model passes them. Three tests parse a generated file with the
  YAML library and are left out. A test of the JSON readers runs on the document its literal denotes,
  with the fields in the library's order; a test of the process control takes the system as an argument.
\<close>

section \<open>Lifecycle\<close>

definition test_parse_hardy_version_standard :: bool where
  "test_parse_hardy_version_standard \<longleftrightarrow>
     parse_hardy_version (''hardy 0.5.2'' @ [LF]) = Some ''Hardy 0.5.2''"

definition test_parse_hardy_version_with_v_prefix :: bool where
  "test_parse_hardy_version_with_v_prefix \<longleftrightarrow>
     parse_hardy_version (''Hardy DTN v0.5.2'' @ [LF]) = Some ''Hardy 0.5.2''"

definition test_parse_hardy_version_with_dev_suffix :: bool where
  "test_parse_hardy_version_with_dev_suffix \<longleftrightarrow>
     parse_hardy_version (''hardy version 0.5.2-dev'' @ [LF]) = Some ''Hardy 0.5.2-dev''"

definition test_parse_hardy_version_no_match :: bool where
  "test_parse_hardy_version_no_match \<longleftrightarrow> parse_hardy_version [] = None"

definition test_extract_version_number_standard :: bool where
  "test_extract_version_number_standard \<longleftrightarrow> hardy_extract_version ''version 0.5.2'' = Some ''0.5.2''"

definition test_extract_version_number_with_v_prefix :: bool where
  "test_extract_version_number_with_v_prefix \<longleftrightarrow> hardy_extract_version ''v1.2.3'' = Some ''1.2.3''"

definition test_extract_version_number_with_suffix :: bool where
  "test_extract_version_number_with_suffix \<longleftrightarrow>
     hardy_extract_version ''hardy 0.5.2-rc1'' = Some ''0.5.2-rc1''"

definition test_extract_version_number_no_version :: bool where
  "test_extract_version_number_no_version \<longleftrightarrow> hardy_extract_version ''no version here'' = None"

definition test_hardy_lifecycle_new_with_bin_dir :: bool where
  "test_hardy_lifecycle_new_with_bin_dir \<longleftrightarrow>
     (let lc = new_hardy_lifecycle (Some ''/opt/hardy/bin'') None
      in hardy_bin_path lc ''hardy'' = ''/opt/hardy/bin/hardy'')"

definition test_hardy_lifecycle_new_without_bin_dir :: bool where
  "test_hardy_lifecycle_new_without_bin_dir \<longleftrightarrow>
     (let lc = new_hardy_lifecycle None None in hardy_bin_path lc ''hardy'' = ''hardy'')"

definition test_hardy_lifecycle_custom_management_url :: bool where
  "test_hardy_lifecycle_custom_management_url \<longleftrightarrow>
     (let lc = new_hardy_lifecycle None (Some ''http://10.0.0.1:9090'')
      in hl_management_url lc = ''http://10.0.0.1:9090'')"

definition test_hardy_lifecycle_default_management_url :: bool where
  "test_hardy_lifecycle_default_management_url \<longleftrightarrow>
     (let lc = new_hardy_lifecycle None None in hl_management_url lc = ''http://127.0.0.1:8472'')"

definition test_health_returns_not_running_when_no_hardy :: "os \<Rightarrow> bool" where
  "test_health_returns_not_running_when_no_hardy os \<longleftrightarrow>
     (case fst (hardy_health os (new_hardy_lifecycle None None, [])) of
        Inl _ \<Rightarrow> False
      | Inr health \<Rightarrow> \<not> hs_running health \<or> hs_message health \<noteq> None)"

text \<open>The directory of the test does not exist: the system finds no file in it.\<close>

definition test_start_fails_with_missing_config :: "os \<Rightarrow> bool" where
  "test_start_fails_with_missing_config os \<longleftrightarrow>
     (case fst (hardy_start os ''/nonexistent/path'' (new_hardy_lifecycle None None, [])) of
        Inr _ \<Rightarrow> False
      | Inl err \<Rightarrow> ae_category err = LifecycleError \<and> contains_str (ae_message err) ''not found'')"

definition hardy_lifecycle_tests :: "bool list" where
  "hardy_lifecycle_tests =
     [test_parse_hardy_version_standard, test_parse_hardy_version_with_v_prefix,
      test_parse_hardy_version_with_dev_suffix, test_parse_hardy_version_no_match,
      test_extract_version_number_standard, test_extract_version_number_with_v_prefix,
      test_extract_version_number_with_suffix, test_extract_version_number_no_version,
      test_hardy_lifecycle_new_with_bin_dir, test_hardy_lifecycle_new_without_bin_dir,
      test_hardy_lifecycle_custom_management_url, test_hardy_lifecycle_default_management_url]"

lemma hardy_lifecycle_tests_hold: "list_all (\<lambda>test. test) hardy_lifecycle_tests"
  by code_simp

lemma hardy_health_test_holds: "test_health_returns_not_running_when_no_hardy os"
  by (simp add: test_health_returns_not_running_when_no_hardy_def hardy_health_def act_on_snd_def
      act_bind_def check_hardy_process_def run_output_def perform_def act_return_def health_message_def)

lemma hardy_start_test_holds:
  assumes "\<not> os_exists os [] ''/nonexistent/path/hardy.yaml''"
  shows "test_start_fails_with_missing_config os"
proof -
  have config_file: "path_join ''/nonexistent/path'' ''hardy.yaml'' = ''/nonexistent/path/hardy.yaml''" by code_simp
  show ?thesis
    using assms
    by (simp add: test_start_fails_with_missing_config_def hardy_start_def hardy_start_tools_def Let_def
        config_file act_bind_def perform_def act_fail_def hardy_lifecycle_error_def contains_str_simps)
qed

section \<open>Hot reconfiguration\<close>

definition test_hardy_capabilities_hot_reconfig :: bool where
  "test_hardy_capabilities_hot_reconfig \<longleftrightarrow>
     (let hot = cap_hot_reconfig hardy_capabilities
      in hc_add_contact hot \<and> hc_remove_contact hot \<and> \<not> hc_add_neighbor hot \<and> \<not> hc_remove_neighbor hot
         \<and> hc_enable_link hot \<and> hc_disable_link hot)"

definition test_hardy_capabilities_convergence_layers :: bool where
  "test_hardy_capabilities_convergence_layers \<longleftrightarrow>
     list_all (\<lambda>cl. cl \<in> set (cap_convergence_layers hardy_capabilities)) [Type_LtpUdp, Type_TcpCl, Type_Kiss, Type_Udp]"

definition test_hardy_capabilities_routing :: bool where
  "test_hardy_capabilities_routing \<longleftrightarrow>
     list_all (\<lambda>s. s \<in> set (cap_routing_strategies hardy_capabilities)) [Cgr, Static, Default]"

definition test_hardy_capabilities_no_security :: bool where
  "test_hardy_capabilities_no_security \<longleftrightarrow>
     \<not> sc_bpsec_bib (cap_security hardy_capabilities) \<and> \<not> sc_bpsec_bcb (cap_security hardy_capabilities)"

definition test_hardy_hot_reconfig_new_default_url :: bool where
  "test_hardy_hot_reconfig_new_default_url \<longleftrightarrow>
     hhr_management_url (new_hardy_hot_reconfig None) = ''http://127.0.0.1:8472''"

definition test_hardy_hot_reconfig_new_custom_url :: bool where
  "test_hardy_hot_reconfig_new_custom_url \<longleftrightarrow>
     hhr_management_url (new_hardy_hot_reconfig (Some ''http://10.0.0.5:9090'')) = ''http://10.0.0.5:9090''"

definition test_add_neighbor_returns_unsupported :: bool where
  "test_add_neighbor_returns_unsupported \<longleftrightarrow>
     (case fst (hardy_add_neighbor \<lparr>nb_node_number = 20, nb_name = Some ''Test'', nb_links = [],
                  nb_rate_limit_bps = None\<rparr> []) of
        Inr _ \<Rightarrow> False
      | Inl err \<Rightarrow> ae_category err = UnsupportedOperation \<and> contains_str (ae_message err) ''neighbors'')"

definition test_remove_neighbor_returns_unsupported :: bool where
  "test_remove_neighbor_returns_unsupported \<longleftrightarrow>
     (case fst (hardy_remove_neighbor \<lparr>nr_node_number = 20\<rparr> []) of
        Inr _ \<Rightarrow> False
      | Inl err \<Rightarrow> ae_category err = UnsupportedOperation \<and> contains_str (ae_message err) ''neighbors'')"

definition hardy_reconfig_tests :: "bool list" where
  "hardy_reconfig_tests =
     [test_hardy_capabilities_hot_reconfig, test_hardy_capabilities_convergence_layers,
      test_hardy_capabilities_routing, test_hardy_capabilities_no_security,
      test_hardy_hot_reconfig_new_default_url, test_hardy_hot_reconfig_new_custom_url,
      test_add_neighbor_returns_unsupported, test_remove_neighbor_returns_unsupported]"

lemma hardy_reconfig_tests_hold: "list_all (\<lambda>test. test) hardy_reconfig_tests"
  by code_simp

section \<open>The generated files\<close>

definition hardy_sample_config :: "string network_configuration" where
  "hardy_sample_config =
     \<lparr>nc_version = ''1.0'', nc_backend = ''hardy'',
      nc_local_node = \<lparr>nd_node_number = 10, nd_endpoint_id = Some (Ipn 10 0),
        nd_callsign_eid = Some (Dtn ''g4dpz-1'' ''gs''), nd_name = ''G4DPZ Ground Station'',
        nd_services = [\<lparr>sd_service_number = 1, sd_description = Some ''Bundle delivery''\<rparr>,
                       \<lparr>sd_service_number = 7, sd_description = Some ''Echo''\<rparr>]\<rparr>,
      nc_neighbors = [\<lparr>nb_node_number = 20, nb_name = Some ''Lunar Orbiter'',
        nb_links = [LtpUdp ''ltp-to-orbiter'' 10 20 ''192.168.1.20'' 1113 2113 (Some 1360) None],
        nb_rate_limit_bps = None\<rparr>],
      nc_contact_plan =
        \<lparr>cp_contacts = [\<lparr>ct_source_node = 10, ct_dest_node = 20, ct_start_time = 1700000000,
           ct_end_time = 1700003600, ct_rate_bps = 9600, ct_confidence = F64_finite 4278419646001971 (-52)\<rparr>],
         cp_ranges = [\<lparr>rg_source_node = 10, rg_dest_node = 20, rg_owlt_secs = F64_finite 5854679515581645 (-52)\<rparr>]\<rparr>,
      nc_routing = \<lparr>rc_strategy = Cgr, rc_static_routes = []\<rparr>,
      nc_security = Some \<lparr>sec_enabled = False\<rparr>,
      nc_storage = Some \<lparr>st_path = ''/var/radiant/bundles'', st_max_bytes = Some 1073741824\<rparr>,
      nc_backend_options = Map.empty\<rparr>"

text \<open>The searches of a test in one generated text; a text that is not generated fails it.\<close>

definition yaml_contains :: "string option \<Rightarrow> string list \<Rightarrow> bool" where
  "yaml_contains text patterns \<longleftrightarrow> (case text of None \<Rightarrow> False | Some yaml \<Rightarrow> contains_all yaml patterns)"

definition yaml_lacks :: "string option \<Rightarrow> string list \<Rightarrow> bool" where
  "yaml_lacks text patterns \<longleftrightarrow>
     (case text of None \<Rightarrow> False | Some yaml \<Rightarrow> list_all (\<lambda>p. \<not> contains_str yaml p) patterns)"

definition static_sample :: "string network_configuration" where
  "static_sample = hardy_sample_config\<lparr>nc_routing :=
     \<lparr>rc_strategy = Static, rc_static_routes = [\<lparr>sr_destination_node = 20, sr_next_hop_node = 15\<rparr>]\<rparr>\<rparr>"

definition has_files :: "generated_config option \<Rightarrow> string list \<Rightarrow> bool" where
  "has_files generated names \<longleftrightarrow>
     (case generated of None \<Rightarrow> False | Some g \<Rightarrow> list_all (\<lambda>name. gc_files g name \<noteq> None) names)"

definition file_count :: "generated_config option \<Rightarrow> nat option" where
  "file_count generated = map_option (\<lambda>g. card (dom (gc_files g))) generated"

definition test_generate_hardy_config_produces_yaml_file :: bool where
  "test_generate_hardy_config_produces_yaml_file \<longleftrightarrow>
     has_files (generate_hardy_config Some hardy_sample_config) [''hardy.yaml'']"

definition test_generates_static_routes_file_when_static_routing :: bool where
  "test_generates_static_routes_file_when_static_routing \<longleftrightarrow>
     (let generated = generate_hardy_config Some static_sample
      in has_files generated [''hardy.yaml'', ''static_routes.yaml'', ''ltp-cla.yaml'']
         \<and> file_count generated = Some 3)"

definition test_no_static_routes_file_when_cgr_routing :: bool where
  "test_no_static_routes_file_when_cgr_routing \<longleftrightarrow>
     (let generated = generate_hardy_config Some hardy_sample_config
      in \<not> has_files generated [''static_routes.yaml''] \<and> file_count generated = Some 2)"

definition test_node_ids_contains_both_ipn_and_dtn :: bool where
  "test_node_ids_contains_both_ipn_and_dtn \<longleftrightarrow>
     yaml_contains (generate_hardy_yaml Some hardy_sample_config)
       [''node-ids:'', dquote ''ipn:10.0'', dquote ''dtn://g4dpz-1/gs'']"

definition test_node_ids_fallback_dtn_when_no_callsign :: bool where
  "test_node_ids_fallback_dtn_when_no_callsign \<longleftrightarrow>
     (let config = hardy_sample_config\<lparr>nc_local_node :=
            (nc_local_node hardy_sample_config)\<lparr>nd_callsign_eid := None\<rparr>\<rparr>
      in yaml_contains (generate_hardy_yaml Some config) [dquote ''ipn:10.0'', dquote ''dtn://node10/''])"

definition test_grpc_section_default :: bool where
  "test_grpc_section_default \<longleftrightarrow>
     yaml_contains (generate_hardy_yaml Some hardy_sample_config)
       [''grpc:'', ''address: '' @ dquote ''[::1]:50051'',
        ''services: ['' @ dquote ''application'' @ '', '' @ dquote ''cla'' @ '', '' @ dquote ''service''
          @ '', '' @ dquote ''ltp'' @ '']'']"

definition test_grpc_section_custom_address :: bool where
  "test_grpc_section_custom_address \<longleftrightarrow>
     (let config = hardy_sample_config\<lparr>nc_backend_options := [''grpc_address'' \<mapsto> ''0.0.0.0:9090'']\<rparr>
      in yaml_contains (generate_hardy_yaml Some config) [''address: '' @ dquote ''0.0.0.0:9090''])"

definition test_storage_section_with_persistent_storage :: bool where
  "test_storage_section_with_persistent_storage \<longleftrightarrow>
     yaml_contains (generate_hardy_yaml Some hardy_sample_config)
       [''storage:'', ''type: '' @ dquote ''sqlite'', ''path: '' @ dquote ''/var/radiant/bundles/metadata.db'',
        ''type: '' @ dquote ''localdisk'', ''path: '' @ dquote ''/var/radiant/bundles/bundles'']"

text \<open>The number of disjoint matches, from the left; the argument counts down the rest of a match.\<close>

fun match_count :: "string \<Rightarrow> nat \<Rightarrow> string \<Rightarrow> nat" where
  "match_count pat n [] = 0"
| "match_count pat (Suc n) (c # cs) = match_count pat n cs"
| "match_count pat 0 (c # cs) =
     (if prefix pat (c # cs) then Suc (match_count pat (length pat - 1) cs) else match_count pat 0 cs)"

definition test_storage_section_memory_when_no_storage_config :: bool where
  "test_storage_section_memory_when_no_storage_config \<longleftrightarrow>
     (case generate_hardy_yaml Some (hardy_sample_config\<lparr>nc_storage := None\<rparr>) of
        None \<Rightarrow> False
      | Some yaml \<Rightarrow> contains_str yaml ''storage:''
          \<and> match_count (''type: '' @ dquote ''memory'') 0 yaml = 2)"

definition test_rfc9171_validity_section :: bool where
  "test_rfc9171_validity_section \<longleftrightarrow>
     yaml_contains (generate_hardy_yaml Some hardy_sample_config)
       [''rfc9171-validity:'', ''primary-block-integrity: false'', ''bundle-age-required: false'']"

definition test_built_in_services_echo :: bool where
  "test_built_in_services_echo \<longleftrightarrow>
     yaml_contains (generate_hardy_yaml Some hardy_sample_config)
       [''built-in-services:'', ''echo: [7, '' @ dquote ''echo'' @ '']'']"

definition test_built_in_services_additional :: bool where
  "test_built_in_services_additional \<longleftrightarrow>
     (let config = hardy_sample_config\<lparr>nc_local_node := (nc_local_node hardy_sample_config)\<lparr>nd_services :=
            [\<lparr>sd_service_number = 7, sd_description = Some ''Echo''\<rparr>,
             \<lparr>sd_service_number = 99, sd_description = Some ''Telemetry''\<rparr>]\<rparr>\<rparr>
      in yaml_contains (generate_hardy_yaml Some config)
           [''echo: [7, '' @ dquote ''echo'' @ '']'', ''telemetry: [99, '' @ dquote ''Telemetry'' @ '']''])"

definition test_static_routes_section_present_when_static :: bool where
  "test_static_routes_section_present_when_static \<longleftrightarrow>
     yaml_contains (generate_hardy_yaml Some static_sample)
       [''static-routes:'', ''routes-file: '' @ dquote ''static_routes.yaml'']"

definition test_static_routes_section_absent_when_cgr :: bool where
  "test_static_routes_section_absent_when_cgr \<longleftrightarrow>
     yaml_lacks (generate_hardy_yaml Some hardy_sample_config) [''static-routes:'']"

definition test_clas_section_with_tcpcl_neighbor :: bool where
  "test_clas_section_with_tcpcl_neighbor \<longleftrightarrow>
     (let config = hardy_sample_config\<lparr>nc_neighbors :=
            [\<lparr>nb_node_number = 40, nb_name = Some ''TCP Peer'',
              nb_links = [TcpCl ''tcp-link-1'' ''10.0.0.40'' 4556 (Some 4557) (Some 30)],
              nb_rate_limit_bps = None\<rparr>]\<rparr>
      in yaml_contains (generate_hardy_yaml Some config)
           [''clas:'', ''name: '' @ dquote ''tcp-link-1'', ''type: '' @ dquote ''tcpclv4'',
            ''address: '' @ dquote ''[::]:4557'', ''segment-mru: 16384'', ''transfer-mru: 562949953421312''])"

definition test_clas_section_tcpcl_default_port :: bool where
  "test_clas_section_tcpcl_default_port \<longleftrightarrow>
     (let config = hardy_sample_config\<lparr>nc_neighbors :=
            [\<lparr>nb_node_number = 40, nb_name = Some ''TCP Peer'',
              nb_links = [TcpCl ''tcp-default'' ''10.0.0.40'' 4556 None None],
              nb_rate_limit_bps = None\<rparr>]\<rparr>
      in yaml_contains (generate_hardy_yaml Some config) [''address: '' @ dquote ''[::]:4556''])"

definition test_ltp_neighbor_noted_in_comments :: bool where
  "test_ltp_neighbor_noted_in_comments \<longleftrightarrow>
     yaml_contains (generate_hardy_yaml Some hardy_sample_config)
       [''# NOTE: LTP/UDP/KISS convergence layers'', ''hardy-ltp-cla'',
        ''# - LTP/UDP link '' @ dquote ''ltp-to-orbiter'' @ '' -> 192.168.1.20:1113'']"

definition test_kiss_neighbor_noted_in_comments :: bool where
  "test_kiss_neighbor_noted_in_comments \<longleftrightarrow>
     (let config = hardy_sample_config\<lparr>nc_neighbors :=
            [\<lparr>nb_node_number = 30, nb_name = Some ''KISS TNC Peer'',
              nb_links = [Kiss ''kiss-tnc'' ''/dev/ttyUSB0'' 9600 10 30 (Some 256)],
              nb_rate_limit_bps = None\<rparr>]\<rparr>
      in yaml_contains (generate_hardy_yaml Some config)
           [''# - KISS link '' @ dquote ''kiss-tnc'' @ '' via /dev/ttyUSB0''])"

definition test_no_contacts_or_ranges_in_config :: bool where
  "test_no_contacts_or_ranges_in_config \<longleftrightarrow>
     yaml_lacks (generate_hardy_yaml Some hardy_sample_config) [''contacts:'', ''ranges:'']"

definition test_no_bpsec_directives :: bool where
  "test_no_bpsec_directives \<longleftrightarrow>
     yaml_lacks (map_option non_comment (generate_hardy_yaml Some hardy_sample_config))
       [''bpsec'', ''encrypt'', ''hmac'', ''bcb'', ''bib'']"

definition test_log_level_default :: bool where
  "test_log_level_default \<longleftrightarrow>
     yaml_contains (generate_hardy_yaml Some hardy_sample_config) [''log-level: info'']"

definition test_log_level_custom :: bool where
  "test_log_level_custom \<longleftrightarrow>
     (let config = hardy_sample_config\<lparr>nc_backend_options := [''log_level'' \<mapsto> ''debug'']\<rparr>
      in yaml_contains (generate_hardy_yaml Some config) [''log-level: debug''])"

definition test_static_routes_yaml_content :: bool where
  "test_static_routes_yaml_content \<longleftrightarrow>
     (let config = hardy_sample_config\<lparr>nc_routing :=
            \<lparr>rc_strategy = Static,
             rc_static_routes = [\<lparr>sr_destination_node = 20, sr_next_hop_node = 15\<rparr>,
                                 \<lparr>sr_destination_node = 30, sr_next_hop_node = 20\<rparr>]\<rparr>\<rparr>
      in contains_all (generate_static_routes_yaml config)
           [''routes:'', ''destination: '' @ dquote ''ipn:20.0'', ''next-hop: '' @ dquote ''ipn:15.0'',
            ''destination: '' @ dquote ''ipn:30.0'', ''next-hop: '' @ dquote ''ipn:20.0''])"

definition test_mixed_tcpcl_and_ltp_neighbors :: bool where
  "test_mixed_tcpcl_and_ltp_neighbors \<longleftrightarrow>
     (let config = hardy_sample_config\<lparr>nc_neighbors :=
            [\<lparr>nb_node_number = 20, nb_name = Some ''LTP Peer'',
              nb_links = [LtpUdp ''ltp-link'' 10 20 ''192.168.1.20'' 1113 2113 None None],
              nb_rate_limit_bps = None\<rparr>,
             \<lparr>nb_node_number = 30, nb_name = Some ''TCP Peer'',
              nb_links = [TcpCl ''tcp-link'' ''192.168.1.30'' 4556 (Some 4560) None],
              nb_rate_limit_bps = None\<rparr>]\<rparr>
      in yaml_contains (generate_hardy_yaml Some config)
           [''clas:'', ''name: '' @ dquote ''tcp-link'', ''type: '' @ dquote ''tcpclv4'',
            ''# - LTP/UDP link '' @ dquote ''ltp-link''])"

definition test_empty_neighbors_omits_clas :: bool where
  "test_empty_neighbors_omits_clas \<longleftrightarrow>
     yaml_lacks (generate_hardy_yaml Some (hardy_sample_config\<lparr>nc_neighbors := []\<rparr>)) [''clas:'']"

definition test_ltp_cla_yaml_generated_for_ltp_links :: bool where
  "test_ltp_cla_yaml_generated_for_ltp_links \<longleftrightarrow>
     yaml_contains (Option.bind (generate_hardy_config Some hardy_sample_config)
                      (\<lambda>generated. gc_files generated ''ltp-cla.yaml''))
       [''grpc:'', ''endpoint:'', ''ltp:'', ''engine-id: 10'', ''bind: '' @ dquote ''0.0.0.0:2113'',
        ''client-service-id: 1'', ''spans:'', ''engine-id: 20'', ''192.168.1.20:1113'',
        ''max-segment-size: 1360'', ''framing: none'', dquote ''ipn:20.0'']"

definition test_ltp_cla_yaml_not_generated_without_ltp_links :: bool where
  "test_ltp_cla_yaml_not_generated_without_ltp_links \<longleftrightarrow>
     (case generate_hardy_config Some (hardy_sample_config\<lparr>nc_neighbors :=
            [\<lparr>nb_node_number = 30, nb_name = Some ''TCP Peer'',
              nb_links = [TcpCl ''tcp-only'' ''10.0.0.30'' 4556 None None],
              nb_rate_limit_bps = None\<rparr>]\<rparr>) of
        None \<Rightarrow> False
      | Some generated \<Rightarrow> gc_files generated ''ltp-cla.yaml'' = None)"

text \<open>The lines of the sample, and of the variants, that the tests search.\<close>

lemma sample_services:
  "collect_services {''echo''} {7}
     [\<lparr>sd_service_number = 1, sd_description = Some ''Bundle delivery''\<rparr>,
      \<lparr>sd_service_number = 7, sd_description = Some ''Echo''\<rparr>]
     = Some [(''bundle-delivery'', 1, ''Bundle delivery'')]"
  "collect_services {''echo''} {7}
     [\<lparr>sd_service_number = 7, sd_description = Some ''Echo''\<rparr>,
      \<lparr>sd_service_number = 99, sd_description = Some ''Telemetry''\<rparr>]
     = Some [(''telemetry'', 99, ''Telemetry'')]"
  by code_simp+

lemmas hardy_yaml_eval =
  Let_def hardy_sample_config_def static_sample_def hardy_lines_def built_in_services_lines_def sample_services
  service_line_def log_level_lines_def node_ids_lines_def dtn_node_id_def grpc_lines_def storage_lines_def
  rfc9171_lines_def static_routes_lines_def clas_lines_def all_links_def option_str_def
  default_grpc_address_def dquote_def ltp_links_def ltp_cla_lines_def text_eval

text \<open>A test that looks for patterns in one section evaluates that section only.\<close>

lemma in_some_lines: "list_all (in_lines sec) patterns \<Longrightarrow> set sec \<subseteq> set ls \<Longrightarrow> contains_all (render ls) patterns"
proof -
  assume "list_all (in_lines sec) patterns" "set sec \<subseteq> set ls"
  moreover have "contains_str (render ls) p" if "in_lines sec p" "set sec \<subseteq> set ls" for p
    using in_lines_contains [OF that(1)] that by (auto simp: in_lines_def contains_render)
  ultimately show ?thesis by (auto simp: contains_all_def list_all_iff)
qed

lemma yaml_section:
  assumes "built_in_services_lines (nc_local_node c) = Some services"
  shows "list_all (in_lines (log_level_lines as_str c)) ps \<Longrightarrow> yaml_contains (generate_hardy_yaml as_str c) ps"
    and "list_all (in_lines (node_ids_lines (nc_local_node c))) ps \<Longrightarrow> yaml_contains (generate_hardy_yaml as_str c) ps"
    and "list_all (in_lines (grpc_lines as_str c)) ps \<Longrightarrow> yaml_contains (generate_hardy_yaml as_str c) ps"
    and "list_all (in_lines (storage_lines c)) ps \<Longrightarrow> yaml_contains (generate_hardy_yaml as_str c) ps"
    and "list_all (in_lines rfc9171_lines) ps \<Longrightarrow> yaml_contains (generate_hardy_yaml as_str c) ps"
    and "list_all (in_lines services) ps \<Longrightarrow> yaml_contains (generate_hardy_yaml as_str c) ps"
    and "list_all (in_lines (static_routes_lines (nc_routing c))) ps \<Longrightarrow> yaml_contains (generate_hardy_yaml as_str c) ps"
    and "list_all (in_lines (clas_lines (nc_neighbors c))) ps \<Longrightarrow> yaml_contains (generate_hardy_yaml as_str c) ps"
  unfolding yaml_contains_def generate_hardy_yaml_def hardy_lines_def assms option.map option.case
  by (erule in_some_lines; auto)+

lemma yaml_lacks_lines:
  assumes "case hardy_lines as_str c of None \<Rightarrow> False | Some ls \<Rightarrow> list_all (absent_from_lines ls) patterns"
  shows "yaml_lacks (generate_hardy_yaml as_str c) patterns"
  using assms not_in_lines by (auto simp: yaml_lacks_def generate_hardy_yaml_def split: option.splits)

lemma hardy_sample_lines:
  "hardy_lines Some hardy_sample_config = Some
     [''# Hardy BPA server configuration'', ''# Generated by radiant-dtn-abstraction (Hardy adapter)'',
      ''# Amateur radio compliant: no BPSec/encryption'', [], ''log-level: info'', [],
      ''node-ids:'', ''  - '' @ dquote ''ipn:10.0'', ''  - '' @ dquote ''dtn://g4dpz-1/gs'', [],
      ''grpc:'', ''  address: '' @ dquote ''[::1]:50051'',
      ''  services: ['' @ dquote ''application'' @ '', '' @ dquote ''cla'' @ '', '' @ dquote ''service''
        @ '', '' @ dquote ''ltp'' @ '']'', [],
      ''storage:'', ''  metadata:'', ''    type: '' @ dquote ''sqlite'',
      ''    path: '' @ dquote ''/var/radiant/bundles/metadata.db'', ''  bundle:'',
      ''    type: '' @ dquote ''localdisk'', ''    path: '' @ dquote ''/var/radiant/bundles/bundles'', [],
      ''rfc9171-validity:'', ''  primary-block-integrity: false'', ''  bundle-age-required: false'', [],
      ''built-in-services:'', ''  echo: [7, '' @ dquote ''echo'' @ '']'',
      ''  bundle-delivery: [1, '' @ dquote ''Bundle delivery'' @ '']'', [], [],
      ''# NOTE: LTP/UDP/KISS convergence layers require the separate'',
      ''# hardy-ltp-cla binary. Configure it independently.'',
      ''# - LTP/UDP link '' @ dquote ''ltp-to-orbiter'' @ '' -> 192.168.1.20:1113'']"
  by (simp add: hardy_yaml_eval del: collect_services.simps)

lemma sample_service_lines:
  "nd_services n = nd_services (nc_local_node hardy_sample_config) \<Longrightarrow> built_in_services_lines n = Some
     [''built-in-services:'', ''  echo: [7, '' @ dquote ''echo'' @ '']'',
      ''  bundle-delivery: [1, '' @ dquote ''Bundle delivery'' @ '']'', []]"
  by (simp add: hardy_yaml_eval del: collect_services.simps)

lemmas sample_section = yaml_section [OF sample_service_lines]

lemma sample_section_tests_hold:
  "test_log_level_default" "test_node_ids_contains_both_ipn_and_dtn" "test_grpc_section_default"
  "test_storage_section_with_persistent_storage" "test_rfc9171_validity_section"
  "test_built_in_services_echo" "test_ltp_neighbor_noted_in_comments"
proof -
  note eval = hardy_yaml_eval in_lines_def
  show "test_log_level_default"
    unfolding test_log_level_default_def by (rule sample_section(1)) (simp_all add: eval)
  show "test_node_ids_contains_both_ipn_and_dtn"
    unfolding test_node_ids_contains_both_ipn_and_dtn_def by (rule sample_section(2)) (simp_all add: eval)
  show "test_grpc_section_default"
    unfolding test_grpc_section_default_def by (rule sample_section(3)) (simp_all add: eval)
  show "test_storage_section_with_persistent_storage"
    unfolding test_storage_section_with_persistent_storage_def
    by (rule sample_section(4)) (simp_all add: eval)
  show "test_rfc9171_validity_section"
    unfolding test_rfc9171_validity_section_def by (rule sample_section(5)) (simp_all add: eval)
  show "test_built_in_services_echo"
    unfolding test_built_in_services_echo_def by (rule sample_section(6)) (simp_all add: eval)
  show "test_ltp_neighbor_noted_in_comments"
    unfolding test_ltp_neighbor_noted_in_comments_def
    by (rule sample_section(8)) (simp_all add: eval contains_str_simps)
qed

lemma hardy_absence_tests_hold:
  "test_static_routes_section_absent_when_cgr" "test_no_contacts_or_ranges_in_config"
  unfolding test_static_routes_section_absent_when_cgr_def test_no_contacts_or_ranges_in_config_def
  by (rule yaml_lacks_lines, unfold hardy_sample_lines, code_simp)+

lemma variant_tests_hold:
  "test_log_level_custom" "test_node_ids_fallback_dtn_when_no_callsign" "test_grpc_section_custom_address"
  "test_static_routes_section_present_when_static"
proof -
  note eval = hardy_yaml_eval in_lines_def
  show "test_log_level_custom"
    unfolding test_log_level_custom_def Let_def by (rule sample_section(1)) (simp_all add: eval)
  show "test_node_ids_fallback_dtn_when_no_callsign"
    unfolding test_node_ids_fallback_dtn_when_no_callsign_def Let_def
    by (rule sample_section(2)) (simp_all add: eval)
  show "test_grpc_section_custom_address"
    unfolding test_grpc_section_custom_address_def Let_def by (rule sample_section(3)) (simp_all add: eval)
  show "test_static_routes_section_present_when_static"
    unfolding test_static_routes_section_present_when_static_def
    by (rule sample_section(7)) (simp_all add: eval)
qed

lemma clas_tests_hold:
  "test_clas_section_with_tcpcl_neighbor" "test_clas_section_tcpcl_default_port"
  "test_kiss_neighbor_noted_in_comments" "test_mixed_tcpcl_and_ltp_neighbors"
  unfolding test_clas_section_with_tcpcl_neighbor_def test_clas_section_tcpcl_default_port_def
    test_kiss_neighbor_noted_in_comments_def test_mixed_tcpcl_and_ltp_neighbors_def Let_def
  by (rule sample_section(8); simp add: clas_lines_def all_links_def Let_def dquote_def text_eval in_lines_def)+

lemma additional_services_test_holds: "test_built_in_services_additional"
proof -
  have "built_in_services_lines (nc_local_node hardy_sample_config\<lparr>nd_services :=
      [\<lparr>sd_service_number = 7, sd_description = Some ''Echo''\<rparr>,
       \<lparr>sd_service_number = 99, sd_description = Some ''Telemetry''\<rparr>]\<rparr>)
    = Some [''built-in-services:'', ''  echo: [7, '' @ dquote ''echo'' @ '']'',
       ''  telemetry: [99, '' @ dquote ''Telemetry'' @ '']'', []]"
    by (simp add: built_in_services_lines_def sample_services service_line_def dquote_def text_eval
        del: collect_services.simps)
  from yaml_section(6) [where c = "hardy_sample_config\<lparr>nc_local_node := _\<rparr>", simplified, OF this]
  show ?thesis
    unfolding test_built_in_services_additional_def Let_def by (simp add: dquote_def in_lines_def text_eval)
qed

lemma empty_neighbors_test_holds: "test_empty_neighbors_omits_clas"
  unfolding test_empty_neighbors_omits_clas_def
  by (rule yaml_lacks_lines) (simp add: hardy_yaml_eval absent_from_lines_def contains_str_simps
      del: collect_services.simps)

lemma static_routes_test_holds: "test_static_routes_yaml_content"
  unfolding test_static_routes_yaml_content_def generate_static_routes_yaml_def Let_def
  by (rule contains_all_render) (simp add: hardy_yaml_eval route_lines_def in_lines_def)

text \<open>The sample and its variant with static routes have all but one, and all, of the three files.\<close>

lemma sample_generated:
  assumes "hardy_lines as_str c = Some ls"
  shows "generate_hardy_config as_str c = Some \<lparr>gc_files =
     (case generate_ltp_cla_yaml as_str c of
        Some content \<Rightarrow> (if rc_strategy (nc_routing c) = Static \<and> rc_static_routes (nc_routing c) \<noteq> []
            then [''hardy.yaml'' \<mapsto> render ls, ''static_routes.yaml'' \<mapsto> generate_static_routes_yaml c]
            else [''hardy.yaml'' \<mapsto> render ls])(''ltp-cla.yaml'' \<mapsto> content)
      | None \<Rightarrow> (if rc_strategy (nc_routing c) = Static \<and> rc_static_routes (nc_routing c) \<noteq> []
            then [''hardy.yaml'' \<mapsto> render ls, ''static_routes.yaml'' \<mapsto> generate_static_routes_yaml c]
            else [''hardy.yaml'' \<mapsto> render ls]))\<rparr>"
  using assms by (simp add: generate_hardy_config_def generate_hardy_yaml_def Let_def)

lemma sample_ltp_cla:
  "generate_ltp_cla_yaml Some hardy_sample_config = Some (render (ltp_cla_lines Some hardy_sample_config 10 2113))"
  "generate_ltp_cla_yaml Some static_sample = Some (render (ltp_cla_lines Some static_sample 10 2113))"
  by (simp_all add: generate_ltp_cla_yaml_def ltp_links_def hardy_sample_config_def static_sample_def)

lemma hardy_lines_exist:
  assumes "length (nd_services (nc_local_node c)) < 4"
  shows "\<exists>ls. hardy_lines as_str c = Some ls"
proof -
  have "hardy_serves c" using assms by (simp add: hardy_serves_def)
  then show ?thesis by (rule hardy_generated [of c as_str]) blast
qed

lemma sample_routing:
  "rc_strategy (nc_routing hardy_sample_config) = Cgr"
  "rc_strategy (nc_routing static_sample) = Static" "rc_static_routes (nc_routing static_sample) \<noteq> []"
  by (simp_all add: hardy_sample_config_def static_sample_def)

lemma hardy_file_tests_hold:
  "test_generate_hardy_config_produces_yaml_file" "test_no_static_routes_file_when_cgr_routing"
  by (simp_all add: test_generate_hardy_config_produces_yaml_file_def has_files_def file_count_def Let_def
      test_no_static_routes_file_when_cgr_routing_def sample_generated [OF hardy_sample_lines]
      sample_ltp_cla sample_routing)

lemma static_files_test_holds: "test_generates_static_routes_file_when_static_routing"
proof -
  obtain ls where "hardy_lines Some static_sample = Some ls"
    using hardy_lines_exist [of static_sample Some] by (auto simp: static_sample_def hardy_sample_config_def)
  from sample_generated [OF this] show ?thesis
    by (simp add: test_generates_static_routes_file_when_static_routing_def has_files_def file_count_def
        Let_def sample_ltp_cla sample_routing)
qed

lemma sample_ltp_cla_lines:
  "ltp_cla_lines Some hardy_sample_config 10 2113 =
     [''# hardy-ltp-cla (hardy-ltp-server) configuration'',
      ''# Generated by radiant-dtn-abstraction (Hardy adapter)'',
      ''# Bridges Hardy BPA (gRPC) <-> LTP/UDP for interoperability'', [], ''grpc:'',
      ''  endpoint: '' @ dquote ''http://[::1]:50051'', ''  reconnect-initial-secs: 1.0'',
      ''  reconnect-max-secs: 10.0'', [], ''ltp:'', ''  bind: '' @ dquote ''0.0.0.0:2113'', ''  engine-id: 10'',
      ''  client-service-id: 1'', ''  spans:'', ''    - engine-id: 20'',
      ''      address: '' @ dquote ''192.168.1.20:1113'', ''      max-segment-size: 1360'', ''      framing: none'',
      ''      node-ids:'', ''        - '' @ dquote ''ipn:20.0'']"
  by (simp add: hardy_yaml_eval)

lemma ltp_cla_test_holds: "test_ltp_cla_yaml_generated_for_ltp_links"
proof -
  have "list_all (in_lines (ltp_cla_lines Some hardy_sample_config 10 2113))
      [''grpc:'', ''endpoint:'', ''ltp:'', ''engine-id: 10'', ''bind: '' @ dquote ''0.0.0.0:2113'',
       ''client-service-id: 1'', ''spans:'', ''engine-id: 20'', ''192.168.1.20:1113'',
       ''max-segment-size: 1360'', ''framing: none'', dquote ''ipn:20.0'']"
    unfolding sample_ltp_cla_lines by code_simp
  from contains_all_render [OF this] show ?thesis
    by (simp add: test_ltp_cla_yaml_generated_for_ltp_links_def yaml_contains_def
        sample_generated [OF hardy_sample_lines] sample_ltp_cla sample_routing)
qed

lemma no_ltp_cla_test_holds: "test_ltp_cla_yaml_not_generated_without_ltp_links"
proof -
  let ?c = "hardy_sample_config\<lparr>nc_neighbors := [\<lparr>nb_node_number = 30, nb_name = Some ''TCP Peer'',
     nb_links = [TcpCl ''tcp-only'' ''10.0.0.30'' 4556 None None], nb_rate_limit_bps = None\<rparr>]\<rparr>"
  have "generate_ltp_cla_yaml Some ?c = None" by (simp add: generate_ltp_cla_yaml_def ltp_links_def)
  moreover obtain ls where "hardy_lines Some ?c = Some ls"
    using hardy_lines_exist [of ?c Some] by (auto simp: hardy_sample_config_def)
  moreover have "rc_strategy (nc_routing ?c) = Cgr" by (simp add: hardy_sample_config_def)
  ultimately show ?thesis
    by (simp add: test_ltp_cla_yaml_not_generated_without_ltp_links_def sample_generated)
qed

text \<open>Matches without a line feed are counted line by line.\<close>

lemma match_count_across:
  "LF \<notin> set p \<Longrightarrow> p \<noteq> [] \<Longrightarrow> n \<le> length l \<Longrightarrow>
   match_count p n (l @ LF # r) = match_count p n l + match_count p 0 r"
proof (induction p n l rule: match_count.induct)
  case (1 pat n)
  then show ?case by (cases pat) auto
next
  case (2 pat n c cs)
  then show ?case by simp
next
  case (3 pat c cs)
  have "prefix pat (c # cs @ LF # r) \<longleftrightarrow> prefix pat (c # cs)"
    using 3(3) by (auto simp: prefix_append prefix_Cons simp flip: append_Cons)
  then show ?case using 3 prefix_length_le [of pat "c # cs"] by auto
qed

lemma match_count_render:
  "LF \<notin> set p \<Longrightarrow> p \<noteq> [] \<Longrightarrow> match_count p 0 (render ls) = sum_list (map (match_count p 0) ls)"
  by (induction ls) (simp_all add: match_count_across)

lemma memory_count_test_holds: "test_storage_section_memory_when_no_storage_config"
proof -
  let ?lines = "[''# Hardy BPA server configuration'',
      ''# Generated by radiant-dtn-abstraction (Hardy adapter)'',
      ''# Amateur radio compliant: no BPSec/encryption'', [], ''log-level: info'', [],
      ''node-ids:'', ''  - '' @ dquote ''ipn:10.0'', ''  - '' @ dquote ''dtn://g4dpz-1/gs'', [],
      ''grpc:'', ''  address: '' @ dquote ''[::1]:50051'',
      ''  services: ['' @ dquote ''application'' @ '', '' @ dquote ''cla'' @ '', '' @ dquote ''service''
        @ '', '' @ dquote ''ltp'' @ '']'', [],
      ''storage:'', ''  metadata:'', ''    type: '' @ dquote ''memory'', ''  bundle:'',
      ''    type: '' @ dquote ''memory'', [],
      ''rfc9171-validity:'', ''  primary-block-integrity: false'', ''  bundle-age-required: false'', [],
      ''built-in-services:'', ''  echo: [7, '' @ dquote ''echo'' @ '']'',
      ''  bundle-delivery: [1, '' @ dquote ''Bundle delivery'' @ '']'', [], [],
      ''# NOTE: LTP/UDP/KISS convergence layers require the separate'',
      ''# hardy-ltp-cla binary. Configure it independently.'',
      ''# - LTP/UDP link '' @ dquote ''ltp-to-orbiter'' @ '' -> 192.168.1.20:1113'']"
  let ?p = "''type: '' @ dquote ''memory''"
  have "hardy_lines Some (hardy_sample_config\<lparr>nc_storage := None\<rparr>) = Some ?lines"
    by (simp add: hardy_yaml_eval del: collect_services.simps)
  moreover have "LF \<notin> set ?p" "?p \<noteq> []" "in_lines ?lines ''storage:''"
    "sum_list (map (match_count ?p 0) ?lines) = 2"
    by code_simp+
  ultimately show ?thesis
    using in_lines_contains [of ?lines "''storage:''"] match_count_render [of ?p ?lines]
    by (simp add: test_storage_section_memory_when_no_storage_config_def generate_hardy_yaml_def
        del: match_count.simps render_simps)
qed

lemma yaml_lacks_outside_comments:
  assumes "hardy_lines as_str c = Some ls" "list_all clean_line ls"
    and "list_all (absent_from_lines (map to_lowercase (filter (\<lambda>l. \<not> starts_with ''#'' (trim_start l)) ls))) words"
  shows "yaml_lacks (map_option non_comment (generate_hardy_yaml as_str c)) words"
  using assms
  by (auto simp: yaml_lacks_def generate_hardy_yaml_def non_comment_def list_all_iff absent_from_lines_def
      list_ex_iff kept_lines_contain)

lemma no_bpsec_test_holds: "test_no_bpsec_directives"
  unfolding test_no_bpsec_directives_def
  by (rule yaml_lacks_outside_comments [OF hardy_sample_lines]) code_simp+

section \<open>Telemetry\<close>

text \<open>The library's answer on a text that denotes the document, and on a malformed one.\<close>

definition api_parsing :: "toy_json \<Rightarrow> toy_json json_api" where
  "api_parsing document = toy_api\<lparr>ja_parse := \<lambda>_. Inr document\<rparr>"

definition api_refusing :: "string \<Rightarrow> toy_json json_api" where
  "api_refusing e = toy_api\<lparr>ja_parse := \<lambda>_. Inl e\<rparr>"

definition all_five_stats :: "u64 \<Rightarrow> u64 \<Rightarrow> u64 \<Rightarrow> u64 \<Rightarrow> u64 \<Rightarrow> bundle_statistics option \<Rightarrow> bool" where
  "all_five_stats s f d e q r \<longleftrightarrow>
     r = Some \<lparr>bs_sourced = s, bs_forwarded = f, bs_delivered = d, bs_expired = e, bs_queued = q\<rparr>"

definition test_parse_stats_json_standard_format :: "bool \<Rightarrow> string \<Rightarrow> bool" where
  "test_parse_stats_json_standard_format logs json \<longleftrightarrow>
     all_five_stats 42 38 35 2 5 (parse_stats_json logs (api_parsing (Toy_object
       [(''bundles_delivered'', Toy_num 35), (''bundles_expired'', Toy_num 2),
        (''bundles_forwarded'', Toy_num 38), (''bundles_queued'', Toy_num 5),
        (''bundles_sourced'', Toy_num 42)])) json)"

definition test_parse_stats_json_short_keys :: "bool \<Rightarrow> string \<Rightarrow> bool" where
  "test_parse_stats_json_short_keys logs json \<longleftrightarrow>
     all_five_stats 10 8 7 1 3 (parse_stats_json logs (api_parsing (Toy_object
       [(''delivered'', Toy_num 7), (''expired'', Toy_num 1), (''forwarded'', Toy_num 8),
        (''queued'', Toy_num 3), (''sourced'', Toy_num 10)])) json)"

definition test_parse_stats_json_nested_stats_object :: "bool \<Rightarrow> string \<Rightarrow> bool" where
  "test_parse_stats_json_nested_stats_object logs json \<longleftrightarrow>
     all_five_stats 100 90 85 5 10 (parse_stats_json logs (api_parsing (Toy_object
       [(''stats'', Toy_object
          [(''delivered'', Toy_num 85), (''expired'', Toy_num 5), (''forwarded'', Toy_num 90),
           (''queued'', Toy_num 10), (''sourced'', Toy_num 100)])])) json)"

definition test_parse_stats_json_invalid_json :: "bool \<Rightarrow> string \<Rightarrow> bool" where
  "test_parse_stats_json_invalid_json logs e \<longleftrightarrow>
     all_five_stats 0 0 0 0 0 (parse_stats_json logs (api_refusing e) ''not valid json{{{'')"

definition test_parse_stats_json_empty_object :: "bool \<Rightarrow> bool" where
  "test_parse_stats_json_empty_object logs \<longleftrightarrow>
     (case parse_stats_json logs (api_parsing (Toy_object [])) ''{}'' of
        None \<Rightarrow> False
      | Some stats \<Rightarrow> bs_sourced stats = 0 \<and> bs_forwarded stats = 0)"

definition unrecognized_text :: string where
  "unrecognized_text =
     ''{'' @ dquote ''unknown_field'' @ '': 42, '' @ dquote ''another'' @ '': 99}''"

definition test_parse_stats_json_unrecognized_keys :: "bool \<Rightarrow> bool" where
  "test_parse_stats_json_unrecognized_keys logs \<longleftrightarrow>
     (case parse_stats_json logs (api_parsing (Toy_object
              [(''another'', Toy_num 99), (''unknown_field'', Toy_num 42)])) unrecognized_text of
        None \<Rightarrow> False
      | Some stats \<Rightarrow> bs_sourced stats = 0)"

definition test_parse_links_json_array_format :: "bool \<Rightarrow> string \<Rightarrow> bool" where
  "test_parse_links_json_array_format logs json \<longleftrightarrow>
     parse_links_json logs (api_parsing (Toy_array
       [Toy_object [(''active'', Toy_bool True), (''bytes_received'', Toy_num 512), (''bytes_sent'', Toy_num 1024),
                    (''link_id'', Toy_str ''ltp-to-orbiter''), (''neighbor_node'', Toy_num 20)],
        Toy_object [(''active'', Toy_bool False), (''bytes_received'', Toy_num 0), (''bytes_sent'', Toy_num 0),
                    (''link_id'', Toy_str ''tcp-to-relay''), (''neighbor_node'', Toy_num 30)]])) json
     = Some [\<lparr>ls_neighbor_node = 20, ls_link_id = ''ltp-to-orbiter'', ls_active = True,
              ls_bytes_sent = 1024, ls_bytes_received = 512\<rparr>,
             \<lparr>ls_neighbor_node = 30, ls_link_id = ''tcp-to-relay'', ls_active = False,
              ls_bytes_sent = 0, ls_bytes_received = 0\<rparr>]"

definition test_parse_links_json_wrapped_format :: "bool \<Rightarrow> string \<Rightarrow> bool" where
  "test_parse_links_json_wrapped_format logs json \<longleftrightarrow>
     (case parse_links_json logs (api_parsing (Toy_object [(''links'', Toy_array
              [Toy_object [(''active'', Toy_bool True), (''bytes_received'', Toy_num 1024),
                           (''bytes_sent'', Toy_num 2048), (''link_id'', Toy_str ''ltp-span-20''),
                           (''neighbor_node'', Toy_num 20)]])])) json of
        Some [link] \<Rightarrow> ls_neighbor_node link = 20 \<and> ls_link_id link = ''ltp-span-20'' \<and> ls_active link
      | _ \<Rightarrow> False)"

definition test_parse_links_json_alternative_keys :: "bool \<Rightarrow> string \<Rightarrow> bool" where
  "test_parse_links_json_alternative_keys logs json \<longleftrightarrow>
     parse_links_json logs (api_parsing (Toy_array
       [Toy_object [(''id'', Toy_str ''udp-link''), (''peer_node'', Toy_num 25), (''rx_bytes'', Toy_num 2048),
                    (''tx_bytes'', Toy_num 4096), (''up'', Toy_bool True)]])) json
     = Some [\<lparr>ls_neighbor_node = 25, ls_link_id = ''udp-link'', ls_active = True,
              ls_bytes_sent = 4096, ls_bytes_received = 2048\<rparr>]"

definition state_document :: "string \<Rightarrow> toy_json" where
  "state_document state = Toy_array
     [Toy_object [(''bytes_received'', Toy_num 50), (''bytes_sent'', Toy_num 100), (''name'', Toy_str ''test-link''),
                  (''node_id'', Toy_num 20), (''state'', Toy_str state)]]"

definition test_parse_links_json_state_string_field :: "bool \<Rightarrow> string \<Rightarrow> bool" where
  "test_parse_links_json_state_string_field logs json \<longleftrightarrow>
     (case parse_links_json logs (api_parsing (state_document ''active'')) json of
        Some [link] \<Rightarrow> ls_active link
      | _ \<Rightarrow> False)"

definition test_parse_links_json_inactive_state_string :: "bool \<Rightarrow> string \<Rightarrow> bool" where
  "test_parse_links_json_inactive_state_string logs json \<longleftrightarrow>
     (case parse_links_json logs (api_parsing (state_document ''down'')) json of
        Some [link] \<Rightarrow> \<not> ls_active link
      | _ \<Rightarrow> False)"

definition test_parse_links_json_invalid_json :: "bool \<Rightarrow> string \<Rightarrow> bool" where
  "test_parse_links_json_invalid_json logs e \<longleftrightarrow>
     parse_links_json logs (api_refusing e) ''not valid json'' = Some []"

definition test_parse_links_json_empty_array :: "bool \<Rightarrow> bool" where
  "test_parse_links_json_empty_array logs \<longleftrightarrow>
     parse_links_json logs (api_parsing (Toy_array [])) ''[]'' = Some []"

definition test_parse_links_json_missing_neighbor_node_skips_entry :: "bool \<Rightarrow> string \<Rightarrow> bool" where
  "test_parse_links_json_missing_neighbor_node_skips_entry logs json \<longleftrightarrow>
     parse_links_json logs (api_parsing (Toy_array
       [Toy_object [(''active'', Toy_bool True), (''bytes_received'', Toy_num 50), (''bytes_sent'', Toy_num 100),
                    (''link_id'', Toy_str ''orphan-link'')]])) json = Some []"

definition test_hardy_telemetry_new_default_url :: bool where
  "test_hardy_telemetry_new_default_url \<longleftrightarrow>
     ht_management_url (new_hardy_telemetry None) = ''http://127.0.0.1:8472''"

definition test_hardy_telemetry_new_custom_url :: bool where
  "test_hardy_telemetry_new_custom_url \<longleftrightarrow>
     ht_management_url (new_hardy_telemetry (Some ''http://10.0.0.1:9090'')) = ''http://10.0.0.1:9090''"

text \<open>Nothing listens at port 1: curl fails.\<close>

definition test_collect_stats_returns_zeros_when_api_unreachable ::
  "bool \<Rightarrow> os \<Rightarrow> 'v json_api \<Rightarrow> bool" where
  "test_collect_stats_returns_zeros_when_api_unreachable logs os api \<longleftrightarrow>
     (case fst (hardy_collect_stats logs os api (new_hardy_telemetry (Some ''http://127.0.0.1:1'')) []) of
        Inl (e :: abstraction_error) \<Rightarrow> False
      | Inr stats \<Rightarrow> all_five_stats 0 0 0 0 0 stats)"

definition test_link_states_returns_empty_when_api_unreachable ::
  "bool \<Rightarrow> os \<Rightarrow> 'v json_api \<Rightarrow> bool" where
  "test_link_states_returns_empty_when_api_unreachable logs os api \<longleftrightarrow>
     (case fst (hardy_link_states logs os api (new_hardy_telemetry (Some ''http://127.0.0.1:1'')) []) of
        Inl (e :: abstraction_error) \<Rightarrow> False
      | Inr links \<Rightarrow> links = Some [])"

lemmas stats_eval =
  parse_stats_json_def api_parsing_def api_refusing_def toy_api_def stats_of_value_def json_get_def
  extract_stats_from_object_def stats_entry_def hardy_stat_key_def apply_stat_value_def stat_names
  all_five_stats_def zero_stats_def text_eval

lemma hardy_stats_tests_hold:
  "test_parse_stats_json_standard_format logs json" "test_parse_stats_json_short_keys logs json"
  "test_parse_stats_json_nested_stats_object logs json"
  by (simp_all add: test_parse_stats_json_standard_format_def test_parse_stats_json_short_keys_def
      test_parse_stats_json_nested_stats_object_def stats_eval)

lemma hardy_stats_refused_tests_hold:
  "test_parse_stats_json_invalid_json logs e" "test_parse_stats_json_empty_object logs"
  "test_parse_stats_json_unrecognized_keys logs"
  by (simp_all add: test_parse_stats_json_invalid_json_def test_parse_stats_json_empty_object_def
      test_parse_stats_json_unrecognized_keys_def unrecognized_text_def dquote_def warn_preview_ascii
      is_ascii_def code_of_def stats_eval)

lemmas links_eval =
  parse_links_json_def api_parsing_def api_refusing_def toy_api_def links_of_value_def json_get_def
  extract_link_states_from_array_def List.map_filter_def extract_link_state_from_object_def get_first_def
  state_document_def state_says_active_def text_eval

lemma hardy_links_tests_hold:
  "test_parse_links_json_array_format logs json" "test_parse_links_json_wrapped_format logs json"
  "test_parse_links_json_alternative_keys logs json" "test_parse_links_json_state_string_field logs json"
  "test_parse_links_json_inactive_state_string logs json" "test_parse_links_json_empty_array logs"
  "test_parse_links_json_missing_neighbor_node_skips_entry logs json"
  by (simp_all add: test_parse_links_json_array_format_def test_parse_links_json_wrapped_format_def
      test_parse_links_json_alternative_keys_def test_parse_links_json_state_string_field_def
      test_parse_links_json_inactive_state_string_def test_parse_links_json_empty_array_def
      test_parse_links_json_missing_neighbor_node_skips_entry_def links_eval)

lemma hardy_links_refused_test_holds: "test_parse_links_json_invalid_json logs e"
  by (simp add: test_parse_links_json_invalid_json_def warn_preview_ascii is_ascii_def code_of_def links_eval)

lemma hardy_url_tests_hold: "test_hardy_telemetry_new_default_url" "test_hardy_telemetry_new_custom_url"
  by code_simp+

lemma hardy_unreachable_tests_hold:
  assumes "\<And>url. http_body (os_output os [] (http_get_command url)) = None"
  shows "test_collect_stats_returns_zeros_when_api_unreachable logs os api"
    "test_link_states_returns_empty_when_api_unreachable logs os api"
  using assms
  by (simp_all add: test_collect_stats_returns_zeros_when_api_unreachable_def
      test_link_states_returns_empty_when_api_unreachable_def hardy_collect_stats_def hardy_link_states_def
      http_get_def act_bind_def run_output_def perform_def act_return_def new_hardy_telemetry_def
      all_five_stats_def zero_stats_def)

end
