(* ===== verification/Network_Test.thy ===== *)
theory Network_Test
  imports Interop_Programs Hardy_Config Demo_Cleanup Unit_Tests_Ion Unit_Tests_Hardy
begin

text \<open>
  \<open>tests/network_interop_test.rs\<close>: the fixtures of the two nodes, the tests of their generated files, and
  the end-to-end test as a program of \<open>Demo_Effects\<close>. A failed unwrap or assertion is a panic; the test
  context is dropped then, which kills the processes it holds. The helpers that no test calls are left out.
\<close>

section \<open>The fixtures\<close>

definition network_contact_plan :: contact_plan where
  "network_contact_plan =
     \<lparr>cp_contacts =
        [\<lparr>ct_source_node = 10, ct_dest_node = 20, ct_start_time = 0, ct_end_time = 4102444800,
          ct_rate_bps = 10000000, ct_confidence = default_confidence\<rparr>,
         \<lparr>ct_source_node = 20, ct_dest_node = 10, ct_start_time = 0, ct_end_time = 4102444800,
          ct_rate_bps = 10000000, ct_confidence = default_confidence\<rparr>],
      cp_ranges =
        [\<lparr>rg_source_node = 10, rg_dest_node = 20, rg_owlt_secs = F64_finite 1152921504606847 (-60)\<rparr>,
         \<lparr>rg_source_node = 20, rg_dest_node = 10, rg_owlt_secs = F64_finite 1152921504606847 (-60)\<rparr>]\<rparr>"

definition network_ion_config :: "'y network_configuration" where
  "network_ion_config =
     \<lparr>nc_version = ''1.0'', nc_backend = ''ion-dtn'',
      nc_local_node = \<lparr>nd_node_number = 10, nd_endpoint_id = Some (Ipn 10 0), nd_callsign_eid = None,
        nd_name = ''ION Interop Node'',
        nd_services = [\<lparr>sd_service_number = 1, sd_description = Some ''Bundle delivery''\<rparr>]\<rparr>,
      nc_neighbors =
        [\<lparr>nb_node_number = 20, nb_name = Some ''Hardy Interop Node'',
          nb_links = [LtpUdp ''ltp-to-hardy'' 10 20 ''127.0.0.1'' 1113 2113 (Some 1400) None],
          nb_rate_limit_bps = None\<rparr>],
      nc_contact_plan = network_contact_plan,
      nc_routing = \<lparr>rc_strategy = Cgr, rc_static_routes = []\<rparr>,
      nc_security = Some \<lparr>sec_enabled = False\<rparr>,
      nc_storage = Some \<lparr>st_path = ''/tmp/radiant-interop/ion'', st_max_bytes = Some 104857600\<rparr>,
      nc_backend_options = Map.empty\<rparr>"

definition network_hardy_config :: "'y network_configuration" where
  "network_hardy_config =
     \<lparr>nc_version = ''1.0'', nc_backend = ''hardy'',
      nc_local_node = \<lparr>nd_node_number = 20, nd_endpoint_id = Some (Ipn 20 0), nd_callsign_eid = None,
        nd_name = ''Hardy Interop Node'',
        nd_services = [\<lparr>sd_service_number = 1, sd_description = Some ''Bundle delivery''\<rparr>]\<rparr>,
      nc_neighbors =
        [\<lparr>nb_node_number = 10, nb_name = Some ''ION Interop Node'',
          nb_links = [LtpUdp ''ltp-to-ion'' 20 10 ''127.0.0.1'' 2113 1113 (Some 1400) None],
          nb_rate_limit_bps = None\<rparr>],
      nc_contact_plan = network_contact_plan,
      nc_routing = \<lparr>rc_strategy = Cgr, rc_static_routes = []\<rparr>,
      nc_security = Some \<lparr>sec_enabled = False\<rparr>, nc_storage = None, nc_backend_options = Map.empty\<rparr>"

section \<open>The tests of the generated files\<close>

definition file_contains :: "generated_config option \<Rightarrow> string \<Rightarrow> string list \<Rightarrow> bool" where
  "file_contains generated name patterns \<longleftrightarrow>
     yaml_contains (Option.bind generated (\<lambda>g. gc_files g name)) patterns"

definition test_interop_fixture_generation :: bool where
  "test_interop_fixture_generation \<longleftrightarrow>
     (let ion_config = (network_ion_config :: string network_configuration);
          hardy_config = network_hardy_config;
          ion_generated = Some (generate_ion_config ion_config);
          hardy_generated = generate_hardy_config Some hardy_config
      in validate ion_config = Inr () \<and> validate hardy_config = Inr ()
         \<and> has_files ion_generated [''node10.ionrc'', ''node10.bprc'', ''node10.ltprc'', ''node10.ipnrc'']
         \<and> has_files hardy_generated [''hardy.yaml'', ''ltp-cla.yaml'']
         \<and> file_contains ion_generated ''node10.ionrc'' [''10'', ''20'']
         \<and> file_contains ion_generated ''node10.ltprc'' [''127.0.0.1:1113'']
         \<and> file_contains hardy_generated ''hardy.yaml'' [dquote ''ipn:20.0'', ''node-ids:'', ''ltp-to-ion'', ''127.0.0.1:2113'']
         \<and> file_contains hardy_generated ''ltp-cla.yaml''
             [''engine-id: 20'', ''engine-id: 10'', ''bind: '' @ dquote ''0.0.0.0:1113'', ''127.0.0.1:2113'',
              ''framing: none'', ''grpc:'', ''ltp:''])"

definition test_interop_contact_plan_symmetry :: bool where
  "test_interop_contact_plan_symmetry \<longleftrightarrow>
     (let plan = network_contact_plan;
          found = (\<lambda>s d. find (\<lambda>c. ct_source_node c = s \<and> ct_dest_node c = d) (cp_contacts plan))
      in length (cp_contacts plan) = 2
         \<and> (case found 10 20 of None \<Rightarrow> False | Some k \<Rightarrow> ct_rate_bps k = 10000000)
         \<and> (case found 20 10 of None \<Rightarrow> False | Some k \<Rightarrow> ct_rate_bps k = 10000000)
         \<and> length (cp_ranges plan) = 2)"

definition test_interop_ion_no_bpsec :: bool where
  "test_interop_ion_no_bpsec \<longleftrightarrow>
     (\<forall>content \<in> ran (gc_files (generate_ion_config (network_ion_config :: unit network_configuration))).
        let non_comment = to_lowercase (join [LF] (filter (\<lambda>l. \<not> starts_with ''##'' (trim_start l)) (str_lines content)))
        in \<not> contains_str non_comment ''bpsec'' \<and> \<not> contains_str non_comment ''encrypt'')"

text \<open>The text of the function below, which panics when the file is not generated.\<close>

definition generate_hardy_ltp_cla_config :: "('y \<Rightarrow> string option) \<Rightarrow> string option" where
  "generate_hardy_ltp_cla_config as_str =
     Option.bind (generate_hardy_config as_str network_hardy_config) (\<lambda>g. gc_files g ''ltp-cla.yaml'')"

text \<open>Up to the parse by the YAML library at its end.\<close>

definition test_hardy_ltp_cla_config_generation :: bool where
  "test_hardy_ltp_cla_config_generation \<longleftrightarrow>
     yaml_contains (generate_hardy_ltp_cla_config (Some :: string \<Rightarrow> string option))
       [''0.0.0.0:1113'', ''[::1]:50051'', ''ipn:10.0'', ''engine-id: 10'', ''127.0.0.1:2113'']"

lemma network_service_lines:
  "built_in_services_lines (nc_local_node network_hardy_config) = Some
     [''built-in-services:'', ''  echo: [7, '' @ dquote ''echo'' @ '']'',
      ''  bundle-delivery: [1, '' @ dquote ''Bundle delivery'' @ '']'', []]"
proof -
  have "collect_services {''echo''} {7} [\<lparr>sd_service_number = 1, sd_description = Some ''Bundle delivery''\<rparr>]
     = Some [(''bundle-delivery'', 1, ''Bundle delivery'')]"
    by code_simp
  then show ?thesis
    by (simp add: network_hardy_config_def built_in_services_lines_def service_line_def dquote_def text_eval
        del: collect_services.simps)
qed

lemma network_notes:
  "clas_lines (nc_neighbors network_hardy_config) =
     [[], ''# NOTE: LTP/UDP/KISS convergence layers require the separate'',
      ''# hardy-ltp-cla binary. Configure it independently.'',
      ''# - LTP/UDP link '' @ dquote ''ltp-to-ion'' @ '' -> 127.0.0.1:2113'']"
  by (simp add: network_hardy_config_def clas_lines_def all_links_def Let_def dquote_def text_eval)

lemma network_yaml_contains:
  "yaml_contains (generate_hardy_yaml as_str network_hardy_config) [dquote ''ipn:20.0'', ''node-ids:'']"
  "yaml_contains (generate_hardy_yaml as_str network_hardy_config) [''ltp-to-ion'', ''127.0.0.1:2113'']"
proof -
  note section_rules = yaml_section [OF network_service_lines]
  show "yaml_contains (generate_hardy_yaml as_str network_hardy_config) [dquote ''ipn:20.0'', ''node-ids:'']"
    by (rule section_rules(2))
      (simp add: network_hardy_config_def node_ids_lines_def dtn_node_id_def dquote_def text_eval in_lines_def)
  show "yaml_contains (generate_hardy_yaml as_str network_hardy_config) [''ltp-to-ion'', ''127.0.0.1:2113'']"
    by (rule section_rules(8), unfold network_notes, code_simp)
qed

lemma network_ltp_cla:
  "generate_ltp_cla_yaml as_str network_hardy_config = Some (render (ltp_cla_lines as_str network_hardy_config 20 1113))"
  by (simp add: generate_ltp_cla_yaml_def ltp_links_def network_hardy_config_def)

lemma network_ltp_cla_lines:
  "ltp_cla_lines as_str network_hardy_config 20 1113 =
     [''# hardy-ltp-cla (hardy-ltp-server) configuration'',
      ''# Generated by radiant-dtn-abstraction (Hardy adapter)'',
      ''# Bridges Hardy BPA (gRPC) <-> LTP/UDP for interoperability'', [], ''grpc:'',
      ''  endpoint: '' @ dquote ''http://[::1]:50051'', ''  reconnect-initial-secs: 1.0'',
      ''  reconnect-max-secs: 10.0'', [], ''ltp:'', ''  bind: '' @ dquote ''0.0.0.0:1113'', ''  engine-id: 20'',
      ''  client-service-id: 1'', ''  spans:'', ''    - engine-id: 10'',
      ''      address: '' @ dquote ''127.0.0.1:2113'', ''      max-segment-size: 1400'', ''      framing: none'',
      ''      node-ids:'', ''        - '' @ dquote ''ipn:10.0'']"
  by (simp add: network_hardy_config_def ltp_cla_lines_def ltp_links_def option_str_def
      default_grpc_address_def dquote_def text_eval)

lemma network_ltp_cla_contains:
  "contains_all (render (ltp_cla_lines as_str network_hardy_config 20 1113))
     [''engine-id: 20'', ''engine-id: 10'', ''bind: '' @ dquote ''0.0.0.0:1113'', ''127.0.0.1:2113'',
      ''framing: none'', ''grpc:'', ''ltp:'']"
  "contains_all (render (ltp_cla_lines as_str network_hardy_config 20 1113))
     [''0.0.0.0:1113'', ''[::1]:50051'', ''ipn:10.0'', ''engine-id: 10'', ''127.0.0.1:2113'']"
  unfolding network_ltp_cla_lines by (rule contains_all_render, code_simp)+

lemma network_hardy_files:
  obtains g where "generate_hardy_config as_str network_hardy_config = Some g"
    and "gc_files g ''hardy.yaml'' = generate_hardy_yaml as_str network_hardy_config"
    and "gc_files g ''ltp-cla.yaml'' = Some (render (ltp_cla_lines as_str network_hardy_config 20 1113))"
proof -
  obtain ls where ls: "hardy_lines as_str network_hardy_config = Some ls"
    using hardy_lines_exist [of network_hardy_config as_str] by (auto simp: network_hardy_config_def)
  have "rc_strategy (nc_routing network_hardy_config) = Cgr" by (simp add: network_hardy_config_def)
  then show ?thesis
    by (rule_tac that [OF sample_generated [OF ls]]) (simp_all add: network_ltp_cla generate_hardy_yaml_def ls)
qed

lemma ltp_cla_config_test_holds: "test_hardy_ltp_cla_config_generation"
proof -
  obtain g where "generate_hardy_config Some network_hardy_config = Some g"
    "gc_files g ''ltp-cla.yaml'' = Some (render (ltp_cla_lines Some network_hardy_config 20 1113))"
    by (rule network_hardy_files)
  with network_ltp_cla_contains(2) [of Some] show ?thesis
    by (simp add: test_hardy_ltp_cla_config_generation_def generate_hardy_ltp_cla_config_def yaml_contains_def)
qed

lemma contact_plan_test_holds: "test_interop_contact_plan_symmetry"
  by code_simp

lemmas network_eval =
  network_ion_config_def network_contact_plan_def Let_def apostrophes_def text_eval

lemma network_ionrc:
  "contains_all (generate_ionrc network_ion_config) [''10'', ''20'']"
proof -
  have "''1 10 '' @ apostrophes [] \<in> set (ionrc_lines network_ion_config)"
    "''a range +0 +86400 10 20 1'' \<in> set (ionrc_lines network_ion_config)"
    by (simp_all add: ionrc_lines_def write_contact_commands_def write_range_commands_def range_command_def
        owlt_of_def dyadic_ceil_def i64_max_def i64_min_def network_eval)
  moreover have "contains_str (''1 10 '' @ apostrophes []) ''10''" "contains_str ''a range +0 +86400 10 20 1'' ''20''"
    by code_simp+
  ultimately show ?thesis
    by (auto simp: generate_ionrc_def contains_all_def contains_render)
qed

lemma network_ltprc: "contains_all (generate_ltprc network_ion_config) [''127.0.0.1:1113'']"
proof -
  have "''a span 20 32 32 1400 100000 1 '' @ apostrophes ''udplso 127.0.0.1:1113'' \<in> set (ltprc_lines network_ion_config)"
    by (simp add: network_ion_config_def network_contact_plan_def script_eval)
  moreover have "contains_str (''a span 20 32 32 1400 100000 1 '' @ apostrophes ''udplso 127.0.0.1:1113'') ''127.0.0.1:1113''"
    by code_simp
  ultimately show ?thesis
    by (auto simp: generate_ltprc_def contains_all_def contains_render)
qed

lemma network_configs_valid:
  "validate (network_ion_config :: 'y network_configuration) = Inr ()"
  "validate (network_hardy_config :: 'y network_configuration) = Inr ()"
  by code_simp+

lemma fixture_test_holds: "test_interop_fixture_generation"
proof -
  obtain g where g: "generate_hardy_config Some network_hardy_config = Some g"
    "gc_files g ''hardy.yaml'' = generate_hardy_yaml Some network_hardy_config"
    "gc_files g ''ltp-cla.yaml'' = Some (render (ltp_cla_lines Some network_hardy_config 20 1113))"
    by (rule network_hardy_files)
  obtain yaml where yaml: "generate_hardy_yaml Some network_hardy_config = Some yaml"
    using network_yaml_contains(1) [of Some] by (auto simp: yaml_contains_def split: option.splits)
  have ion_names: "ion_file network_ion_config e = ''node10.'' @ e" for e
    by (simp add: ion_file_def network_ion_config_def text_eval)
  from network_yaml_contains [of Some] yaml
  have "contains_all yaml [dquote ''ipn:20.0'', ''node-ids:'', ''ltp-to-ion'', ''127.0.0.1:2113'']"
    by (simp add: yaml_contains_def contains_all_def)
  with g yaml network_ionrc network_ltprc network_ltp_cla_contains(1) [of Some] show ?thesis
    by (simp add: test_interop_fixture_generation_def Let_def network_configs_valid has_files_def
        file_contains_def yaml_contains_def generate_ion_config_def ion_names)
qed

text \<open>The four scripts of the ION node.\<close>

lemma network_scripts:
  "ionrc_lines network_ion_config =
     [''## File: ionadmin configuration for node 10'',
      ''## Generated by radiant-dtn-abstraction (ION adapter)'',
      ''## Amateur radio compliant: no BPSec directives'', [],
      ''1 10 '' @ apostrophes [], [], ''s'', [],
      ''## Contacts'', ''a contact +0 +86400 10 10 100000'',
      ''a contact +0 +4102444800 10 20 10000000'', ''a contact +0 +4102444800 20 10 10000000'', [],
      ''## Ranges'', ''a range +0 +86400 10 10 0'', ''a range +0 +86400 10 20 1'',
      ''a range +0 +86400 20 10 1'', [],
      ''## Production/consumption rates'', ''m production 1000000'', ''m consumption 1000000'', []]"
  "bprc_lines network_ion_config =
     [''## File: bpadmin configuration for node 10'',
      ''## Generated by radiant-dtn-abstraction (ION adapter)'',
      ''## Amateur radio compliant: no BPSec directives'', [], ''1'', [],
      ''a scheme ipn '' @ apostrophes ''ipnfw'' @ '' '' @ apostrophes ''ipnadminep'', [],
      ''## Endpoints'', ''a endpoint ipn:10.0 x'', ''a endpoint ipn:10.1 x'', [],
      ''## Protocols'', ''a protocol ltp 1400 100'', [],
      ''## Inducts and Outducts'', ''a induct ltp 10 ltpcli'', ''a outduct ltp 20 ltpclo'', [], ''s'']"
  "ltprc_lines network_ion_config =
     [''## File: ltpadmin configuration for node 10'',
      ''## Generated by radiant-dtn-abstraction (ION adapter)'', [], ''1 32'', [], ''## LTP Spans'',
      ''a span 10 32 32 1400 100000 1 '' @ apostrophes ''udplso 127.0.0.1:2113'',
      ''a span 20 32 32 1400 100000 1 '' @ apostrophes ''udplso 127.0.0.1:1113'', [],
      ''s '' @ apostrophes ''udplsi 0.0.0.0:2113'']"
  "ipnrc_lines network_ion_config =
     [''## File: ipnadmin configuration for node 10'',
      ''## Generated by radiant-dtn-abstraction (ION adapter)'', [],
      ''## Routing: Contact Graph Routing (CGR)'', [], ''## Forwarding plans'', ''a plan 20 ltp/20'']"
  by (simp_all add: network_ion_config_def network_contact_plan_def script_eval ionrc_lines_def
      write_contact_commands_def write_range_commands_def contact_command_def range_command_def owlt_of_def
      dyadic_ceil_def i64_max_def i64_min_def default_production_rate_def default_consumption_rate_def)

lemma no_word_outside_comments:
  assumes "list_all clean_line ls"
    and "list_all (absent_from_lines (map to_lowercase (filter (\<lambda>l. \<not> starts_with ''##'' (trim_start l)) ls))) words"
    and "w \<in> set words"
  shows "\<not> contains_str (to_lowercase (join [LF] (filter (\<lambda>l. \<not> starts_with ''##'' (trim_start l))
     (str_lines (render ls))))) w"
  using assms by (auto simp: list_all_iff absent_from_lines_def list_ex_iff kept_lines_contain)

lemma no_bpsec_scripts:
  assumes "ls \<in> {ionrc_lines network_ion_config, bprc_lines network_ion_config, ltprc_lines network_ion_config,
      ipnrc_lines network_ion_config}" and "w \<in> set [''bpsec'', ''encrypt'']"
  shows "\<not> contains_str (to_lowercase (join [LF] (filter (\<lambda>l. \<not> starts_with ''##'' (trim_start l))
     (str_lines (render ls))))) w"
proof -
  have "list_all (\<lambda>ls. list_all clean_line ls
      \<and> list_all (absent_from_lines (map to_lowercase (filter (\<lambda>l. \<not> starts_with ''##'' (trim_start l)) ls)))
          [''bpsec'', ''encrypt''])
     [ionrc_lines network_ion_config, bprc_lines network_ion_config, ltprc_lines network_ion_config,
      ipnrc_lines network_ion_config]"
    unfolding network_scripts by code_simp
  with assms show ?thesis
    unfolding list_all_iff by (intro no_word_outside_comments [OF _ _ assms(2)]) (auto simp: list_all_iff)
qed

lemma ion_files_rendered:
  "content \<in> ran (gc_files (generate_ion_config c)) \<Longrightarrow>
   content \<in> render ` {ionrc_lines c, bprc_lines c, ltprc_lines c, ipnrc_lines c}"
  by (auto simp: ran_def generate_ion_config_def generate_ionrc_def generate_bprc_def generate_ltprc_def
      generate_ipnrc_def split: if_splits)

lemma ion_no_bpsec_test_holds: "test_interop_ion_no_bpsec"
  unfolding test_interop_ion_no_bpsec_def Let_def
proof
  fix content
  assume "content \<in> ran (gc_files (generate_ion_config (network_ion_config :: unit network_configuration)))"
  from ion_files_rendered [OF this] obtain ls where
    ls: "content = render ls" "ls \<in> {ionrc_lines (network_ion_config :: unit network_configuration),
       bprc_lines (network_ion_config :: unit network_configuration),
       ltprc_lines (network_ion_config :: unit network_configuration),
       ipnrc_lines (network_ion_config :: unit network_configuration)}" by (rule imageE)
  show "\<not> contains_str (to_lowercase (join [LF] (filter (\<lambda>l. \<not> starts_with ''##'' (trim_start l))
       (str_lines content)))) ''bpsec''
    \<and> \<not> contains_str (to_lowercase (join [LF] (filter (\<lambda>l. \<not> starts_with ''##'' (trim_start l))
       (str_lines content)))) ''encrypt''"
    unfolding ls(1) using no_bpsec_scripts [OF ls(2)] by simp
qed

end
