(* ===== verification/Network_Delivery.thy ===== *)
theory Network_Delivery
  imports Demo_Cleanup Network_Test
begin

text \<open>
  The end-to-end test of \<open>tests/network_interop_test.rs\<close> (\<open>test_ion_to_hardy_bundle_delivery\<close>) as a program of
  \<open>Demo_Effects\<close>. Unlike the example programs it leaves no Hardy process behind even when it panics: the
  context kills what it holds when it is dropped. And it does not test what its name says: nothing
  that Hardy logs, answers or receives has an influence on it.
\<close>

section \<open>The processes of the test\<close>

definition managed_process :: "string \<Rightarrow> string list \<Rightarrow> (string \<times> string) list \<Rightarrow> child_command" where
  "managed_process program args env_vars =
     \<lparr>cc_program = program, cc_args = args, cc_env = env_vars, cc_stdin = Stdin_default,
      cc_dir = None, cc_log = None\<rparr>"

text \<open>A panic drops the context, which kills the processes it still holds, in the order of its fields.\<close>

definition dropping :: "u32 list \<Rightarrow> 'a demo \<Rightarrow> 'a demo" where
  "dropping pids m tr =
     (case m tr of
        (Inl e, tr') \<Rightarrow> (Inl e, snd (act_each (kill_child :: u32 \<Rightarrow> unit demo) pids tr'))
      | (Inr a, tr') \<Rightarrow> (Inr a, tr'))"

definition start_hardy_bpa :: "'y demo_env \<Rightarrow> string \<Rightarrow> u32 demo" where
  "start_hardy_bpa env config_path = spawn_child env (managed_process
     ''/Users/davidjohnson/dev/cislunar_proposal/hardy/target/debug/hardy-bpa-server'' [''-c'', config_path] [])"

definition start_hardy_ltp_cla :: "'y demo_env \<Rightarrow> string \<Rightarrow> u32 demo" where
  "start_hardy_ltp_cla env config_path = spawn_child env (managed_process
     ''/Users/davidjohnson/dev/cislunar_proposal/hardy-ltp-cla/target/debug/hardy-ltp-server'' [config_path]
     [(''RUST_LOG'', ''hardy_ltp_cla=info,hardy_ltp_server=info,hardy_ltp_grpc=info'')])"

definition context_teardown :: "'y demo_env \<Rightarrow> u32 \<Rightarrow> u32 \<Rightarrow> unit demo" where
  "context_teardown env bpa ltp =
     act_then (kill_child ltp)
    (act_then (kill_child bpa)
    (act_then (stop_ion env (new_ion_lifecycle None))
              (remove_work_dir interop_dir)))"

section \<open>Payloads\<close>

definition label_pattern :: "string \<Rightarrow> u8 list" where
  "label_pattern label = map (\<lambda>c. word_of_nat (code_of c)) (''RADIANT-'' @ label @ ''-'')"

lemma label_pattern_nonempty [simp]: "label_pattern label \<noteq> []"
  by (simp add: label_pattern_def)

function fill_payload :: "string \<Rightarrow> nat \<Rightarrow> u8 list \<Rightarrow> u8 list" where
  "fill_payload label len payload =
     (if length payload < len
      then let remaining = len - length payload; pattern = label_pattern label;
               chunk = take (min remaining (length pattern)) pattern
           in fill_payload label len (payload @ chunk)
      else payload)"
  by pat_completeness auto
termination
proof (relation "measure (\<lambda>(label, len, payload). len - length payload)")
  fix label :: string and len :: nat and payload :: "u8 list" and remaining pattern chunk
  assume "length payload < len" "remaining = len - length payload" "pattern = label_pattern label"
    and "chunk = take (min remaining (length pattern)) pattern"
  then show "((label, len, payload @ chunk), label, len, payload) \<in> measure (\<lambda>(label, len, payload). len - length payload)"
    by (cases "label_pattern label") (auto simp: min_def)
qed simp

declare fill_payload.simps [simp del]

definition payload_dir :: string where "payload_dir = ''/tmp/radiant-interop/payloads''"

definition payload_path :: "string \<Rightarrow> string" where
  "payload_path label = path_join payload_dir (''test_payload_'' @ label @ ''.dat'')"

definition create_test_payload :: "'y demo_env \<Rightarrow> string \<Rightarrow> nat \<Rightarrow> string demo" where
  "create_test_payload env label len =
     act_then (create_dir env payload_dir)
    (act_then (must (write_bytes env (payload_path label) (fill_payload label len [])))
              (act_return (payload_path label)))"

section \<open>The test\<close>

definition test_cases :: "(string \<times> nat) list" where
  "test_cases = [(''small_64B'', 64), (''medium_4KB'', 4096), (''large_64KB'', 65536)]"

definition send_case :: "'y demo_env \<Rightarrow> string \<times> nat \<Rightarrow> unit demo" where
  "send_case env = (\<lambda>(label, len).
     act_bind (create_test_payload env label len) (\<lambda>path.
     act_bind (must (run_program env (bpsendfile_command ''ipn:10.1'' ''ipn:20.1'' path))) (\<lambda>output.
     if \<not> po_success output then act_fail Panicked else pause_sys 500)))"

text \<open>The process of Hardy is in the context, so the assertion before this one holds without looking at it.\<close>

definition check_bplist :: "'y demo_env \<Rightarrow> unit demo" where
  "check_bplist env =
     act_bind (run_program env (plain_command ''bplist'' [])) (\<lambda>r.
     case r of
       Inl _ \<Rightarrow> act_return ()
     | Inr output \<Rightarrow> if \<not> po_success output then act_fail Panicked
                     else say (''ION bplist output after delivery:'' @ LF # po_stdout output))"

definition check_case :: "'y demo_env \<Rightarrow> string \<times> nat \<Rightarrow> unit demo" where
  "check_case env = (\<lambda>(label, len).
     act_bind (must (ask (Read_bytes (payload_path label)) (\<lambda>tr. de_read_bytes env tr (payload_path label)))) (\<lambda>payload.
     let pattern = label_pattern label
     in if length payload \<noteq> len then act_fail Panicked
        else if \<not> prefix (take (min (length pattern) (length payload)) pattern) payload then act_fail Panicked
        else act_return ()))"

definition network_setup :: "'y demo_env \<Rightarrow> unit demo" where
  "network_setup env =
     act_then (write_generated env ''/tmp/radiant-interop/ion/config''
                 (generate_ion_config (network_ion_config :: 'y network_configuration)))
    (act_bind (hardy_or_panic env network_hardy_config) (\<lambda>hardy_generated.
     act_then (write_generated env ''/tmp/radiant-interop/hardy/config'' hardy_generated)
    (act_then (create_dir env ''/tmp/radiant-interop/hardy-ltp-cla'')
      (case generate_hardy_ltp_cla_config (de_as_str env) of
         None \<Rightarrow> act_fail Panicked
       | Some ltp_cla_yaml \<Rightarrow> write_file env ''/tmp/radiant-interop/hardy-ltp-cla/ltp-cla.yaml'' ltp_cla_yaml))))"

text \<open>
  The generator runs after its directory is created in the code; here the two are one step. It does
  not fail on this configuration (\<open>network_hardy_files\<close>).
\<close>

text \<open>From the start of ION to the end of the test, with both processes of Hardy in the context.\<close>

definition network_transfers :: "'y demo_env \<Rightarrow> unit demo" where
  "network_transfers env =
     act_then (sleep_secs 1)
    (act_bind (start_ion env (new_ion_lifecycle None) ''/tmp/radiant-interop/ion/config'') (\<lambda>_.
     act_then (sleep_secs 3)
    (act_bind (health_of env (new_ion_lifecycle None)) (\<lambda>ion_health.
     if \<not> hs_running ion_health then act_fail Panicked
     else act_then (act_each (send_case env) test_cases)
         (act_then (sleep_secs 5)
         (act_then (check_bplist env)
                   (act_each (check_case env) test_cases)))))))"

definition test_ion_to_hardy_bundle_delivery :: "'y demo_env \<Rightarrow> unit demo" where
  "test_ion_to_hardy_bundle_delivery env =
     act_then (network_setup env)
    (act_bind (start_hardy_bpa env ''/tmp/radiant-interop/hardy/config/hardy.yaml'') (\<lambda>bpa.
     act_bind (dropping [bpa] (act_then (sleep_secs 2)
                 (start_hardy_ltp_cla env ''/tmp/radiant-interop/hardy-ltp-cla/ltp-cla.yaml''))) (\<lambda>ltp.
     act_then (dropping [bpa, ltp] (network_transfers env))
              (context_teardown env bpa ltp))))"

section \<open>The payloads are what the test expects of them\<close>

lemma fill_payload_length: "length payload \<le> len \<Longrightarrow> length (fill_payload label len payload) = len"
proof (induction label len payload rule: fill_payload.induct)
  case (1 label len payload)
  then show ?case by (subst fill_payload.simps) (auto simp: Let_def min_def)
qed

lemma fill_payload_prefix: "prefix payload (fill_payload label len payload)"
proof (induction label len payload rule: fill_payload.induct)
  case (1 label len payload)
  show ?case
  proof (cases "length payload < len")
    case True
    let ?chunk = "take (min (len - length payload) (length (label_pattern label))) (label_pattern label)"
    from 1 [OF True refl refl refl] have "prefix (payload @ ?chunk) (fill_payload label len (payload @ ?chunk))" .
    then have "prefix payload (fill_payload label len (payload @ ?chunk))" by (rule append_prefixD)
    with True show ?thesis by (subst fill_payload.simps) (simp add: Let_def)
  qed (subst fill_payload.simps, simp)
qed

lemma fill_payload_pattern:
  "prefix (take (min (length (label_pattern label)) len) (label_pattern label)) (fill_payload label len [])"
proof (cases "len = 0")
  case False
  let ?chunk = "take (min len (length (label_pattern label))) (label_pattern label)"
  have "prefix ?chunk (fill_payload label len ?chunk)" by (rule fill_payload_prefix)
  with False show ?thesis by (subst fill_payload.simps) (simp add: Let_def min.commute)
qed simp

text \<open>A payload that reads back as it was written passes the check at the end.\<close>

lemma payload_check_passes:
  assumes "de_read_bytes env tr (payload_path label) = Inr (fill_payload label len [])"
  shows "fst (check_case env (label, len) tr) = Inr ()"
  using assms fill_payload_length [of "[]" len label] fill_payload_pattern [of label len]
  by (simp add: check_case_def must_def ask_def act_bind_def act_lift_def act_return_def Let_def)

section \<open>Nothing of Hardy is left running\<close>

text \<open>
  \<open>contained env A m Q E\<close>: started with no processes but those of \<open>A\<close>, \<open>m\<close> leaves none but those of
  \<open>Q a\<close> when it returns \<open>a\<close>, and none but those of \<open>E\<close> when it panics.
\<close>

definition contained :: "'y demo_env \<Rightarrow> u32 set \<Rightarrow> 'a demo \<Rightarrow> ('a \<Rightarrow> u32 set) \<Rightarrow> u32 set \<Rightarrow> bool" where
  "contained env A m Q E \<longleftrightarrow>
     (\<forall>tr. set (orphans env tr) \<subseteq> A \<longrightarrow>
        set (orphans env (snd (m tr))) \<subseteq> (case fst (m tr) of Inr a \<Rightarrow> Q a | Inl _ \<Rightarrow> E))"

lemma contained_bind:
  assumes "contained env A m Q E" and "\<And>a. contained env (Q a) (f a) R E"
  shows "contained env A (act_bind m f) R E"
  unfolding contained_def
proof (intro allI impI)
  fix tr
  assume tr: "set (orphans env tr) \<subseteq> A"
  obtain r tr1 where m: "m tr = (r, tr1)" by fastforce
  from assms(1) tr m have step: "set (orphans env tr1) \<subseteq> (case r of Inr a \<Rightarrow> Q a | Inl _ \<Rightarrow> E)"
    unfolding contained_def by (metis fst_conv snd_conv)
  show "set (orphans env (snd (act_bind m f tr)))
     \<subseteq> (case fst (act_bind m f tr) of Inr a \<Rightarrow> R a | Inl _ \<Rightarrow> E)"
  proof (cases r)
    case (Inl e)
    with m step show ?thesis by (simp add: act_bind_def)
  next
    case (Inr a)
    with step have "set (orphans env tr1) \<subseteq> Q a" by simp
    with assms(2) [of a] have "set (orphans env (snd (f a tr1))) \<subseteq> (case fst (f a tr1) of Inr b \<Rightarrow> R b | Inl _ \<Rightarrow> E)"
      unfolding contained_def by blast
    with m Inr show ?thesis by (simp add: act_bind_def)
  qed
qed

lemma contained_then:
  "contained env A m (\<lambda>_. B) E \<Longrightarrow> contained env B k R E \<Longrightarrow> contained env A (act_then m k) R E"
  unfolding act_then_def by (rule contained_bind)

lemma contained_calm:
  assumes "calm m" "A \<subseteq> E"
  shows "contained env A m (\<lambda>_. A) E"
  unfolding contained_def
proof (intro allI impI)
  fix tr
  assume "set (orphans env tr) \<subseteq> A"
  moreover obtain es where "list_all calm_effect es" "snd (m tr) = tr @ es"
    using assms(1) unfolding emits_def by blast
  ultimately show "set (orphans env (snd (m tr))) \<subseteq> (case fst (m tr) of Inr a \<Rightarrow> A | Inl _ \<Rightarrow> E)"
    using assms(2) by (auto simp: orphans_calm_list split: sum.split)
qed

lemma contained_spawn: "A \<subseteq> E \<Longrightarrow> contained env A (spawn_child env c) (\<lambda>pid. insert pid A) E"
  unfolding contained_def
proof (intro allI impI)
  fix tr
  assume "A \<subseteq> E" "set (orphans env tr) \<subseteq> A"
  then show "set (orphans env (snd (spawn_child env c tr)))
     \<subseteq> (case fst (spawn_child env c tr) of Inr pid \<Rightarrow> insert pid A | Inl _ \<Rightarrow> E)"
    by (cases "de_spawn env tr c") (auto simp: spawn_child_def must_def ask_def act_bind_def act_lift_def)
qed

lemma contained_kill: "A \<subseteq> insert pid B \<Longrightarrow> contained env A (kill_child pid) (\<lambda>_. B) E"
  by (auto simp: contained_def kill_child_def ask_def)

lemma killed_all:
  "set (orphans env (snd (act_each (kill_child :: u32 \<Rightarrow> unit demo) pids tr))) \<subseteq> set (orphans env tr) - set pids"
proof (induction pids arbitrary: tr)
  case (Cons pid pids)
  have "act_each (kill_child :: u32 \<Rightarrow> unit demo) (pid # pids) tr = act_each kill_child pids (tr @ [Kill_child pid])"
    by (simp add: act_then_def act_bind_def kill_child_def ask_def)
  with Cons.IH [of "tr @ [Kill_child pid]"] show ?case by auto
qed (simp add: act_return_def)

lemma contained_dropping:
  assumes "contained env A m Q (set pids)"
  shows "contained env A (dropping pids m) Q {}"
  unfolding contained_def
proof (intro allI impI)
  fix tr
  assume tr: "set (orphans env tr) \<subseteq> A"
  obtain r tr1 where run: "m tr = (r, tr1)" by fastforce
  with assms tr have "set (orphans env tr1) \<subseteq> (case r of Inr a \<Rightarrow> Q a | Inl _ \<Rightarrow> set pids)"
    unfolding contained_def by (metis fst_conv snd_conv)
  with killed_all [of env pids tr1]
  have "r = Inl e \<Longrightarrow> set (orphans env (snd (act_each (kill_child :: u32 \<Rightarrow> unit demo) pids tr1))) \<subseteq> {}" for e
    by fastforce
  with run \<open>set (orphans env tr1) \<subseteq> _\<close>
  show "set (orphans env (snd (dropping pids m tr)))
     \<subseteq> (case fst (dropping pids m tr) of Inr a \<Rightarrow> Q a | Inl _ \<Rightarrow> {})"
    by (cases r) (auto simp: dropping_def)
qed

lemma calm_network:
  "calm (network_setup env)" "calm (network_transfers env)"
proof -
  have "calm (hardy_or_panic env c)" for c
    by (simp add: hardy_or_panic_def emits_basic split: option.split)
  then show "calm (network_setup env)"
    unfolding network_setup_def by (intro emits_struct calm_steps)
  have "calm (create_test_payload env label len)" for label len
    unfolding create_test_payload_def by (intro emits_struct calm_steps)
  then have "calm (send_case env x)" for x
    unfolding send_case_def case_prod_unfold by (intro emits_struct calm_steps)
  moreover have "calm (check_case env x)" for x
    unfolding check_case_def case_prod_unfold Let_def by (intro emits_struct calm_steps emits_ask; simp)
  moreover have "calm (check_bplist env)"
    unfolding check_bplist_def by (intro emits_struct calm_steps)
  ultimately show "calm (network_transfers env)"
    unfolding network_transfers_def by (intro emits_struct calm_steps)
qed

lemma contained_teardown: "contained env {bpa, ltp} (context_teardown env bpa ltp) (\<lambda>_. {}) {}"
  unfolding context_teardown_def
  by (rule contained_then [OF contained_kill [of _ _ "{bpa}"]], blast,
      rule contained_then [OF contained_kill [of _ _ "{}"]], blast,
      rule contained_then [OF contained_calm contained_calm]; simp)

lemma contained_second_start:
  "contained env {bpa} (dropping [bpa] (act_then (sleep_secs 2) (start_hardy_ltp_cla env p))) (\<lambda>ltp. {bpa, ltp}) {}"
proof -
  have "contained env {bpa} (act_then (sleep_secs 2) (start_hardy_ltp_cla env p)) (\<lambda>ltp. insert ltp {bpa}) (set [bpa])"
    unfolding start_hardy_ltp_cla_def by (rule contained_then [OF contained_calm contained_spawn]; simp)
  from contained_dropping [OF this] show ?thesis by (simp add: insert_commute)
qed

lemma contained_transfers:
  "contained env {bpa, ltp} (dropping [bpa, ltp] (network_transfers env)) (\<lambda>_. {bpa, ltp}) {}"
  by (intro contained_dropping contained_calm calm_network) simp

lemma contained_delivery_test: "contained env {} (test_ion_to_hardy_bundle_delivery env) (\<lambda>_. {}) {}"
proof -
  have start: "contained env {} (start_hardy_bpa env p) (\<lambda>bpa. {bpa}) {}" for p
    unfolding start_hardy_bpa_def by (rule contained_spawn) simp
  have rest: "contained env {bpa, ltp} (act_then (dropping [bpa, ltp] (network_transfers env))
      (context_teardown env bpa ltp)) (\<lambda>_. {}) {}" for bpa ltp
    by (rule contained_then [OF contained_transfers contained_teardown])
  have "contained env {bpa} (act_bind (dropping [bpa] (act_then (sleep_secs 2) (start_hardy_ltp_cla env p)))
      (\<lambda>ltp. act_then (dropping [bpa, ltp] (network_transfers env)) (context_teardown env bpa ltp))) (\<lambda>_. {}) {}" for bpa p
    by (rule contained_bind [OF contained_second_start rest])
  from contained_bind [OF start this] show ?thesis
    unfolding test_ion_to_hardy_bundle_delivery_def
    by (intro contained_then [OF contained_calm [OF calm_network(1)]]) auto
qed

text \<open>
  C38: the end-to-end test never leaves a process of Hardy running: however the engines, the disk and the
  tools behave, and whether it passes or one of its assertions fails, every process it has started
  has been killed.
\<close>

theorem delivery_test_leaves_nothing: "orphans env (snd (test_ion_to_hardy_bundle_delivery env [])) = []"
  using contained_delivery_test [of env, unfolded contained_def, rule_format, of "[]"]
  by (simp split: sum.splits)

section \<open>Nothing of Hardy is looked at\<close>

text \<open>
  The run is the same whatever Hardy logs, answers over gRPC or receives, so a bundle that never
  arrives does not fail the test.
\<close>

lemma delivery_test_blind:
  "test_ion_to_hardy_bundle_delivery (env\<lparr>de_read_text := a, de_files := b, de_connect := c, de_open := d,
     de_send := e, de_message := f, de_in_time := g\<rparr>) = test_ion_to_hardy_bundle_delivery env"
proof -
  let ?env = "env\<lparr>de_read_text := a, de_files := b, de_connect := c, de_open := d,
     de_send := e, de_message := f, de_in_time := g\<rparr>"
  have steps: "send_case ?env = send_case env" "check_case ?env = check_case env" "check_bplist ?env = check_bplist env"
    by (simp_all add: send_case_def check_case_def check_bplist_def create_test_payload_def create_dir_def
        write_bytes_def run_program_def fun_eq_iff)
  have "network_transfers ?env = network_transfers env"
    unfolding network_transfers_def steps by (simp add: start_ion_def health_of_def)
  moreover have "network_setup ?env = network_setup env"
    by (simp add: network_setup_def write_generated_def hardy_or_panic_def create_dir_def write_file_def
        cong: option.case_cong)
  moreover have "context_teardown ?env = context_teardown env" "start_hardy_bpa ?env = start_hardy_bpa env"
    "start_hardy_ltp_cla ?env = start_hardy_ltp_cla env"
    by (simp_all add: fun_eq_iff context_teardown_def stop_ion_def start_hardy_bpa_def start_hardy_ltp_cla_def
        spawn_child_def)
  ultimately show ?thesis
    unfolding test_ion_to_hardy_bundle_delivery_def by simp
qed

end
