(* ===== verification/Ion_Property_Test.thy ===== *)
theory Ion_Property_Test
  imports Test_Generators Ion_Config
begin

text \<open>
  Property 8 of \<open>tests/property_tests.rs\<close>: what the test checks of ION's generated files, as a
  predicate of the configuration, and the proof that it holds for every configuration that the
  generator can produce. The condition that matters is that the host and device names and the
  station identifier hold no space; only then can no BPSec command be hidden in them.
\<close>

section \<open>The test\<close>

definition bpsec_directives :: "string list" where
  "bpsec_directives = [''a bpsource'', ''a bibrule'', ''a bcbrule'']"

definition ion_config_generation_produces_valid_file_set :: "'y network_configuration \<Rightarrow> bool" where
  "ion_config_generation_produces_valid_file_set c \<longleftrightarrow>
     (let files = gc_files (generate_ion_config c);
          node_num = nd_node_number (nc_local_node c);
          prfx = ''node'' @ show_word node_num;
          ionrc_key = prfx @ ''.ionrc''; bprc_key = prfx @ ''.bprc'';
          ltprc_key = prfx @ ''.ltprc''; ipnrc_key = prfx @ ''.ipnrc''
      in (\<forall>key \<in> {ionrc_key, bprc_key, ltprc_key, ipnrc_key}. files key \<noteq> None)
         \<and> contains_str (the (files ionrc_key)) (''1 '' @ show_word node_num @ '' '' @ apostrophes [])
         \<and> (\<forall>n \<in> set (nc_neighbors c). nb_links n \<noteq> [] \<longrightarrow>
              contains_str (the (files bprc_key)) ''a induct''
              \<and> contains_str (the (files bprc_key)) ''a outduct'')
         \<and> (\<forall>content \<in> ran files. \<forall>directive \<in> set bpsec_directives. \<not> contains_str content directive))"

section \<open>No directive in any line\<close>

text \<open>Every BPSec directive contains \<open>a b\<close>, which no line of the scripts does.\<close>

definition no_directive :: "string \<Rightarrow> bool" where
  "no_directive l \<longleftrightarrow> \<not> contains_str l ''a b''"

lemma skip_text:
  assumes "CHR '' '' \<notin> set s" "\<not> prefix '' b'' t"
  shows "contains_str (s @ t) ''a b'' = contains_str t ''a b''"
  using assms(1)
proof (induction s)
  case (Cons c s)
  then have "\<not> prefix ''a b'' (c # s @ t)" using assms(2) by (cases s) auto
  moreover have "contains_str (s @ t) ''a b'' = contains_str t ''a b''" using Cons by simp
  ultimately show ?case by (simp only: append_Cons contains_str_simps simp_thms)
qed simp

lemma skip_number:
  assumes "CHR ''a'' \<notin> set s"
  shows "contains_str (s @ t) ''a b'' = contains_str t ''a b''" "\<not> contains_str s ''a b''"
proof -
  show "contains_str (s @ t) ''a b'' = contains_str t ''a b''"
    using assms by (induction s) (simp_all add: contains_str_simps)
  show "\<not> contains_str s ''a b''"
    using assms by (induction s) (simp_all add: contains_str_simps)
qed

lemma number_no_a [simp]:
  "CHR ''a'' \<notin> set (show_word w)" "CHR ''a'' \<notin> set (show_i64 v)" "CHR ''a'' \<notin> set (show_int i)"
proof -
  have digits: "CHR ''a'' \<notin> set (show_nat n)" for n
    using show_nat_digits [of n] by (auto simp: list_all_iff is_ascii_digit_def code_of_def)
  then show "CHR ''a'' \<notin> set (show_word w)" "CHR ''a'' \<notin> set (show_i64 v)" "CHR ''a'' \<notin> set (show_int i)"
    by (simp_all add: show_word_def show_i64_def show_int_def)
qed

lemmas skip_eval =
  no_directive_def contains_str_simps skip_number skip_text
  skip_text [where t = "[]", simplified]

lemma ionrc_no_directive: "list_all no_directive (ionrc_lines c)"
  by (simp add: ionrc_lines_def Let_def write_contact_commands_def write_range_commands_def list_all_iff
      contact_command_def range_command_def apostrophes_def skip_eval ball_Un)

lemma bprc_no_directive:
  assumes "\<forall>l \<in> set (all_links (nc_neighbors c)). CHR '' '' \<notin> set (duct_text l)"
    and "\<forall>e. nd_callsign_eid (nc_local_node c) = Some e \<longrightarrow> CHR '' '' \<notin> set (endpoint_text e)"
  shows "list_all no_directive (bprc_lines c)"
proof -
  have "list_all no_directive (bprc_link_entries l)" if "CHR '' '' \<notin> set (duct_text l)" for l
    using that by (cases l) (simp_all add: skip_eval)
  then have links: "list_all no_directive (concat (map bprc_link_entries (all_links (nc_neighbors c))))"
    using assms(1) by (auto simp: list_all_iff)
  have protocols: "no_directive (protocol_command p)" if "p \<in> {''ltp'', ''tcp'', ''udp''}" for p
    using that by (auto simp: protocol_command_def no_directive_def skip_eval)
  then have "list_all no_directive (map protocol_command (collect_protocols (nc_neighbors c)))"
    using protocol_of_cases by (auto simp: list_all_iff collect_protocols_exact)
  moreover have "no_directive (callsign_endpoint e)" if "nd_callsign_eid (nc_local_node c) = Some e" for e
    using assms(2) that by (cases e) (auto simp: skip_eval)
  ultimately show ?thesis using links
    by (cases "nd_callsign_eid (nc_local_node c)")
      (simp_all add: bprc_lines_def Let_def apostrophes_def skip_eval list_all_iff ball_Un)
qed

lemma ltprc_no_directive:
  assumes "\<forall>l \<in> set (all_links (nc_neighbors c)). CHR '' '' \<notin> set (duct_text l)"
  shows "list_all no_directive (ltprc_lines c)"
proof -
  have "list_all no_directive (ltprc_span l)" if "CHR '' '' \<notin> set (duct_text l)" for l
    using that by (cases l) (simp_all add: span_command_def apostrophes_def skip_eval)
  then have "list_all no_directive (concat (map ltprc_span (all_links (nc_neighbors c))))"
    using assms by (auto simp: list_all_iff)
  then show ?thesis
    by (simp add: ltprc_lines_def Let_def span_command_def apostrophes_def skip_eval list_all_iff)
qed

lemma ipnrc_no_directive:
  assumes "\<forall>l \<in> set (all_links (nc_neighbors c)). CHR '' '' \<notin> set (duct_text l)"
  shows "list_all no_directive (ipnrc_lines c)"
proof -
  have duct: "no_directive (''a plan '' @ show_word n @ '' '' @ link_to_duct_expression l)"
    if "CHR '' '' \<notin> set (duct_text l)" for n :: u64 and l
    using that by (cases l) (simp_all add: skip_eval)
  have "list_all no_directive (ipnrc_plan n)" if "n \<in> set (nc_neighbors c)" for n
  proof (cases "nb_links n")
    case (Cons l ls)
    with that have "l \<in> set (all_links (nc_neighbors c))" by (force simp: in_all_links)
    with Cons duct assms show ?thesis by (simp add: ipnrc_plan_def)
  qed (simp add: ipnrc_plan_def)
  then have plans: "list_all no_directive (concat (map ipnrc_plan (nc_neighbors c)))"
    by (auto simp: list_all_iff)
  have "list_all no_directive (write_routing_config r)" for r
    by (cases "rc_strategy r") (simp_all add: write_routing_config_def list_all_iff static_plan_def skip_eval)
  with plans show ?thesis
    by (simp add: ipnrc_lines_def skip_eval list_all_iff ball_Un)
qed

section \<open>The property\<close>

lemma directives_contain_ab: "d \<in> set bpsec_directives \<Longrightarrow> contains_str d ''a b''"
  by (auto simp: bpsec_directives_def contains_str_simps)

lemma file_without_directive:
  assumes "list_all no_directive ls" "d \<in> set bpsec_directives"
  shows "\<not> contains_str (render ls) d"
proof
  assume "contains_str (render ls) d"
  with contains_trans directives_contain_ab [OF assms(2)] have "contains_str (render ls) ''a b''" by blast
  then have "\<exists>l \<in> set ls. contains_str l ''a b''" by (subst (asm) contains_render) simp_all
  with assms(1) show False by (auto simp: list_all_iff no_directive_def)
qed

lemma link_ducts:
  "\<exists>r. ''a induct'' @ r \<in> set (bprc_link_entries l)" "\<exists>r. ''a outduct'' @ r \<in> set (bprc_link_entries l)"
  by (cases l; force)+

lemma bprc_ducts:
  assumes "n \<in> set (nc_neighbors c)" "nb_links n \<noteq> []"
  shows "contains_str (generate_bprc c) ''a induct''" "contains_str (generate_bprc c) ''a outduct''"
proof -
  from assms obtain l where l: "l \<in> set (all_links (nc_neighbors c))"
    by (meson in_all_links list.set_sel(1))
  then have "set (bprc_link_entries l) \<subseteq> set (bprc_lines c)" by (auto simp: bprc_lines_def Let_def)
  then show "contains_str (generate_bprc c) ''a induct''" "contains_str (generate_bprc c) ''a outduct''"
    using link_ducts [of l] unfolding generate_bprc_def by (meson contains_line subsetD)+
qed

lemma ran_ion_files:
  "ran (gc_files (generate_ion_config c)) = {generate_ionrc c, generate_bprc c, generate_ltprc c, generate_ipnrc c}"
  by (auto simp: generate_ion_config_def)

lemma ionrc_init: "contains_str (generate_ionrc c) (''1 '' @ show_word (nd_node_number (nc_local_node c)) @ '' '' @ apostrophes [])"
  unfolding generate_ionrc_def
  by (rule contains_line [where r = "[]"]) (simp add: ionrc_lines_def Let_def)

lemma ion_files_valid:
  assumes links: "\<forall>l \<in> set (all_links (nc_neighbors c)). CHR '' '' \<notin> set (duct_text l)"
    and callsign: "\<forall>e. nd_callsign_eid (nc_local_node c) = Some e \<longrightarrow> CHR '' '' \<notin> set (endpoint_text e)"
  shows "ion_config_generation_produces_valid_file_set c"
proof -
  let ?files = "gc_files (generate_ion_config c)"
  have keys: "''node'' @ show_word (nd_node_number (nc_local_node c)) @ ''.'' @ ext = ion_file c ext" for ext
    by (simp add: ion_file_def)
  have files: "?files (ion_file c ''ionrc'') = Some (generate_ionrc c)"
    "?files (ion_file c ''bprc'') = Some (generate_bprc c)"
    "?files (ion_file c ''ltprc'') = Some (generate_ltprc c)"
    "?files (ion_file c ''ipnrc'') = Some (generate_ipnrc c)"
    by (simp_all add: generate_ion_config_def)
  have "\<forall>content \<in> ran ?files. \<forall>d \<in> set bpsec_directives. \<not> contains_str content d"
    unfolding ran_ion_files using file_without_directive ionrc_no_directive bprc_no_directive [OF assms]
      ltprc_no_directive [OF links] ipnrc_no_directive [OF links]
    by (auto simp: ion_generate_defs)
  with files keys [of "''ionrc''"] keys [of "''bprc''"] keys [of "''ltprc''"] keys [of "''ipnrc''"]
    bprc_ducts [of _ c] ionrc_init [of c]
  show ?thesis
    unfolding ion_config_generation_produces_valid_file_set_def Let_def by auto
qed

text \<open>
  C39: the property test holds for every input of its generator: the four files are there, the
  ionadmin script initialises the node, the bpadmin script has an induct and an outduct when any
  neighbour has a link, and no file contains a BPSec directive anywhere.
\<close>

theorem ion_file_set_test_holds:
  assumes "arb_network_configuration c"
  shows "ion_config_generation_produces_valid_file_set c"
  using ion_files_valid arb_configuration_texts [OF assms] by blast

theorem ion_file_set_test_holds_witness:
  "ion_config_generation_produces_valid_file_set (generated_sample None)
   \<and> contains_str (the (gc_files (generate_ion_config (generated_sample None)) ''node10.bprc'')) ''a induct''"
proof -
  have "arb_network_configuration (generated_sample None)"
    by (rule generated_sample_arb) (simp add: option_of_def)
  from ion_file_set_test_holds [OF this]
  have "ion_config_generation_produces_valid_file_set (generated_sample None)" .
  moreover from this have "contains_str (the (gc_files (generate_ion_config (generated_sample None)) ''node10.bprc'')) ''a induct''"
    by (simp add: ion_config_generation_produces_valid_file_set_def Let_def generated_sample_def text_eval del: contains_str_def)
  ultimately show ?thesis by blast
qed

end
