(* ===== verification/Property_Tests.thy ===== *)
theory Property_Tests
  imports Test_Generators Validation Adapter_Registry Event_Bus Api_Handlers
begin

text \<open>
  The other property tests of \<open>tests/property_tests.rs\<close> that need no parser: each test body is a
  predicate of its generated inputs, an unwrapped error making it false, and each lemma shows that
  it holds for every input. (Properties 4 and 5 and the end of 13 read a text back with the YAML or
  JSON library and are not modelled.)
\<close>

section \<open>The registry (properties 1, 2 and 3)\<close>

text \<open>
  The mock adapter of the unit tests of \<open>adapter/registry.rs\<close>: every operation succeeds and does
  nothing.
\<close>

definition mock_capabilities :: capability_set where
  "mock_capabilities =
     \<lparr>cap_hot_reconfig = \<lparr>hc_add_contact = False, hc_remove_contact = False, hc_add_neighbor = False,
        hc_remove_neighbor = False, hc_enable_link = False, hc_disable_link = False\<rparr>,
      cap_convergence_layers = [], cap_routing_strategies = [], cap_security = security_none\<rparr>"

definition mock_adapter :: "string \<Rightarrow> ('y, 'w) backend_adapter" where
  "mock_adapter name =
     \<lparr>ba_name = name, ba_capabilities = mock_capabilities,
      ba_validate = (\<lambda>_ w. (Inr (), w)),
      ba_generate_config = (\<lambda>_ _ w. (Inr \<lparr>gc_files = Map.empty\<rparr>, w)),
      ba_deploy = (\<lambda>_ _ w. (Inr (), w)),
      ba_start = (\<lambda>_ w. (Inr (), w)), ba_stop = (\<lambda>w. (Inr (), w)), ba_restart = (\<lambda>_ w. (Inr (), w)),
      ba_health = (\<lambda>w. (Inr \<lparr>hs_running = False, hs_uptime_secs = None, hs_message = None\<rparr>, w)),
      ba_version = (\<lambda>w. (Inr ''mock-1.0'', w)),
      ba_add_contact = (\<lambda>_ w. (Inr (), w)), ba_remove_contact = (\<lambda>_ w. (Inr (), w)),
      ba_add_neighbor = (\<lambda>_ w. (Inr (), w)), ba_remove_neighbor = (\<lambda>_ w. (Inr (), w)),
      ba_enable_link = (\<lambda>_ w. (Inr (), w)), ba_disable_link = (\<lambda>_ w. (Inr (), w)),
      ba_collect_stats = (\<lambda>w. (Inr (Some \<lparr>bs_sourced = 0, bs_forwarded = 0,
        bs_delivered = 0, bs_expired = 0, bs_queued = 0\<rparr>), w)),
      ba_link_states = (\<lambda>w. (Inr (Some []), w))\<rparr>"

text \<open>The property tests have a mock of their own, which does the same.\<close>

definition prop_mock_adapter :: "string \<Rightarrow> ('y, 'w) backend_adapter" where
  "prop_mock_adapter name = mock_adapter name"

definition registry_round_trip :: "string \<Rightarrow> bool" where
  "registry_round_trip name \<longleftrightarrow>
     (let registry = (new_registry :: (unit, unit) backend_adapter adapter_registry);
          adapter = prop_mock_adapter name
      in case register_adapter registry name adapter of
           (Inl _, _) \<Rightarrow> False
         | (Inr _, registry) \<Rightarrow>
             (case get_adapter registry name of
                Inl _ \<Rightarrow> False
              | Inr retrieved \<Rightarrow> ba_name retrieved = ba_name adapter \<and> retrieved = adapter))"

definition registry_duplicate_rejection :: "string \<Rightarrow> bool" where
  "registry_duplicate_rejection name \<longleftrightarrow>
     (let registry = (new_registry :: (unit, unit) backend_adapter adapter_registry);
          adapter1 = prop_mock_adapter name; adapter2 = prop_mock_adapter name
      in case register_adapter registry name adapter1 of
           (Inl _, _) \<Rightarrow> False
         | (Inr _, registry) \<Rightarrow>
             (case fst (register_adapter registry name adapter2) of
                Inr _ \<Rightarrow> False
              | Inl err \<Rightarrow> ae_category err = ConfigurationError
                  \<and> contains_str (ae_message err) ''already registered''))"

definition registry_not_found :: "string \<Rightarrow> bool" where
  "registry_not_found name \<longleftrightarrow>
     (let registry = (new_registry :: (unit, unit) backend_adapter adapter_registry)
      in case get_adapter registry name of
           Inr _ \<Rightarrow> False
         | Inl err \<Rightarrow> ae_category err = ConfigurationError
             \<and> (contains_str (ae_message err) ''not found''
                 \<or> contains_str (ae_message err) ''Adapter not found''))"

lemma registry_tests_hold:
  "registry_round_trip name" "registry_duplicate_rejection name" "registry_not_found name"
  by (simp_all add: registry_round_trip_def registry_duplicate_rejection_def registry_not_found_def
      prop_mock_adapter_def register_adapter_def get_adapter_def new_registry_def already_registered_def adapter_not_found_def
      contains_str_simps)

section \<open>The default endpoint (property 6)\<close>

definition default_endpoint_derivation :: "u64 \<Rightarrow> bool" where
  "default_endpoint_derivation node_number \<longleftrightarrow>
     (let node = \<lparr>nd_node_number = node_number, nd_endpoint_id = None, nd_callsign_eid = None,
            nd_name = ''PropTest Node'', nd_services = []\<rparr>
      in nd_endpoint_id (derive_default_endpoint node) = Some (Ipn node_number 0))"

lemma default_endpoint_derivation_holds: "default_endpoint_derivation n"
  by (simp add: default_endpoint_derivation_def)

section \<open>Validation (property 7)\<close>

definition base_valid_config :: "u64 \<Rightarrow> u64 \<Rightarrow> unit network_configuration" where
  "base_valid_config local_node_number neighbor_node_number =
     \<lparr>nc_version = ''1.0'', nc_backend = ''ion-dtn'',
      nc_local_node = \<lparr>nd_node_number = local_node_number,
        nd_endpoint_id = Some (Ipn local_node_number 0), nd_callsign_eid = None,
        nd_name = ''Local Node'', nd_services = []\<rparr>,
      nc_neighbors = [\<lparr>nb_node_number = neighbor_node_number, nb_name = Some ''Neighbor'',
        nb_links = [], nb_rate_limit_bps = None\<rparr>],
      nc_contact_plan =
        \<lparr>cp_contacts = [\<lparr>ct_source_node = local_node_number, ct_dest_node = neighbor_node_number,
           ct_start_time = 1000, ct_end_time = 2000, ct_rate_bps = 9600, ct_confidence = F64_finite 1 0\<rparr>],
         cp_ranges = [\<lparr>rg_source_node = local_node_number, rg_dest_node = neighbor_node_number,
           rg_owlt_secs = F64_finite 1 0\<rparr>]\<rparr>,
      nc_routing = \<lparr>rc_strategy = Cgr, rc_static_routes = []\<rparr>,
      nc_security = None, nc_storage = None, nc_backend_options = Map.empty\<rparr>"

text \<open>The errors of a configuration that must be rejected; the test then looks for one of them.\<close>

definition rejected_with :: "'y network_configuration \<Rightarrow> (validation_detail \<Rightarrow> bool) \<Rightarrow> bool" where
  "rejected_with c p \<longleftrightarrow> (case validate c of Inr _ \<Rightarrow> False | Inl errors \<Rightarrow> list_ex p errors)"

definition validation_rejects_duplicate_node_number :: "u64 \<Rightarrow> bool" where
  "validation_rejects_duplicate_node_number node_number \<longleftrightarrow>
     (let config = base_valid_config node_number (node_number + 1);
          plan = nc_contact_plan config;
          config = config\<lparr>
            nc_neighbors := (nc_neighbors config)[0 := (nc_neighbors config ! 0)\<lparr>nb_node_number := node_number\<rparr>],
            nc_contact_plan :=
              \<lparr>cp_contacts = (cp_contacts plan)[0 := (cp_contacts plan ! 0)\<lparr>ct_dest_node := node_number\<rparr>],
               cp_ranges = (cp_ranges plan)[0 := (cp_ranges plan ! 0)\<lparr>rg_dest_node := node_number\<rparr>]\<rparr>\<rparr>
      in rejected_with config (\<lambda>e. vd_rule e = ''duplicate_node_number''))"

definition push_contact :: "contact \<Rightarrow> 'y network_configuration \<Rightarrow> 'y network_configuration" where
  "push_contact t c = c\<lparr>nc_contact_plan := (nc_contact_plan c)\<lparr>cp_contacts := cp_contacts (nc_contact_plan c) @ [t]\<rparr>\<rparr>"

definition push_range :: "range \<Rightarrow> 'y network_configuration \<Rightarrow> 'y network_configuration" where
  "push_range r c = c\<lparr>nc_contact_plan := (nc_contact_plan c)\<lparr>cp_ranges := cp_ranges (nc_contact_plan c) @ [r]\<rparr>\<rparr>"

definition validation_rejects_unresolved_contact_reference :: "u64 \<Rightarrow> u64 \<Rightarrow> u64 \<Rightarrow> bool" where
  "validation_rejects_unresolved_contact_reference local_num neighbor_num undefined_node \<longleftrightarrow>
     rejected_with
       (push_contact \<lparr>ct_source_node = local_num, ct_dest_node = undefined_node, ct_start_time = 3000,
          ct_end_time = 4000, ct_rate_bps = 1200, ct_confidence = F64_finite 1 0\<rparr>
          (base_valid_config local_num neighbor_num))
       (\<lambda>e. vd_rule e = ''referential_integrity'' \<and> contains_str (vd_path e) ''contacts''
            \<and> contains_str (vd_message e) (show_word undefined_node))"

definition validation_rejects_temporal_violation :: "u64 \<Rightarrow> u64 \<Rightarrow> i64 \<Rightarrow> bool" where
  "validation_rejects_temporal_violation local_num neighbor_num start_time \<longleftrightarrow>
     rejected_with
       (push_contact \<lparr>ct_source_node = local_num, ct_dest_node = neighbor_num, ct_start_time = start_time,
          ct_end_time = start_time, ct_rate_bps = 9600, ct_confidence = F64_finite 1 0\<rparr>
          (base_valid_config local_num neighbor_num))
       (\<lambda>e. vd_rule e = ''temporal_order'')"

definition validation_rejects_unresolved_range_reference :: "u64 \<Rightarrow> u64 \<Rightarrow> u64 \<Rightarrow> bool" where
  "validation_rejects_unresolved_range_reference local_num neighbor_num undefined_node \<longleftrightarrow>
     rejected_with
       (push_range \<lparr>rg_source_node = undefined_node, rg_dest_node = local_num, rg_owlt_secs = F64_finite 5 (-1)\<rparr>
          (base_valid_config local_num neighbor_num))
       (\<lambda>e. vd_rule e = ''referential_integrity'' \<and> contains_str (vd_path e) ''ranges''
            \<and> contains_str (vd_message e) (show_word undefined_node))"

lemma rejected_with_iff: "rejected_with c p \<longleftrightarrow> (\<exists>d. violates c d \<and> p d)"
proof -
  have "set (validation_errors c) = {d. violates c d}" by (auto simp: validation_errors_iff)
  moreover have "rejected_with c p \<longleftrightarrow> list_ex p (validation_errors c)"
    by (simp add: rejected_with_def validate_def Let_def)
  ultimately show ?thesis by (auto simp: list_ex_iff)
qed

lemma base_valid_config_valid:
  "local_num \<noteq> neighbor_num \<Longrightarrow> validate (base_valid_config local_num neighbor_num) = Inr ()"
  unfolding validate_ok_iff by (auto simp: well_formed_def known_node_def base_valid_config_def)

lemma local_duplicate_rejected:
  assumes "nc_neighbors c \<noteq> []" "nb_node_number (nc_neighbors c ! 0) = nd_node_number (nc_local_node c)"
  shows "rejected_with c (\<lambda>e. vd_rule e = ''duplicate_node_number'')"
  unfolding rejected_with_iff
proof (intro exI conjI)
  show "violates c (local_duplicate_detail 0 (nc_neighbors c ! 0))"
    using assms by (intro neighbor_is_local) auto
qed (simp add: local_duplicate_detail_def detail_def)

lemma validation_duplicate_test_holds: "validation_rejects_duplicate_node_number n"
  unfolding validation_rejects_duplicate_node_number_def Let_def
  by (rule local_duplicate_rejected) (simp_all add: base_valid_config_def)

lemma contains_middle: "contains_str (a @ b @ c) b"
  by (auto simp: contains_iff_sublist sublist_def)

lemma reference_test:
  assumes "violates c (reference_detail base i f what node)" "contains_str base key"
  shows "rejected_with c (\<lambda>e. vd_rule e = ''referential_integrity'' \<and> contains_str (vd_path e) key
            \<and> contains_str (vd_message e) (show_word node))"
  unfolding rejected_with_iff
proof (intro exI conjI)
  show "violates c (reference_detail base i f what node)" by (rule assms(1))
  show "contains_str (vd_path (reference_detail base i f what node)) key"
    using assms(2) by (auto simp: reference_detail_def detail_def indexed_def contains_iff_sublist sublist_append)
  show "contains_str (vd_message (reference_detail base i f what node)) (show_word node)"
    using contains_middle [of "what @ '' '' @ f @ '' ''" "show_word node" "'' does not reference a defined node''"]
    by (simp add: reference_detail_def detail_def)
qed (simp add: reference_detail_def detail_def)

lemma validation_contact_test_holds:
  assumes "1 \<le> local_num" "local_num \<le> 500" "501 \<le> neighbor_num" "neighbor_num \<le> 999"
    and "1001 \<le> undefined_node" "undefined_node \<le> 2000"
  shows "validation_rejects_unresolved_contact_reference local_num neighbor_num undefined_node"
  unfolding validation_rejects_unresolved_contact_reference_def
proof (rule reference_test)
  have "undefined_node \<noteq> local_num" "undefined_node \<noteq> neighbor_num"
    using assms by (auto simp: word_le_nat_alt)
  then show "violates (push_contact \<lparr>ct_source_node = local_num, ct_dest_node = undefined_node, ct_start_time = 3000,
          ct_end_time = 4000, ct_rate_bps = 1200, ct_confidence = F64_finite 1 0\<rparr>
          (base_valid_config local_num neighbor_num))
      (reference_detail ''contact_plan.contacts'' 1 ''dest_node'' ''Contact'' undefined_node)"
    by (intro contact_unknown) (auto simp: push_contact_def base_valid_config_def known_node_def)
qed (simp add: contains_str_simps)

lemma validation_range_test_holds:
  assumes "1 \<le> local_num" "local_num \<le> 500" "501 \<le> neighbor_num" "neighbor_num \<le> 999"
    and "1001 \<le> undefined_node" "undefined_node \<le> 2000"
  shows "validation_rejects_unresolved_range_reference local_num neighbor_num undefined_node"
  unfolding validation_rejects_unresolved_range_reference_def
proof (rule reference_test)
  have "undefined_node \<noteq> local_num" "undefined_node \<noteq> neighbor_num"
    using assms by (auto simp: word_le_nat_alt)
  then show "violates (push_range \<lparr>rg_source_node = undefined_node, rg_dest_node = local_num, rg_owlt_secs = F64_finite 5 (-1)\<rparr>
          (base_valid_config local_num neighbor_num))
      (reference_detail ''contact_plan.ranges'' 1 ''source_node'' ''Range'' undefined_node)"
    by (intro range_unknown) (auto simp: push_range_def base_valid_config_def known_node_def)
qed (simp add: contains_str_simps)

lemma validation_temporal_test_holds: "validation_rejects_temporal_violation local_num neighbor_num start_time"
  unfolding validation_rejects_temporal_violation_def rejected_with_iff
proof (intro exI conjI)
  let ?t = "\<lparr>ct_source_node = local_num, ct_dest_node = neighbor_num, ct_start_time = start_time,
          ct_end_time = start_time, ct_rate_bps = 9600, ct_confidence = F64_finite 1 0\<rparr>"
  show "violates (push_contact ?t (base_valid_config local_num neighbor_num)) (temporal_detail 1 ?t)"
    by (intro contact_not_forward) (auto simp: push_contact_def base_valid_config_def)
qed (simp add: temporal_detail_def detail_def)

section \<open>Capabilities (property 10)\<close>

text \<open>A refusal as the test wants it.\<close>

definition unsupported_refusal :: "string \<Rightarrow> string \<Rightarrow> abstraction_error + unit \<Rightarrow> bool" where
  "unsupported_refusal named backend_name r \<longleftrightarrow>
     (case r of Inr _ \<Rightarrow> False
      | Inl err \<Rightarrow> ae_category err = UnsupportedOperation
          \<and> contains_str (ae_message err) named
          \<and> contains_str (ae_message err) backend_name
          \<and> ec_backend (ae_context err) = Some backend_name)"

definition unsupported_capability_rejection ::
  "hot_reconfig_capabilities \<Rightarrow> convergence_layer_type list \<Rightarrow> routing_strategy list \<Rightarrow> string \<Rightarrow> bool" where
  "unsupported_capability_rejection hot_reconfig cls strategies backend_name \<longleftrightarrow>
     (let caps = \<lparr>cap_hot_reconfig = hot_reconfig, cap_convergence_layers = cls,
            cap_routing_strategies = strategies, cap_security = security_none\<rparr>;
          op_flags = [(AddContact, hc_add_contact hot_reconfig), (RemoveContact, hc_remove_contact hot_reconfig),
            (AddNeighbor, hc_add_neighbor hot_reconfig), (RemoveNeighbor, hc_remove_neighbor hot_reconfig),
            (EnableLink, hc_enable_link hot_reconfig), (DisableLink, hc_disable_link hot_reconfig)]
      in list_all (\<lambda>(op, supported).
           let result = check_hot_reconfig_capability caps op backend_name
           in if supported then is_ok result else unsupported_refusal (operation_name op) backend_name result) op_flags
       \<and> list_all (\<lambda>cl_type.
           let result = check_convergence_layer_support caps cl_type backend_name
           in if cl_type \<in> set cls then is_ok result else unsupported_refusal [] backend_name result)
           [Type_LtpUdp, Type_TcpCl, Type_Kiss, Type_Udp]
       \<and> list_all (\<lambda>strategy.
           let result = check_routing_strategy_support caps strategy backend_name
           in if strategy \<in> set strategies then is_ok result else unsupported_refusal [] backend_name result)
           [Cgr, Static, Default])"

lemma contains_self: "contains_str (x @ n) n" "contains_str (n @ y) n"
  by (auto simp: contains_iff_sublist)

lemma contains_later: "contains_str y p \<Longrightarrow> contains_str (x @ y) p"
  by (simp add: contains_iff_sublist sublist_append)

lemma refusal_message:
  "unsupported_refusal n b (Inl (with_backend b (new_error UnsupportedOperation (x @ [q] @ n @ [q] @ y @ [q] @ b @ [q]) op)))"
proof -
  have "contains_str (x @ [q] @ n @ [q] @ y @ [q] @ b @ [q]) n" by (intro contains_later contains_self)
  moreover have "contains_str (x @ [q] @ n @ [q] @ y @ [q] @ b @ [q]) b" by (intro contains_later contains_self)
  ultimately show ?thesis by (simp add: unsupported_refusal_def del: append.simps)
qed

lemma refusal_named: "unsupported_refusal n b r \<Longrightarrow> unsupported_refusal [] b r"
  by (auto simp: unsupported_refusal_def contains_iff_sublist split: sum.splits)

lemma unsupported_capability_rejection_holds:
  "unsupported_capability_rejection hot_reconfig cls strategies backend_name"
  unfolding unsupported_capability_rejection_def Let_def
    check_hot_reconfig_capability_def check_convergence_layer_support_def check_routing_strategy_support_def
  using refusal_message refusal_named [OF refusal_message]
  by (simp del: append.simps)

section \<open>Event delivery (property 11)\<close>

text \<open>A timestamp is a number of seconds.\<close>

fun event_timestamp :: "int dtn_event \<Rightarrow> int" where
  "event_timestamp (LinkStateChange timestamp _ _ _) = timestamp"
| "event_timestamp (ContactPlanChange timestamp _ _) = timestamp"
| "event_timestamp (EngineStateChange timestamp _ _ _) = timestamp"

fun arb_dtn_event :: "int dtn_event \<Rightarrow> bool" where
  "arb_dtn_event (LinkStateChange ts node link_id new_state) \<longleftrightarrow>
     0 \<le> ts \<and> ts < 2000000000 \<and> 1 \<le> node \<and> node \<le> 1000 \<and> fits [(is_ascii_lower, 3, 12)] link_id
     \<and> new_state \<in> {Link_active, Link_inactive}"
| "arb_dtn_event (ContactPlanChange ts action contact) \<longleftrightarrow>
     0 \<le> ts \<and> ts < 2000000000 \<and> action \<in> {Contact_added, Contact_removed}
     \<and> 1 \<le> cs_source_node contact \<and> cs_source_node contact \<le> 500
     \<and> 501 \<le> cs_dest_node contact \<and> cs_dest_node contact \<le> 1000
     \<and> 0 \<le> sint (cs_start_time contact) \<and> sint (cs_start_time contact) \<le> 1000000000
     \<and> 1000000001 \<le> sint (cs_end_time contact) \<and> sint (cs_end_time contact) \<le> 2000000000"
| "arb_dtn_event (EngineStateChange ts old new reason) \<longleftrightarrow>
     0 \<le> ts \<and> ts < 2000000000
     \<and> option_of (fits [(\<lambda>c. is_ascii_lower c \<or> is_space c, 3, 20)]) reason"

fun subscribe_many :: "('e, 'c, 'r) broadcast \<Rightarrow> nat \<Rightarrow> 'c event_bus \<Rightarrow> 'r list \<times> 'c event_bus" where
  "subscribe_many bc 0 bus = ([], bus)"
| "subscribe_many bc (Suc n) bus =
     (case subscribe bc bus of (rx, bus) \<Rightarrow> case subscribe_many bc n bus of (rxs, bus) \<Rightarrow> (rx # rxs, bus))"

text \<open>Each receiver in turn must receive the event.\<close>

fun all_receive :: "('e, 'c, 'r) broadcast \<Rightarrow> 'e \<Rightarrow> 'r list \<Rightarrow> 'c \<Rightarrow> bool" where
  "all_receive bc event [] c \<longleftrightarrow> True"
| "all_receive bc event (rx # rxs) c \<longleftrightarrow>
     (case bc_try_recv bc c rx of (m, _, c) \<Rightarrow> m = Received event \<and> all_receive bc event rxs c)"

definition event_delivery_to_all_subscribers ::
  "(int dtn_event, 'c, 'r) broadcast \<Rightarrow> int dtn_event \<Rightarrow> nat \<Rightarrow> bool" where
  "event_delivery_to_all_subscribers bc event num_subscribers \<longleftrightarrow>
     (case subscribe_many bc num_subscribers (new_bus bc 16) of
        (receivers, bus) \<Rightarrow>
          all_receive bc event receivers (eb_sender (publish bc bus event)) \<and> 0 \<le> event_timestamp event)"

text \<open>
  The documented independence of receivers: subscribing or receiving does not disturb another. (A
  receiver value is a snapshot of the receiver.)
\<close>

definition receivers_independent ::
  "('e, 'c, 'r) broadcast \<Rightarrow> ('c \<Rightarrow> 'r \<Rightarrow> bool) \<Rightarrow> ('c \<Rightarrow> 'r \<Rightarrow> 'e list) \<Rightarrow> bool" where
  "receivers_independent bc live unread \<longleftrightarrow>
     (\<forall>c rx rx' c'. live c rx \<longrightarrow> bc_subscribe bc c = (rx', c') \<longrightarrow>
        live c' rx \<and> unread c' rx = unread c rx) \<and>
     (\<forall>c rx m rx1 rx2 c'. live c rx \<longrightarrow> bc_try_recv bc c rx1 = (m, rx2, c') \<longrightarrow>
        live c' rx \<and> unread c' rx = unread c rx)"

lemma law_subscribe:
  "broadcast_laws bc cap live unread \<Longrightarrow> bc_subscribe bc c = (rx, c') \<Longrightarrow> live c' rx \<and> unread c' rx = []"
  unfolding broadcast_laws_def by blast

lemma law_receive_one:
  assumes "broadcast_laws bc cap live unread" "live c rx" "bc_try_recv bc c rx = (m, rx', c')"
    and "unread c rx = [e]" "0 < cap"
  shows "m = Received e"
  using assms(1) [unfolded broadcast_laws_def, THEN conjunct2, THEN conjunct2, rule_format, OF assms(2,3)]
    assms(4,5) by (simp add: Let_def)

lemma law_others:
  assumes "receivers_independent bc live unread" "live c rx"
  shows "bc_subscribe bc c = (rx', c') \<Longrightarrow> live c' rx \<and> unread c' rx = unread c rx"
    and "bc_try_recv bc c rx1 = (m, rx2, c') \<Longrightarrow> live c' rx \<and> unread c' rx = unread c rx"
  using assms unfolding receivers_independent_def by blast+

lemma subscribe_many_ready:
  assumes "broadcast_laws bc cap live unread" "receivers_independent bc live unread"
  shows "subscribe_many bc n bus = (rxs, bus') \<Longrightarrow> live (eb_sender bus) rx \<Longrightarrow>
      live (eb_sender bus') rx \<and> unread (eb_sender bus') rx = unread (eb_sender bus) rx"
    and "subscribe_many bc n bus = (rxs, bus') \<Longrightarrow>
      list_all (\<lambda>rx. live (eb_sender bus') rx \<and> unread (eb_sender bus') rx = []) rxs"
proof -
  have old: "subscribe_many bc n bus = (rxs, bus') \<Longrightarrow> live (eb_sender bus) rx \<Longrightarrow>
      live (eb_sender bus') rx \<and> unread (eb_sender bus') rx = unread (eb_sender bus) rx" for n bus rxs rx
  proof (induction n arbitrary: bus rxs)
    case (Suc n)
    obtain r c where sub: "bc_subscribe bc (eb_sender bus) = (r, c)" by (cases "bc_subscribe bc (eb_sender bus)")
    obtain rs b where many: "subscribe_many bc n (bus\<lparr>eb_sender := c\<rparr>) = (rs, b)"
      by (cases "subscribe_many bc n (bus\<lparr>eb_sender := c\<rparr>)")
    have "live c rx \<and> unread c rx = unread (eb_sender bus) rx"
      by (rule law_others(1) [OF assms(2) Suc.prems(2) sub])
    moreover have b: "b = bus'" using Suc.prems(1) sub many by (simp add: subscribe_def)
    ultimately show ?case using Suc.IH [OF many [unfolded b]] by simp
  qed simp
  then show "subscribe_many bc n bus = (rxs, bus') \<Longrightarrow> live (eb_sender bus) rx \<Longrightarrow>
      live (eb_sender bus') rx \<and> unread (eb_sender bus') rx = unread (eb_sender bus) rx" .
  show "subscribe_many bc n bus = (rxs, bus') \<Longrightarrow>
      list_all (\<lambda>rx. live (eb_sender bus') rx \<and> unread (eb_sender bus') rx = []) rxs"
  proof (induction n arbitrary: bus rxs)
    case (Suc n)
    obtain r c where sub: "bc_subscribe bc (eb_sender bus) = (r, c)" by (cases "bc_subscribe bc (eb_sender bus)")
    obtain rs b where many: "subscribe_many bc n (bus\<lparr>eb_sender := c\<rparr>) = (rs, b)"
      by (cases "subscribe_many bc n (bus\<lparr>eb_sender := c\<rparr>)")
    have "live c r \<and> unread c r = []" by (rule law_subscribe [OF assms(1) sub])
    moreover have b: "b = bus'" "rxs = r # rs" using Suc.prems(1) sub many by (simp_all add: subscribe_def)
    ultimately show ?case
      using Suc.IH [OF many [unfolded b]] old [OF many [unfolded b], of r] by simp
  qed simp
qed

lemma all_receive_unread:
  assumes "broadcast_laws bc cap live unread" "receivers_independent bc live unread" "0 < cap"
  shows "list_all (\<lambda>rx. live c rx \<and> unread c rx = [event]) rxs \<Longrightarrow> all_receive bc event rxs c"
proof (induction rxs arbitrary: c)
  case (Cons rx rxs)
  obtain m rx' c' where recv: "bc_try_recv bc c rx = (m, rx', c')" by (cases "bc_try_recv bc c rx")
  have "m = Received event"
    using law_receive_one [OF assms(1) _ recv _ assms(3)] Cons.prems by simp
  moreover have "live c' r \<and> unread c' r = [event]" if "r \<in> set rxs" for r
    using law_others(2) [OF assms(2) _ recv, of r] Cons.prems that by (simp add: list_all_iff)
  ultimately show ?case using Cons.IH [of c'] recv by (simp add: list_all_iff)
qed simp

lemma all_subscribers_receive:
  assumes "broadcast_laws bc 16 live unread" "receivers_independent bc live unread"
    and many: "subscribe_many bc n (new_bus bc 16) = (rxs, bus)"
  shows "all_receive bc event rxs (eb_sender (publish bc bus event))"
proof -
  have "list_all (\<lambda>rx. live (eb_sender bus) rx \<and> unread (eb_sender bus) rx = []) rxs"
    by (rule subscribe_many_ready(2) [OF assms(1,2) many])
  then have "list_all (\<lambda>rx. live (eb_sender (publish bc bus event)) rx
      \<and> unread (eb_sender (publish bc bus event)) rx = [event]) rxs"
    using assms(1) by (auto simp: list_all_iff broadcast_laws_def publish_def)
  from all_receive_unread [OF assms(1,2) _ this] show ?thesis by simp
qed

text \<open>
  every subscriber of a bus receives the event published after all of them subscribed, whatever
  the event and their number: the property test, for any channel with the documented behaviour.
\<close>

theorem event_delivery_test_holds:
  assumes "arb_dtn_event event" "broadcast_laws bc 16 live unread" "receivers_independent bc live unread"
  shows "event_delivery_to_all_subscribers bc event num_subscribers"
proof -
  have "0 \<le> event_timestamp event" using assms(1) by (cases event) simp_all
  then show ?thesis
    using all_subscribers_receive [OF assms(2,3)]
    by (simp add: event_delivery_to_all_subscribers_def split: prod.split)
qed

lemma ring_independent: "receivers_independent (ring cap) (\<lambda>c rx. rx \<le> length c) (\<lambda>c rx. drop rx c)"
  by (auto simp: receivers_independent_def ring_def split: if_splits)

theorem event_delivery_test_holds_witness:
  "event_delivery_to_all_subscribers (ring 16) (EngineStateChange 1700000000 Stopped Starting None) 10"
  using event_delivery_test_holds [of "EngineStateChange 1700000000 Stopped Starting None", OF _ ring_laws ring_independent]
  by (simp add: option_of_def)

section \<open>Error mapping (property 12)\<close>

datatype error_mapping_method = Map_lifecycle | Map_runtime | Map_communication

datatype backend_mapper = Mapper_ion | Mapper_hardy

fun mapper_backend_name :: "backend_mapper \<Rightarrow> string" where
  "mapper_backend_name Mapper_ion = ion_backend_name"
| "mapper_backend_name Mapper_hardy = hardy_backend_name"

fun mapper_call :: "error_mapping_method \<Rightarrow> string \<Rightarrow> string \<Rightarrow> string \<Rightarrow> abstraction_error" where
  "mapper_call Map_lifecycle backend = map_lifecycle_error backend"
| "mapper_call Map_runtime backend = map_runtime_error backend"
| "mapper_call Map_communication backend = map_communication_error backend"

fun expected_category :: "error_mapping_method \<Rightarrow> error_category" where
  "expected_category Map_lifecycle = LifecycleError"
| "expected_category Map_runtime = RuntimeError"
| "expected_category Map_communication = CommunicationError"

definition error_mapping_preserves_context ::
  "string \<Rightarrow> string \<Rightarrow> string \<Rightarrow> error_mapping_method \<Rightarrow> backend_mapper \<Rightarrow> bool" where
  "error_mapping_preserves_context raw_error operation resource mapping_method backend \<longleftrightarrow>
     (let expected_backend_name = mapper_backend_name backend;
          err = mapper_call mapping_method expected_backend_name raw_error operation;
          enriched = enrich_error err resource
      in ae_backend_code err = Some raw_error
         \<and> ec_operation (ae_context err) = operation
         \<and> ec_backend (ae_context err) = Some expected_backend_name
         \<and> ae_category err = expected_category mapping_method
         \<and> ec_resource (ae_context enriched) = Some resource
         \<and> ae_backend_code enriched = Some raw_error
         \<and> ec_operation (ae_context enriched) = operation
         \<and> ec_backend (ae_context enriched) = Some expected_backend_name
         \<and> ae_category enriched = expected_category mapping_method)"

lemma error_mapping_test_holds:
  "error_mapping_preserves_context raw_error operation resource mapping_method backend"
  by (cases mapping_method) (simp_all add: error_mapping_preserves_context_def map_lifecycle_error_def
      map_runtime_error_def map_communication_error_def enrich_error_def)

section \<open>Status codes (property 13)\<close>

text \<open>The error built from the generated parts.\<close>

definition built_error ::
  "error_category \<Rightarrow> string \<Rightarrow> string \<Rightarrow> string option \<Rightarrow> string option \<Rightarrow> string option \<Rightarrow> abstraction_error" where
  "built_error category message operation resource backend backend_code =
     (let err = new_error category message operation;
          err = (case resource of Some r \<Rightarrow> with_resource r err | None \<Rightarrow> err);
          err = (case backend of Some b \<Rightarrow> with_backend b err | None \<Rightarrow> err)
      in case backend_code of Some bc \<Rightarrow> with_backend_code bc err | None \<Rightarrow> err)"

definition expected_status :: "error_category \<Rightarrow> string \<Rightarrow> u16" where
  "expected_status category message =
     (case category of
        ValidationError \<Rightarrow> 400
      | UnsupportedOperation \<Rightarrow> 400
      | ConfigurationError \<Rightarrow> (if contains_str (to_lowercase message) ''not found'' then 404 else 409)
      | LifecycleError \<Rightarrow> 500
      | RuntimeError \<Rightarrow> 500
      | CommunicationError \<Rightarrow> 502)"

text \<open>Up to the serialisation of the error.\<close>

lemma api_status_test_holds:
  "error_to_status (built_error category message operation resource backend backend_code)
     = expected_status category message"
  by (simp add: error_to_status_def expected_status_def built_error_def Let_def split: option.split)

end
