(* ===== verification/Api_Events.thy ===== *)
theory Api_Events
  imports Api_Routes Event_Bus
begin

text \<open>
  The route of the event stream (\<open>get_events\<close> of \<open>api/sse.rs\<close>): the one request that uses the event bus of the
  shared state. Its answer is the receiver that the stream polls.
\<close>

definition get_events ::
  "('e, 'b, 'r) broadcast \<Rightarrow> ('y, 'w, 'b event_bus) app_state \<Rightarrow> 'r \<times> ('y, 'w, 'b event_bus) app_state" where
  "get_events bc st = (case subscribe bc (ap_event_bus st) of (rx, bus) \<Rightarrow> (rx, st\<lparr>ap_event_bus := bus\<rparr>))"

text \<open>A component of the program publishes on the shared bus.\<close>

definition publish_shared ::
  "('e, 'b, 'r) broadcast \<Rightarrow> 'e \<Rightarrow> ('y, 'w, 'b event_bus) app_state \<Rightarrow> ('y, 'w, 'b event_bus) app_state" where
  "publish_shared bc event st = st\<lparr>ap_event_bus := publish bc (ap_event_bus st) event\<rparr>"

lemma get_events_frame:
  "get_events bc st = (rx, st') \<Longrightarrow>
     ap_registry st' = ap_registry st \<and> ap_config st' = ap_config st
     \<and> ap_machine st' = ap_machine st \<and> ap_world st' = ap_world st"
  by (auto simp: get_events_def split: prod.splits)

text \<open>
  The requests served between the subscription and the event do not come in its way: the first poll
  of the stream after the event is the frame of the event.
\<close>

lemma stream_past_requests:
  assumes laws: "broadcast_laws bc cap live unread" "0 < cap"
    and sub: "get_events bc st = (rx, st')"
    and served: "serve_requests env reqs st' = (rs, st'')"
  shows "fst (poll_next bc to_json (rx, eb_sender (ap_event_bus (publish_shared bc event st''))))
     = Ready_frame (event_frame to_json event)"
proof -
  from sub laws(1) have first: "live (eb_sender (ap_event_bus st')) rx" "unread (eb_sender (ap_event_bus st')) rx = []"
    by (auto simp: get_events_def subscribe_def broadcast_laws_def split: prod.splits)
  have "ap_event_bus st'' = ap_event_bus st'"
    using serve_requests_preserves [of reqs "\<lambda>s. ap_registry s = ap_registry st' \<and> ap_event_bus s = ap_event_bus st'" env st']
      handle_frame [of "ap_registry st'" "ap_event_bus st'" env] served by simp
  with first laws(1) obtain c where
    c: "eb_sender (ap_event_bus (publish_shared bc event st'')) = c" "live c rx" "unread c rx = [event]"
    by (auto simp: publish_shared_def publish_def broadcast_laws_def)
  obtain m rx' c' where recv: "bc_try_recv bc c rx = (m, rx', c')" by (cases "bc_try_recv bc c rx")
  have "m = Received event"
  proof -
    from laws(1) c(2) recv have "let es = unread c rx; lost = length es - cap in
         if cap < length es then m = Channel_lagged (word_of_nat lost) \<and> unread c' rx' = drop lost es
         else (case es of [] \<Rightarrow> m = Channel_empty \<and> unread c' rx' = []
               | e # es' \<Rightarrow> m = Received e \<and> unread c' rx' = es')"
      unfolding broadcast_laws_def by blast
    with c(3) laws(2) show ?thesis by simp
  qed
  then show ?thesis by (simp add: poll_next_def c(1) recv)
qed

end
