(* ===== verification/Api_Tests.thy ===== *)
theory Api_Tests
  imports Api_Routes Event_Bus Test_Generators
begin

text \<open>
  The tests of \<open>tests/api_test.rs\<close>: each sends one request to the router over a registry with one
  adapter. The JSON texts of requests and answers are those of the web library; the tests here look
  at the values. The test of the event stream follows the subscription its handler makes.
\<close>

section \<open>The fixture\<close>

definition test_adapter :: "('y, 'w) backend_adapter" where
  "test_adapter =
     \<lparr>ba_name = ''test-backend'',
      ba_capabilities = \<lparr>cap_hot_reconfig = \<lparr>hc_add_contact = True, hc_remove_contact = True,
          hc_add_neighbor = True, hc_remove_neighbor = True, hc_enable_link = True, hc_disable_link = True\<rparr>,
        cap_convergence_layers = [], cap_routing_strategies = [Cgr], cap_security = security_none\<rparr>,
      ba_validate = (\<lambda>_ w. (Inr (), w)),
      ba_generate_config = (\<lambda>_ _ w. (Inr \<lparr>gc_files = [''test.conf'' \<mapsto> ''# generated'']\<rparr>, w)),
      ba_deploy = (\<lambda>_ _ w. (Inr (), w)),
      ba_start = (\<lambda>_ w. (Inr (), w)), ba_stop = (\<lambda>w. (Inr (), w)), ba_restart = (\<lambda>_ w. (Inr (), w)),
      ba_health = (\<lambda>w. (Inr \<lparr>hs_running = True, hs_uptime_secs = Some 42, hs_message = None\<rparr>, w)),
      ba_version = (\<lambda>w. (Inr ''test-1.0'', w)),
      ba_add_contact = (\<lambda>_ w. (Inr (), w)), ba_remove_contact = (\<lambda>_ w. (Inr (), w)),
      ba_add_neighbor = (\<lambda>_ w. (Inr (), w)), ba_remove_neighbor = (\<lambda>_ w. (Inr (), w)),
      ba_enable_link = (\<lambda>_ w. (Inr (), w)), ba_disable_link = (\<lambda>_ w. (Inr (), w)),
      ba_collect_stats = (\<lambda>w. (Inr (Some \<lparr>bs_sourced = 10, bs_forwarded = 5,
        bs_delivered = 8, bs_expired = 1, bs_queued = 2\<rparr>), w)),
      ba_link_states = (\<lambda>w. (Inr (Some [\<lparr>ls_neighbor_node = 20, ls_link_id = ''ltp-link'', ls_active = True,
        ls_bytes_sent = 1024, ls_bytes_received = 512\<rparr>]), w))\<rparr>"

text \<open>The registry, the bus and the fresh state; a registration that failed would stop the test.\<close>

definition test_state :: "'c \<Rightarrow> 'w \<Rightarrow> ('y, 'w, 'c) app_state option" where
  "test_state event_bus w =
     (case register_adapter new_registry ''test-backend'' test_adapter of
        (Inl _, _) \<Rightarrow> None
      | (Inr _, registry) \<Rightarrow> Some (new_app_state registry event_bus w))"

definition api_valid_config :: "'y network_configuration" where
  "api_valid_config =
     \<lparr>nc_version = ''1.0'', nc_backend = ''test-backend'',
      nc_local_node = \<lparr>nd_node_number = 10, nd_endpoint_id = Some (Ipn 10 0), nd_callsign_eid = None,
        nd_name = ''Test Node'', nd_services = []\<rparr>,
      nc_neighbors = [\<lparr>nb_node_number = 20, nb_name = Some ''Neighbor'', nb_links = [], nb_rate_limit_bps = None\<rparr>],
      nc_contact_plan =
        \<lparr>cp_contacts = [\<lparr>ct_source_node = 10, ct_dest_node = 20, ct_start_time = 1000, ct_end_time = 2000,
           ct_rate_bps = 9600, ct_confidence = default_confidence\<rparr>],
         cp_ranges = [\<lparr>rg_source_node = 10, rg_dest_node = 20, rg_owlt_secs = F64_finite 5854679515581645 (-52)\<rparr>]\<rparr>,
      nc_routing = \<lparr>rc_strategy = Cgr, rc_static_routes = []\<rparr>,
      nc_security = None, nc_storage = None, nc_backend_options = Map.empty\<rparr>"

text \<open>One request on the fresh state, changed by the test before it builds the router.\<close>

definition asked ::
  "('y, 'w) api_env \<Rightarrow> 'c \<Rightarrow> 'w \<Rightarrow> (('y, 'w, 'c) app_state \<Rightarrow> ('y, 'w, 'c) app_state)
     \<Rightarrow> 'y api_request \<Rightarrow> (abstraction_error + 'y api_response \<Rightarrow> bool) \<Rightarrow> bool" where
  "asked env event_bus w prepare req check \<longleftrightarrow>
     (case test_state event_bus w of None \<Rightarrow> False | Some st \<Rightarrow> check (fst (handle env req (prepare st))))"

section \<open>The tests\<close>

definition test_post_config_valid_json_returns_200 :: "('y, 'w) api_env \<Rightarrow> 'c \<Rightarrow> 'w \<Rightarrow> bool" where
  "test_post_config_valid_json_returns_200 env event_bus w \<longleftrightarrow>
     asked env event_bus w id (Post_config api_valid_config) (\<lambda>response.
       status_of response = 200 \<and> response = Inr (Resp_config api_valid_config))"

definition test_get_config_after_post_returns_200 :: "('y, 'w) api_env \<Rightarrow> 'c \<Rightarrow> 'w \<Rightarrow> bool" where
  "test_get_config_after_post_returns_200 env event_bus w \<longleftrightarrow>
     asked env event_bus w (\<lambda>st. st\<lparr>ap_config := Some api_valid_config\<rparr>) Get_config (\<lambda>response.
       status_of response = 200 \<and> response = Inr (Resp_config api_valid_config))"

text \<open>The destination of the first contact of the configuration becomes a node that is not defined.\<close>

definition undefined_node :: "'y network_configuration \<Rightarrow> 'y network_configuration" where
  "undefined_node config =
     (let plan = nc_contact_plan config; contacts = cp_contacts plan
      in config\<lparr>nc_contact_plan := plan\<lparr>cp_contacts := contacts[0 := (contacts ! 0)\<lparr>ct_dest_node := 999\<rparr>]\<rparr>\<rparr>)"

definition test_post_config_validation_error_returns_400 :: "('y, 'w) api_env \<Rightarrow> 'c \<Rightarrow> 'w \<Rightarrow> bool" where
  "test_post_config_validation_error_returns_400 env event_bus w \<longleftrightarrow>
     asked env event_bus w id (Post_config (undefined_node api_valid_config)) (\<lambda>response.
       status_of response = 400
       \<and> (case response of
            Inr _ \<Rightarrow> False
          | Inl error \<Rightarrow> ae_category error = ValidationError \<and> contains_str (ae_message error) ''validation failed''))"

definition test_get_config_not_found_returns_error :: "('y, 'w) api_env \<Rightarrow> 'c \<Rightarrow> 'w \<Rightarrow> bool" where
  "test_get_config_not_found_returns_error env event_bus w \<longleftrightarrow>
     asked env event_bus w id Get_config (\<lambda>response. status_of response = 404 \<or> status_of response = 409)"

definition test_preview_with_unknown_backend_returns_not_found :: "('y, 'w) api_env \<Rightarrow> 'c \<Rightarrow> 'w \<Rightarrow> bool" where
  "test_preview_with_unknown_backend_returns_not_found env event_bus w \<longleftrightarrow>
     asked env event_bus w id (Post_config_preview (api_valid_config\<lparr>nc_backend := ''nonexistent-backend''\<rparr>))
       (\<lambda>response. status_of response = 404
          \<and> (case response of
               Inr _ \<Rightarrow> False
             | Inl error \<Rightarrow> ae_category error = ConfigurationError \<and> contains_str (ae_message error) ''not found''))"

definition test_get_adapters_returns_registered_names :: "('y, 'w) api_env \<Rightarrow> 'c \<Rightarrow> 'w \<Rightarrow> bool" where
  "test_get_adapters_returns_registered_names env event_bus w \<longleftrightarrow>
     asked env event_bus w id Get_adapters (\<lambda>response.
       status_of response = 200 \<and> response = Inr (Resp_adapters [''test-backend'']))"

definition test_get_lifecycle_state_returns_stopped :: "('y, 'w) api_env \<Rightarrow> 'c \<Rightarrow> 'w \<Rightarrow> bool" where
  "test_get_lifecycle_state_returns_stopped env event_bus w \<longleftrightarrow>
     asked env event_bus w id Get_lifecycle_state (\<lambda>response.
       status_of response = 200 \<and> response = Inr (Resp_state Stopped))"

lemma fresh_state:
  "test_state event_bus w = Some (new_app_state \<lparr>ar_adapters = [''test-backend'' \<mapsto> test_adapter]\<rparr> event_bus w)"
  by (simp add: test_state_def register_adapter_def new_registry_def)

lemma api_config_valid: "validate api_valid_config = Inr ()"
  by code_simp

lemma api_tests_hold:
  "test_post_config_valid_json_returns_200 env event_bus w"
  "test_get_config_after_post_returns_200 env event_bus w"
  "test_get_config_not_found_returns_error env event_bus w"
  "test_get_lifecycle_state_returns_stopped env event_bus w"
  by (simp_all add: test_post_config_valid_json_returns_200_def test_get_config_after_post_returns_200_def
      test_get_config_not_found_returns_error_def test_get_lifecycle_state_returns_stopped_def asked_def
      fresh_state answer_def act_bind_def act_then_def act_return_def post_config_def check_valid_run
      api_config_valid store_config_def get_config_def new_app_state_def status_of_def error_to_status_def
      get_lifecycle_state_def new_machine_def)

lemma undefined_node_rejected: "\<exists>details. validate (undefined_node api_valid_config) = Inl details"
proof -
  have "validation_errors (undefined_node api_valid_config) \<noteq> []"
    by (simp add: undefined_node_def api_valid_config_def validation_errors_def check_contact_node_references_def
        unresolved_def defined_nodes_def)
  then show ?thesis by (simp add: validate_def Let_def)
qed

lemma api_refusal_tests_hold:
  fixes env :: "('y, 'w) api_env"
  shows "test_post_config_validation_error_returns_400 env event_bus w"
  "test_preview_with_unknown_backend_returns_not_found env event_bus w"
proof -
  obtain details where d: "validate (undefined_node (api_valid_config :: 'y network_configuration)) = Inl details"
    using undefined_node_rejected by blast
  show "test_post_config_validation_error_returns_400 env event_bus w"
    by (simp add: test_post_config_validation_error_returns_400_def asked_def fresh_state answer_def
        act_bind_def act_then_def post_config_def check_valid_run d validation_error_def status_of_def
        error_to_status_def contains_str_simps)
  have "validate ((api_valid_config :: 'y network_configuration)\<lparr>nc_backend := ''nonexistent-backend''\<rparr>) = Inr ()"
    by code_simp
  then show "test_preview_with_unknown_backend_returns_not_found env event_bus w"
    by (simp add: test_preview_with_unknown_backend_returns_not_found_def asked_def fresh_state answer_def
        act_bind_def act_then_def post_config_preview_def check_valid_run lookup_adapter_def get_adapter_def
        adapter_not_found_def new_app_state_def status_of_def error_to_status_def contains_str_simps text_eval)
qed

lemma only_element: "set xs = {x} \<Longrightarrow> distinct xs \<Longrightarrow> xs = [x]"
  by (cases xs rule: remdups_adj.cases) auto

text \<open>The names come from the hash map of the registry; with one adapter their order is no matter.\<close>

lemma api_adapters_test_holds:
  assumes "set (en_keys env [''test-backend'' \<mapsto> test_adapter]) = {''test-backend''}"
    and "distinct (en_keys env [''test-backend'' \<mapsto> test_adapter])"
  shows "test_get_adapters_returns_registered_names env event_bus w"
  using only_element [OF assms]
  by (simp add: test_get_adapters_returns_registered_names_def asked_def fresh_state answer_def act_bind_def
      act_return_def get_adapters_def list_adapters_def new_app_state_def status_of_def)

end
