(* ===== verification/Unit_Tests_Core.thy ===== *)
theory Unit_Tests_Core
  imports Engine_State Validation Capability Property_Tests
begin

text \<open>
  The unit tests of the core modules (\<open>lifecycle/state.rs\<close>, \<open>validation/mod.rs\<close>,
  \<open>adapter/capability_check.rs\<close>, \<open>error.rs\<close>, \<open>error_mapping.rs\<close>, \<open>adapter/registry.rs\<close>,
  \<open>events/bus.rs\<close>): each test function is a closed boolean, an unwrapped error or a panic making it
  false, and one lemma per module shows that the model passes them all.
\<close>

section \<open>The state machine\<close>

text \<open>A sequence of calls whose results are unwrapped.\<close>

fun unwrapped :: "state_machine \<Rightarrow> sm_op list \<Rightarrow> state_machine option" where
  "unwrapped sm [] = Some sm"
| "unwrapped sm (op # ops) =
     (case sm_apply sm op of (Inl _, _) \<Rightarrow> None | (Inr _, sm) \<Rightarrow> unwrapped sm ops)"

text \<open>The checks of the tests: the calls before the last are unwrapped, then the last is looked at.\<close>

definition after :: "sm_op list \<Rightarrow> (state_machine \<Rightarrow> bool) \<Rightarrow> bool" where
  "after ops p \<longleftrightarrow> (case unwrapped new_machine ops of None \<Rightarrow> False | Some sm \<Rightarrow> p sm)"

definition succeeds :: "sm_op \<Rightarrow> (state_machine \<Rightarrow> bool) \<Rightarrow> state_machine \<Rightarrow> bool" where
  "succeeds op p sm \<longleftrightarrow> (case sm_apply sm op of (r, sm) \<Rightarrow> is_ok r \<and> p sm)"

definition refused :: "sm_op \<Rightarrow> (state_machine \<Rightarrow> bool) \<Rightarrow> state_machine \<Rightarrow> bool" where
  "refused op p sm \<longleftrightarrow> (case sm_apply sm op of (r, sm) \<Rightarrow> \<not> is_ok r \<and> p sm)"

definition in_state :: "engine_state \<Rightarrow> state_machine \<Rightarrow> bool" where
  "in_state s sm \<longleftrightarrow> sm_state sm = s"

definition with_reason :: "engine_state \<Rightarrow> string option \<Rightarrow> state_machine \<Rightarrow> bool" where
  "with_reason s r sm \<longleftrightarrow> sm_state sm = s \<and> sm_failure_reason sm = r"

definition test_stopped_to_starting :: bool where
  "test_stopped_to_starting \<longleftrightarrow>
     after [] (in_state Stopped) \<and> after [] (succeeds (To Starting) (in_state Starting))"

definition test_starting_to_running :: bool where
  "test_starting_to_running \<longleftrightarrow> after [To Starting] (succeeds (To Running) (in_state Running))"

definition test_running_to_stopping :: bool where
  "test_running_to_stopping \<longleftrightarrow>
     after [To Starting, To Running] (succeeds (To Stopping) (in_state Stopping))"

definition test_stopping_to_stopped :: bool where
  "test_stopping_to_stopped \<longleftrightarrow>
     after [To Starting, To Running, To Stopping] (succeeds (To Stopped) (in_state Stopped))"

definition test_full_lifecycle :: bool where
  "test_full_lifecycle \<longleftrightarrow> after [To Starting, To Running, To Stopping, To Stopped] (in_state Stopped)"

definition test_starting_to_failed :: bool where
  "test_starting_to_failed \<longleftrightarrow>
     after [To Starting] (succeeds (To_failed ''startup timeout'') (with_reason Failed (Some ''startup timeout'')))"

definition test_running_to_failed :: bool where
  "test_running_to_failed \<longleftrightarrow>
     after [To Starting, To Running] (succeeds (To_failed ''unexpected process exit'')
       (with_reason Failed (Some ''unexpected process exit'')))"

definition test_failed_to_starting_retry :: bool where
  "test_failed_to_starting_retry \<longleftrightarrow>
     after [To Starting, To_failed ''error''] (succeeds (To Starting) (with_reason Starting None))"

definition test_failed_to_stopped_acknowledge :: bool where
  "test_failed_to_stopped_acknowledge \<longleftrightarrow>
     after [To Starting, To_failed ''error''] (succeeds (To Stopped) (with_reason Stopped None))"

definition test_failure_reason_recorded :: bool where
  "test_failure_reason_recorded \<longleftrightarrow>
     after [To Starting, To_failed ''ION daemon exited with code 1'']
       (\<lambda>sm. sm_failure_reason sm = Some ''ION daemon exited with code 1'')"

definition test_stopped_to_running_illegal :: bool where
  "test_stopped_to_running_illegal \<longleftrightarrow> after [] (refused (To Running) (in_state Stopped))"

definition test_stopped_to_stopping_illegal :: bool where
  "test_stopped_to_stopping_illegal \<longleftrightarrow> after [] (refused (To Stopping) (in_state Stopped))"

definition test_stopped_to_failed_illegal :: bool where
  "test_stopped_to_failed_illegal \<longleftrightarrow>
     after [] (refused (To_failed ''should not work'') (with_reason Stopped None))"

definition test_running_to_starting_illegal :: bool where
  "test_running_to_starting_illegal \<longleftrightarrow>
     after [To Starting, To Running] (refused (To Starting) (in_state Running))"

definition test_starting_to_stopping_illegal :: bool where
  "test_starting_to_stopping_illegal \<longleftrightarrow> after [To Starting] (refused (To Stopping) (in_state Starting))"

definition test_stopping_to_running_illegal :: bool where
  "test_stopping_to_running_illegal \<longleftrightarrow>
     after [To Starting, To Running, To Stopping] (refused (To Running) (in_state Stopping))"

definition test_stopping_to_failed_illegal :: bool where
  "test_stopping_to_failed_illegal \<longleftrightarrow>
     after [To Starting, To Running, To Stopping] (refused (To_failed ''should not work'') (in_state Stopping))"

definition test_failed_to_running_illegal :: bool where
  "test_failed_to_running_illegal \<longleftrightarrow>
     after [To Starting, To_failed ''error''] (refused (To Running) (in_state Failed))"

definition test_failed_to_stopping_illegal :: bool where
  "test_failed_to_stopping_illegal \<longleftrightarrow>
     after [To Starting, To_failed ''error''] (refused (To Stopping) (in_state Failed))"

definition test_transition_to_failed_via_transition_to_rejected :: bool where
  "test_transition_to_failed_via_transition_to_rejected \<longleftrightarrow>
     after [To Starting] (refused (To Failed) (in_state Starting))"

definition test_default_impl :: bool where
  "test_default_impl \<longleftrightarrow> with_reason Stopped None new_machine"

definition test_no_failure_reason_when_not_failed :: bool where
  "test_no_failure_reason_when_not_failed \<longleftrightarrow>
     after [] (\<lambda>sm. sm_failure_reason sm = None)
     \<and> after [To Starting] (\<lambda>sm. sm_failure_reason sm = None)
     \<and> after [To Starting, To Running] (\<lambda>sm. sm_failure_reason sm = None)"

definition test_error_contains_transition_info :: bool where
  "test_error_contains_transition_info \<longleftrightarrow>
     (case fst (transition_to new_machine Running) of
        Inr _ \<Rightarrow> False
      | Inl err \<Rightarrow> ae_category err = LifecycleError
          \<and> contains_str (ae_message err) ''Stopped'' \<and> contains_str (ae_message err) ''Running'')"

definition test_is_valid_transition_static :: bool where
  "test_is_valid_transition_static \<longleftrightarrow>
     list_all (\<lambda>(s, t). is_valid_transition s t)
       [(Stopped, Starting), (Starting, Running), (Starting, Failed), (Running, Stopping),
        (Running, Failed), (Stopping, Stopped), (Failed, Starting), (Failed, Stopped)]
     \<and> list_all (\<lambda>(s, t). \<not> is_valid_transition s t)
       [(Stopped, Running), (Stopped, Stopping), (Stopped, Failed), (Running, Starting),
        (Starting, Stopping), (Stopping, Running), (Stopping, Failed), (Failed, Running), (Failed, Stopping)]"

text \<open>All tests of a module.\<close>

definition state_tests :: "bool list" where
  "state_tests =
     [test_stopped_to_starting, test_starting_to_running, test_running_to_stopping,
      test_stopping_to_stopped, test_full_lifecycle, test_starting_to_failed, test_running_to_failed,
      test_failed_to_starting_retry, test_failed_to_stopped_acknowledge, test_failure_reason_recorded,
      test_stopped_to_running_illegal, test_stopped_to_stopping_illegal, test_stopped_to_failed_illegal,
      test_running_to_starting_illegal, test_starting_to_stopping_illegal, test_stopping_to_running_illegal,
      test_stopping_to_failed_illegal, test_failed_to_running_illegal, test_failed_to_stopping_illegal,
      test_transition_to_failed_via_transition_to_rejected, test_default_impl,
      test_no_failure_reason_when_not_failed, test_error_contains_transition_info,
      test_is_valid_transition_static]"

lemma state_tests_hold: "list_all (\<lambda>test. test) state_tests"
  by code_simp

section \<open>Validation\<close>

text \<open>The literal 1.3 is the nearest binary fraction.\<close>

definition valid_config :: "unit network_configuration" where
  "valid_config =
     \<lparr>nc_version = ''1.0'', nc_backend = ''ion-dtn'',
      nc_local_node = \<lparr>nd_node_number = 10, nd_endpoint_id = Some (Ipn 10 0), nd_callsign_eid = None,
        nd_name = ''Ground Station'', nd_services = []\<rparr>,
      nc_neighbors = [\<lparr>nb_node_number = 20, nb_name = Some ''Orbiter'', nb_links = [], nb_rate_limit_bps = None\<rparr>],
      nc_contact_plan =
        \<lparr>cp_contacts = [\<lparr>ct_source_node = 10, ct_dest_node = 20, ct_start_time = 1000, ct_end_time = 2000,
           ct_rate_bps = 9600, ct_confidence = F64_finite 1 0\<rparr>],
         cp_ranges = [\<lparr>rg_source_node = 10, rg_dest_node = 20, rg_owlt_secs = F64_finite 5854679515581645 (-52)\<rparr>]\<rparr>,
      nc_routing = \<lparr>rc_strategy = Cgr, rc_static_routes = []\<rparr>,
      nc_security = None, nc_storage = None, nc_backend_options = Map.empty\<rparr>"

text \<open>Assignments to the first neighbour, contact and range.\<close>

definition set_neighbor0 :: "(neighbor \<Rightarrow> neighbor) \<Rightarrow> unit network_configuration \<Rightarrow> unit network_configuration" where
  "set_neighbor0 f c = c\<lparr>nc_neighbors := (nc_neighbors c)[0 := f (nc_neighbors c ! 0)]\<rparr>"

definition set_contact0 :: "(contact \<Rightarrow> contact) \<Rightarrow> unit network_configuration \<Rightarrow> unit network_configuration" where
  "set_contact0 f c = c\<lparr>nc_contact_plan := (nc_contact_plan c)
     \<lparr>cp_contacts := (cp_contacts (nc_contact_plan c))[0 := f (cp_contacts (nc_contact_plan c) ! 0)]\<rparr>\<rparr>"

definition set_range0 :: "(range \<Rightarrow> range) \<Rightarrow> unit network_configuration \<Rightarrow> unit network_configuration" where
  "set_range0 f c = c\<lparr>nc_contact_plan := (nc_contact_plan c)
     \<lparr>cp_ranges := (cp_ranges (nc_contact_plan c))[0 := f (cp_ranges (nc_contact_plan c) ! 0)]\<rparr>\<rparr>"

definition set_routing :: "routing_config \<Rightarrow> 'y network_configuration \<Rightarrow> 'y network_configuration" where
  "set_routing r c = c\<lparr>nc_routing := r\<rparr>"

definition test_valid_config_passes :: bool where
  "test_valid_config_passes \<longleftrightarrow> is_ok (validate valid_config)"

definition test_duplicate_node_number_local_vs_neighbor :: bool where
  "test_duplicate_node_number_local_vs_neighbor \<longleftrightarrow>
     rejected_with
       (set_range0 (\<lambda>r. r\<lparr>rg_dest_node := 10\<rparr>) (set_contact0 (\<lambda>t. t\<lparr>ct_dest_node := 10\<rparr>)
         (set_neighbor0 (\<lambda>n. n\<lparr>nb_node_number := 10\<rparr>) valid_config)))
       (\<lambda>e. vd_rule e = ''duplicate_node_number'' \<and> contains_str (vd_path e) ''neighbors[0]'')"

definition test_duplicate_neighbor_node_numbers :: bool where
  "test_duplicate_neighbor_node_numbers \<longleftrightarrow>
     rejected_with
       (valid_config\<lparr>nc_neighbors := nc_neighbors valid_config
          @ [\<lparr>nb_node_number = 20, nb_name = Some ''Duplicate'', nb_links = [], nb_rate_limit_bps = None\<rparr>]\<rparr>)
       (\<lambda>e. vd_rule e = ''duplicate_node_number'' \<and> contains_str (vd_path e) ''neighbors[1]'')"

definition test_undefined_node_in_contact :: bool where
  "test_undefined_node_in_contact \<longleftrightarrow>
     rejected_with (set_contact0 (\<lambda>t. t\<lparr>ct_dest_node := 999\<rparr>) valid_config)
       (\<lambda>e. vd_rule e = ''referential_integrity'' \<and> contains_str (vd_message e) ''999'')"

definition test_undefined_node_in_range :: bool where
  "test_undefined_node_in_range \<longleftrightarrow>
     rejected_with (set_range0 (\<lambda>r. r\<lparr>rg_source_node := 888\<rparr>) valid_config)
       (\<lambda>e. vd_rule e = ''referential_integrity'' \<and> contains_str (vd_path e) ''ranges[0].source_node''
            \<and> contains_str (vd_message e) ''888'')"

definition test_contact_start_time_equals_end_time :: bool where
  "test_contact_start_time_equals_end_time \<longleftrightarrow>
     rejected_with (set_contact0 (\<lambda>t. t\<lparr>ct_start_time := 5000, ct_end_time := 5000\<rparr>) valid_config)
       (\<lambda>e. vd_rule e = ''temporal_order'')"

definition test_contact_start_time_greater_than_end_time :: bool where
  "test_contact_start_time_greater_than_end_time \<longleftrightarrow>
     rejected_with (set_contact0 (\<lambda>t. t\<lparr>ct_start_time := 9000, ct_end_time := 1000\<rparr>) valid_config)
       (\<lambda>e. vd_rule e = ''temporal_order'')"

definition test_multiple_errors_collected :: bool where
  "test_multiple_errors_collected \<longleftrightarrow>
     (case validate (push_contact
            \<lparr>ct_source_node = 10, ct_dest_node = 10, ct_start_time = 5000, ct_end_time = 3000,
             ct_rate_bps = 1200, ct_confidence = F64_finite 1 0\<rparr>
            (set_contact0 (\<lambda>t. t\<lparr>ct_dest_node := 999\<rparr>)
              (set_neighbor0 (\<lambda>n. n\<lparr>nb_node_number := 10\<rparr>) valid_config))) of
        Inr _ \<Rightarrow> False
      | Inl errors \<Rightarrow> 3 \<le> length errors)"

definition test_static_route_undefined_destination :: bool where
  "test_static_route_undefined_destination \<longleftrightarrow>
     rejected_with
       (set_routing \<lparr>rc_strategy = Static,
          rc_static_routes = [\<lparr>sr_destination_node = 777, sr_next_hop_node = 20\<rparr>]\<rparr> valid_config)
       (\<lambda>e. vd_rule e = ''referential_integrity''
            \<and> contains_str (vd_path e) ''static_routes[0].destination_node'')"

definition test_static_route_undefined_next_hop :: bool where
  "test_static_route_undefined_next_hop \<longleftrightarrow>
     rejected_with
       (set_routing \<lparr>rc_strategy = Static,
          rc_static_routes = [\<lparr>sr_destination_node = 20, sr_next_hop_node = 555\<rparr>]\<rparr> valid_config)
       (\<lambda>e. vd_rule e = ''referential_integrity''
            \<and> contains_str (vd_path e) ''static_routes[0].next_hop_node'')"

definition test_static_route_not_checked_for_cgr :: bool where
  "test_static_route_not_checked_for_cgr \<longleftrightarrow>
     is_ok (validate (set_routing \<lparr>rc_strategy = Cgr,
       rc_static_routes = [\<lparr>sr_destination_node = 777, sr_next_hop_node = 888\<rparr>]\<rparr> valid_config))"

definition test_derive_default_endpoint_when_none :: bool where
  "test_derive_default_endpoint_when_none \<longleftrightarrow>
     nd_endpoint_id (derive_default_endpoint
       \<lparr>nd_node_number = 42, nd_endpoint_id = None, nd_callsign_eid = None, nd_name = ''Test Node'', nd_services = []\<rparr>)
       = Some (Ipn 42 0)"

definition test_derive_default_endpoint_does_not_overwrite :: bool where
  "test_derive_default_endpoint_does_not_overwrite \<longleftrightarrow>
     (let existing = Dtn ''g4dpz-1'' ''gs''
      in nd_endpoint_id (derive_default_endpoint
           \<lparr>nd_node_number = 42, nd_endpoint_id = Some existing, nd_callsign_eid = None,
            nd_name = ''Test Node'', nd_services = []\<rparr>) = Some existing)"

definition validation_tests :: "bool list" where
  "validation_tests =
     [test_valid_config_passes, test_duplicate_node_number_local_vs_neighbor,
      test_duplicate_neighbor_node_numbers, test_undefined_node_in_contact, test_undefined_node_in_range,
      test_contact_start_time_equals_end_time, test_contact_start_time_greater_than_end_time,
      test_multiple_errors_collected, test_static_route_undefined_destination,
      test_static_route_undefined_next_hop, test_static_route_not_checked_for_cgr,
      test_derive_default_endpoint_when_none, test_derive_default_endpoint_does_not_overwrite]"

text \<open>Printing a signed time is not evaluated; the violation is enough.\<close>

lemma temporal_rejected:
  assumes "cp_contacts (nc_contact_plan c) \<noteq> []"
    and "\<not> sint (ct_start_time (cp_contacts (nc_contact_plan c) ! 0)) < sint (ct_end_time (cp_contacts (nc_contact_plan c) ! 0))"
  shows "rejected_with c (\<lambda>e. vd_rule e = ''temporal_order'')"
  unfolding rejected_with_iff
proof (intro exI conjI)
  show "violates c (temporal_detail 0 (cp_contacts (nc_contact_plan c) ! 0))"
    using assms by (intro contact_not_forward) auto
qed (simp add: temporal_detail_def detail_def)

lemma temporal_tests_hold:
  "test_contact_start_time_equals_end_time" "test_contact_start_time_greater_than_end_time"
  unfolding test_contact_start_time_equals_end_time_def test_contact_start_time_greater_than_end_time_def
  by (rule temporal_rejected; simp add: set_contact0_def valid_config_def)+

lemma multiple_errors_hold: "test_multiple_errors_collected"
  by (simp add: test_multiple_errors_collected_def push_contact_def set_contact0_def set_neighbor0_def
      valid_config_def validate_def Let_def validation_errors_def check_duplicate_local_node_def
      check_contact_node_references_def check_contact_temporal_constraints_def unresolved_def
      defined_nodes_def)

lemma validation_tests_hold: "list_all (\<lambda>test. test) validation_tests"
proof -
  have "test_valid_config_passes" "test_duplicate_node_number_local_vs_neighbor"
    "test_duplicate_neighbor_node_numbers" "test_undefined_node_in_contact" "test_undefined_node_in_range"
    "test_static_route_undefined_destination" "test_static_route_undefined_next_hop"
    "test_static_route_not_checked_for_cgr" "test_derive_default_endpoint_when_none"
    "test_derive_default_endpoint_does_not_overwrite"
    by code_simp+
  then show ?thesis using temporal_tests_hold multiple_errors_hold by (simp add: validation_tests_def)
qed

section \<open>Capability checks\<close>

definition all_caps :: capability_set where
  "all_caps =
     \<lparr>cap_hot_reconfig = hot_reconfig_all,
      cap_convergence_layers = [Type_LtpUdp, Type_TcpCl, Type_Kiss, Type_Udp],
      cap_routing_strategies = [Cgr, Static, Default], cap_security = security_none\<rparr>"

definition no_caps :: capability_set where
  "no_caps =
     \<lparr>cap_hot_reconfig = hot_reconfig_none, cap_convergence_layers = [], cap_routing_strategies = [],
      cap_security = security_none\<rparr>"

definition hardy_like_caps :: capability_set where
  "hardy_like_caps =
     \<lparr>cap_hot_reconfig = \<lparr>hc_add_contact = True, hc_remove_contact = True, hc_add_neighbor = False,
        hc_remove_neighbor = False, hc_enable_link = True, hc_disable_link = True\<rparr>,
      cap_convergence_layers = [Type_LtpUdp, Type_TcpCl],
      cap_routing_strategies = [Cgr, Static], cap_security = security_none\<rparr>"

text \<open>An error of the category whose message contains the texts.\<close>

definition unsupported_naming :: "string list \<Rightarrow> abstraction_error + unit \<Rightarrow> bool" where
  "unsupported_naming texts r \<longleftrightarrow>
     (case r of Inr _ \<Rightarrow> False
      | Inl err \<Rightarrow> ae_category err = UnsupportedOperation \<and> list_all (contains_str (ae_message err)) texts)"

definition all_ops :: "hot_reconfig_op list" where
  "all_ops = [AddContact, RemoveContact, AddNeighbor, RemoveNeighbor, EnableLink, DisableLink]"

definition test_all_hot_reconfig_ops_supported :: bool where
  "test_all_hot_reconfig_ops_supported \<longleftrightarrow>
     list_all (\<lambda>op. is_ok (check_hot_reconfig_capability all_caps op ''ion-dtn'')) all_ops"

definition test_no_hot_reconfig_ops_supported :: bool where
  "test_no_hot_reconfig_ops_supported \<longleftrightarrow>
     list_all (\<lambda>op. unsupported_naming [operation_name op, ''no-engine'']
       (check_hot_reconfig_capability no_caps op ''no-engine'')) all_ops"

definition test_hardy_partial_hot_reconfig :: bool where
  "test_hardy_partial_hot_reconfig \<longleftrightarrow>
     list_all (\<lambda>op. is_ok (check_hot_reconfig_capability hardy_like_caps op ''hardy''))
       [AddContact, RemoveContact, EnableLink, DisableLink]
     \<and> unsupported_naming [''add_neighbor'', ''hardy'']
         (check_hot_reconfig_capability hardy_like_caps AddNeighbor ''hardy'')
     \<and> unsupported_naming [''remove_neighbor'', ''hardy'']
         (check_hot_reconfig_capability hardy_like_caps RemoveNeighbor ''hardy'')"

definition test_convergence_layer_support :: bool where
  "test_convergence_layer_support \<longleftrightarrow>
     is_ok (check_convergence_layer_support hardy_like_caps Type_LtpUdp ''hardy'')
     \<and> is_ok (check_convergence_layer_support hardy_like_caps Type_TcpCl ''hardy'')
     \<and> unsupported_naming [''Kiss'', ''hardy''] (check_convergence_layer_support hardy_like_caps Type_Kiss ''hardy'')
     \<and> unsupported_naming [''Udp'', ''hardy''] (check_convergence_layer_support hardy_like_caps Type_Udp ''hardy'')"

definition test_routing_strategy_support :: bool where
  "test_routing_strategy_support \<longleftrightarrow>
     is_ok (check_routing_strategy_support hardy_like_caps Cgr ''hardy'')
     \<and> is_ok (check_routing_strategy_support hardy_like_caps Static ''hardy'')
     \<and> unsupported_naming [''Default'', ''hardy''] (check_routing_strategy_support hardy_like_caps Default ''hardy'')"

definition test_error_context_has_backend :: bool where
  "test_error_context_has_backend \<longleftrightarrow>
     (case check_hot_reconfig_capability no_caps AddContact ''test-backend'' of
        Inr _ \<Rightarrow> False
      | Inl err \<Rightarrow> ec_backend (ae_context err) = Some ''test-backend''
          \<and> ec_operation (ae_context err) = ''add_contact'')"

definition test_capability_check_works_without_engine :: bool where
  "test_capability_check_works_without_engine \<longleftrightarrow>
     (let caps = \<lparr>cap_hot_reconfig = \<lparr>hc_add_contact = True, hc_remove_contact = False, hc_add_neighbor = True,
            hc_remove_neighbor = False, hc_enable_link = False, hc_disable_link = True\<rparr>,
          cap_convergence_layers = [Type_Kiss], cap_routing_strategies = [Default], cap_security = security_none\<rparr>
      in is_ok (check_hot_reconfig_capability caps AddContact ''x'')
         \<and> \<not> is_ok (check_hot_reconfig_capability caps RemoveContact ''x'')
         \<and> is_ok (check_hot_reconfig_capability caps AddNeighbor ''x'')
         \<and> \<not> is_ok (check_hot_reconfig_capability caps RemoveNeighbor ''x'')
         \<and> \<not> is_ok (check_hot_reconfig_capability caps EnableLink ''x'')
         \<and> is_ok (check_hot_reconfig_capability caps DisableLink ''x'')
         \<and> is_ok (check_convergence_layer_support caps Type_Kiss ''x'')
         \<and> \<not> is_ok (check_convergence_layer_support caps Type_LtpUdp ''x'')
         \<and> is_ok (check_routing_strategy_support caps Default ''x'')
         \<and> \<not> is_ok (check_routing_strategy_support caps Cgr ''x''))"

definition test_operation_name_mapping :: bool where
  "test_operation_name_mapping \<longleftrightarrow>
     map operation_name all_ops =
       [''add_contact'', ''remove_contact'', ''add_neighbor'', ''remove_neighbor'', ''enable_link'', ''disable_link'']"

definition capability_tests :: "bool list" where
  "capability_tests =
     [test_all_hot_reconfig_ops_supported, test_no_hot_reconfig_ops_supported,
      test_hardy_partial_hot_reconfig, test_convergence_layer_support, test_routing_strategy_support,
      test_error_context_has_backend, test_capability_check_works_without_engine, test_operation_name_mapping]"

lemma capability_tests_hold: "list_all (\<lambda>test. test) capability_tests"
  by code_simp

section \<open>Errors\<close>

definition test_display_minimal :: bool where
  "test_display_minimal \<longleftrightarrow>
     display_error (new_error ValidationError ''Missing required field'' ''validate'')
       = ''[ValidationError] Missing required field (operation: validate)''"

definition test_display_full_context :: bool where
  "test_display_full_context \<longleftrightarrow>
     display_error (with_backend_code ''exit_code:1'' (with_backend ''ion-dtn''
       (with_resource ''ion-dtn process'' (new_error LifecycleError ''Engine failed to start'' ''start''))))
       = ''[LifecycleError] Engine failed to start (operation: start, resource: ion-dtn process, backend: ion-dtn) [backend_code: exit_code:1]''"

definition test_error_category_display :: bool where
  "test_error_category_display \<longleftrightarrow>
     map category_name [ValidationError, ConfigurationError, LifecycleError, RuntimeError,
         UnsupportedOperation, CommunicationError]
       = [''ValidationError'', ''ConfigurationError'', ''LifecycleError'', ''RuntimeError'',
          ''UnsupportedOperation'', ''CommunicationError'']"

definition test_validation_detail :: bool where
  "test_validation_detail \<longleftrightarrow>
     (let d = \<lparr>vd_path = ''neighbors[0].links[1].remote_port'', vd_rule = ''referential_integrity'',
            vd_message = ''Neighbor references undefined node 99''\<rparr>
      in vd_path d = ''neighbors[0].links[1].remote_port'' \<and> vd_rule d = ''referential_integrity''
         \<and> vd_message d = ''Neighbor references undefined node 99'')"

definition error_tests :: "bool list" where
  "error_tests =
     [test_display_minimal, test_display_full_context, test_error_category_display, test_validation_detail]"

lemma error_tests_hold: "list_all (\<lambda>test. test) error_tests"
  by code_simp

section \<open>Error mapping\<close>

text \<open>What most tests compare: category, code, operation and backend.\<close>

definition mapped_to :: "error_category \<Rightarrow> string \<Rightarrow> string \<Rightarrow> string \<Rightarrow> abstraction_error \<Rightarrow> bool" where
  "mapped_to category code operation backend err \<longleftrightarrow>
     ae_category err = category \<and> ae_backend_code err = Some code
     \<and> ec_operation (ae_context err) = operation \<and> ec_backend (ae_context err) = Some backend"

definition test_ion_mapper_lifecycle_error :: bool where
  "test_ion_mapper_lifecycle_error \<longleftrightarrow>
     (let err = map_lifecycle_error ion_backend_name ''ionadmin exited with code 1'' ''start''
      in mapped_to LifecycleError ''ionadmin exited with code 1'' ''start'' ''ion-dtn'' err
         \<and> contains_str (ae_message err) ''ion-dtn''
         \<and> contains_str (ae_message err) ''ionadmin exited with code 1'')"

definition test_ion_mapper_runtime_error :: bool where
  "test_ion_mapper_runtime_error \<longleftrightarrow>
     mapped_to RuntimeError ''contact add rejected: overlap'' ''add_contact'' ''ion-dtn''
       (map_runtime_error ion_backend_name ''contact add rejected: overlap'' ''add_contact'')"

definition test_ion_mapper_communication_error :: bool where
  "test_ion_mapper_communication_error \<longleftrightarrow>
     mapped_to CommunicationError ''connection refused'' ''collect_stats'' ''ion-dtn''
       (map_communication_error ion_backend_name ''connection refused'' ''collect_stats'')"

definition test_hardy_mapper_lifecycle_error :: bool where
  "test_hardy_mapper_lifecycle_error \<longleftrightarrow>
     (let err = map_lifecycle_error hardy_backend_name ''daemon crashed: segfault'' ''restart''
      in mapped_to LifecycleError ''daemon crashed: segfault'' ''restart'' ''hardy'' err
         \<and> contains_str (ae_message err) ''hardy'')"

definition test_hardy_mapper_runtime_error :: bool where
  "test_hardy_mapper_runtime_error \<longleftrightarrow>
     mapped_to RuntimeError ''API returned 503'' ''add_neighbor'' ''hardy''
       (map_runtime_error hardy_backend_name ''API returned 503'' ''add_neighbor'')"

definition test_hardy_mapper_communication_error :: bool where
  "test_hardy_mapper_communication_error \<longleftrightarrow>
     mapped_to CommunicationError ''socket timeout after 5s'' ''link_states'' ''hardy''
       (map_communication_error hardy_backend_name ''socket timeout after 5s'' ''link_states'')"

definition test_enrich_error_adds_resource :: bool where
  "test_enrich_error_adds_resource \<longleftrightarrow>
     (let err = map_lifecycle_error ion_backend_name ''failed to start'' ''start'';
          enriched = enrich_error err ''link ltp-to-orbiter''
      in ec_resource (ae_context enriched) = Some ''link ltp-to-orbiter''
         \<and> ec_operation (ae_context enriched) = ''start'' \<and> ec_backend (ae_context enriched) = Some ''ion-dtn''
         \<and> ae_backend_code enriched = Some ''failed to start'')"

definition test_enrich_error_preserves_all_fields :: bool where
  "test_enrich_error_preserves_all_fields \<longleftrightarrow>
     (let err = with_backend_code ''ERR_503'' (with_backend ''hardy''
            (new_error RuntimeError ''something broke'' ''add_contact''));
          enriched = enrich_error err (''contact node20'' @ arrow @ ''node30'')
      in mapped_to RuntimeError ''ERR_503'' ''add_contact'' ''hardy'' enriched
         \<and> ae_message enriched = ''something broke''
         \<and> ec_resource (ae_context enriched) = Some (''contact node20'' @ arrow @ ''node30''))"

definition error_mapping_tests :: "bool list" where
  "error_mapping_tests =
     [test_ion_mapper_lifecycle_error, test_ion_mapper_runtime_error, test_ion_mapper_communication_error,
      test_hardy_mapper_lifecycle_error, test_hardy_mapper_runtime_error,
      test_hardy_mapper_communication_error, test_enrich_error_adds_resource,
      test_enrich_error_preserves_all_fields]"

lemma error_mapping_tests_hold: "list_all (\<lambda>test. test) error_mapping_tests"
  by code_simp

section \<open>The registry\<close>

definition test_register_and_get :: bool where
  "test_register_and_get \<longleftrightarrow>
     (let registry = (new_registry :: (unit, unit) backend_adapter adapter_registry)
      in case register_adapter registry ''test-backend'' (mock_adapter ''test-backend'') of
           (Inl _, _) \<Rightarrow> False
         | (Inr _, registry) \<Rightarrow>
             (case get_adapter registry ''test-backend'' of
                Inl _ \<Rightarrow> False | Inr retrieved \<Rightarrow> ba_name retrieved = ''test-backend''))"

definition test_duplicate_registration_returns_error :: bool where
  "test_duplicate_registration_returns_error \<longleftrightarrow>
     (let registry = (new_registry :: (unit, unit) backend_adapter adapter_registry)
      in case register_adapter registry ''ion-dtn'' (mock_adapter ''ion-dtn'') of
           (Inl _, _) \<Rightarrow> False
         | (Inr _, registry) \<Rightarrow>
             (case fst (register_adapter registry ''ion-dtn'' (mock_adapter ''ion-dtn'')) of
                Inr _ \<Rightarrow> False
              | Inl err \<Rightarrow> ae_category err = ConfigurationError
                  \<and> contains_str (ae_message err) ''already registered''))"

definition test_get_not_found_returns_error :: bool where
  "test_get_not_found_returns_error \<longleftrightarrow>
     (case get_adapter (new_registry :: (unit, unit) backend_adapter adapter_registry) ''nonexistent'' of
        Inr _ \<Rightarrow> False
      | Inl err \<Rightarrow> ae_category err = ConfigurationError \<and> ae_message err = ''Adapter not found: nonexistent'')"

definition test_list_empty_registry :: "((string \<rightharpoonup> (unit, unit) backend_adapter) \<Rightarrow> string list) \<Rightarrow> bool" where
  "test_list_empty_registry keys \<longleftrightarrow> list_adapters keys new_registry = []"

text \<open>The two names, in either order before they are sorted.\<close>

definition test_list_multiple_adapters :: "((string \<rightharpoonup> (unit, unit) backend_adapter) \<Rightarrow> string list) \<Rightarrow> bool" where
  "test_list_multiple_adapters keys \<longleftrightarrow>
     (case register_adapter new_registry ''ion-dtn'' (mock_adapter ''ion-dtn'') of
        (Inl _, _) \<Rightarrow> False
      | (Inr _, registry) \<Rightarrow>
          (case register_adapter registry ''hardy'' (mock_adapter ''hardy'') of
             (Inl _, _) \<Rightarrow> False
           | (Inr _, registry) \<Rightarrow>
               list_adapters keys registry \<in> {[''hardy'', ''ion-dtn''], [''ion-dtn'', ''hardy'']}))"

lemma registry_unit_tests_hold:
  "test_register_and_get" "test_duplicate_registration_returns_error" "test_get_not_found_returns_error"
  by (simp_all add: test_register_and_get_def test_duplicate_registration_returns_error_def
      test_get_not_found_returns_error_def register_adapter_def get_adapter_def new_registry_def
      mock_adapter_def already_registered_def adapter_not_found_def contains_str_simps)

lemma two_elements:
  assumes "set xs = {a, b}" "distinct xs" "a \<noteq> b"
  shows "xs \<in> {[a, b], [b, a]}"
proof -
  have "length xs = 2" using distinct_card [OF assms(2)] assms(1,3) by simp
  then obtain x y where "xs = [x, y]" by (auto simp: length_Suc_conv numeral_2_eq_2)
  with assms show ?thesis by auto
qed

text \<open>The iteration of a finite map lists its keys, each once.\<close>

lemma registry_list_tests_hold:
  assumes "\<And>m. finite (dom m) \<Longrightarrow> set (keys m) = dom m \<and> distinct (keys m)"
  shows "test_list_empty_registry keys" "test_list_multiple_adapters keys"
proof -
  show "test_list_empty_registry keys"
    using assms [of Map.empty] by (simp add: test_list_empty_registry_def list_adapters_def new_registry_def)
  let ?m = "[''ion-dtn'' \<mapsto> mock_adapter ''ion-dtn'', ''hardy'' \<mapsto> mock_adapter ''hardy'']"
  have "finite (dom ?m)" by simp
  from assms [OF this] have m: "set (keys ?m) = {''hardy'', ''ion-dtn''}" "distinct (keys ?m)" by simp_all
  from two_elements [OF this] have "keys ?m \<in> {[''hardy'', ''ion-dtn''], [''ion-dtn'', ''hardy'']}" by simp
  then show "test_list_multiple_adapters keys"
    by (simp add: test_list_multiple_adapters_def list_adapters_def new_registry_def register_adapter_def)
qed

section \<open>The event bus\<close>

text \<open>The event a fresh subscriber takes from the bus after one publication.\<close>

definition received_after :: "('t dtn_event, 'c, 'r) broadcast \<Rightarrow> 't dtn_event \<Rightarrow> 't dtn_event received" where
  "received_after bc event =
     (case subscribe bc (new_bus bc 16) of
        (rx, bus) \<Rightarrow> fst (bc_try_recv bc (eb_sender (publish bc bus event)) rx))"

definition test_single_subscriber_receives_event :: "('t dtn_event, 'c, 'r) broadcast \<Rightarrow> 't \<Rightarrow> bool" where
  "test_single_subscriber_receives_event bc now \<longleftrightarrow>
     (case received_after bc (LinkStateChange now 20 ''ltp-to-orbiter'' Link_active) of
        Received (LinkStateChange _ neighbor_node link_id new_state) \<Rightarrow>
          neighbor_node = 20 \<and> link_id = ''ltp-to-orbiter'' \<and> new_state = Link_active
      | _ \<Rightarrow> False)"

definition test_contact_plan_change_event :: "('t dtn_event, 'c, 'r) broadcast \<Rightarrow> 't \<Rightarrow> bool" where
  "test_contact_plan_change_event bc now \<longleftrightarrow>
     (case received_after bc (ContactPlanChange now Contact_added
            \<lparr>cs_source_node = 10, cs_dest_node = 20, cs_start_time = 1700000000, cs_end_time = 1700003600\<rparr>) of
        Received (ContactPlanChange _ action contact) \<Rightarrow>
          action = Contact_added \<and> cs_source_node contact = 10 \<and> cs_dest_node contact = 20
          \<and> cs_start_time contact = 1700000000 \<and> cs_end_time contact = 1700003600
      | _ \<Rightarrow> False)"

definition test_event_timestamp_is_valid :: "(int dtn_event, 'c, 'r) broadcast \<Rightarrow> int \<Rightarrow> int \<Rightarrow> int \<Rightarrow> bool" where
  "test_event_timestamp_is_valid bc before now later \<longleftrightarrow>
     (case received_after bc (LinkStateChange now 1 ''test-link'' Link_active) of
        Received (LinkStateChange timestamp _ _ _) \<Rightarrow> before \<le> timestamp \<and> timestamp \<le> later
      | _ \<Rightarrow> False)"

definition test_multiple_subscribers_all_receive :: "('t dtn_event, 'c, 'r) broadcast \<Rightarrow> 't \<Rightarrow> bool" where
  "test_multiple_subscribers_all_receive bc now \<longleftrightarrow>
     (case subscribe_many bc 3 (new_bus bc 16) of
        (receivers, bus) \<Rightarrow>
          all_receive bc (EngineStateChange now Stopped Starting (Some ''operator request'')) receivers
            (eb_sender (publish bc bus (EngineStateChange now Stopped Starting (Some ''operator request'')))))"

lemma received_after_event:
  assumes "broadcast_laws bc 16 live unread"
  shows "received_after bc event = Received event"
proof -
  obtain rx c where sub: "bc_subscribe bc (bc_channel bc 16) = (rx, c)" by (cases "bc_subscribe bc (bc_channel bc 16)")
  obtain m rx' c' where recv: "bc_try_recv bc (snd (bc_send bc c event)) rx = (m, rx', c')"
    by (cases "bc_try_recv bc (snd (bc_send bc c event)) rx")
  have "live c rx" "unread c rx = []" using law_subscribe [OF assms sub] by simp_all
  then have "live (snd (bc_send bc c event)) rx" "unread (snd (bc_send bc c event)) rx = [event]"
    using assms by (simp_all add: broadcast_laws_def)
  from law_receive_one [OF assms this(1) recv this(2)] sub recv show ?thesis
    by (simp add: received_after_def subscribe_def new_bus_def publish_def)
qed

lemma event_tests_hold:
  assumes "broadcast_laws bc 16 live unread"
  shows "test_single_subscriber_receives_event bc now" "test_contact_plan_change_event bc now"
    and "before \<le> time \<Longrightarrow> time \<le> later \<Longrightarrow> broadcast_laws bc2 16 live2 unread2 \<Longrightarrow>
      test_event_timestamp_is_valid bc2 before time later"
    and "receivers_independent bc live unread \<Longrightarrow> test_multiple_subscribers_all_receive bc now"
proof -
  show "test_single_subscriber_receives_event bc now" "test_contact_plan_change_event bc now"
    using received_after_event [OF assms]
    by (simp_all add: test_single_subscriber_receives_event_def test_contact_plan_change_event_def)
  assume "before \<le> time" "time \<le> later" "broadcast_laws bc2 16 live2 unread2"
  then show "test_event_timestamp_is_valid bc2 before time later"
    using received_after_event [of bc2 live2 unread2] by (simp add: test_event_timestamp_is_valid_def)
next
  show "receivers_independent bc live unread \<Longrightarrow> test_multiple_subscribers_all_receive bc now"
    using all_subscribers_receive [OF assms] by (auto simp: test_multiple_subscribers_all_receive_def split: prod.split)
qed

end
