(* ===== verification/Spec2Isabelle.thy ===== *)
theory Spec2Isabelle
  imports Hardy_Lifecycle Hardy_Config Hardy_Telemetry Api_Monitoring Api_Concurrency Radiant_Ion
    Interop_Liveness Network_Delivery Ion_Property_Test Hardy_Property_Test Property_Tests Api_Events Api_Tests
    Unit_Tests_Core Unit_Tests_Ion Unit_Tests_Hardy
begin

text \<open>
  A verification library for the Rust part of the repository: the crate
  \<open>src/radiant-dtn-abstraction\<close>, which hides two bundle protocol engines (ION-DTN and Hardy) behind
  one configuration model, one adapter interface and one HTTP management API, and the program
  \<open>src/radiant-ion\<close>, which uses it to generate, start, stop, watch and serve an ION node; and the example
  programs of the crate, which run both engines against each other.

  The parts and their theories. File names are those under \<open>src/radiant-dtn-abstraction/src\<close>; every
  definition has the name of the Rust item it models, in lower case, with the prefix \<open>ion_\<close> or
  \<open>hardy_\<close> where both backends have one of that name.

  \<^item> \<open>Dtn_Prelude\<close>, \<open>Rust_Text\<close>: results, options, IEEE doubles as dyadic numbers, and the part of Rust's
    text library the code uses (a string is its list of UTF-8 bytes; numbers are printed and read
    digit by digit). Paths, lines, words, searching and slicing are executable functions; a slice
    off a character boundary is \<open>None\<close>, the panic.
  \<^item> \<open>Dtn_Model\<close> (\<open>model\<close>), \<open>Dtn_Error\<close> (\<open>error.rs\<close>, \<open>error_mapping.rs\<close>), \<open>Validation\<close> (\<open>validation/mod.rs\<close>):
    the configuration, the error values, and the structural checks. \<open>validate\<close> accepts exactly the
    configurations that the declarative predicate \<open>well_formed\<close> accepts, and reports every violation.
  \<^item> \<open>Engine_State\<close> (\<open>lifecycle/state.rs\<close>): the state machine and its step relation; the
    reachable machines are exactly those with a failure reason in the state Failed only, and no state is a dead end.
  \<^item> \<open>Capability\<close> (\<open>adapter/capability.rs\<close>, \<open>adapter/capability_check.rs\<close>) with the locale
    \<open>hot_reconfig_backend\<close>, interpreted for both backends in \<open>Ion_Reconfig\<close> and \<open>Hardy_Reconfig\<close>
    (\<open>hot_reconfig.rs\<close>): what the declared capabilities predict about a run.
  \<^item> \<open>Os_Effects\<close>: processes, files and directories as recorded effects, answered by the parameter \<open>os\<close> that
    may depend on everything done before; actions with errors, which all adapters use.
    \<open>Config_Generator\<close> and \<open>Lifecycle_Manager\<close> hold the two contracts \<open>config_generator\<close> and
    \<open>lifecycle_manager\<close>, interpreted on ION and Hardy.
  \<^item> \<open>Ion_Config\<close>, \<open>Ion_Lifecycle\<close>, \<open>Ion_Telemetry\<close>, \<open>Ion_Adapter\<close> (\<open>adapter/ion\<close>): the four admin scripts as lists
    of lines, the order of the tools, the parsers of the monitoring tools, and the adapter as a
    record of operations. \<open>Hardy_Config\<close>, \<open>Hardy_Lifecycle\<close>, \<open>Hardy_Telemetry\<close> (\<open>adapter/hardy\<close>) likewise;
    there is no Hardy adapter in the code, so none here. \<open>Telemetry\<close> holds what both collectors share.
  \<^item> \<open>Adapter_Registry\<close> (\<open>adapter/traits.rs\<close>, \<open>adapter/registry.rs\<close>) with the locale \<open>adapter_lookup\<close>, and \<open>Event_Bus\<close>
    (\<open>events/bus.rs\<close>, \<open>api/sse.rs\<close>): a client of the event stream misses no event without a warning.
  \<^item> \<open>Api_Handlers\<close>, \<open>Api_Routes\<close> (\<open>api\<close>): the shared state, one action per handler, the route table \<open>handle\<close> and
    runs of requests. The method is a property \<open>preserves P h\<close> built up along the handlers.
    \<open>Api_Monitoring\<close> states what the API relies on for its queries as the locales \<open>monitored_backend\<close> and
    \<open>previewing_backend\<close>, and interprets them on the ION adapter. \<open>Api_Concurrency\<close> lets requests
    overlap: a start, a stop and a deployment are two steps each, and the invariant ties the
    requests in flight to the state of the machine. A lock is a guard of a step there, or a step that
    is taken at once; the wait for a lock, and an adapter call that does not return, are not steps, so
    nothing is claimed about deadlock or about progress. \<open>Api_Events\<close> is the route of the event stream,
    which \<open>handle\<close> leaves out because its answer is a receiver.
  \<^item> \<open>Radiant_Ion\<close> (\<open>src/radiant-ion/src/main.rs\<close>): the five commands, what they print, and their exit code.
  \<^item> \<open>Ltp_Interop\<close>: what the lines of the generated files of both generators say, with the locales \<open>ltp_node\<close>,
    \<open>ltp_pair\<close> and \<open>ltp_network\<close>, interpreted on the generators of ION and Hardy: where the file of one
    node directs its bundles and where the file of the other node listens are the same engine, host and
    port, in both directions, under the conditions \<open>ltp_ready\<close> and \<open>hardy_ready\<close>.
  \<^item> The example programs (\<open>src/radiant-dtn-abstraction/examples\<close>). \<open>Demo_Effects\<close>: processes that go on
    running, logs, the messages to Hardy, panics and exits as effects and errors, and the three ways of
    reasoning the rest uses, \<open>emits\<close> (what an action does), \<open>avoids\<close> (how it does not end) and \<open>tidy\<close> (what it
    leaves running). \<open>Bundle_Client\<close>: the clients of Hardy's application service. \<open>Interop_Programs\<close>
    (\<open>interop_20k.rs\<close>, \<open>interop_hardy_to_ion.rs\<close>, \<open>ping_f4jxq.rs\<close>) and \<open>Interop_Bidirectional\<close>
    (\<open>interop_bidirectional.rs\<close>): the programs. \<open>Demo_Cleanup\<close>: what they leave behind, after a normal end
    and after a panic. \<open>Interop_Liveness\<close>: on a working system \<open>interop_20k.rs\<close> reaches its end.
  \<^item> The tests. \<open>Test_Generators\<close> (\<open>tests/model_generators.rs\<close>): each generator as the predicate of the values it
    can produce. \<open>Ion_Property_Test\<close>, \<open>Hardy_Property_Test\<close>, \<open>Property_Tests\<close> (\<open>tests/property_tests.rs\<close>): the test
    bodies as predicates of their inputs, with the proof that they hold for every input, or the input for
    which they do not. \<open>Unit_Tests_Core\<close>, \<open>Unit_Tests_Ion\<close>, \<open>Unit_Tests_Hardy\<close> (the test modules of the source files) and
    \<open>Api_Tests\<close> (\<open>tests/api_test.rs\<close>): each test as a boolean, true of the model. They tie the model to what
    the authors expect of the code. \<open>Network_Test\<close> and \<open>Network_Delivery\<close> (\<open>tests/network_interop_test.rs\<close>): the
    fixtures and the end-to-end test, as a program of \<open>Demo_Effects\<close>.
  \<^item> This theory: the adapter, the generator, the lifecycle and the API together, in one theorem about
    deploying, starting and stopping ION through the API.

  How an effect corresponds to the code. A \<open>tokio::process::Command\<close> that is run to its end is \<open>Output\<close>, one
  that is spawned is \<open>Spawn\<close> followed by the writes to its standard input and the wait; reading a
  directory, writing a file and sleeping are effects of their own. The trace is the state of the
  action, so the order of calls, and that nothing runs after an error, are facts about lists.
  \<open>?\<close> is \<open>act_bind\<close>, \<open>let _ =\<close> is \<open>act_result\<close>, \<open>map_err\<close> is \<open>act_lift\<close> on an answer and \<open>act_map_err\<close> on a call.

  Parameters: the answers of the operating system, the order in which a \<open>HashMap\<close> is iterated, the JSON and
  YAML libraries, the broadcast channel, the socket. Hypotheses on them are named definitions
  (\<open>writes_work\<close>, \<open>map_iteration\<close>, \<open>admin_scripts_run\<close>, \<open>directory_lists_written\<close>, \<open>stop_tool_runs\<close>, and for
  the examples \<open>demo_works\<close>, \<open>hardy_logs_dispatch\<close> and \<open>log_grows\<close>), and the environment \<open>disk_os\<close> satisfies those on files and programs and the channel \<open>ring\<close> those on the channel
  (\<open>broadcast_laws\<close>); the witnesses run on them.

  Bounds and termination. Node numbers, counters and ports are words of their width. The recursion is
  structural, or on a number or text that shrinks; two searches have a measure of their own: the
  version banner, and the search for a free service key, whose \<open>u32\<close> counter cannot overflow below
  about four billion services. There is no fuel but in \<open>poll_many\<close>, where the number of polls is the point.

  Not modelled: log lines; the serialisation of configurations and answers (third party); HTTP parsing; the
  signal handling of the server, which is a sequence of requests followed by the shutdown; the
  overlap of two adapter calls inside the operating system (an adapter call is one step of
  \<open>server_step\<close>); waits for locks and calls that hang; the panic of tokio for a channel of capacity
  0, which no caller asks for. \<open>trim\<close>, \<open>split_whitespace\<close> and \<open>to_lowercase\<close> are the ASCII part of Rust's
  functions: on a text with white space or capital letters outside ASCII they differ, and no property
  rests on such a text. The Go prototype under \<open>src/cmd\<close>, \<open>src/pkg\<close>, \<open>src/plugins\<close> and \<open>src/kiss\<close>, the
  scripts and the documents are outside this library. Of the tests, those that read a text back with the
  YAML or JSON library are left out, those of the HTTP headers, and helpers that no test calls. Of the example programs the progress messages and
  the elapsed time are left out; \<open>tokio::join!\<close> runs the effects of its first future before those of
  the second, as the first does not suspend before its only command has been spawned.

  Possible extensions: the Hardy files as YAML documents rather than lines; the file system with more
  than one writer, to let two deployments interleave file by file.
\<close>

section \<open>ION behind the management API\<close>

text \<open>The stop tool runs and exits with code 0.\<close>

definition stop_tool_runs :: "os \<Rightarrow> string option \<Rightarrow> bool" where
  "stop_tool_runs os bin_dir \<longleftrightarrow>
     (\<forall>tr. \<exists>p. os_output os tr (plain_command (ion_bin_path bin_dir ''ionstop'') []) = Inr p \<and> po_success p)"

lemma deploy_request_run:
  assumes "validate c = Inr ()" and "get_adapter (ap_registry st) (nc_backend c) = Inr a"
    and "ba_validate a c (ap_world st) = (Inr (), w1)" and "ba_deploy a c deploy_dir w1 = (Inr (), w2)"
  shows "handle env (Post_config_deploy c) st = (Inr Resp_ok, st\<lparr>ap_world := w2, ap_config := Some c\<rparr>)"
  by (simp add: answer_def act_bind_def act_then_def post_config_deploy_def deploy_files_run [OF assms]
      store_config_def)

lemma start_request_run:
  assumes "ap_config st = Some c" and "get_adapter (ap_registry st) (nc_backend c) = Inr a"
    and "is_valid_transition (sm_state (ap_machine st)) Starting"
    and "ba_start a deploy_dir (ap_world st) = (Inr (), w)"
  shows "handle env Post_lifecycle_start st =
    (Inr (Resp_state Running), st\<lparr>ap_world := w, ap_machine := machine_in Running\<rparr>)"
  by (simp add: answer_def act_bind_def post_lifecycle_start_def start_begin_run [OF assms(1-3)]
      start_finish_run assms(4))

lemma stop_request_run:
  assumes "ap_config st = Some c" and "get_adapter (ap_registry st) (nc_backend c) = Inr a"
    and "sm_state (ap_machine st) = Running" and "ba_stop a (ap_world st) = (Inr (), w)"
  shows "handle env Post_lifecycle_stop st =
    (Inr (Resp_state Stopped), st\<lparr>ap_world := w, ap_machine := machine_in Stopped\<rparr>)"
proof -
  have "stop_begin st = (Inr a, st\<lparr>ap_machine := machine_in Stopping\<rparr>)"
    using assms(1-3)
    by (simp add: stop_begin_def stored_adapter_def lookup_adapter_def act_bind_def act_then_def machine_to_ok)
  then show ?thesis by (simp add: answer_def act_bind_def post_lifecycle_stop_def stop_finish_run assms(4))
qed

lemma state_request_run:
  "handle env Get_lifecycle_state st = (Inr (Resp_state (sm_state (ap_machine st))), st)"
  by (simp add: answer_def act_bind_def get_lifecycle_state_def)

lemma ion_stop_ok:
  assumes "stop_tool_runs os (il_bin_dir lc)"
  shows "ion_stop os (lc, tr) = (Inr (), (lc, tr @ [Output (plain_command (ion_bin_path (il_bin_dir lc) ''ionstop'') [])]))"
proof -
  obtain p where "os_output os tr (plain_command (ion_bin_path (il_bin_dir lc) ''ionstop'') []) = Inr p" "po_success p"
    using assms unfolding stop_tool_runs_def by blast
  then show ?thesis
    by (simp add: ion_stop_run ion_stop_tools_def act_bind_def run_output_run act_lift_def)
qed

lemma ion_script_programs:
  "spawned (ion_script_runs lc d c) = map (ion_bin_path (il_bin_dir lc)) [''ionadmin'', ''ltpadmin'', ''bpadmin'', ''ipnadmin'']"
  by (simp add: ion_script_runs_def run_admin_command_def)

lemma no_program_listings: "spawned (four_listings d) = []"
  by (simp add: four_listings_def)

lemma no_program_deploy: "spawned (write_effects d kvs) = []"
  by (simp add: write_effects_def no_program_writes)

text \<open>
  C2: on a server with the ION adapter whose machine is in a state from which a start is allowed,
  deploying a valid configuration, starting, and stopping again all succeed, the state queries
  between them answer Running and then Stopped, and the programs run are exactly the four admin
  tools, in order, and ionstop. This is so when files can be written, the tools run, and the
  deployment directory can be listed and holds nothing but what the server has written there, which is
  nothing before this deployment; the server may have written elsewhere, as the serve command of
  radiant-ion has when it starts.
\<close>

theorem ion_service_cycle:
  assumes "validate c = Inr ()"
    and "get_adapter (ap_registry st) (nc_backend c) = Inr (ion_adapter logs os iter bin)"
    and "is_valid_transition (sm_state (ap_machine st)) Starting"
    and "ap_world st = (lc, tr)" and "\<And>n. entry_name n \<Longrightarrow> written tr (path_join deploy_dir n) = None"
    and "writes_work os" and "map_iteration iter" and "admin_scripts_run os"
    and "directory_lists_written os deploy_dir" and "stop_tool_runs os (il_bin_dir lc)"
  shows "\<exists>st' es. serve_requests env
       [Post_config_deploy c, Post_lifecycle_start, Get_lifecycle_state, Post_lifecycle_stop, Get_lifecycle_state] st
     = ([Inr Resp_ok, Inr (Resp_state Running), Inr (Resp_state Running), Inr (Resp_state Stopped),
         Inr (Resp_state Stopped)], st')
     \<and> ap_config st' = Some c
     \<and> snd (ap_world st') = tr @ es
     \<and> spawned es = map (ion_bin_path (il_bin_dir lc))
         [''ionadmin'', ''ltpadmin'', ''bpadmin'', ''ipnadmin'', ''ionstop'']"
proof -
  let ?a = "ion_adapter logs os iter bin"
  let ?files = "write_effects deploy_dir (iter (gc_files (generate_ion_config c)))"
  let ?tr1 = "tr @ ?files"
  let ?lc2 = "lc\<lparr>il_config_dir := Some deploy_dir\<rparr>"
  let ?tr2 = "?tr1 @ four_listings deploy_dir @ ion_script_runs ?lc2 deploy_dir c"
  let ?stop = "Output (plain_command (ion_bin_path (il_bin_dir lc) ''ionstop'') [])"
  define st1 where "st1 = st\<lparr>ap_world := (lc, ?tr1), ap_config := Some c\<rparr>"
  define st2 where "st2 = st1\<lparr>ap_world := (?lc2, ?tr2), ap_machine := machine_in Running\<rparr>"
  define st3 where "st3 = st2\<lparr>ap_world := (?lc2, ?tr2 @ [?stop]), ap_machine := machine_in Stopped\<rparr>"
  have d: "deploy_dir \<noteq> []" by (simp add: deploy_dir_def)
  have deploy: "handle env (Post_config_deploy c) st = (Inr Resp_ok, st1)"
    unfolding st1_def
  proof (rule deploy_request_run [OF assms(1,2)])
    show "ba_validate ?a c (ap_world st) = (Inr (), (lc, tr))" by (simp add: assms(4))
    show "ba_deploy ?a c deploy_dir (lc, tr) = (Inr (), (lc, ?tr1))" by (simp add: ion_deploy_run [OF assms(6)])
  qed
  have "written ?tr1 (path_join deploy_dir n) \<noteq> None \<longleftrightarrow> n \<in> set (ion_file_names c)" if "entry_name n" for n
    using ion_deployed_content [OF assms(6,7) d entry_name_plain [OF that] assms(5) [OF that], where c = c]
      ion_files_value [of c n] by simp
  from ion_start_tools_finds [OF assms(9,8) this]
  have "ion_start os deploy_dir (lc, ?tr1) = (Inr (), (?lc2, ?tr2))" by (simp add: ion_start_run)
  with assms(2,3) have start: "handle env Post_lifecycle_start st1 = (Inr (Resp_state Running), st2)"
    unfolding st2_def by (intro start_request_run [of _ c ?a]) (simp_all add: st1_def)
  have "ion_stop os (?lc2, ?tr2) = (Inr (), (?lc2, ?tr2 @ [?stop]))"
    using ion_stop_ok [of os ?lc2 ?tr2] assms(10) by simp
  with assms(2) have stop: "handle env Post_lifecycle_stop st2 = (Inr (Resp_state Stopped), st3)"
    unfolding st3_def by (intro stop_request_run [of _ c ?a]) (simp_all add: st1_def st2_def)
  have states: "sm_state (ap_machine st2) = Running" "sm_state (ap_machine st3) = Stopped" "ap_config st3 = Some c"
    "snd (ap_world st3) = ?tr2 @ [?stop]"
    by (simp_all add: st1_def st2_def st3_def)
  have "spawned (?files @ four_listings deploy_dir @ ion_script_runs ?lc2 deploy_dir c @ [?stop])
      = map (ion_bin_path (il_bin_dir lc)) [''ionadmin'', ''ltpadmin'', ''bpadmin'', ''ipnadmin'', ''ionstop'']"
    by (simp add: no_program_deploy no_program_listings ion_script_programs plain_command_def)
  then show ?thesis
    by (intro exI [of _ st3] exI [of _ "?files @ four_listings deploy_dir @ ion_script_runs ?lc2 deploy_dir c @ [?stop]"])
      (simp add: deploy start stop state_request_run states del: handle.simps)
qed

text \<open>On the server that the serve command of radiant-ion starts, over \<open>disk_os\<close>.\<close>

theorem ion_service_cycle_witness:
  "\<exists>st w st'. serve_setup serve_env no_channel ''net.yaml'' 3000 ([], []) = (Inr st, w)
     \<and> serve_requests bare_env [Post_config_deploy ground_config, Post_lifecycle_start, Get_lifecycle_state,
         Post_lifecycle_stop, Get_lifecycle_state] st
       = ([Inr Resp_ok, Inr (Resp_state Running), Inr (Resp_state Running), Inr (Resp_state Stopped),
           Inr (Resp_state Stopped)], st')"
proof -
  obtain st w where served: "serve_setup serve_env no_channel ''net.yaml'' 3000 ([], []) = (Inr st, w)"
    and st: "st = served_state serve_env no_channel clash_config (snd w)"
    using serve_env_setup by fastforce
  have valid: "validate ground_config = Inr ()"
    unfolding validate_ok_iff by (simp add: well_formed_def known_node_def ground_config_def sample_contact_def)
  have adapter: "get_adapter (ap_registry st) (nc_backend ground_config)
      = Inr (ion_adapter (ce_logs serve_env) disk_os sorted_iteration None)"
    by (simp add: st ground_config_def)
  have machine: "is_valid_transition (sm_state (ap_machine st)) Starting"
    and world: "ap_world st = (new_ion_lifecycle None, snd w)"
    by (simp_all add: st new_machine_def)
  obtain ws es where w: "snd w = ws @ es" "set ws \<subseteq> temp_writes serve_env clash_config" "set es \<subseteq> start_kinds"
    using serve_setup_effects [OF served serve_env_sel(4)] by auto
  have "list_all (\<lambda>e. \<forall>q s. e \<noteq> Write_file q s) es" using w(3) by (auto simp: list_all_iff start_kinds_def)
  from written_no_write [OF this, of ws]
  have fresh: "written (snd w) (path_join deploy_dir n) = None" if "entry_name n" for n
    using temp_writes_not_deploy [OF _ that w(2)] by (simp add: w(1) sorted_iteration_ok)
  have dir: "directory_lists_written disk_os deploy_dir"
    using disk_os_lists [of deploy_dir] by (simp add: deploy_dir_def)
  have stop: "stop_tool_runs disk_os (il_bin_dir (new_ion_lifecycle None))"
    by (simp add: stop_tool_runs_def disk_os_def quiet_os_def quiet_output_def po_success_def)
  show ?thesis
    using ion_service_cycle [OF valid adapter machine world fresh disk_os_works(1) sorted_iteration_ok disk_os_works(2)
        dir stop, of bare_env] served by blast
qed

end
